(* ===== verification/Prelude.thy ===== *)
theory Prelude
  imports Main "HOL-Library.List_Lexorder" "HOL-Library.Char_ord" "HOL-Library.Sublist"
begin

text \<open>
  Shared vocabulary of the development: Go errors as values, outcomes of calls that may also
  panic, explicit state passing, and the part of Go's package \<open>strings\<close> the program uses.
  A Go string is a byte sequence, modelled by the type \<open>string\<close> (a list of 8-bit characters).
\<close>

named_theorems go_strings \<open>rewrite rules for the string operations\<close>
named_theorems outcome_simps \<open>rewrite rules for binding outcomes\<close>

section \<open>Errors\<close>

text \<open>
  \<open>ErrorString\<close> is what \<open>errors.New\<close> and \<open>fmt.Errorf\<close> without \<open>%w\<close> build: only the text
  survives. \<open>WrapError p e\<close> is \<open>fmt.Errorf (p ^ "%w") e\<close>: \<open>errors.Is\<close> and
  \<open>errors.As\<close> still see \<open>e\<close>. \<open>TaggedError\<close> is an error value of a library the code
  recognises by a sentinel or a predicate (\<open>apierrors.IsNotFound\<close>,
  \<open>errors.Is(err, git.NoErrAlreadyUpToDate)\<close>, \<open>helm.IsMissingDependencyErr\<close>).
\<close>

datatype error_tag =
    NotFound
  | RepositoryAlreadyExists
  | NoErrAlreadyUpToDate
  | MissingDependency
  | OtherTag

datatype go_error =
    ErrorString string
  | WrapError string go_error
  | TaggedError error_tag string

primrec Error :: "go_error \<Rightarrow> string" where
  "Error (ErrorString t) = t"
| "Error (WrapError p e) = p @ Error e"
| "Error (TaggedError g t) = t"

text \<open>The chain walked by \<open>errors.Is\<close> and \<open>errors.As\<close>.\<close>

primrec error_is :: "error_tag \<Rightarrow> go_error \<Rightarrow> bool" where
  "error_is g (ErrorString t) = False"
| "error_is g (WrapError p e) = error_is g e"
| "error_is g (TaggedError h t) = (g = h)"

abbreviation IsNotFound :: "go_error \<Rightarrow> bool" where
  "IsNotFound \<equiv> error_is NotFound"

section \<open>Outcomes: value, error, panic\<close>

datatype panic =
    IndexOutOfRange
  | NilDereference
  | NilFunctionCall
  | InterfaceConversion
  | ExplicitPanic

datatype 'a outcome = Ok 'a | Err go_error | Panic panic

type_synonym ('s, 'a) result = "'a outcome \<times> 's"

text \<open>Sequencing with early return: an error or a panic skips the continuation.\<close>

definition bindR :: "('s, 'a) result \<Rightarrow> ('a \<Rightarrow> 's \<Rightarrow> ('s, 'b) result) \<Rightarrow> ('s, 'b) result" where
  "bindR r k = (case r of (Ok x, s) \<Rightarrow> k x s | (Err e, s) \<Rightarrow> (Err e, s) | (Panic p, s) \<Rightarrow> (Panic p, s))"

text \<open>\<open>return fmt.Errorf(...)\<close> on an error: the error is rewritten, a panic is not caught.\<close>

definition mapErr :: "(go_error \<Rightarrow> go_error) \<Rightarrow> ('s, 'a) result \<Rightarrow> ('s, 'a) result" where
  "mapErr f r = (case r of (Err e, s) \<Rightarrow> (Err (f e), s) | _ \<Rightarrow> r)"

lemma bindR_simps [simp, outcome_simps]:
  "bindR (Ok x, s) k = k x s"
  "bindR (Err e, s) k = (Err e, s)"
  "bindR (Panic p, s) k = (Panic p, s)"
  by (simp_all add: bindR_def)

lemma mapErr_simps [simp, outcome_simps]:
  "mapErr f (Ok x, s) = (Ok x, s)"
  "mapErr f (Err e, s) = (Err (f e), s)"
  "mapErr f (Panic p, s) = (Panic p, s)"
  by (simp_all add: mapErr_def)

lemma bindR_assoc: "bindR (bindR r f) g = bindR r (\<lambda>x s. bindR (f x s) g)"
  by (cases r; cases "fst r") auto

lemma bindR_eq_Ok:
  "bindR r k = (Ok y, t) \<longleftrightarrow> (\<exists>x s. r = (Ok x, s) \<and> k x s = (Ok y, t))"
  by (cases r; cases "fst r") auto

text \<open>A part \<open>p\<close> of the state that a sequence of calls leaves alone.\<close>

lemma bindR_keeps:
  "p (snd r) = x \<Longrightarrow> (\<And>a t. p t = x \<Longrightarrow> p (snd (k a t)) = x) \<Longrightarrow> p (snd (bindR r k)) = x"
  by (cases r; cases "fst r") auto

lemma snd_mapErr [simp]: "snd (mapErr f r) = snd r"
  by (cases r; cases "fst r") auto

text \<open>When a case analysis with an early return on the error succeeds.\<close>

lemma case_sum_Ok:
  "(case x of Inl e \<Rightarrow> (Err (f e), s) | Inr v \<Rightarrow> k v) = (Ok y, t) \<longleftrightarrow> (\<exists>v. x = Inr v \<and> k v = (Ok y, t))"
  by (cases x) auto

lemma case_error_Ok:
  "(case x of None \<Rightarrow> k | Some e \<Rightarrow> (Err (f e), s)) = (Ok y, t) \<longleftrightarrow> x = None \<and> k = (Ok y, t)"
  by (cases x) auto

lemma mapErr_Ok: "mapErr f x = (Ok y, s) \<longleftrightarrow> x = (Ok y, s)"
  by (cases x; cases "fst x") auto

definition of_sum :: "go_error + 'a \<Rightarrow> 'a outcome" where
  "of_sum r = (case r of Inl e \<Rightarrow> Err e | Inr x \<Rightarrow> Ok x)"

lemma of_sum_simps [simp, outcome_simps]:
  "of_sum (Inl e) = Err e"
  "of_sum (Inr x) = Ok x"
  by (simp_all add: of_sum_def)

lemma of_sum_Ok: "of_sum x = Ok y \<longleftrightarrow> x = Inr y"
  by (cases x) auto

lemmas Ok_iffs = bindR_eq_Ok case_sum_Ok case_error_Ok mapErr_Ok of_sum_Ok

text \<open>The same sequencing for pure functions that return \<open>(value, error)\<close>.\<close>

definition bindE :: "go_error + 'a \<Rightarrow> ('a \<Rightarrow> go_error + 'b) \<Rightarrow> go_error + 'b" where
  "bindE r k = (case r of Inl e \<Rightarrow> Inl e | Inr x \<Rightarrow> k x)"

lemma bindE_simps [simp, outcome_simps]:
  "bindE (Inl e) k = Inl e"
  "bindE (Inr x) k = k x"
  by (simp_all add: bindE_def)

lemma bindE_eq_Inr: "bindE r k = Inr y \<longleftrightarrow> (\<exists>x. r = Inr x \<and> k x = Inr y)"
  by (cases r) auto

section \<open>Package strings\<close>

text \<open>\<open>strings.Split(s, sep)\<close> for a one-byte separator.\<close>

fun Split :: "string \<Rightarrow> char \<Rightarrow> string list" where
  "Split [] c = [[]]"
| "Split (x # xs) c =
     (if x = c then [] # Split xs c
      else (case Split xs c of [] \<Rightarrow> [[x]] | p # ps \<Rightarrow> (x # p) # ps))"

text \<open>\<open>strings.Join(parts, sep)\<close>.\<close>

fun Join :: "string list \<Rightarrow> string \<Rightarrow> string" where
  "Join [] sep = []"
| "Join [p] sep = p"
| "Join (p # ps) sep = p @ sep @ Join ps sep"

definition HasPrefix :: "string \<Rightarrow> string \<Rightarrow> bool" where
  "HasPrefix s p \<longleftrightarrow> take (length p) s = p"

definition TrimPrefix :: "string \<Rightarrow> string \<Rightarrow> string" where
  "TrimPrefix s p = (if HasPrefix s p then drop (length p) s else s)"

fun Contains_str :: "string \<Rightarrow> string \<Rightarrow> bool" where
  "Contains_str [] sub = (sub = [])"
| "Contains_str (x # xs) sub = (HasPrefix (x # xs) sub \<or> Contains_str xs sub)"

text \<open>\<open>strings.Replace(s, old, new, 1)\<close> for an \<open>old\<close> that is not empty.\<close>

fun Replace1 :: "string \<Rightarrow> string \<Rightarrow> string \<Rightarrow> string" where
  "Replace1 [] old new = []"
| "Replace1 (x # xs) old new =
     (if HasPrefix (x # xs) old then new @ drop (length old) (x # xs) else x # Replace1 xs old new)"

text \<open>\<open>strings.Cut(s, sep)\<close> for a one-byte separator: before, after, found.\<close>

fun Cut :: "string \<Rightarrow> char \<Rightarrow> string \<times> string \<times> bool" where
  "Cut [] c = ([], [], False)"
| "Cut (x # xs) c =
     (if x = c then ([], xs, True)
      else (case Cut xs c of (b, a, f) \<Rightarrow> (x # b, a, f)))"

definition TrimLeft :: "string \<Rightarrow> char \<Rightarrow> string" where
  "TrimLeft s c = dropWhile (\<lambda>x. x = c) s"

definition TrimRight :: "string \<Rightarrow> char \<Rightarrow> string" where
  "TrimRight s c = rev (dropWhile (\<lambda>x. x = c) (rev s))"

definition Trim :: "string \<Rightarrow> char \<Rightarrow> string" where
  "Trim s c = TrimLeft (TrimRight s c) c"

definition byte :: "char \<Rightarrow> nat" where
  "byte c = of_char c"

text \<open>
  The verbs of \<open>fmt\<close>: \<open>quoted\<close> is \<open>'%s'\<close>; \<open>Quote\<close> is \<open>%q\<close> (\<open>strconv.Quote\<close>), with its escapes of the
  double quote, the backslash and the control characters. Bytes from 128 stand for printable text in UTF-8, which
  \<open>%q\<close> does not change.
\<close>

definition quoted :: "string \<Rightarrow> string" where
  "quoted s = CHR 0x27 # s @ [CHR 0x27]"

definition hex_digit :: "nat \<Rightarrow> char" where
  "hex_digit n = ''0123456789abcdef'' ! n"

definition quote_char :: "char \<Rightarrow> string" where
  "quote_char c =
     (let escaped = (\<lambda>d. [CHR 0x5C, d])
      in if c = CHR 0x22 \<or> c = CHR 0x5C then escaped c
         else if byte c = 7 then escaped (CHR ''a'')
         else if byte c = 8 then escaped (CHR ''b'')
         else if byte c = 9 then escaped (CHR ''t'')
         else if byte c = 10 then escaped (CHR ''n'')
         else if byte c = 11 then escaped (CHR ''v'')
         else if byte c = 12 then escaped (CHR ''f'')
         else if byte c = 13 then escaped (CHR ''r'')
         else if byte c < 32 \<or> byte c = 127 then escaped (CHR ''x'') @ [hex_digit (byte c div 16), hex_digit (byte c mod 16)]
         else [c])"

definition Quote :: "string \<Rightarrow> string" where
  "Quote s = CHR 0x22 # concat (map quote_char s) @ [CHR 0x22]"

definition is_upper :: "char \<Rightarrow> bool" where
  "is_upper c \<longleftrightarrow> 65 \<le> byte c \<and> byte c \<le> 90"

definition is_lower :: "char \<Rightarrow> bool" where
  "is_lower c \<longleftrightarrow> 97 \<le> byte c \<and> byte c \<le> 122"

definition is_digit :: "char \<Rightarrow> bool" where
  "is_digit c \<longleftrightarrow> 48 \<le> byte c \<and> byte c \<le> 57"

abbreviation is_alnum :: "char \<Rightarrow> bool" where
  "is_alnum c \<equiv> is_upper c \<or> is_lower c \<or> is_digit c"

definition to_lower :: "char \<Rightarrow> char" where
  "to_lower c = (if is_upper c then char_of (byte c + 32) else c)"

text \<open>
  \<open>strings.EqualFold(s, t)\<close> against an ASCII string \<open>t\<close>. Under Unicode simple folding two
  non-ASCII runes fold to ASCII letters: U+212A (bytes E2 84 AA) to \<open>k\<close> and U+017F
  (bytes C5 BF) to \<open>s\<close>; every other non-ASCII byte sequence differs from any ASCII letter.
\<close>

fun fold_ascii :: "string \<Rightarrow> string" where
  "fold_ascii (a # b # c # xs) =
     (if byte a = 226 \<and> byte b = 132 \<and> byte c = 170 then CHR ''k'' # fold_ascii xs
      else if byte a = 197 \<and> byte b = 191 then CHR ''s'' # fold_ascii (c # xs)
      else to_lower a # fold_ascii (b # c # xs))"
| "fold_ascii [a, b] =
     (if byte a = 197 \<and> byte b = 191 then [CHR ''s''] else [to_lower a, to_lower b])"
| "fold_ascii [a] = [to_lower a]"
| "fold_ascii [] = []"

definition EqualFold :: "string \<Rightarrow> string \<Rightarrow> bool" where
  "EqualFold s t \<longleftrightarrow> fold_ascii s = map to_lower t"

subsection \<open>Lemmas on strings\<close>

lemma Split_not_Nil [simp]: "Split s c \<noteq> []"
  by (induction s c rule: Split.induct) (auto split: list.splits)

lemma Split_no_sep [go_strings]: "c \<notin> set s \<Longrightarrow> Split s c = [s]"
  by (induction s c rule: Split.induct) auto

lemma Split_append [go_strings]:
  "c \<notin> set p \<Longrightarrow> Split (p @ c # s) c = p # Split s c"
  by (induction p) auto

lemma Split_append_sep: "Split (a @ c # b) c = Split a c @ Split b c"
  by (induction a) (auto split: list.splits)

lemma length_Split: "length (Split s c) = Suc (count_list s c)"
  by (induction s c rule: Split.induct) (auto split: list.splits)

lemma Split_pieces: "p \<in> set (Split s c) \<Longrightarrow> c \<notin> set p"
  by (induction s c arbitrary: p rule: Split.induct) (auto split: list.splits if_splits)

lemma Join_Cons: "ps \<noteq> [] \<Longrightarrow> Join (p # ps) sep = p @ sep @ Join ps sep"
  by (cases ps) auto

lemma Split_Join:
  assumes "ps \<noteq> []" and "\<forall>p\<in>set ps. c \<notin> set p"
  shows "Split (Join ps [c]) c = ps"
  using assms
proof (induction ps)
  case Nil
  then show ?case by simp
next
  case (Cons p ps)
  then show ?case
    by (cases "ps = []") (auto simp: Join_Cons go_strings)
qed

lemma Join_Split: "Join (Split s c) [c] = s"
proof (induction s c rule: Split.induct)
  case (1 c)
  then show ?case by simp
next
  case (2 x xs c)
  obtain p ps where "Split xs c = p # ps" by (cases "Split xs c") auto
  with 2 show ?case by (cases ps) (auto simp: Join_Cons)
qed

lemma HasPrefix_iff_prefix: "HasPrefix s p \<longleftrightarrow> prefix p s"
  by (auto simp: HasPrefix_def prefix_def) (metis append_take_drop_id)

lemma HasPrefix_append [simp, go_strings]: "HasPrefix (p @ s) p"
  by (simp add: HasPrefix_def)

lemma HasPrefix_Nil [simp, go_strings]: "HasPrefix s []"
  by (simp add: HasPrefix_def)

lemma HasPrefix_Cons [simp, go_strings]:
  "HasPrefix (x # xs) (y # ys) \<longleftrightarrow> x = y \<and> HasPrefix xs ys"
  "\<not> HasPrefix [] (y # ys)"
  by (auto simp: HasPrefix_def)

lemma Contains_str_iff: "Contains_str s sub \<longleftrightarrow> (\<exists>a b. s = a @ sub @ b)"
proof (induction s)
  case Nil
  then show ?case by simp
next
  case (Cons x xs)
  show ?case (is "?l \<longleftrightarrow> ?r")
  proof
    assume ?l
    then show ?r
      by (metis Cons.IH Contains_str.simps(2) HasPrefix_iff_prefix append_Cons append_Nil prefix_def)
  next
    assume ?r
    then obtain a b where "x # xs = a @ sub @ b" by blast
    then have "HasPrefix (x # xs) sub \<or> (\<exists>a b. xs = a @ sub @ b)"
      by (cases a) auto
    then show ?l
      using Cons.IH by auto
  qed
qed

lemma Cut_found [go_strings]: "c \<notin> set b \<Longrightarrow> Cut (b @ c # a) c = (b, a, True)"
  by (induction b) auto

lemma Cut_absent [go_strings]: "c \<notin> set s \<Longrightarrow> Cut s c = (s, [], False)"
  by (induction s) auto

lemma Trim_Cons [simp]: "Trim (c # s) c = Trim s c"
proof (cases "\<forall>x\<in>set s. x = c")
  case True
  then have "dropWhile (\<lambda>x. x = c) (rev s @ [c]) = []" and "dropWhile (\<lambda>x. x = c) (rev s) = []"
    by (auto simp: dropWhile_eq_Nil_conv)
  then show ?thesis by (simp only: Trim_def TrimRight_def rev.simps)
next
  case False
  then show ?thesis
    by (auto simp: Trim_def TrimRight_def TrimLeft_def dropWhile_append1)
qed

lemma Trim_id:
  assumes "s \<noteq> []" and "hd s \<noteq> c" and "last s \<noteq> c"
  shows "Trim s c = s"
proof -
  have "dropWhile (\<lambda>x. x = c) (rev s) = rev s"
    using assms by (simp add: dropWhile_eq_self_iff hd_rev)
  moreover have "dropWhile (\<lambda>x. x = c) s = s"
    using assms by (simp add: dropWhile_eq_self_iff)
  ultimately show ?thesis
    by (simp add: Trim_def TrimLeft_def TrimRight_def)
qed

subsection \<open>Lemmas on characters\<close>

lemma alnum_bounds: "is_alnum c \<Longrightarrow> 48 \<le> byte c \<and> byte c \<le> 122"
  by (auto simp: is_upper_def is_lower_def is_digit_def)

lemma alnum_not_punctuation: "is_alnum c \<Longrightarrow> c \<notin> set ''/:@#?%[]''"
  by (auto simp: is_upper_def is_lower_def is_digit_def byte_def)

end
