(* ===== verification/WatchList.thy ===== *)
theory WatchList
  imports Prelude
begin

text \<open>
  The set of GitSync keys a \<open>Syncer\<close> watches (\<open>internal/sync/syncer.go\<close>): a map from the key
  to an element of a doubly linked list (\<open>container/list\<close>), the list being the order in which
  the keys are handed to workers. The locale \<open>watch_registry\<close> states what the scheduler, the
  worker and the reconciler rely on; the interpretation shows that the map-and-list pair
  provides it.
\<close>

section \<open>The state and operations of the code\<close>

text \<open>
  A \<open>*list.Element\<close> is a pointer: \<open>next_elem\<close> is the next fresh one. The list holds each
  element with its \<open>Value\<close>.
\<close>

type_synonym elem = nat

record watch_state =
  gitSyncMap :: "string \<rightharpoonup> elem"
  gitSyncList :: "(elem \<times> string) list"
  next_elem :: elem

definition new_watch :: watch_state where
  "new_watch = \<lparr>gitSyncMap = Map.empty, gitSyncList = [], next_elem = 0\<rparr>"

text \<open>\<open>container/list\<close>: \<open>PushBack\<close>, \<open>Remove\<close>, \<open>MoveToBack\<close>.\<close>

definition list_Remove :: "elem \<Rightarrow> (elem \<times> string) list \<Rightarrow> (elem \<times> string) list" where
  "list_Remove e l = filter (\<lambda>p. fst p \<noteq> e) l"

definition list_MoveToBack :: "elem \<Rightarrow> (elem \<times> string) list \<Rightarrow> (elem \<times> string) list" where
  "list_MoveToBack e l = list_Remove e l @ filter (\<lambda>p. fst p = e) l"

definition Contains :: "string \<Rightarrow> watch_state \<Rightarrow> bool" where
  "Contains key s \<longleftrightarrow> gitSyncMap s key \<noteq> None"

definition Length :: "watch_state \<Rightarrow> nat" where
  "Length s = length (gitSyncList s)"

definition StartWatching :: "string \<Rightarrow> watch_state \<Rightarrow> watch_state" where
  "StartWatching key s =
     (case gitSyncMap s key of
        None \<Rightarrow> s\<lparr>gitSyncMap := (gitSyncMap s)(key \<mapsto> next_elem s),
                 gitSyncList := gitSyncList s @ [(next_elem s, key)],
                 next_elem := Suc (next_elem s)\<rparr>
      | Some e \<Rightarrow> s)"

definition StopWatching :: "string \<Rightarrow> watch_state \<Rightarrow> watch_state" where
  "StopWatching key s =
     (case gitSyncMap s key of
        None \<Rightarrow> s
      | Some e \<Rightarrow> s\<lparr>gitSyncList := list_Remove e (gitSyncList s),
                   gitSyncMap := (gitSyncMap s)(key := None)\<rparr>)"

text \<open>
  The closure \<open>assign\<close> of \<open>Start\<close>: nothing on an empty list, otherwise the front element
  moves to the back and its key is sent to the workers.
\<close>

definition assign :: "watch_state \<Rightarrow> string option \<times> watch_state" where
  "assign s =
     (case gitSyncList s of
        [] \<Rightarrow> (None, s)
      | (e, key) # _ \<Rightarrow> (Some key, s\<lparr>gitSyncList := list_MoveToBack e (gitSyncList s)\<rparr>))"

section \<open>The abstract queue of keys\<close>

datatype watch_cmd = CStart string | CStop string | CAssign

definition q_start :: "'k \<Rightarrow> 'k list \<Rightarrow> 'k list" where
  "q_start k q = (if k \<in> set q then q else q @ [k])"

definition q_stop :: "'k \<Rightarrow> 'k list \<Rightarrow> 'k list" where
  "q_stop k q = filter (\<lambda>x. x \<noteq> k) q"

lemma q_stop_absent: "k \<notin> set q \<Longrightarrow> q_stop k q = q"
  by (induction q) (auto simp: q_stop_def)

fun q_cmd :: "watch_cmd \<Rightarrow> string list \<Rightarrow> string list \<times> string list" where
  "q_cmd (CStart k) q = ([], q_start k q)"
| "q_cmd (CStop k) q = ([], q_stop k q)"
| "q_cmd CAssign q = (take 1 q, rotate1 q)"

fun q_run :: "watch_cmd list \<Rightarrow> string list \<Rightarrow> string list \<times> string list" where
  "q_run [] q = ([], q)"
| "q_run (c # cs) q =
     (case q_cmd c q of (out, q') \<Rightarrow>
      (case q_run cs q' of (outs, q'') \<Rightarrow> (out @ outs, q'')))"

text \<open>A full round of assignments hands out every key once and restores the order.\<close>

lemma q_run_round_aux:
  "q_run (replicate (length q) CAssign) (q @ r) = (q, r @ q)"
proof (induction q arbitrary: r)
  case Nil
  then show ?case by simp
next
  case (Cons k q)
  have "q_run (replicate (length q) CAssign) (q @ (r @ [k])) = (q, (r @ [k]) @ q)"
    by (rule Cons.IH)
  then show ?case by simp
qed

lemma q_run_round: "q_run (replicate (length q) CAssign) q = (q, q)"
  using q_run_round_aux [of q "[]"] by simp

text \<open>How many assignments come before the next one of \<open>k\<close>.\<close>

definition ahead :: "'k \<Rightarrow> 'k list \<Rightarrow> nat" where
  "ahead k q = length (takeWhile (\<lambda>x. x \<noteq> k) q)"

lemma ahead_start: "k \<in> set q \<Longrightarrow> ahead k (q_start x q) = ahead k q"
  by (simp add: ahead_def q_start_def takeWhile_append1)

lemma ahead_stop: "x \<noteq> k \<Longrightarrow> ahead k (q_stop x q) \<le> ahead k q"
  by (induction q) (auto simp: ahead_def q_stop_def)

lemma ahead_rotate:
  "k \<in> set q \<Longrightarrow> hd q \<noteq> k \<Longrightarrow> Suc (ahead k (rotate1 q)) = ahead k q"
  by (cases q) (auto simp: ahead_def takeWhile_append1)

lemma ahead_less: "k \<in> set q \<Longrightarrow> ahead k q < length q"
  by (induction q) (auto simp: ahead_def)

definition n_assigns :: "watch_cmd list \<Rightarrow> nat" where
  "n_assigns cs = count_list cs CAssign"

lemma q_run_assigned:
  assumes "k \<in> set q" and "CStop k \<notin> set cs" and "ahead k q < n_assigns cs"
  shows "k \<in> set (fst (q_run cs q))"
  using assms
proof (induction cs arbitrary: q)
  case Nil
  then show ?case by (simp add: n_assigns_def)
next
  case (Cons c cs)
  show ?case
  proof (cases c)
    case (CStart x)
    with Cons.prems have "k \<in> set (fst (q_run cs (q_start x q)))"
      by (intro Cons.IH) (auto simp: ahead_start n_assigns_def, simp add: q_start_def)
    with CStart show ?thesis by (simp split: prod.splits)
  next
    case (CStop x)
    with Cons.prems ahead_stop [of x k q] have "k \<in> set (fst (q_run cs (q_stop x q)))"
      by (intro Cons.IH) (auto simp: n_assigns_def q_stop_def)
    with CStop show ?thesis by (simp split: prod.splits)
  next
    case CAssign
    show ?thesis
    proof (cases "hd q = k")
      case True
      with Cons.prems CAssign show ?thesis
        by (cases q) (auto split: prod.splits)
    next
      case False
      with Cons.prems CAssign ahead_rotate [of k q]
      have "k \<in> set (fst (q_run cs (rotate1 q)))"
        by (intro Cons.IH) (auto simp: n_assigns_def)
      with CAssign show ?thesis by (auto split: prod.splits)
    qed
  qed
qed

section \<open>The interface of the watch list\<close>

locale watch_registry =
  fixes invar :: "'s \<Rightarrow> bool"
    and keys :: "'s \<Rightarrow> string list"
    and start :: "string \<Rightarrow> 's \<Rightarrow> 's"
    and stop :: "string \<Rightarrow> 's \<Rightarrow> 's"
    and dispatch :: "'s \<Rightarrow> string option \<times> 's"
    and has :: "string \<Rightarrow> 's \<Rightarrow> bool"
    and size_of :: "'s \<Rightarrow> nat"
  assumes distinct_keys: "invar s \<Longrightarrow> distinct (keys s)"
    and invar_start: "invar s \<Longrightarrow> invar (start k s)"
    and keys_start: "invar s \<Longrightarrow> keys (start k s) = q_start k (keys s)"
    and invar_stop: "invar s \<Longrightarrow> invar (stop k s)"
    and keys_stop: "invar s \<Longrightarrow> keys (stop k s) = q_stop k (keys s)"
    and invar_dispatch: "invar s \<Longrightarrow> invar (snd (dispatch s))"
    and keys_dispatch: "invar s \<Longrightarrow> keys (snd (dispatch s)) = rotate1 (keys s)"
    and fst_dispatch: "invar s \<Longrightarrow> set_option (fst (dispatch s)) = set (take 1 (keys s))"
    and has_iff: "invar s \<Longrightarrow> has k s \<longleftrightarrow> k \<in> set (keys s)"
    and size_of_eq: "invar s \<Longrightarrow> size_of s = length (keys s)"
begin

fun exec :: "watch_cmd list \<Rightarrow> 's \<Rightarrow> string list \<times> 's" where
  "exec [] s = ([], s)"
| "exec (CStart k # cs) s = exec cs (start k s)"
| "exec (CStop k # cs) s = exec cs (stop k s)"
| "exec (CAssign # cs) s =
     (case dispatch s of (out, s') \<Rightarrow>
      (case exec cs s' of (outs, s'') \<Rightarrow> ((case out of None \<Rightarrow> [] | Some k \<Rightarrow> [k]) @ outs, s'')))"

lemma dispatch_out:
  assumes "invar s"
  shows "(case fst (dispatch s) of None \<Rightarrow> [] | Some k \<Rightarrow> [k]) = take 1 (keys s)"
  using fst_dispatch [OF assms] by (cases "keys s"; cases "fst (dispatch s)") auto

lemma exec_refines:
  "invar s \<Longrightarrow> invar (snd (exec cs s)) \<and>
     q_run cs (keys s) = (fst (exec cs s), keys (snd (exec cs s)))"
proof (induction cs s rule: exec.induct)
  case (4 cs s)
  obtain out s' where d: "dispatch s = (out, s')" by fastforce
  have inv': "invar s'" and keys': "keys s' = rotate1 (keys s)"
    using 4(2) invar_dispatch [of s] keys_dispatch [of s] d by auto
  have out: "(case out of None \<Rightarrow> [] | Some k \<Rightarrow> [k]) = take 1 (keys s)"
    using dispatch_out [OF 4(2)] d by simp
  have "invar (snd (exec cs s')) \<and> q_run cs (keys s') = (fst (exec cs s'), keys (snd (exec cs s')))"
    using 4(1) [OF d [symmetric]] inv' by simp
  then show ?case
    using d keys' out by (auto split: prod.splits)
qed (auto simp: invar_start keys_start invar_stop keys_stop)

lemma start_stop_has:
  assumes "invar s"
  shows "has k (start k s)" and "\<not> has k (stop k s)"
    and "k' \<noteq> k \<Longrightarrow> has k' (start k s) = has k' s" and "k' \<noteq> k \<Longrightarrow> has k' (stop k s) = has k' s"
  using assms
  by (auto simp: has_iff invar_start invar_stop keys_start keys_stop q_start_def q_stop_def)

lemma start_idem: "invar s \<Longrightarrow> keys (start k (start k s)) = keys (start k s)"
  by (simp add: keys_start invar_start q_start_def)

lemma stop_start_new:
  "invar s \<Longrightarrow> \<not> has k s \<Longrightarrow> keys (stop k (start k s)) = keys s"
  by (auto simp: has_iff keys_start keys_stop invar_start q_start_def q_stop_def filter_id_conv)

end

section \<open>The map and the list provide the interface\<close>

text \<open>
  Well-formedness: the elements of the list are distinct and were allocated, and the map
  sends a key to an element exactly when the list holds that element with that key.
\<close>

definition watch_inv :: "watch_state \<Rightarrow> bool" where
  "watch_inv s \<longleftrightarrow>
     distinct (map fst (gitSyncList s)) \<and>
     (\<forall>p\<in>set (gitSyncList s). fst p < next_elem s) \<and>
     (\<forall>k e. gitSyncMap s k = Some e \<longleftrightarrow> (e, k) \<in> set (gitSyncList s))"

definition watched :: "watch_state \<Rightarrow> string list" where
  "watched s = map snd (gitSyncList s)"

lemma watch_inv_element:
  assumes "watch_inv s" and "gitSyncMap s key = Some e" and "p \<in> set (gitSyncList s)"
  shows "fst p = e \<longleftrightarrow> snd p = key"
proof -
  obtain e' k' where p: "p = (e', k')" by fastforce
  have "(e, key) \<in> set (gitSyncList s)" and m: "gitSyncMap s k' = Some e'"
    using assms p by (auto simp: watch_inv_def)
  then have "e' = e \<Longrightarrow> k' = key"
    using assms p by (auto simp: watch_inv_def dest: eq_key_imp_eq_value)
  with m show ?thesis
    using assms(2) p by auto
qed

lemma Length_watched: "Length s = length (watched s)"
  by (simp add: Length_def watched_def)

lemma watched_new [simp]: "watched new_watch = []"
  by (simp add: watched_def new_watch_def)

lemma watch_inv_new: "watch_inv new_watch"
  by (simp add: watch_inv_def new_watch_def)

lemma watch_inv_distinct:
  assumes "watch_inv s"
  shows "distinct (watched s)"
proof -
  have "inj_on snd (set (gitSyncList s))"
    using assms by (intro inj_onI) (metis option.inject prod.collapse watch_inv_def)
  moreover have "distinct (gitSyncList s)"
    using assms by (auto simp: watch_inv_def distinct_map)
  ultimately show ?thesis
    by (simp add: watched_def distinct_map)
qed

lemma watch_inv_has: "watch_inv s \<Longrightarrow> Contains k s \<longleftrightarrow> k \<in> set (watched s)"
  by (force simp: watch_inv_def watched_def Contains_def)

lemma watch_inv_start:
  assumes "watch_inv s"
  shows "watch_inv (StartWatching k s)"
proof (cases "gitSyncMap s k")
  case None
  have "(e, k) \<notin> set (gitSyncList s)" for e
    using assms None by (force simp: watch_inv_def)
  moreover have "(next_elem s, k') \<notin> set (gitSyncList s)" for k'
    using assms by (force simp: watch_inv_def)
  ultimately show ?thesis using None assms
    by (auto simp: watch_inv_def StartWatching_def)
next
  case (Some e)
  with assms show ?thesis by (simp add: StartWatching_def)
qed

lemma watched_start: "watch_inv s \<Longrightarrow> watched (StartWatching k s) = q_start k (watched s)"
  using watch_inv_has [of s k]
  by (auto simp: StartWatching_def q_start_def watched_def Contains_def split: option.splits)

lemma watch_inv_stop:
  assumes "watch_inv s"
  shows "watch_inv (StopWatching k s)"
proof (cases "gitSyncMap s k")
  case None
  with assms show ?thesis by (simp add: StopWatching_def)
next
  case (Some e)
  have "e' = e \<longleftrightarrow> k' = k" if "(e', k') \<in> set (gitSyncList s)" for e' k'
    using watch_inv_element [OF assms Some that] by simp
  moreover have "StopWatching k s = s\<lparr>gitSyncList := list_Remove e (gitSyncList s),
      gitSyncMap := (gitSyncMap s)(k := None)\<rparr>"
    using Some by (simp add: StopWatching_def)
  ultimately show ?thesis
    using assms Some by (auto simp: watch_inv_def list_Remove_def distinct_map_filter)
qed

lemma watched_stop:
  assumes "watch_inv s"
  shows "watched (StopWatching k s) = q_stop k (watched s)"
proof (cases "gitSyncMap s k")
  case None
  then have "k \<notin> set (watched s)"
    using watch_inv_has [OF assms, of k] by (simp add: Contains_def)
  with None show ?thesis
    by (simp add: StopWatching_def q_stop_absent)
next
  case (Some e)
  have "filter (\<lambda>p. fst p \<noteq> e) (gitSyncList s) = filter (\<lambda>p. snd p \<noteq> k) (gitSyncList s)"
    using watch_inv_element [OF assms Some] by (intro filter_cong) auto
  with Some show ?thesis
    by (simp add: StopWatching_def watched_def q_stop_def list_Remove_def filter_map o_def)
qed

lemma list_MoveToBack_front:
  assumes "distinct (map fst ((e, k) # l))"
  shows "list_MoveToBack e ((e, k) # l) = l @ [(e, k)]"
proof -
  have "filter (\<lambda>p. fst p \<noteq> e) l = l" and "filter (\<lambda>p. fst p = e) l = []"
    using assms by (force simp: filter_id_conv filter_empty_conv)+
  then show ?thesis
    by (simp add: list_MoveToBack_def list_Remove_def)
qed

lemma assign_Cons:
  assumes "watch_inv s" and "gitSyncList s = (e, k) # l"
  shows "assign s = (Some k, s\<lparr>gitSyncList := l @ [(e, k)]\<rparr>)"
proof -
  have "distinct (map fst ((e, k) # l))"
    using assms by (simp add: watch_inv_def)
  then show ?thesis
    using assms(2) list_MoveToBack_front [of e k l] by (simp add: assign_def)
qed

lemma watch_inv_assign:
  assumes "watch_inv s"
  shows "watch_inv (snd (assign s)) \<and> watched (snd (assign s)) = rotate1 (watched s)
    \<and> set_option (fst (assign s)) = set (take 1 (watched s))"
proof (cases "gitSyncList s")
  case Nil
  with assms show ?thesis by (simp add: assign_def watched_def)
next
  case (Cons p l)
  obtain e k where p: "p = (e, k)" by fastforce
  have "watch_inv (s\<lparr>gitSyncList := l @ [(e, k)]\<rparr>)"
    using assms Cons p by (auto simp: watch_inv_def)
  then show ?thesis
    using assign_Cons [OF assms] Cons p by (simp add: watched_def)
qed

interpretation wl: watch_registry watch_inv watched StartWatching StopWatching assign Contains Length
  by unfold_locales
    (simp_all add: watch_inv_distinct watch_inv_start watched_start watch_inv_stop watched_stop
      watch_inv_assign watch_inv_has Length_watched)

section \<open>Runs of the watch list\<close>

text \<open>
  A sequence of calls made on the syncer, as the lock serialises them, and the keys the
  assigner sent to the workers.
\<close>

fun watch_run :: "watch_cmd list \<Rightarrow> watch_state \<Rightarrow> string list \<times> watch_state" where
  "watch_run [] s = ([], s)"
| "watch_run (CStart k # cs) s = watch_run cs (StartWatching k s)"
| "watch_run (CStop k # cs) s = watch_run cs (StopWatching k s)"
| "watch_run (CAssign # cs) s =
     (case assign s of (out, s') \<Rightarrow>
      (case watch_run cs s' of (outs, s'') \<Rightarrow> ((case out of None \<Rightarrow> [] | Some k \<Rightarrow> [k]) @ outs, s'')))"

lemma watch_run_exec: "watch_run cs s = wl.exec cs s"
  by (induction cs s rule: watch_run.induct) (auto split: prod.splits)

lemmas watch_run_refines = wl.exec_refines [folded watch_run_exec]

section \<open>Properties\<close>

text \<open>
  C7. Refinement. After any sequence of \<open>StartWatching\<close>, \<open>StopWatching\<close> and \<open>assign\<close> calls on
  a new syncer, the map and the linked list are well formed, the keys sent to the workers and
  the keys left in the list are those of the abstract queue without duplicates, \<open>Contains\<close>
  decides membership in that queue and \<open>Length\<close> is its length.
\<close>

theorem watch_refines_queue:
  "let s = snd (watch_run cs new_watch); (sent, q) = q_run cs []
   in watch_inv s \<and> fst (watch_run cs new_watch) = sent \<and> watched s = q \<and> distinct q \<and>
      (\<forall>k. Contains k s = (k \<in> set q)) \<and> Length s = length q"
  using watch_run_refines [OF watch_inv_new, of cs]
  by (auto simp: Let_def wl.has_iff wl.size_of_eq dest: wl.distinct_keys split: prod.splits)

text \<open>
  Fairness. Whatever was watched and unwatched before, as many assignments as there are
  watched keys send every watched key exactly once, and the order of the list is then the
  same as before the round.
\<close>

theorem watch_round_fair:
  "let s = snd (watch_run cs new_watch); round = watch_run (replicate (Length s) CAssign) s
   in fst round = watched s \<and> watched (snd round) = watched s \<and> distinct (fst round)"
proof -
  define s where "s = snd (watch_run cs new_watch)"
  have inv: "watch_inv s"
    using watch_run_refines [OF watch_inv_new] by (simp add: s_def)
  show ?thesis
    using watch_run_refines [OF inv, of "replicate (Length s) CAssign"] q_run_round [of "watched s"]
      watch_inv_distinct [OF inv]
    by (simp add: Let_def wl.size_of_eq [OF inv] flip: s_def)
qed

text \<open>
  C20. No starvation. A watched key that nobody unwatches is sent to a worker within as many
  assignments as there were watched keys, however the calls that watch and unwatch other keys
  are interleaved with the assignments.
\<close>

theorem watch_no_starvation:
  assumes "s = snd (watch_run before new_watch)" and "Contains k s"
    and "CStop k \<notin> set cs" and "Length s \<le> count_list cs CAssign"
  shows "k \<in> set (fst (watch_run cs s))"
proof -
  have inv: "watch_inv s"
    using watch_run_refines [OF watch_inv_new] assms(1) by simp
  have k: "k \<in> set (watched s)" and "ahead k (watched s) < n_assigns cs"
    using inv assms ahead_less [of k "watched s"] by (auto simp: wl.has_iff wl.size_of_eq n_assigns_def)
  then have "k \<in> set (fst (q_run cs (watched s)))"
    using assms(3) by (intro q_run_assigned)
  then show ?thesis
    using watch_run_refines [OF inv, of cs] by simp
qed

theorem watch_no_starvation_witness:
  "''ns/b'' \<in> set (fst (watch_run [CAssign, CStart ''ns/c'', CStop ''ns/a'', CAssign]
      (snd (watch_run [CStart ''ns/a'', CStart ''ns/b''] new_watch))))"
  by (rule watch_no_starvation [OF refl])
    (simp_all add: StartWatching_def Contains_def Length_def new_watch_def)

end
