(* ===== verification/Scheduler.thy ===== *)
theory Scheduler
  imports WatchList
begin

text \<open>
  The goroutines of a \<open>Syncer\<close> (\<open>Start\<close>, \<open>assign\<close> and \<open>run\<close> of
  \<open>internal/sync/syncer.go\<close>, \<open>options.go\<close>) and the lock and the unbuffered channel they share,
  as a step relation. Each rule is one step between two points at which the goroutine can
  block or be preempted while it matters: a lock, the channel, the select of the context.
\<close>

section \<open>Options and the pause between assignments\<close>

record options =
  workers :: int
  taskInterval :: int

definition defaultOptions :: options where
  "defaultOptions = \<lparr>workers = 20, taskInterval = 30000\<rparr>"

definition WithWorkers :: "int \<Rightarrow> options \<Rightarrow> options" where
  "WithWorkers n o' = o'\<lparr>workers := n\<rparr>"

definition WithTaskInterval :: "int \<Rightarrow> options \<Rightarrow> options" where
  "WithTaskInterval n o' = o'\<lparr>taskInterval := n\<rparr>"

text \<open>The loop of \<open>NewSyncer\<close> over its options; a nil option is skipped.\<close>

fun apply_options :: "(options \<Rightarrow> options) option list \<Rightarrow> options \<Rightarrow> options" where
  "apply_options [] o' = o'"
| "apply_options (None # opts) o' = apply_options opts o'"
| "apply_options (Some f # opts) o' = apply_options opts (f o')"

text \<open>Go's integer division truncates towards zero.\<close>

definition go_quot :: "int \<Rightarrow> int \<Rightarrow> int" where
  "go_quot a b = sgn a * sgn b * (\<bar>a\<bar> div \<bar>b\<bar>)"

text \<open>The function literal that computes how many milliseconds \<open>Start\<close> sleeps.\<close>

definition sleep_ms :: "options \<Rightarrow> nat \<Rightarrow> int" where
  "sleep_ms opts l =
     (if l = 0 then taskInterval opts
      else let result = go_quot (taskInterval opts) (int l)
           in if result > 0 then result else 1)"

lemma go_quot_pos: "0 \<le> a \<Longrightarrow> 0 < b \<Longrightarrow> go_quot a b = a div b"
  by (cases "a = 0") (auto simp: go_quot_def sgn_if)

text \<open>
  The pause between two assignments. With at least one watched key the syncer sleeps at
  least a millisecond; when the interval is at least one millisecond per key, the pauses of a
  full round add up to at most the interval and to more than the interval less one
  millisecond per key; with fewer milliseconds than keys the pause is exactly one.
\<close>

theorem sleep_ms_bounds:
  assumes "0 < l"
  shows "1 \<le> sleep_ms opts l \<and>
    (if int l \<le> taskInterval opts
     then int l * sleep_ms opts l \<le> taskInterval opts \<and>
          taskInterval opts < int l * sleep_ms opts l + int l
     else sleep_ms opts l = 1)"
proof (cases "int l \<le> taskInterval opts")
  case True
  have q: "sleep_ms opts l = taskInterval opts div int l"
    using True assms
    by (auto simp: sleep_ms_def go_quot_pos Let_def pos_imp_zdiv_pos_iff)
  have "taskInterval opts = int l * (taskInterval opts div int l) + taskInterval opts mod int l"
    by simp
  moreover have "0 \<le> taskInterval opts mod int l" and "taskInterval opts mod int l < int l"
    using assms by simp_all
  moreover have "0 < taskInterval opts div int l"
    using True assms by (simp add: pos_imp_zdiv_pos_iff)
  ultimately have "int l * (taskInterval opts div int l) \<le> taskInterval opts"
    and "taskInterval opts < int l * (taskInterval opts div int l) + int l"
    by linarith+
  then show ?thesis
    using True q \<open>0 < taskInterval opts div int l\<close> by simp
next
  case False
  have "go_quot (taskInterval opts) (int l) \<le> 0"
    using False assms
    by (cases "taskInterval opts < 0")
       (auto simp: go_quot_pos go_quot_def sgn_if pos_imp_zdiv_nonneg_iff)
  then show ?thesis
    using False assms by (simp add: sleep_ms_def Let_def)
qed

theorem sleep_ms_bounds_witness:
  "1 \<le> sleep_ms (apply_options [None, Some (WithTaskInterval 100)] defaultOptions) 7 \<and>
   (7::int) * sleep_ms (apply_options [None, Some (WithTaskInterval 100)] defaultOptions) 7 \<le> 100"
  using sleep_ms_bounds [of 7 "apply_options [None, Some (WithTaskInterval 100)] defaultOptions"]
  by (simp add: WithTaskInterval_def defaultOptions_def)

section \<open>The goroutines\<close>

text \<open>
  \<open>AWaiting\<close>: the default branch of the select was taken, \<open>assign\<close> is about to lock.
  \<open>ASending k\<close>: \<open>assign\<close> holds the lock and is blocked in \<open>keyCh <- k\<close>.
  \<open>WStopping k\<close>: \<open>runOnce\<close> has reached a call of \<open>s.StopWatching(k)\<close>, which locks.
\<close>

datatype assigner_pc = ALoop | AWaiting | ASending string | ASleeping | AReturned

datatype worker_pc = WIdle | WBusy string | WStopping string | WExited

record sched =
  watch :: watch_state
  assigner :: assigner_pc
  pool :: "worker_pc list"
  ctx_done :: bool

definition init_sched :: "nat \<Rightarrow> sched" where
  "init_sched n = \<lparr>watch = new_watch, assigner = ALoop, pool = replicate n WIdle, ctx_done = False\<rparr>"

text \<open>
  \<open>s.lock\<close> is held across steps only while \<open>assign\<close> sends; every other critical section
  (\<open>Contains\<close>, \<open>Length\<close>, \<open>StartWatching\<close>, \<open>StopWatching\<close>) does not block and is one step.
\<close>

definition locked :: "sched \<Rightarrow> bool" where
  "locked s \<longleftrightarrow> (case assigner s of ASending k \<Rightarrow> True | _ \<Rightarrow> False)"

datatype thread = TAssigner | TWorker nat | TReconciler | TCancel

inductive sched_step :: "thread \<Rightarrow> sched \<Rightarrow> sched \<Rightarrow> bool" where
  loop_done: "assigner s = ALoop \<Longrightarrow> ctx_done s \<Longrightarrow>
     sched_step TAssigner s (s\<lparr>assigner := AReturned\<rparr>)"
| loop_default: "assigner s = ALoop \<Longrightarrow> \<not> ctx_done s \<Longrightarrow>
     sched_step TAssigner s (s\<lparr>assigner := AWaiting\<rparr>)"
| assign_empty: "assigner s = AWaiting \<Longrightarrow> WatchList.assign (watch s) = (None, w) \<Longrightarrow>
     sched_step TAssigner s (s\<lparr>watch := w, assigner := ASleeping\<rparr>)"
| assign_front: "assigner s = AWaiting \<Longrightarrow> WatchList.assign (watch s) = (Some k, w) \<Longrightarrow>
     sched_step TAssigner s (s\<lparr>watch := w, assigner := ASending k\<rparr>)"
| send: "assigner s = ASending k \<Longrightarrow> i < length (pool s) \<Longrightarrow> pool s ! i = WIdle \<Longrightarrow>
     sched_step TAssigner s (s\<lparr>assigner := ASleeping, pool := (pool s)[i := WBusy k]\<rparr>)"
| wake: "assigner s = ASleeping \<Longrightarrow>
     sched_step TAssigner s (s\<lparr>assigner := ALoop\<rparr>)"
| run_exit: "i < length (pool s) \<Longrightarrow> pool s ! i = WIdle \<Longrightarrow> ctx_done s \<Longrightarrow>
     sched_step (TWorker i) s (s\<lparr>pool := (pool s)[i := WExited]\<rparr>)"
| run_return: "i < length (pool s) \<Longrightarrow> pool s ! i = WBusy k \<Longrightarrow>
     sched_step (TWorker i) s (s\<lparr>pool := (pool s)[i := WIdle]\<rparr>)"
| run_stop: "i < length (pool s) \<Longrightarrow> pool s ! i = WBusy k \<Longrightarrow>
     sched_step (TWorker i) s (s\<lparr>pool := (pool s)[i := WStopping k]\<rparr>)"
| run_stopped: "i < length (pool s) \<Longrightarrow> pool s ! i = WStopping k \<Longrightarrow> \<not> locked s \<Longrightarrow>
     sched_step (TWorker i) s (s\<lparr>watch := StopWatching k (watch s), pool := (pool s)[i := WIdle]\<rparr>)"
| rec_start: "\<not> locked s \<Longrightarrow>
     sched_step TReconciler s (s\<lparr>watch := StartWatching k (watch s)\<rparr>)"
| rec_stop: "\<not> locked s \<Longrightarrow>
     sched_step TReconciler s (s\<lparr>watch := StopWatching k (watch s)\<rparr>)"
| cancel: "sched_step TCancel s (s\<lparr>ctx_done := True\<rparr>)"

inductive_cases assigner_stepE: "sched_step TAssigner s t"
inductive_cases worker_stepE: "sched_step (TWorker i) s t"
inductive_cases reconciler_stepE: "sched_step TReconciler s t"
inductive_cases cancel_stepE: "sched_step TCancel s t"

lemmas step_elims = assigner_stepE worker_stepE reconciler_stepE cancel_stepE

inductive sched_reach :: "sched \<Rightarrow> sched \<Rightarrow> bool" where
  reach_refl: "sched_reach s s"
| reach_step: "sched_reach s t \<Longrightarrow> sched_step th t u \<Longrightarrow> sched_reach s u"

lemma reach_trans: "sched_reach t u \<Longrightarrow> sched_reach s t \<Longrightarrow> sched_reach s u"
  by (induction rule: sched_reach.induct) (auto intro: sched_reach.intros)

definition sched_inv :: "sched \<Rightarrow> bool" where
  "sched_inv s \<longleftrightarrow> watch_inv (watch s) \<and>
     (\<forall>k. assigner s = ASending k \<longrightarrow> Contains k (watch s))"

lemma assign_contains:
  assumes "watch_inv w" and "WatchList.assign w = (Some k, w')"
  shows "watch_inv w' \<and> Contains k w'"
proof -
  have "watch_inv w'" and "watched w' = rotate1 (watched w)" and "{k} = set (take 1 (watched w))"
    using watch_inv_assign [OF assms(1)] assms(2) by auto
  then show ?thesis
    by (cases "watched w") (auto simp: wl.has_iff)
qed

lemma sched_step_inv: "sched_step th s t \<Longrightarrow> sched_inv s \<Longrightarrow> sched_inv t"
proof (induction rule: sched_step.induct)
  case (assign_empty s w)
  then show ?case
    using watch_inv_assign [of "watch s"] by (auto simp: sched_inv_def)
next
  case (assign_front s k w)
  then show ?case
    using assign_contains [of "watch s" k w] by (auto simp: sched_inv_def)
qed (auto simp: sched_inv_def locked_def wl.invar_start wl.invar_stop split: assigner_pc.splits)

lemma sched_reach_inv: "sched_reach s t \<Longrightarrow> sched_inv s \<Longrightarrow> sched_inv t"
  by (induction rule: sched_reach.induct) (auto dest: sched_step_inv)

lemma sched_inv_init: "sched_inv (init_sched n)"
  by (simp add: sched_inv_def init_sched_def watch_inv_new)

text \<open>Nobody can move any more, whatever the context does.\<close>

definition blocked :: "sched \<Rightarrow> bool" where
  "blocked s \<longleftrightarrow> (\<forall>th t. sched_step th s t \<longrightarrow> th = TCancel)"

definition stuck_worker :: "worker_pc \<Rightarrow> bool" where
  "stuck_worker w \<longleftrightarrow> (case w of WStopping k \<Rightarrow> True | WExited \<Rightarrow> True | _ \<Rightarrow> False)"

lemma blocked_if_stuck:
  assumes "locked s" and "\<forall>w\<in>set (pool s). stuck_worker w"
  shows "blocked s"
proof -
  have "th = TCancel" if "sched_step th s t" for th t
    using that assms
    by (cases th)
      (fastforce elim!: step_elims simp: locked_def stuck_worker_def all_set_conv_all_nth
        split: assigner_pc.splits)+
  then show ?thesis by (auto simp: blocked_def)
qed

lemma busy_worker_moves:
  assumes "locked s" and "w \<in> set (pool s)" and "\<not> stuck_worker w"
  shows "\<not> blocked s"
proof -
  obtain i where i: "i < length (pool s)" "pool s ! i = w"
    using assms(2) by (auto simp: in_set_conv_nth)
  obtain k where k: "assigner s = ASending k"
    using assms(1) by (auto simp: locked_def split: assigner_pc.splits)
  show ?thesis
    using i k assms(3) send [of s k i] run_return [of i s]
    by (cases w) (auto simp: blocked_def stuck_worker_def)
qed

lemma blocked_iff: "blocked s \<longleftrightarrow> locked s \<and> (\<forall>w\<in>set (pool s). stuck_worker w)"
proof
  assume b: "blocked s"
  have "locked s"
    using b rec_start [of s] by (auto simp: blocked_def)
  moreover have "stuck_worker w" if "w \<in> set (pool s)" for w
    using busy_worker_moves [OF \<open>locked s\<close> that] b by blast
  ultimately show "locked s \<and> (\<forall>w\<in>set (pool s). stuck_worker w)" by blast
qed (use blocked_if_stuck in blast)

lemma blocked_stays: "sched_step th s t \<Longrightarrow> blocked s \<Longrightarrow> blocked t"
proof -
  assume step: "sched_step th s t" and b: "blocked s"
  then have "th = TCancel" by (auto simp: blocked_def)
  with step b show "blocked t"
    by (auto simp: blocked_iff locked_def elim!: cancel_stepE)
qed

lemma blocked_forever: "sched_reach s t \<Longrightarrow> blocked s \<Longrightarrow> blocked t"
  by (induction rule: sched_reach.induct) (auto dest: blocked_stays)

subsection \<open>Runs that fill the pool\<close>

definition filled :: "string \<Rightarrow> nat \<Rightarrow> worker_pc \<Rightarrow> nat \<Rightarrow> worker_pc \<Rightarrow> assigner_pc \<Rightarrow> bool \<Rightarrow> sched" where
  "filled k i v j w pc d =
     \<lparr>watch = StartWatching k new_watch, assigner = pc, pool = replicate i v @ replicate j w, ctx_done = d\<rparr>"

lemma assign_filled:
  "WatchList.assign (StartWatching k new_watch) = (Some k, StartWatching k new_watch)"
  by (simp add: StartWatching_def new_watch_def assign_def list_MoveToBack_def list_Remove_def)

lemma pool_update: "(replicate i v @ w # ws)[i := v] = replicate (Suc i) v @ ws"
  by (simp add: replicate_append_same list_update_append)

lemma fill_one:
  "sched_reach (filled k i (WBusy k) (Suc j) WIdle ALoop False)
     (filled k (Suc i) (WBusy k) j WIdle ALoop False)"
proof -
  let ?s = "\<lambda>pc. filled k i (WBusy k) (Suc j) WIdle pc False"
  have 1: "sched_step TAssigner (?s ALoop) (?s AWaiting)"
    using loop_default [of "?s ALoop"] by (simp add: filled_def)
  have 2: "sched_step TAssigner (?s AWaiting) (?s (ASending k))"
    using assign_front [of "?s AWaiting" k "StartWatching k new_watch"] assign_filled [of k]
    by (simp add: filled_def)
  have 3: "sched_step TAssigner (?s (ASending k)) (filled k (Suc i) (WBusy k) j WIdle ASleeping False)"
    using send [of "?s (ASending k)" k i] pool_update [of i "WBusy k" WIdle "replicate j WIdle"]
    by (simp add: filled_def nth_append)
  have 4: "sched_step TAssigner (filled k (Suc i) (WBusy k) j WIdle ASleeping False)
      (filled k (Suc i) (WBusy k) j WIdle ALoop False)"
    using wake [of "filled k (Suc i) (WBusy k) j WIdle ASleeping False"] by (simp add: filled_def)
  show ?thesis
    by (rule reach_step [OF reach_step [OF reach_step [OF reach_step [OF reach_refl 1] 2] 3] 4])
qed

lemma fill_all:
  "sched_reach (filled k i (WBusy k) j WIdle ALoop False) (filled k (i + j) (WBusy k) 0 WIdle ALoop False)"
proof (induction j arbitrary: i)
  case 0
  show ?case by (simp add: reach_refl)
next
  case (Suc j)
  show ?case
    using reach_trans [OF Suc.IH [of "Suc i"] fill_one] by simp
qed

lemma start_filled:
  "sched_reach (init_sched n) (filled k 0 v n WIdle ALoop False)"
  using reach_step [OF reach_refl rec_start [of "init_sched n" k]]
  by (simp add: filled_def init_sched_def locked_def)

lemma begin_send:
  "sched_reach (filled k i v j w ALoop False) (filled k i v j w (ASending k) False)"
proof -
  have 1: "sched_step TAssigner (filled k i v j w ALoop False) (filled k i v j w AWaiting False)"
    using loop_default [of "filled k i v j w ALoop False"] by (simp add: filled_def)
  have 2: "sched_step TAssigner (filled k i v j w AWaiting False) (filled k i v j w (ASending k) False)"
    using assign_front [of "filled k i v j w AWaiting False" k "StartWatching k new_watch"] assign_filled [of k]
    by (simp add: filled_def)
  show ?thesis
    by (rule reach_step [OF reach_step [OF reach_refl 1] 2])
qed

text \<open>All workers move from one state to another while the assigner sends.\<close>

lemma drain_all:
  assumes "\<And>s i. i < length (pool s) \<Longrightarrow> pool s ! i = w \<Longrightarrow> ctx_done s = d \<Longrightarrow>
    sched_step (TWorker i) s (s\<lparr>pool := (pool s)[i := v]\<rparr>)"
  shows "sched_reach (filled k i v j w (ASending k) d) (filled k (i + j) v 0 w (ASending k) d)"
proof (induction j arbitrary: i)
  case 0
  show ?case by (simp add: reach_refl)
next
  case (Suc j)
  have "sched_step (TWorker i) (filled k i v (Suc j) w (ASending k) d) (filled k (Suc i) v j w (ASending k) d)"
    using assms [of i "filled k i v (Suc j) w (ASending k) d"] pool_update [of i v w "replicate j w"]
    by (simp add: filled_def nth_append)
  from reach_trans [OF Suc.IH [of "Suc i"] reach_step [OF reach_refl this]] show ?case
    by simp
qed

lemma reach_all_busy:
  "sched_reach (init_sched n) (filled k n (WBusy k) 0 WIdle ALoop False)"
  using reach_trans [OF fill_all start_filled [of n k "WBusy k"]] by simp

lemma reach_all_stopping:
  "sched_reach (init_sched n) (filled k n (WStopping k) 0 (WBusy k) (ASending k) False)"
proof -
  have "sched_reach (init_sched n) (filled k 0 (WStopping k) n (WBusy k) (ASending k) False)"
    using reach_trans [OF begin_send reach_all_busy [of n k]] by (simp add: filled_def)
  moreover have "sched_reach (filled k 0 (WStopping k) n (WBusy k) (ASending k) False)
      (filled k n (WStopping k) 0 (WBusy k) (ASending k) False)"
    using drain_all [of "WBusy k" False "WStopping k" k 0 n] run_stop by simp
  ultimately show ?thesis
    by (rule reach_trans [rotated])
qed

lemma reach_all_exited:
  "sched_reach (init_sched n) (filled k n WExited 0 WIdle (ASending k) True)"
proof -
  have "sched_reach (init_sched n) (filled k 0 WExited n WIdle (ASending k) False)"
    using reach_trans [OF begin_send start_filled] .
  then have "sched_reach (init_sched n) (filled k 0 WExited n WIdle (ASending k) True)"
    using reach_step [OF _ cancel [of "filled k 0 WExited n WIdle (ASending k) False"]]
    by (simp add: filled_def)
  moreover have "sched_reach (filled k 0 WExited n WIdle (ASending k) True)
      (filled k n WExited 0 WIdle (ASending k) True)"
    using drain_all [of WIdle True WExited k 0 n] run_exit by simp
  ultimately show ?thesis
    by (rule reach_trans [rotated])
qed

lemma filled_blocked: "stuck_worker v \<Longrightarrow> blocked (filled k n v 0 w (ASending k) d)"
  by (simp add: blocked_iff filled_def locked_def)

subsection \<open>Shutdown\<close>

text \<open>A run is the sequence of the threads that take its steps.\<close>

inductive sched_run :: "sched \<Rightarrow> thread list \<Rightarrow> sched \<Rightarrow> bool" where
  run_done: "sched_run s [] s"
| run_step: "sched_step th s t \<Longrightarrow> sched_run t ths u \<Longrightarrow> sched_run s (th # ths) u"

definition goroutine :: "thread \<Rightarrow> bool" where
  "goroutine th \<longleftrightarrow> th \<noteq> TReconciler \<and> th \<noteq> TCancel"

definition shut_down :: "sched \<Rightarrow> bool" where
  "shut_down s \<longleftrightarrow> assigner s = AReturned \<and> (\<forall>w\<in>set (pool s). w = WExited)"

text \<open>The steps a goroutine still has before it, once the context is cancelled.\<close>

primrec assigner_steps :: "assigner_pc \<Rightarrow> nat" where
  "assigner_steps AReturned = 0"
| "assigner_steps ALoop = 1"
| "assigner_steps ASleeping = 2"
| "assigner_steps (ASending k) = 5"
| "assigner_steps AWaiting = 6"

primrec worker_steps :: "worker_pc \<Rightarrow> nat" where
  "worker_steps WExited = 0"
| "worker_steps WIdle = 1"
| "worker_steps (WStopping k) = 2"
| "worker_steps (WBusy k) = 3"

definition steps_left :: "sched \<Rightarrow> nat" where
  "steps_left s = assigner_steps (assigner s) + sum_list (map worker_steps (pool s))"

lemma sum_list_update_nat:
  fixes f :: "'a \<Rightarrow> nat"
  shows "i < length xs \<Longrightarrow> sum_list (map f (xs[i := x])) + f (xs ! i) = sum_list (map f xs) + f x"
proof (induction xs arbitrary: i)
  case (Cons y ys)
  then show ?case by (cases i) auto
qed simp

lemma worker_moves:
  assumes "i < length (pool s)"
  shows "sum_list (map worker_steps ((pool s)[i := w])) + worker_steps (pool s ! i) =
    sum_list (map worker_steps (pool s)) + worker_steps w"
  using sum_list_update_nat [OF assms] .

lemma goroutine_step_left:
  assumes "sched_step th s t" and "ctx_done s" and "goroutine th"
  shows "Suc (steps_left t) \<le> steps_left s"
proof (cases th)
  case TAssigner
  have send: "sum_list (map worker_steps ((pool s)[i := WBusy k])) = sum_list (map worker_steps (pool s)) + 2"
    if "i < length (pool s)" and "pool s ! i = WIdle" for i k
    using worker_moves [OF that(1), of "WBusy k"] that(2) by simp
  from assms(1,2) show ?thesis
    unfolding TAssigner by (auto elim!: assigner_stepE simp: steps_left_def send)
next
  case (TWorker i)
  obtain w where "pool t = (pool s)[i := w]" and "i < length (pool s)"
      and "worker_steps w < worker_steps (pool s ! i)" and "assigner t = assigner s"
    using assms(1,2) unfolding TWorker by (auto elim!: worker_stepE)
  then show ?thesis
    using worker_moves [of i s w] by (simp add: steps_left_def)
qed (use assms(3) in \<open>auto simp: goroutine_def\<close>)

lemma step_left:
  assumes "sched_step th s t" and "ctx_done s"
  shows "steps_left t + (if goroutine th then 1 else 0) \<le> steps_left s" and "ctx_done t"
proof -
  show "ctx_done t"
    using assms by (cases th) (auto elim!: step_elims)
  show "steps_left t + (if goroutine th then 1 else 0) \<le> steps_left s"
  proof (cases "goroutine th")
    case False
    then show ?thesis
      using assms(1) by (cases th) (auto simp: goroutine_def steps_left_def elim!: step_elims)
  qed (use goroutine_step_left [OF assms] in simp)
qed

lemma run_left:
  "sched_run s ths t \<Longrightarrow> ctx_done s \<Longrightarrow>
   steps_left t + length (filter goroutine ths) \<le> steps_left s \<and> ctx_done t"
proof (induction rule: sched_run.induct)
  case (run_step th s t ths u)
  then show ?case
    using step_left [OF run_step.hyps(1)] by (cases "goroutine th") auto
qed simp

lemma steps_left_bound: "steps_left s \<le> 6 + 3 * length (pool s)"
proof -
  have "worker_steps w \<le> 3" for w
    by (cases w) simp_all
  then have "sum_list (map worker_steps ws) \<le> 3 * length ws" for ws
    by (induction ws) (simp_all add: add_mono order_trans [OF add_mono])
  moreover have "assigner_steps (assigner s) \<le> 6"
    by (cases "assigner s") simp_all
  ultimately show ?thesis
    by (simp add: steps_left_def add_mono)
qed

text \<open>A state in which no goroutine can move is the end of the program or the deadlock.\<close>

lemma assigner_moves: "\<not> locked s \<Longrightarrow> assigner s \<noteq> AReturned \<Longrightarrow> \<exists>t. sched_step TAssigner s t"
proof (cases "assigner s")
  case AWaiting
  then show ?thesis
    using assign_empty [of s] assign_front [of s] by (cases "WatchList.assign (watch s)"; cases "fst (WatchList.assign (watch s))") auto
next
  case ALoop
  then show ?thesis
    using loop_done loop_default by (cases "ctx_done s") blast+
next
  case ASleeping
  then show ?thesis
    using wake by blast
qed (simp_all add: locked_def)

lemma worker_moves_unlocked:
  assumes "\<not> locked s" and "ctx_done s" and "w \<in> set (pool s)" and "w \<noteq> WExited"
  shows "\<exists>i t. sched_step (TWorker i) s t"
proof -
  obtain i where i: "i < length (pool s)" "pool s ! i = w"
    using assms(3) by (auto simp: in_set_conv_nth)
  show ?thesis
    using i assms run_exit [of i s] run_return [of i s] run_stopped [of i s]
    by (cases w) auto
qed

lemma quiescent:
  assumes "ctx_done s" and "\<And>th t. sched_step th s t \<Longrightarrow> \<not> goroutine th"
  shows "shut_down s \<or> blocked s"
proof (cases "locked s")
  case True
  have "stuck_worker w" if w: "w \<in> set (pool s)" for w
  proof (rule ccontr)
    assume "\<not> stuck_worker w"
    from busy_worker_moves [OF True w this] obtain th t where "sched_step th s t" "th \<noteq> TCancel"
      by (auto simp: blocked_def)
    with assms(2) [of th t] True show False
      by (auto simp: goroutine_def elim: reconciler_stepE)
  qed
  then show ?thesis
    using True by (simp add: blocked_iff)
next
  case False
  then show ?thesis
    using assigner_moves [OF False] worker_moves_unlocked [OF False assms(1)] assms(2)
    by (fastforce simp: shut_down_def goroutine_def)
qed

text \<open>Once the assigner is past its last assignment it does not send again.\<close>

lemma no_more_sends:
  "sched_run s ths t \<Longrightarrow> ctx_done s \<Longrightarrow> assigner s \<in> {ALoop, ASleeping, AReturned} \<Longrightarrow>
   assigner t \<in> {ALoop, ASleeping, AReturned}"
proof (induction rule: sched_run.induct)
  case (run_step th s t ths u)
  then have "assigner t \<in> {ALoop, ASleeping, AReturned}"
    by (cases th) (auto elim!: step_elims)
  with run_step step_left(2) show ?case by blast
qed

section \<open>Properties of the goroutines\<close>

text \<open>
  C31. Exclusion. In every reachable state of the goroutines the watch list is well formed; while
  \<open>assign\<close> is blocked sending a key, that key is watched, and no step of any goroutine
  changes the watch list.
\<close>

theorem dispatch_exclusive:
  assumes "sched_reach (init_sched n) s"
  shows "watch_inv (watch s) \<and>
    (\<forall>k. assigner s = ASending k \<longrightarrow>
       Contains k (watch s) \<and> (\<forall>th t. sched_step th s t \<longrightarrow> watch t = watch s))"
proof -
  have "sched_inv s"
    using sched_reach_inv [OF assms sched_inv_init] .
  moreover have "watch t = watch s" if "assigner s = ASending k" and "sched_step th s t" for k th t
    using that by (cases th) (auto elim!: step_elims simp: locked_def)
  ultimately show ?thesis
    by (auto simp: sched_inv_def)
qed

theorem dispatch_exclusive_witness:
  "watch_inv (watch (filled ''ns/a'' 0 WIdle 2 WIdle (ASending ''ns/a'') False)) \<and>
   Contains ''ns/a'' (watch (filled ''ns/a'' 0 WIdle 2 WIdle (ASending ''ns/a'') False))"
proof -
  have "sched_reach (init_sched 2) (filled ''ns/a'' 0 WIdle 2 WIdle (ASending ''ns/a'') False)"
    using reach_trans [OF begin_send start_filled] .
  from dispatch_exclusive [OF this] show ?thesis
    by (simp add: filled_def)
qed

text \<open>
  C26. Deadlock, exactly. No goroutine can take a step (other than the context being cancelled)
  if and only if \<open>assign\<close> is sending, so that it holds the lock, and every worker is either
  waiting for that lock in \<open>StopWatching\<close> or has returned. In particular one worker that is
  idle or busy with a key is enough for progress.
\<close>

theorem sched_blocked_iff:
  "blocked s \<longleftrightarrow>
     (\<exists>k. assigner s = ASending k) \<and> list_all (\<lambda>w. (\<exists>k. w = WStopping k) \<or> w = WExited) (pool s)"
proof -
  have "stuck_worker w \<longleftrightarrow> (\<exists>k. w = WStopping k) \<or> w = WExited" for w
    by (cases w) (auto simp: stuck_worker_def)
  moreover have "locked s \<longleftrightarrow> (\<exists>k. assigner s = ASending k)"
    by (cases "assigner s") (auto simp: locked_def)
  ultimately show ?thesis
    using blocked_iff [of s] by (simp add: list_all_iff)
qed

text \<open>
  C35. The deadlock is reachable with any number of workers and without a cancelled context: the
  GitSync objects the workers are busy with are deleted while \<open>assign\<close> waits, with the lock,
  for a worker. From then on no goroutine ever moves, so the key stays watched for ever.
\<close>

theorem sched_deadlock_reachable:
  "\<exists>s. sched_reach (init_sched n) s \<and> \<not> ctx_done s \<and>
     (\<forall>t. sched_reach s t \<longrightarrow> blocked t \<and> Contains k (watch t))"
proof -
  let ?s = "filled k n (WStopping k) 0 (WBusy k) (ASending k) False"
  have b: "blocked ?s"
    by (rule filled_blocked) (simp add: stuck_worker_def)
  have "blocked t \<and> Contains k (watch t)" if "sched_reach ?s t" for t
    using that b
  proof (induction "?s" t rule: sched_reach.induct)
    case reach_refl
    then show ?case
      by (simp add: filled_def StartWatching_def new_watch_def Contains_def)
  next
    case (reach_step t th u)
    then have "blocked t" "Contains k (watch t)" by auto
    moreover from this reach_step.hyps have "th = TCancel" by (auto simp: blocked_def)
    ultimately show ?case
      using reach_step.hyps blocked_stays by (auto elim!: cancel_stepE)
  qed
  then show ?thesis
    using reach_all_stopping [of n k] by (intro exI [of _ ?s]) (auto simp: filled_def)
qed

theorem sched_deadlock_reachable_witness:
  "\<exists>s. sched_reach (init_sched 20) s \<and> blocked s \<and> Contains ''ns/a'' (watch s)"
  using sched_deadlock_reachable [of 20 "''ns/a''"] by (auto intro: reach_refl)

text \<open>
  C36. Shutdown. The context can be cancelled while \<open>assign\<close> is sending; the workers may then all
  return instead of receiving, and \<open>Start\<close> never returns.
\<close>

theorem sched_shutdown_hangs:
  "\<exists>s. sched_reach (init_sched n) s \<and> ctx_done s \<and> (\<forall>w\<in>set (pool s). w = WExited) \<and>
     (\<forall>t. sched_reach s t \<longrightarrow> assigner t \<noteq> AReturned)"
proof -
  let ?s = "filled k n WExited 0 WIdle (ASending k) True"
  have "blocked ?s"
    by (rule filled_blocked) (simp add: stuck_worker_def)
  then have "assigner t \<noteq> AReturned" if "sched_reach ?s t" for t
    using blocked_forever [OF that] by (auto simp: blocked_iff locked_def split: assigner_pc.splits)
  then show ?thesis
    using reach_all_exited [of n k] by (intro exI [of _ ?s]) (auto simp: filled_def)
qed

theorem sched_shutdown_hangs_witness:
  "\<exists>s. sched_reach (init_sched 20) s \<and> ctx_done s \<and> assigner s \<noteq> AReturned"
  using sched_shutdown_hangs [of 20] by (auto intro: reach_refl)

text \<open>
  C21. Shutdown ends. Once the context is cancelled, the assigner and the workers together take at most
  six steps and three for every worker, whatever the reconciler does in between. When none of them
  can take a step any more, \<open>Start\<close> has returned and so has every worker, or they are in the
  deadlock. They never are in it when the assigner was in its select or asleep as the
  context was cancelled.
\<close>

theorem shutdown_terminates:
  assumes "sched_run s ths t" and "ctx_done s"
  shows "length (filter goroutine ths) \<le> 6 + 3 * length (pool s) \<and>
    ((\<forall>th u. sched_step th t u \<longrightarrow> \<not> goroutine th) \<longrightarrow> shut_down t \<or> blocked t) \<and>
    (assigner s \<in> {ALoop, ASleeping} \<longrightarrow> \<not> blocked t)"
proof (intro conjI impI)
  show "length (filter goroutine ths) \<le> 6 + 3 * length (pool s)"
    using run_left [OF assms] steps_left_bound [of s] by linarith
  show "shut_down t \<or> blocked t" if "\<forall>th u. sched_step th t u \<longrightarrow> \<not> goroutine th"
    using quiescent that run_left [OF assms] by blast
  assume "assigner s \<in> {ALoop, ASleeping}"
  then have "assigner t \<in> {ALoop, ASleeping, AReturned}"
    using no_more_sends [OF assms] by blast
  then show "\<not> blocked t"
    by (auto simp: blocked_iff locked_def)
qed

theorem shutdown_terminates_witness:
  "\<exists>t. sched_run (filled ''ns/a'' 0 WIdle 1 WIdle ALoop True) [TAssigner, TWorker 0] t \<and> \<not> blocked t \<and> shut_down t"
proof -
  let ?s = "filled ''ns/a'' 0 WIdle 1 WIdle ALoop True"
  let ?t = "filled ''ns/a'' 0 WIdle 1 WIdle AReturned True"
  let ?u = "filled ''ns/a'' 0 WIdle 1 WExited AReturned True"
  have "sched_step TAssigner ?s ?t"
    using loop_done [of ?s] by (simp add: filled_def)
  moreover have "sched_step (TWorker 0) ?t ?u"
    using run_exit [of 0 ?t] by (simp add: filled_def)
  ultimately have run: "sched_run ?s [TAssigner, TWorker 0] ?u"
    by (blast intro: sched_run.intros)
  have "\<not> blocked ?u"
    using shutdown_terminates [OF run] by (simp add: filled_def)
  then show ?thesis
    using run by (auto simp: shut_down_def filled_def)
qed

text \<open>
  No exclusion per key. All workers can be busy with one and the same key at once: a
  synchronisation that takes longer than a round of the list is started again by the next
  worker.
\<close>

theorem sched_same_key_everywhere:
  "\<exists>s. sched_reach (init_sched n) s \<and> pool s = replicate n (WBusy k) \<and> watched (watch s) = [k]"
  using reach_all_busy [of n k]
  by (intro exI [of _ "filled k n (WBusy k) 0 WIdle ALoop False"])
     (auto simp: filled_def wl.keys_start watch_inv_new q_start_def)

end
