(* ===== verification/GoUrl.thy ===== *)
theory GoUrl
  imports Prelude
begin

text \<open>
  The part of Go's standard package \<open>net/url\<close> (Go 1.21, the version of \<open>go.mod\<close>) that
  \<open>url.Parse\<close> needs for the fields the program reads: scheme, opaque part, user, host, path
  and query. The fields \<open>RawPath\<close>, \<open>ForceQuery\<close>, \<open>OmitHost\<close> and \<open>Fragment\<close> are not read and
  are left out; what can fail while they are computed is kept. Error texts are modelled up to
  the quoted input they contain.
\<close>

section \<open>URLs\<close>

text \<open>\<open>*url.Userinfo\<close>: a user name and perhaps a password.\<close>

record URL =
  Scheme :: string
  Opaque :: string
  User :: "(string \<times> string option) option"
  Host :: string
  url_Path :: string
  RawQuery :: string

definition empty_URL :: URL where
  "empty_URL = \<lparr>Scheme = [], Opaque = [], User = None, Host = [], url_Path = [], RawQuery = []\<rparr>"

text \<open>\<open>Username()\<close> of a possibly nil \<open>*Userinfo\<close>.\<close>

definition user_Username :: "(string \<times> string option) option \<Rightarrow> string" where
  "user_Username u = (case u of None \<Rightarrow> [] | Some (n, p) \<Rightarrow> n)"

section \<open>Escapes\<close>

datatype encoding = encodePath | encodeHost | encodeZone | encodeUserPassword | encodeFragment

definition ishex :: "char \<Rightarrow> bool" where
  "ishex c \<longleftrightarrow> is_digit c \<or> 97 \<le> byte c \<and> byte c \<le> 102 \<or> 65 \<le> byte c \<and> byte c \<le> 70"

definition unhex :: "char \<Rightarrow> nat" where
  "unhex c =
     (if is_digit c then byte c - 48
      else if 97 \<le> byte c \<and> byte c \<le> 102 then byte c - 97 + 10
      else if 65 \<le> byte c \<and> byte c \<le> 70 then byte c - 65 + 10
      else 0)"

text \<open>\<open>shouldEscape\<close> in the modes host and zone, the only ones \<open>unescape\<close> asks about here.\<close>

definition shouldEscape_host :: "char \<Rightarrow> bool" where
  "shouldEscape_host c \<longleftrightarrow>
     \<not> (is_alnum c \<or> c \<in> set ''!$&()*+,;=:[]<>'' \<or> c = CHR 0x27 \<or> c = CHR 0x22 \<or> c \<in> set ''-_.~'')"

abbreviation EscapeError :: go_error where
  "EscapeError \<equiv> ErrorString ''invalid URL escape''"

abbreviation InvalidHostError :: go_error where
  "InvalidHostError \<equiv> ErrorString ''invalid character in host name''"

fun unescape :: "encoding \<Rightarrow> string \<Rightarrow> go_error + string" where
  "unescape mode [] = Inr []"
| "unescape mode (x # xs) =
     (if x = CHR ''%'' then
        (case xs of
           h # l # rest \<Rightarrow>
             let v = 16 * unhex h + unhex l; percent = (h = CHR ''2'' \<and> l = CHR ''5'')
             in if \<not> ishex h \<or> \<not> ishex l then Inl EscapeError
                else if mode = encodeHost \<and> unhex h < 8 \<and> \<not> percent then Inl EscapeError
                else if mode = encodeZone \<and> \<not> percent \<and> v \<noteq> 32 \<and> shouldEscape_host (char_of v)
                then Inl EscapeError
                else bindE (unescape mode rest) (\<lambda>s. Inr (char_of v # s))
         | _ \<Rightarrow> Inl EscapeError)
      else if (mode = encodeHost \<or> mode = encodeZone) \<and> byte x < 128 \<and> shouldEscape_host x
      then Inl InvalidHostError
      else bindE (unescape mode xs) (\<lambda>s. Inr (x # s)))"

section \<open>Parsing\<close>

text \<open>The text before and after the last occurrence of a byte.\<close>

definition cut_last :: "char \<Rightarrow> string \<Rightarrow> (string \<times> string) option" where
  "cut_last c s = (case Cut (rev s) c of (b, a, found) \<Rightarrow> if found then Some (rev a, rev b) else None)"

text \<open>The text before the first occurrence of a string, and the text from there on.\<close>

fun cut_str :: "string \<Rightarrow> string \<Rightarrow> (string \<times> string) option" where
  "cut_str sub [] = (if sub = [] then Some ([], []) else None)"
| "cut_str sub (x # xs) =
     (if HasPrefix (x # xs) sub then Some ([], x # xs)
      else map_option (\<lambda>(a, b). (x # a, b)) (cut_str sub xs))"

fun getScheme_loop :: "string \<Rightarrow> string \<Rightarrow> string \<Rightarrow> go_error + string \<times> string" where
  "getScheme_loop rawURL done [] = Inr ([], rawURL)"
| "getScheme_loop rawURL done (c # rest) =
     (if is_lower c \<or> is_upper c then getScheme_loop rawURL (done @ [c]) rest
      else if is_digit c \<or> c = CHR ''+'' \<or> c = CHR ''-'' \<or> c = CHR ''.''
      then (if done = [] then Inr ([], rawURL) else getScheme_loop rawURL (done @ [c]) rest)
      else if c = CHR '':''
      then (if done = [] then Inl (ErrorString ''missing protocol scheme'') else Inr (done, rest))
      else Inr ([], rawURL))"

definition getScheme :: "string \<Rightarrow> go_error + string \<times> string" where
  "getScheme rawURL = getScheme_loop rawURL [] rawURL"

definition validOptionalPort :: "string \<Rightarrow> bool" where
  "validOptionalPort port =
     (case port of [] \<Rightarrow> True | c # ds \<Rightarrow> c = CHR '':'' \<and> list_all is_digit ds)"

definition validUserinfo :: "string \<Rightarrow> bool" where
  "validUserinfo s \<longleftrightarrow>
     list_all (\<lambda>c. is_alnum c \<or> c \<in> set ''-._:~!$&()*+,;=%@'' \<or> c = CHR 0x27) s"

definition parseHost :: "string \<Rightarrow> go_error + string" where
  "parseHost host =
     (if HasPrefix host ''['' then
        (case cut_last (CHR '']'') host of
           None \<Rightarrow> Inl (ErrorString ''missing ']' in host'')
         | Some (pre, colonPort) \<Rightarrow>
             if \<not> validOptionalPort colonPort then Inl (ErrorString ''invalid port after host'')
             else (case cut_str ''%25'' pre of
                 Some (h1, z) \<Rightarrow>
                   bindE (unescape encodeHost h1) (\<lambda>host1.
                   bindE (unescape encodeZone z) (\<lambda>host2.
                   bindE (unescape encodeHost (CHR '']'' # colonPort)) (\<lambda>host3.
                   Inr (host1 @ host2 @ host3))))
               | None \<Rightarrow> unescape encodeHost host))
      else
        (case cut_last (CHR '':'') host of
           Some (pre, digits) \<Rightarrow>
             if \<not> validOptionalPort (CHR '':'' # digits) then Inl (ErrorString ''invalid port after host'')
             else unescape encodeHost host
         | None \<Rightarrow> unescape encodeHost host))"

definition parseAuthority :: "string \<Rightarrow> go_error + (string \<times> string option) option \<times> string" where
  "parseAuthority authority =
     (case cut_last (CHR ''@'') authority of
        None \<Rightarrow> bindE (parseHost authority) (\<lambda>host. Inr (None, host))
      | Some (userinfo, h) \<Rightarrow>
          bindE (parseHost h) (\<lambda>host.
            if \<not> validUserinfo userinfo then Inl (ErrorString ''net/url: invalid userinfo'')
            else if CHR '':'' \<notin> set userinfo then
              bindE (unescape encodeUserPassword userinfo) (\<lambda>u. Inr (Some (u, None), host))
            else (case Cut userinfo (CHR '':'') of (username, password, _) \<Rightarrow>
              bindE (unescape encodeUserPassword username) (\<lambda>u.
              bindE (unescape encodeUserPassword password) (\<lambda>p.
              Inr (Some (u, Some p), host))))))"

text \<open>\<open>parse(rawURL, viaRequest = false)\<close>.\<close>

definition parse_query :: "string \<Rightarrow> string \<times> string" where
  "parse_query rest =
     (if rest \<noteq> [] \<and> last rest = CHR ''?'' \<and> count_list rest (CHR ''?'') = 1
      then (butlast rest, [])
      else (case Cut rest (CHR ''?'') of (r, q, _) \<Rightarrow> (r, q)))"

definition parse_rest :: "string \<Rightarrow> string \<Rightarrow> string \<Rightarrow> go_error + URL" where
  "parse_rest scheme rest query =
     (let url = empty_URL\<lparr>Scheme := scheme, RawQuery := query\<rparr>
      in if \<not> HasPrefix rest ''/'' \<and> scheme \<noteq> [] then Inr (url\<lparr>Opaque := rest\<rparr>)
         else if \<not> HasPrefix rest ''/'' \<and> CHR '':'' \<in> set (fst (Cut rest (CHR ''/'')))
         then Inl (ErrorString ''first path segment in URL cannot contain colon'')
         else if (scheme \<noteq> [] \<or> \<not> HasPrefix rest ''///'') \<and> HasPrefix rest ''//''
         then (let authority = takeWhile (\<lambda>c. c \<noteq> CHR ''/'') (drop 2 rest);
                   path = dropWhile (\<lambda>c. c \<noteq> CHR ''/'') (drop 2 rest)
               in bindE (parseAuthority authority) (\<lambda>(user, host).
                  bindE (unescape encodePath path) (\<lambda>p.
                  Inr (url\<lparr>User := user, Host := host, url_Path := p\<rparr>))))
         else bindE (unescape encodePath rest) (\<lambda>p. Inr (url\<lparr>url_Path := p\<rparr>)))"

definition parse_noFragment :: "string \<Rightarrow> go_error + URL" where
  "parse_noFragment rawURL =
     (if \<not> list_all (\<lambda>c. 32 \<le> byte c \<and> byte c \<noteq> 127) rawURL
      then Inl (ErrorString ''net/url: invalid control character in URL'')
      else if rawURL = ''*'' then Inr (empty_URL\<lparr>url_Path := ''*''\<rparr>)
      else bindE (getScheme rawURL) (\<lambda>(scheme, rest0).
        (case parse_query rest0 of (rest, query) \<Rightarrow> parse_rest (map to_lower scheme) rest query)))"

definition url_Parse :: "string \<Rightarrow> go_error + URL" where
  "url_Parse rawURL =
     (case Cut rawURL (CHR ''#'') of (u, frag, _) \<Rightarrow>
      bindE (parse_noFragment u) (\<lambda>url.
        if frag = [] then Inr url else bindE (unescape encodeFragment frag) (\<lambda>_. Inr url)))"

section \<open>Lemmas\<close>

lemma cut_last_absent: "c \<notin> set s \<Longrightarrow> cut_last c s = None"
  by (simp add: cut_last_def Cut_absent)

lemma cut_last_found: "c \<notin> set a \<Longrightarrow> cut_last c (b @ c # a) = Some (b, a)"
  using Cut_found [of c "rev a" "rev b"] by (simp add: cut_last_def)

lemma unescape_plain:
  assumes "CHR ''%'' \<notin> set s"
    and "mode = encodeHost \<or> mode = encodeZone \<Longrightarrow> \<forall>c\<in>set s. \<not> shouldEscape_host c"
  shows "unescape mode s = Inr s"
  using assms by (induction s) auto

definition scheme_char :: "char \<Rightarrow> bool" where
  "scheme_char c \<longleftrightarrow> is_alnum c \<or> c \<in> set ''+-.''"

lemma getScheme_loop_found:
  assumes "list_all scheme_char s" and "d \<noteq> []"
  shows "getScheme_loop raw d (s @ CHR '':'' # rest) = Inr (d @ s, rest)"
  using assms
proof (induction s arbitrary: d)
  case Nil
  then show ?case
    by (auto simp: is_lower_def is_upper_def is_digit_def byte_def)
next
  case (Cons c s)
  then show ?case
    by (auto simp: scheme_char_def)
qed

lemma getScheme_found:
  assumes "is_lower c" and "list_all scheme_char s"
  shows "getScheme (c # s @ CHR '':'' # rest) = Inr (c # s, rest)"
  using assms getScheme_loop_found [of s "[c]"] by (simp add: getScheme_def)

lemma parse_query_absent: "CHR ''?'' \<notin> set rest \<Longrightarrow> parse_query rest = (rest, [])"
  by (auto simp: parse_query_def Cut_absent)

lemma parseAuthority_host:
  assumes "CHR ''@'' \<notin> set h"
  shows "parseAuthority h = bindE (parseHost h) (\<lambda>host. Inr (None, host))"
  using assms by (simp add: parseAuthority_def cut_last_absent)

lemma parseAuthority_user:
  assumes "CHR ''@'' \<notin> set h" and "validUserinfo u" and "CHR '':'' \<notin> set u" and "CHR ''%'' \<notin> set u"
  shows "parseAuthority (u @ CHR ''@'' # h) = bindE (parseHost h) (\<lambda>host. Inr (Some (u, None), host))"
proof -
  have "unescape encodeUserPassword u = Inr u"
    using assms(4) by (rule unescape_plain) simp
  with assms show ?thesis
    by (cases "parseHost h") (simp_all add: parseAuthority_def cut_last_found)
qed

lemma parseHost_plain:
  assumes "\<forall>c\<in>set h. \<not> shouldEscape_host c" and "CHR ''%'' \<notin> set h"
    and "CHR '':'' \<notin> set h" and "CHR ''['' \<notin> set h"
  shows "parseHost h = Inr h"
  using assms by (cases h) (auto simp: parseHost_def cut_last_absent unescape_plain)

text \<open>An absolute URL with an authority and a path, without query, fragment and escapes.\<close>

lemma url_Parse_authority:
  assumes scheme: "scheme = c # cs" "is_lower c" "list_all scheme_char cs" "map to_lower scheme = scheme"
    and auth: "CHR ''/'' \<notin> set auth" "parseAuthority auth = Inr (user, host)"
    and path: "CHR ''%'' \<notin> set p"
    and plain: "\<forall>x\<in>set (scheme @ auth @ p). 32 \<le> byte x \<and> byte x \<noteq> 127 \<and> x \<noteq> CHR ''#'' \<and> x \<noteq> CHR ''?''"
  shows "url_Parse (scheme @ ''://'' @ auth @ CHR ''/'' # p) =
    Inr (empty_URL\<lparr>Scheme := scheme, User := user, Host := host, url_Path := CHR ''/'' # p\<rparr>)"
proof -
  let ?raw = "scheme @ ''://'' @ auth @ CHR ''/'' # p"
  let ?rest = "''//'' @ auth @ CHR ''/'' # p"
  have cut: "Cut ?raw (CHR ''#'') = (?raw, [], False)"
    using plain by (intro Cut_absent) auto
  have ctl: "list_all (\<lambda>c. 32 \<le> byte c \<and> byte c \<noteq> 127) ?raw"
    using plain by (auto simp: list_all_iff byte_def)
  have star: "?raw \<noteq> ''*''"
    using scheme by (auto simp: is_lower_def byte_def)
  have sch: "getScheme ?raw = Inr (scheme, ?rest)"
    using getScheme_found [OF scheme(2,3), of ?rest] scheme(1) by simp
  have query: "parse_query ?rest = (?rest, [])"
    using plain by (intro parse_query_absent) auto
  have "takeWhile (\<lambda>c. c \<noteq> CHR ''/'') (auth @ CHR ''/'' # p) = auth"
    and "dropWhile (\<lambda>c. c \<noteq> CHR ''/'') (auth @ CHR ''/'' # p) = CHR ''/'' # p"
    using auth(1) by (induction auth) auto
  moreover have "unescape encodePath (CHR ''/'' # p) = Inr (CHR ''/'' # p)"
    using path by (intro unescape_plain) auto
  ultimately have "parse_rest scheme ?rest [] =
      Inr (empty_URL\<lparr>Scheme := scheme, User := user, Host := host, url_Path := CHR ''/'' # p\<rparr>)"
    using auth(2) scheme(1) by (simp add: parse_rest_def empty_URL_def Let_def)
  then have "parse_noFragment ?raw =
      Inr (empty_URL\<lparr>Scheme := scheme, User := user, Host := host, url_Path := CHR ''/'' # p\<rparr>)"
    using ctl star sch query scheme(4) unfolding parse_noFragment_def by simp
  then show ?thesis
    using cut unfolding url_Parse_def by simp
qed

lemma getScheme_loop_none:
  assumes "CHR '':'' \<notin> set a" and "\<not> scheme_char c" and "c \<noteq> CHR '':''"
  shows "getScheme_loop raw d (a @ c # r) = Inr ([], raw)"
  using assms by (induction a arbitrary: d) (auto simp: scheme_char_def)

lemma getScheme_none:
  "CHR '':'' \<notin> set a \<Longrightarrow> \<not> scheme_char c \<Longrightarrow> c \<noteq> CHR '':'' \<Longrightarrow>
     getScheme (a @ c # r) = Inr ([], a @ c # r)"
  by (simp add: getScheme_def getScheme_loop_none)

lemma getScheme_no_colon: "CHR '':'' \<notin> set a \<Longrightarrow> getScheme a = Inr ([], a)"
proof -
  have "CHR '':'' \<notin> set a \<Longrightarrow> getScheme_loop raw d a = Inr ([], raw)" for raw d
    by (induction a arbitrary: d) auto
  then show "CHR '':'' \<notin> set a \<Longrightarrow> getScheme a = Inr ([], a)"
    by (simp add: getScheme_def)
qed

text \<open>Without a scheme, a colon before the first slash is refused.\<close>

lemma url_Parse_colon_segment:
  assumes "getScheme raw = Inr ([], raw)" and "raw = a @ CHR '':'' # b" and "a \<noteq> []" and "CHR ''/'' \<notin> set a"
    and "CHR ''#'' \<notin> set raw" and "CHR ''?'' \<notin> set raw"
  shows "\<exists>e. url_Parse raw = Inl e"
proof -
  have "\<not> HasPrefix raw ''/''"
    using assms(2-4) by (cases a) auto
  moreover have "CHR '':'' \<in> set (fst (Cut raw (CHR ''/'')))"
    unfolding assms(2) using assms(4) by (induction a) (auto split: prod.splits)
  ultimately have "parse_rest [] raw [] = Inl (ErrorString ''first path segment in URL cannot contain colon'')"
    by (simp add: parse_rest_def Let_def)
  moreover have "raw \<noteq> ''*''"
    using assms(2,3) by (cases a) auto
  moreover have "Cut raw (CHR ''#'') = (raw, [], False)" and "parse_query raw = (raw, [])"
    using assms(5,6) by (simp_all add: Cut_absent parse_query_absent)
  ultimately show ?thesis
    using assms(1) by (auto simp: url_Parse_def parse_noFragment_def)
qed

text \<open>A relative reference: neither scheme nor authority.\<close>

lemma url_Parse_relative:
  assumes "CHR '':'' \<notin> set raw" and "\<forall>c\<in>set raw. c \<notin> set ''#?%'' \<and> 32 \<le> byte c \<and> byte c \<noteq> 127"
    and "\<not> HasPrefix raw ''//''"
  shows "url_Parse raw = Inr (empty_URL\<lparr>url_Path := raw\<rparr>)"
proof -
  have "unescape encodePath raw = Inr raw"
    using assms(2) by (intro unescape_plain) auto
  moreover have "CHR '':'' \<notin> set (fst (Cut raw (CHR ''/'')))"
    using assms(1) by (induction raw) (auto split: prod.splits)
  ultimately have "parse_rest [] raw [] = Inr (empty_URL\<lparr>url_Path := raw\<rparr>)"
    using assms(3) by (simp add: parse_rest_def Let_def empty_URL_def)
  moreover have "Cut raw (CHR ''#'') = (raw, [], False)" and "parse_query raw = (raw, [])"
    using assms(2) by (auto intro!: Cut_absent parse_query_absent)
  moreover have "list_all (\<lambda>c. 32 \<le> byte c \<and> byte c \<noteq> 127) raw"
    using assms(2) by (simp add: list_all_iff)
  ultimately show ?thesis
    using getScheme_no_colon [OF assms(1)] by (simp add: url_Parse_def parse_noFragment_def)
qed

end
