(* ===== verification/GitSyncTypes.thy ===== *)
theory GitSyncTypes
  imports Prelude
begin

text \<open>
  The API types of \<open>pkg/apis/numaplane/v1alpha1\<close> (\<open>gitsync_types.go\<close>, \<open>shared_types.go\<close>):
  the GitSync object with its spec and status, the conditions of the status, the source type
  of a git source, and credentials read from a file. Struct embedding is record extension.
\<close>

section \<open>Sources and credentials (shared\_types.go)\<close>

datatype SourceType = SourceTypeHelm | SourceTypeKustomize | SourceTypeRaw

primrec SourceType_string :: "SourceType \<Rightarrow> string" where
  "SourceType_string SourceTypeHelm = ''Helm''"
| "SourceType_string SourceTypeKustomize = ''Kustomize''"
| "SourceType_string SourceTypeRaw = ''Raw''"

record GitLocation =
  RepoUrl :: string
  Path :: string
  TargetRevision :: string

record HelmParameter =
  hp_Name :: string
  hp_Value :: string

record HelmSource =
  ValueFiles :: "string list"
  Parameters :: "HelmParameter list"

text \<open>\<open>KustomizeSource\<close> and \<open>RawSource\<close> are empty structs: a pointer to one is \<open>unit option\<close>.\<close>

record GitSource = GitLocation +
  Kustomize :: "unit option"
  Helm :: "HelmSource option"
  Raw :: "unit option"

record SecretKeySelector =
  sks_Kind :: string
  sks_Namespace :: string
  sks_Name :: string
  sks_UID :: string
  sks_APIVersion :: string
  sks_ResourceVersion :: string
  sks_FieldPath :: string
  sks_Key :: string

record FileKeySelector =
  JSONFilePath :: "string option"
  YAMLFilePath :: "string option"
  fks_Key :: string

record SecretSource =
  FromKubernetesSecret :: "SecretKeySelector option"
  FromFile :: "FileKeySelector option"

record HTTPCredential =
  Username :: string
  Password :: SecretSource

record SSHCredential =
  SSHKey :: SecretSource

record TLS =
  InsecureSkipVerify :: bool

record RepoCredential =
  rc_URL :: string
  rc_HTTPCredential :: "HTTPCredential option"
  rc_SSHCredential :: "SSHCredential option"
  rc_TLS :: "TLS option"

record CredentialedGitSource = GitSource +
  cgs_RepoCredential :: "RepoCredential option"

record CredentialedGitLocation = GitLocation +
  cgl_RepoCredential :: "RepoCredential option"

record SingleClusterGenerator =
  scg_Values :: "string \<rightharpoonup> string"

record MultiClusterFileGenerator =
  mcg_Files :: "CredentialedGitLocation option list"

text \<open>The types \<open>ExplicitType\<close> collects, in its order, and its result.\<close>

definition appTypes :: "('a GitSource_scheme) \<Rightarrow> SourceType list" where
  "appTypes gs =
     (if Kustomize gs \<noteq> None then [SourceTypeKustomize] else []) @
     (if Helm gs \<noteq> None then [SourceTypeHelm] else []) @
     (if Raw gs \<noteq> None then [SourceTypeRaw] else [])"

definition ExplicitType :: "('a GitSource_scheme) \<Rightarrow> go_error + SourceType" where
  "ExplicitType gs =
     (case appTypes gs of
        [] \<Rightarrow> Inr SourceTypeRaw
      | [t] \<Rightarrow> Inr t
      | ts \<Rightarrow> Inl (ErrorString (''multiple sources defined: '' @ Join (map SourceType_string ts) '','')))"

text \<open>
  \<open>FileKeySelector.GetSecretValue\<close>. The file system is a parameter, and so are the two decoders
  (\<open>json.Unmarshal\<close> and \<open>yaml.Unmarshal\<close> into a \<open>map[string]interface{}\<close>). Of a value of type
  \<open>interface{}\<close> the code only asks whether it is a string. The error texts are modelled up to
  what follows their first words: the selector with its addresses (\<^verbatim>\<open>%+v\<close>), the error and the file contents.
\<close>

datatype iface = IString string | IOther

definition FileKeySelector_GetSecretValue ::
  "(string \<Rightarrow> go_error + string) \<Rightarrow> (string \<Rightarrow> go_error + (string \<rightharpoonup> iface)) \<Rightarrow>
   (string \<Rightarrow> go_error + (string \<rightharpoonup> iface)) \<Rightarrow> FileKeySelector \<Rightarrow> go_error + string" where
  "FileKeySelector_GetSecretValue readFile jsonUnmarshal yamlUnmarshal fks =
     (if JSONFilePath fks \<noteq> None \<and> YAMLFilePath fks \<noteq> None
      then Inl (ErrorString ''JSONFilePath and YAMLFilePath can't both be set for FileKeySelector'')
      else bindE
        (case JSONFilePath fks of
           Some p \<Rightarrow>
             (case readFile p of
                Inl e \<Rightarrow> Inl (ErrorString ''Error reading JSONFilePath for FileKeySelector'')
              | Inr dat \<Rightarrow>
                  (case jsonUnmarshal dat of
                     Inl e \<Rightarrow> Inl (ErrorString ''Failed to unmarshal JSONFilePath for FileKeySelector'')
                   | Inr m \<Rightarrow> Inr m))
         | None \<Rightarrow>
             (case YAMLFilePath fks of
                Some p \<Rightarrow>
                  (case readFile p of
                     Inl e \<Rightarrow> Inl (ErrorString ''Error reading YAMLFilePath for FileKeySelector'')
                   | Inr dat \<Rightarrow>
                       (case yamlUnmarshal dat of
                          Inl e \<Rightarrow> Inl (ErrorString ''Failed to unmarshal YAMLFilePath for FileKeySelector'')
                        | Inr m \<Rightarrow> Inr m))
              | None \<Rightarrow> Inl (ErrorString ''either JSONFilePath or YAMLFilePath should be set for FileKeySelector'')))
        (\<lambda>m. (case m (fks_Key fks) of
            None \<Rightarrow> Inl (ErrorString ''Failed to locate key'')
          | Some (IString v) \<Rightarrow> Inr v
          | Some IOther \<Rightarrow> Inl (ErrorString ''key in FileSeySelector can't be cast as string''))))"

section \<open>The GitSync object (gitsync\_types.go)\<close>

datatype GitSyncPhase =
    GitSyncPhaseUnset
  | GitSyncPhasePending
  | GitSyncPhaseRunning
  | GitSyncPhaseFailed
  | GitSyncPhaseNA

datatype ConditionStatus = ConditionTrue | ConditionFalse | ConditionUnknown

text \<open>\<open>metav1.Condition\<close>; times are instants, as integers.\<close>

record Condition =
  cond_Type :: string
  cond_Status :: ConditionStatus
  cond_ObservedGeneration :: int
  cond_LastTransitionTime :: int
  cond_Reason :: string
  cond_Message :: string

record CommitStatus =
  cs_Hash :: string
  cs_Synced :: bool
  cs_SyncTime :: int
  cs_Error :: string

record GitSyncStatus =
  Phase :: GitSyncPhase
  Conditions :: "Condition list"
  Message :: string
  status_CommitStatus :: "CommitStatus option"

record Destination =
  Cluster :: string
  dest_Namespace :: string

record GitSyncSpec = GitSource +
  spec_Destination :: Destination

record GitSync =
  gs_Namespace :: string
  gs_Name :: string
  gs_Finalizers :: "string list"
  gs_DeletionTimestamp :: "int option"
  gs_Spec :: GitSyncSpec
  gs_Status :: GitSyncStatus

abbreviation GitSyncConditionConfigured :: string where
  "GitSyncConditionConfigured \<equiv> ''Configured''"

definition GitSync_String :: "GitSync \<Rightarrow> string" where
  "GitSync_String g = gs_Namespace g @ ''/'' @ gs_Name g"

definition ContainsClusterDestination :: "GitSyncSpec \<Rightarrow> string \<Rightarrow> bool" where
  "ContainsClusterDestination spec cluster \<longleftrightarrow> Cluster (spec_Destination spec) = cluster"

definition GetDestinationNamespace :: "GitSyncSpec \<Rightarrow> string \<Rightarrow> string" where
  "GetDestinationNamespace spec cluster =
     (if Cluster (spec_Destination spec) = cluster then dest_Namespace (spec_Destination spec) else [])"

definition SetPhase :: "GitSyncPhase \<Rightarrow> string \<Rightarrow> GitSyncStatus \<Rightarrow> GitSyncStatus" where
  "SetPhase p msg st = st\<lparr>Phase := p, Message := msg\<rparr>"

text \<open>
  The loop of \<open>setCondition\<close>: the conditions of other types, and the condition as the loop
  leaves it; \<open>None\<close> is the early return for an identical condition. The parameter
  \<open>condition\<close> is a local copy whose \<open>LastTransitionTime\<close> the loop overwrites.
\<close>

fun setCondition_loop :: "Condition \<Rightarrow> Condition list \<Rightarrow> (Condition list \<times> Condition) option" where
  "setCondition_loop condition [] = Some ([], condition)"
| "setCondition_loop condition (c # cs) =
     (if cond_Type c \<noteq> cond_Type condition
      then map_option (\<lambda>(conditions, cond'). (c # conditions, cond')) (setCondition_loop condition cs)
      else let condition' = condition\<lparr>cond_LastTransitionTime := cond_LastTransitionTime c\<rparr>
           in if condition' = c then None else setCondition_loop condition' cs)"

text \<open>
  \<open>now\<close> is \<open>time.Now()\<close>. \<open>sort.Slice\<close> with \<open><\<close> on the types is a sort by type; on the
  lists without duplicate types the code keeps, its result is unique.
\<close>

definition setCondition :: "int \<Rightarrow> Condition \<Rightarrow> GitSyncStatus \<Rightarrow> GitSyncStatus" where
  "setCondition now condition status =
     (case setCondition_loop condition (Conditions status) of
        None \<Rightarrow> status
      | Some (conditions, cond') \<Rightarrow>
          status\<lparr>Conditions := sort_key cond_Type (conditions @ [cond'\<lparr>cond_LastTransitionTime := now\<rparr>])\<rparr>)"

text \<open>A condition literal that leaves the other fields at their zero values.\<close>

definition mk_condition :: "string \<Rightarrow> ConditionStatus \<Rightarrow> string \<Rightarrow> string \<Rightarrow> Condition" where
  "mk_condition t s reason message =
     \<lparr>cond_Type = t, cond_Status = s, cond_ObservedGeneration = 0, cond_LastTransitionTime = 0,
      cond_Reason = reason, cond_Message = message\<rparr>"

fun InitializeConditions :: "int \<Rightarrow> string list \<Rightarrow> GitSyncStatus \<Rightarrow> GitSyncStatus" where
  "InitializeConditions now [] status = status"
| "InitializeConditions now (t # ts) status =
     InitializeConditions now ts (setCondition now (mk_condition t ConditionUnknown ''Unknown'' []) status)"

definition InitConditions :: "int \<Rightarrow> GitSyncStatus \<Rightarrow> GitSyncStatus" where
  "InitConditions now status =
     SetPhase GitSyncPhasePending [] (InitializeConditions now [GitSyncConditionConfigured] status)"

definition markTypeStatus ::
  "int \<Rightarrow> string \<Rightarrow> ConditionStatus \<Rightarrow> string \<Rightarrow> string \<Rightarrow> GitSyncStatus \<Rightarrow> GitSyncStatus" where
  "markTypeStatus now t s reason message status = setCondition now (mk_condition t s reason message) status"

definition MarkConditionTrue :: "int \<Rightarrow> string \<Rightarrow> GitSyncStatus \<Rightarrow> GitSyncStatus" where
  "MarkConditionTrue now t = markTypeStatus now t ConditionTrue ''Successful'' ''Successful''"

definition MarkConditionFalse :: "int \<Rightarrow> string \<Rightarrow> string \<Rightarrow> string \<Rightarrow> GitSyncStatus \<Rightarrow> GitSyncStatus" where
  "MarkConditionFalse now t reason message = markTypeStatus now t ConditionFalse reason message"

definition MarkConditionUnknown :: "int \<Rightarrow> string \<Rightarrow> string \<Rightarrow> string \<Rightarrow> GitSyncStatus \<Rightarrow> GitSyncStatus" where
  "MarkConditionUnknown now t reason message = markTypeStatus now t ConditionUnknown reason message"

definition MarkRunning :: "int \<Rightarrow> GitSyncStatus \<Rightarrow> GitSyncStatus" where
  "MarkRunning now status =
     SetPhase GitSyncPhaseRunning [] (MarkConditionTrue now GitSyncConditionConfigured status)"

definition MarkFailed :: "int \<Rightarrow> string \<Rightarrow> string \<Rightarrow> GitSyncStatus \<Rightarrow> GitSyncStatus" where
  "MarkFailed now reason message status =
     SetPhase GitSyncPhaseFailed message
       (MarkConditionFalse now GitSyncConditionConfigured reason message status)"

definition MarkNotApplicable :: "int \<Rightarrow> string \<Rightarrow> string \<Rightarrow> GitSyncStatus \<Rightarrow> GitSyncStatus" where
  "MarkNotApplicable now reason message status =
     SetPhase GitSyncPhaseNA message
       (MarkConditionFalse now GitSyncConditionConfigured reason message status)"

section \<open>Lemmas on sources\<close>

lemma appTypes_distinct: "distinct (appTypes gs)"
  by (simp add: appTypes_def)

lemma set_appTypes:
  "SourceTypeKustomize \<in> set (appTypes gs) \<longleftrightarrow> Kustomize gs \<noteq> None"
  "SourceTypeHelm \<in> set (appTypes gs) \<longleftrightarrow> Helm gs \<noteq> None"
  "SourceTypeRaw \<in> set (appTypes gs) \<longleftrightarrow> Raw gs \<noteq> None"
  by (auto simp: appTypes_def)

text \<open>
  The source type. \<open>ExplicitType\<close> succeeds exactly when at most one of the sections
  \<open>kustomize\<close>, \<open>helm\<close> and \<open>raw\<close> is present; the result then names the section that is present,
  and is Raw when none is.
\<close>

theorem ExplicitType_spec:
  "ExplicitType gs = Inr t \<longleftrightarrow>
     (Kustomize gs \<noteq> None \<longleftrightarrow> t = SourceTypeKustomize) \<and>
     (Helm gs \<noteq> None \<longleftrightarrow> t = SourceTypeHelm) \<and>
     (Raw gs = None \<or> t = SourceTypeRaw)"
  by (cases t; cases "Raw gs"; cases "Helm gs"; cases "Kustomize gs") (simp_all add: ExplicitType_def appTypes_def)

text \<open>
  Credentials from a file. The selector yields a value exactly when one of its two paths is
  set and not the other, the file is read and decoded by the decoder of that path, and the key
  is present with a string value; every other case is an error.
\<close>

theorem FileKeySelector_value:
  "FileKeySelector_GetSecretValue readFile jsonU yamlU fks = Inr v \<longleftrightarrow>
     (\<exists>p dat m. m (fks_Key fks) = Some (IString v) \<and> readFile p = Inr dat \<and>
        (JSONFilePath fks = Some p \<and> YAMLFilePath fks = None \<and> jsonU dat = Inr m \<or>
         JSONFilePath fks = None \<and> YAMLFilePath fks = Some p \<and> yamlU dat = Inr m))"
  by (cases "JSONFilePath fks"; cases "YAMLFilePath fks")
     (auto simp: FileKeySelector_GetSecretValue_def split: option.splits sum.splits iface.splits)

section \<open>Lemmas on conditions\<close>

definition condition_of :: "string \<Rightarrow> Condition list \<Rightarrow> Condition option" where
  "condition_of t cs = find (\<lambda>c. cond_Type c = t) cs"

definition conditions_wf :: "Condition list \<Rightarrow> bool" where
  "conditions_wf cs \<longleftrightarrow> distinct (map cond_Type cs) \<and> sorted (map cond_Type cs)"

text \<open>\<open>c\<close> says what \<open>c'\<close> says, the transition time apart.\<close>

definition same_condition :: "Condition \<Rightarrow> Condition \<Rightarrow> bool" where
  "same_condition c c' \<longleftrightarrow> c\<lparr>cond_LastTransitionTime := 0\<rparr> = c'\<lparr>cond_LastTransitionTime := 0\<rparr>"

lemma same_conditionD:
  "same_condition c c' \<Longrightarrow>
     cond_Type c' = cond_Type c \<and> cond_Status c' = cond_Status c \<and> cond_Message c' = cond_Message c"
  by (cases c; cases c') (auto simp: same_condition_def)

lemma same_condition_iff:
  "same_condition c c' \<longleftrightarrow> c\<lparr>cond_LastTransitionTime := cond_LastTransitionTime c'\<rparr> = c'"
  by (cases c; cases c') (auto simp: same_condition_def)

lemma setCondition_loop_absent:
  "cond_Type condition \<notin> cond_Type ` set cs \<Longrightarrow> setCondition_loop condition cs = Some (cs, condition)"
  by (induction cs) auto

lemma condition_of_None: "condition_of t cs = None \<longleftrightarrow> t \<notin> cond_Type ` set cs"
  by (auto simp: condition_of_def find_None_iff)

lemma condition_of_Some:
  "distinct (map cond_Type cs) \<Longrightarrow>
     condition_of t cs = Some c \<longleftrightarrow> c \<in> set cs \<and> cond_Type c = t"
  by (induction cs) (auto simp: condition_of_def)

lemma setCondition_loop_distinct:
  assumes "distinct (map cond_Type cs)"
  shows "setCondition_loop condition cs =
    (case condition_of (cond_Type condition) cs of
       None \<Rightarrow> Some (cs, condition)
     | Some c \<Rightarrow> if same_condition condition c then None
                else Some (filter (\<lambda>x. cond_Type x \<noteq> cond_Type condition) cs,
                           condition\<lparr>cond_LastTransitionTime := cond_LastTransitionTime c\<rparr>))"
  using assms
proof (induction cs)
  case Nil
  then show ?case by (simp add: condition_of_def)
next
  case (Cons c cs)
  show ?case
  proof (cases "cond_Type c = cond_Type condition")
    case True
    then have absent: "cond_Type condition \<notin> cond_Type ` set cs"
      using Cons.prems by auto
    then have "filter (\<lambda>x. cond_Type x \<noteq> cond_Type condition) cs = cs"
      by (intro filter_True) (metis imageI)
    moreover have "setCondition_loop (condition\<lparr>cond_LastTransitionTime := cond_LastTransitionTime c\<rparr>) cs =
        Some (cs, condition\<lparr>cond_LastTransitionTime := cond_LastTransitionTime c\<rparr>)"
      using absent by (intro setCondition_loop_absent) simp
    moreover have "condition_of (cond_Type condition) (c # cs) = Some c"
      using True by (simp add: condition_of_def)
    ultimately show ?thesis
      using True by (simp only: setCondition_loop.simps Let_def same_condition_iff option.case filter.simps
          not_not if_True if_False simp_thms)
  next
    case False
    with Cons show ?thesis
      by (auto simp: condition_of_def split: option.splits)
  qed
qed

lemma distinct_map_sort_key: "distinct (map f (sort_key g xs)) \<longleftrightarrow> distinct (map f xs)"
  by (simp add: distinct_map)

lemma condition_of_sort_key:
  assumes "distinct (map cond_Type cs)"
  shows "condition_of t (sort_key cond_Type cs) = condition_of t cs"
proof -
  have "condition_of t (sort_key cond_Type cs) = Some c \<longleftrightarrow> condition_of t cs = Some c" for c
    using assms by (simp add: condition_of_Some distinct_map_sort_key)
  then show ?thesis by (metis option.exhaust)
qed

text \<open>The conditions after \<open>setCondition\<close>, when a new condition is written.\<close>

lemma setCondition_written:
  fixes cond cs
  defines "new \<equiv> filter (\<lambda>x. cond_Type x \<noteq> cond_Type cond) cs @ [cond]"
  assumes "distinct (map cond_Type cs)"
  shows "conditions_wf (sort_key cond_Type new)"
    and "condition_of t (sort_key cond_Type new) =
      (if t = cond_Type cond then Some cond else condition_of t cs)"
proof -
  have d: "distinct (map cond_Type new)"
    using assms by (auto simp: new_def distinct_map_filter)
  then show "conditions_wf (sort_key cond_Type new)"
    by (simp add: conditions_wf_def distinct_map_sort_key)
  have "condition_of t new = (if t = cond_Type cond then Some cond else condition_of t cs)"
    unfolding new_def by (induction cs) (auto simp: condition_of_def)
  then show "condition_of t (sort_key cond_Type new) =
      (if t = cond_Type cond then Some cond else condition_of t cs)"
    by (simp add: condition_of_sort_key [OF d])
qed

lemma filter_absent_type:
  "condition_of t cs = None \<Longrightarrow> filter (\<lambda>x. cond_Type x \<noteq> t) cs = cs"
  by (intro filter_True) (auto simp: condition_of_def find_None_iff)

lemma setCondition_cases:
  assumes "distinct (map cond_Type (Conditions st))"
  obtains (same) c where "condition_of (cond_Type condition) (Conditions st) = Some c"
      "same_condition condition c" "setCondition now condition st = st"
  | (written) "\<forall>c. condition_of (cond_Type condition) (Conditions st) = Some c \<longrightarrow> \<not> same_condition condition c"
      "setCondition now condition st = st\<lparr>Conditions := sort_key cond_Type
         (filter (\<lambda>x. cond_Type x \<noteq> cond_Type (condition\<lparr>cond_LastTransitionTime := now\<rparr>)) (Conditions st)
          @ [condition\<lparr>cond_LastTransitionTime := now\<rparr>])\<rparr>"
proof (cases "condition_of (cond_Type condition) (Conditions st)")
  case None
  then show thesis
    using assms by (intro written)
      (auto simp: setCondition_def setCondition_loop_distinct filter_absent_type)
next
  case (Some c)
  then show thesis
    using assms same written
    by (cases "same_condition condition c") (auto simp: setCondition_def setCondition_loop_distinct)
qed

lemma setCondition_frame:
  "Phase (setCondition now c st) = Phase st" "Message (setCondition now c st) = Message st"
  "status_CommitStatus (setCondition now c st) = status_CommitStatus st"
  by (auto simp: setCondition_def split: option.splits)

lemma setCondition_wf:
  assumes "conditions_wf (Conditions st)"
  shows "conditions_wf (Conditions (setCondition now c st))"
proof -
  have "distinct (map cond_Type (Conditions st))"
    using assms by (simp add: conditions_wf_def)
  then show ?thesis
  proof (cases rule: setCondition_cases [of st c now])
    case same
    with assms show ?thesis by simp
  next
    case written
    with setCondition_written(1) [OF \<open>distinct (map cond_Type (Conditions st))\<close>,
        of "c\<lparr>cond_LastTransitionTime := now\<rparr>"]
    show ?thesis by simp
  qed
qed

text \<open>
  C24. \<open>setCondition\<close> is an update of the list seen as a map from types to conditions. On a list
  sorted by type without duplicates it keeps the list so, leaves every other type alone, and
  gives its type the new condition: with the old transition time if the old condition says
  the same, with the current time otherwise.
\<close>

theorem setCondition_updates:
  assumes "conditions_wf (Conditions st)"
  shows "conditions_wf (Conditions (setCondition now c st)) \<and>
    condition_of t (Conditions (setCondition now c st)) =
      (if t \<noteq> cond_Type c then condition_of t (Conditions st)
       else (case condition_of t (Conditions st) of
               Some old \<Rightarrow> if same_condition c old then Some old
                          else Some (c\<lparr>cond_LastTransitionTime := now\<rparr>)
             | None \<Rightarrow> Some (c\<lparr>cond_LastTransitionTime := now\<rparr>)))"
proof -
  have d: "distinct (map cond_Type (Conditions st))"
    using assms by (simp add: conditions_wf_def)
  from d show ?thesis
  proof (cases rule: setCondition_cases [of st c now])
    case (same old)
    with assms show ?thesis by simp
  next
    case written
    with setCondition_wf [OF assms, of now c]
      setCondition_written(2) [OF d, of t "c\<lparr>cond_LastTransitionTime := now\<rparr>"]
    show ?thesis by (auto split: option.splits)
  qed
qed

theorem setCondition_updates_witness:
  "let st = \<lparr>Phase = GitSyncPhaseRunning, Conditions =
        [mk_condition ''Configured'' ConditionTrue ''Successful'' ''Successful''], Message = [],
        status_CommitStatus = None\<rparr>;
       c = mk_condition ''Available'' ConditionFalse ''Busy'' []
   in condition_of ''Available'' (Conditions (setCondition 7 c st)) = Some (c\<lparr>cond_LastTransitionTime := 7\<rparr>)"
  using setCondition_updates [of "\<lparr>Phase = GitSyncPhaseRunning, Conditions =
        [mk_condition ''Configured'' ConditionTrue ''Successful'' ''Successful''], Message = [],
        status_CommitStatus = None\<rparr>" 7 "mk_condition ''Available'' ConditionFalse ''Busy'' []" "''Available''"]
  by (simp add: conditions_wf_def mk_condition_def condition_of_def)

section \<open>Phase and condition agree\<close>

text \<open>The transitions of a status, each with its time.\<close>

datatype status_op =
    OpInit | OpRunning | OpFailed string string | OpNotApplicable string string

fun apply_status_op :: "int \<times> status_op \<Rightarrow> GitSyncStatus \<Rightarrow> GitSyncStatus" where
  "apply_status_op (now, OpInit) st = InitConditions now st"
| "apply_status_op (now, OpRunning) st = MarkRunning now st"
| "apply_status_op (now, OpFailed r m) st = MarkFailed now r m st"
| "apply_status_op (now, OpNotApplicable r m) st = MarkNotApplicable now r m st"

definition empty_status :: GitSyncStatus where
  "empty_status = \<lparr>Phase = GitSyncPhaseUnset, Conditions = [], Message = [], status_CommitStatus = None\<rparr>"

primrec phase_condition :: "GitSyncPhase \<Rightarrow> ConditionStatus option" where
  "phase_condition GitSyncPhaseUnset = None"
| "phase_condition GitSyncPhasePending = Some ConditionUnknown"
| "phase_condition GitSyncPhaseRunning = Some ConditionTrue"
| "phase_condition GitSyncPhaseFailed = Some ConditionFalse"
| "phase_condition GitSyncPhaseNA = Some ConditionFalse"

lemma setCondition_single:
  assumes "Conditions st = [] \<or> (\<exists>c. Conditions st = [c] \<and> cond_Type c = cond_Type new)"
  shows "\<exists>c. Conditions (setCondition now new st) = [c] \<and> same_condition new c"
  using assms
  by (auto simp: setCondition_def same_condition_iff same_condition_def Let_def)

definition status_agrees :: "GitSyncStatus \<Rightarrow> bool" where
  "status_agrees st \<longleftrightarrow>
     (\<exists>c. Conditions st = [c] \<and> cond_Type c = GitSyncConditionConfigured \<and>
        Some (cond_Status c) = phase_condition (Phase st) \<and>
        (cond_Status c = ConditionFalse \<longrightarrow> cond_Message c = Message st) \<and>
        (cond_Status c \<noteq> ConditionFalse \<longrightarrow> Message st = []))"

lemma status_agrees_mark:
  assumes "Conditions st = [] \<or> status_agrees st"
  shows "\<exists>c. Conditions (setCondition now (mk_condition GitSyncConditionConfigured s r m) st) = [c] \<and>
    cond_Type c = GitSyncConditionConfigured \<and> cond_Status c = s \<and> cond_Message c = m"
proof -
  have "\<exists>c. Conditions (setCondition now (mk_condition GitSyncConditionConfigured s r m) st) = [c] \<and>
      same_condition (mk_condition GitSyncConditionConfigured s r m) c"
    using assms by (intro setCondition_single) (auto simp: status_agrees_def mk_condition_def)
  then show ?thesis
    by (fastforce dest: same_conditionD simp: mk_condition_def)
qed

lemma apply_status_op_agrees:
  assumes "Conditions st = [] \<or> status_agrees st"
  shows "status_agrees (apply_status_op op st)"
proof -
  obtain now o' where op: "op = (now, o')" by fastforce
  have *: "status_agrees (SetPhase p msg (setCondition now (mk_condition GitSyncConditionConfigured s r m) st))"
    if "phase_condition p = Some s" and "msg = (if s = ConditionFalse then m else [])" for p msg s r m
    using status_agrees_mark [OF assms, of now s r m] that
    by (auto simp: status_agrees_def SetPhase_def)
  show ?thesis
    by (cases o')
      (simp_all add: * op InitConditions_def MarkRunning_def MarkFailed_def MarkNotApplicable_def
        MarkConditionTrue_def MarkConditionFalse_def markTypeStatus_def)
qed

text \<open>
  Phase and condition agree. After any non-empty sequence of \<open>InitConditions\<close>,
  \<open>MarkRunning\<close>, \<open>MarkFailed\<close> and \<open>MarkNotApplicable\<close> on an empty status there is one
  condition, of type Configured; its status is Unknown, True or False as the phase is Pending,
  Running or one of Failed and NotApplicable; and the message of the status is that of a False
  condition and empty otherwise.
\<close>

theorem status_phase_agrees:
  "status_agrees (apply_status_op op (fold apply_status_op ops empty_status))"
proof -
  have "Conditions st = [] \<or> status_agrees st \<Longrightarrow>
      Conditions (fold apply_status_op ops st) = [] \<or> status_agrees (fold apply_status_op ops st)" for st
    by (induction ops arbitrary: st) (auto simp: apply_status_op_agrees)
  then have "Conditions (fold apply_status_op ops empty_status) = [] \<or>
      status_agrees (fold apply_status_op ops empty_status)"
    by (simp add: empty_status_def)
  then show ?thesis
    by (rule apply_status_op_agrees)
qed

end
