(* ===== verification/GitUrl.thy ===== *)
theory GitUrl
  imports GoUrl GitSyncTypes
begin

text \<open>
  Repository URLs (\<open>internal/util/git/git_url_parser.go\<close>) and the credential look-up that rests
  on them (\<open>NormalizeGitUrl\<close> and \<open>FindCredByUrl\<close> of \<open>internal/util/git/git.go\<close>).
\<close>

section \<open>Transports\<close>

type_synonym TransportSet = "string \<rightharpoonup> unit"

definition NewTransportSet :: "string list \<Rightarrow> TransportSet" where
  "NewTransportSet items = fold (\<lambda>item t. t(item \<mapsto> ())) items Map.empty"

definition Valid :: "TransportSet \<Rightarrow> string \<Rightarrow> bool" where
  "Valid t transport \<longleftrightarrow> t transport \<noteq> None"

definition Transports :: TransportSet where
  "Transports = NewTransportSet
     [''ssh'', ''git'', ''git+ssh'', ''http'', ''https'', ''ftp'', ''ftps'', ''rsync'', ''file'']"

definition CheckGitURL :: "string \<Rightarrow> bool" where
  "CheckGitURL gitURL =
     (case url_Parse gitURL of Inr u \<Rightarrow> Valid Transports (Scheme u) | Inl e \<Rightarrow> True)"

section \<open>The three parsers\<close>

definition ParseTransport :: "string \<Rightarrow> go_error + URL" where
  "ParseTransport rawurl =
     bindE (url_Parse rawurl) (\<lambda>u.
       if Valid Transports (Scheme u) then Inr u
       else Inl (ErrorString (''scheme '' @ Quote (Scheme u) @ '' is not a valid transport'')))"

text \<open>
  The regular expression \<open>scpSyntax\<close>, as its only match: the classes of the user, the host and
  the path; the user part is taken when the longest run of user characters is followed by
  \<open>@\<close>, the host is the longest run before \<open>:\<close>, the path the longest run after it, then
  perhaps \<open>?\<close>, then anything but a newline. The separators belong to none of the classes
  before them, so no other way to match is left to try when one of these steps fails.
\<close>

definition scp_user_char :: "char \<Rightarrow> bool" where
  "scp_user_char c \<longleftrightarrow> is_alnum c \<or> c \<in> set ''-._~''"

definition scp_host_char :: "char \<Rightarrow> bool" where
  "scp_host_char c \<longleftrightarrow> is_alnum c \<or> c \<in> set ''._-''"

definition scp_path_char :: "char \<Rightarrow> bool" where
  "scp_path_char c \<longleftrightarrow> is_alnum c \<or> c \<in> set ''./_-''"

definition scp_user :: "string \<Rightarrow> string \<times> string" where
  "scp_user raw =
     (let u = takeWhile scp_user_char raw; r = dropWhile scp_user_char raw
      in if u \<noteq> [] \<and> r \<noteq> [] \<and> hd r = CHR ''@'' then (u @ ''@'', tl r) else ([], raw))"

definition scpSyntax :: "string \<Rightarrow> (string \<times> string \<times> string \<times> string) option" where
  "scpSyntax raw =
     (case scp_user raw of (m1, rest) \<Rightarrow>
      (let m2 = takeWhile scp_host_char rest in
       (case dropWhile scp_host_char rest of
          [] \<Rightarrow> None
        | c # r \<Rightarrow>
            let m3 = takeWhile scp_path_char r; r' = dropWhile scp_path_char r;
                m4 = (if HasPrefix r' ''?'' then tl r' else r')
            in if m2 \<noteq> [] \<and> c = CHR '':'' \<and> m3 \<noteq> [] \<and> CHR 0x0A \<notin> set m4
               then Some (m1, m2, m3, m4) else None)))"

definition ParseScp :: "string \<Rightarrow> go_error + URL" where
  "ParseScp rawurl =
     (case scpSyntax rawurl of
        None \<Rightarrow> Inl (ErrorString (''no scp URL found in '' @ Quote rawurl))
      | Some (m1, m2, m3, m4) \<Rightarrow>
          let user = TrimRight m1 (CHR ''@'')
          in Inr (empty_URL\<lparr>Scheme := ''ssh'', User := (if user \<noteq> [] then Some (user, None) else None),
               Host := m2, url_Path := m3, RawQuery := m4\<rparr>))"

definition ParseLocal :: "string \<Rightarrow> go_error + URL" where
  "ParseLocal rawurl = Inr (empty_URL\<lparr>Scheme := ''file'', url_Path := rawurl\<rparr>)"

fun try_parsers :: "(string \<Rightarrow> go_error + URL) list \<Rightarrow> string \<Rightarrow> go_error + URL" where
  "try_parsers [] rawurl = Inl (ErrorString (''failed to parse '' @ Quote rawurl))"
| "try_parsers (p # ps) rawurl = (case p rawurl of Inr u \<Rightarrow> Inr u | Inl e \<Rightarrow> try_parsers ps rawurl)"

definition Parse :: "string \<Rightarrow> go_error + URL" where
  "Parse rawurl = try_parsers [ParseTransport, ParseScp, ParseLocal] rawurl"

definition GetURLScheme :: "string \<Rightarrow> go_error + string" where
  "GetURLScheme rawUrl = bindE (Parse rawUrl) (\<lambda>parsedUrl. Inr (Scheme parsedUrl))"

section \<open>Normal forms and credentials\<close>

definition NormalizeGitUrl :: "string \<Rightarrow> string" where
  "NormalizeGitUrl gitUrl =
     (case Parse gitUrl of
        Inl e \<Rightarrow> gitUrl
      | Inr parsedUrl \<Rightarrow>
          Trim (Host parsedUrl @ ''/'' @ Trim (url_Path parsedUrl) (CHR ''/'')) (CHR ''/''))"

text \<open>The loop of \<open>FindCredByUrl\<close> over \<open>config.RepoCredentials\<close>.\<close>

fun FindCredByUrl :: "string \<Rightarrow> RepoCredential list \<Rightarrow> RepoCredential option" where
  "FindCredByUrl url [] = None"
| "FindCredByUrl url (cred # creds) =
     (if HasPrefix (NormalizeGitUrl url) (NormalizeGitUrl (rc_URL cred)) then Some cred
      else FindCredByUrl url creds)"

section \<open>Lemmas\<close>

lemma Valid_Transports:
  "Valid Transports s \<longleftrightarrow>
     s \<in> {''ssh'', ''git'', ''git+ssh'', ''http'', ''https'', ''ftp'', ''ftps'', ''rsync'', ''file''}"
  by (auto simp: Valid_def Transports_def NewTransportSet_def)

lemma Parse_cases:
  "Parse raw = (case ParseTransport raw of
     Inr u \<Rightarrow> Inr u
   | Inl e \<Rightarrow> (case ParseScp raw of Inr u \<Rightarrow> Inr u | Inl e \<Rightarrow> ParseLocal raw))"
  by (simp add: Parse_def ParseLocal_def split: sum.splits)

lemma Parse_total: "\<exists>u. Parse raw = Inr u"
  by (auto simp: Parse_cases ParseLocal_def split: sum.splits)

definition url_char :: "char \<Rightarrow> bool" where
  "url_char x \<longleftrightarrow> 32 \<le> byte x \<and> byte x \<noteq> 127 \<and> x \<noteq> CHR ''#'' \<and> x \<noteq> CHR ''?''"

definition scheme_name :: "string \<Rightarrow> bool" where
  "scheme_name s \<longleftrightarrow> s \<noteq> [] \<and> is_lower (hd s) \<and> list_all scheme_char (tl s) \<and> map to_lower s = s \<and> list_all url_char s"

lemma transport_scheme: "Valid Transports s \<Longrightarrow> scheme_name s"
  unfolding Valid_Transports
  by (elim insertE emptyE; hypsubst)
    (simp_all add: scheme_name_def is_lower_def is_upper_def is_digit_def scheme_char_def byte_def to_lower_def url_char_def)

text \<open>The classes of characters, and what they exclude.\<close>

lemma punctuation_excluded: "c \<in> set ''._-~/'' \<Longrightarrow> c \<notin> set '':@#?%[]'' \<and> 32 \<le> byte c \<and> byte c \<noteq> 127"
  by (auto simp: byte_def)

lemma scp_host_char_excludes:
  assumes "scp_host_char c"
  shows "c \<notin> set ''/:@#?%[]''" and "\<not> shouldEscape_host c" and "32 \<le> byte c \<and> byte c \<noteq> 127"
proof -
  have c: "is_alnum c \<or> c \<in> set ''._-''"
    using assms by (simp add: scp_host_char_def)
  show "c \<notin> set ''/:@#?%[]''"
    using c alnum_not_punctuation [of c] by (elim disjE) auto
  show "\<not> shouldEscape_host c"
    using c by (auto simp: shouldEscape_host_def)
  show "32 \<le> byte c \<and> byte c \<noteq> 127"
    using c alnum_bounds [of c] punctuation_excluded [of c] by (elim disjE) auto
qed

lemma scp_user_char_excludes:
  assumes "scp_user_char c"
  shows "c \<notin> set ''/:@#?%[]''" and "32 \<le> byte c \<and> byte c \<noteq> 127"
proof -
  have c: "is_alnum c \<or> c \<in> set ''-._~''"
    using assms by (simp add: scp_user_char_def)
  show "c \<notin> set ''/:@#?%[]''"
    using c alnum_not_punctuation [of c] by (elim disjE) auto
  show "32 \<le> byte c \<and> byte c \<noteq> 127"
    using c alnum_bounds [of c] punctuation_excluded [of c] by (elim disjE) auto
qed

lemma scp_path_char_excludes:
  assumes "scp_path_char c"
  shows "c \<notin> set '':@#?%[]''" and "32 \<le> byte c \<and> byte c \<noteq> 127"
proof -
  have c: "is_alnum c \<or> c \<in> set ''./_-''"
    using assms by (simp add: scp_path_char_def)
  show "c \<notin> set '':@#?%[]''"
    using c alnum_not_punctuation [of c] by (elim disjE) auto
  show "32 \<le> byte c \<and> byte c \<noteq> 127"
    using c alnum_bounds [of c] punctuation_excluded [of c] by (elim disjE) auto
qed

definition plain_user :: "string \<Rightarrow> bool" where
  "plain_user u \<longleftrightarrow> u \<noteq> [] \<and> list_all scp_user_char u"

definition plain_host :: "string \<Rightarrow> bool" where
  "plain_host h \<longleftrightarrow> h \<noteq> [] \<and> list_all scp_host_char h"

definition plain_path :: "string \<Rightarrow> bool" where
  "plain_path p \<longleftrightarrow> p \<noteq> [] \<and> list_all scp_path_char p"

lemma plain_not_in:
  "plain_user u \<Longrightarrow> x \<in> set ''/:@#?%[]'' \<Longrightarrow> x \<notin> set u"
  "plain_host h \<Longrightarrow> x \<in> set ''/:@#?%[]'' \<Longrightarrow> x \<notin> set h"
  "plain_path p \<Longrightarrow> x \<in> set '':@#?%[]'' \<Longrightarrow> x \<notin> set p"
  unfolding plain_user_def plain_host_def plain_path_def list_all_iff
  by (metis scp_user_char_excludes(1)) (metis scp_host_char_excludes(1), metis scp_path_char_excludes(1))

lemma plain_url_char:
  "plain_user u \<Longrightarrow> x \<in> set u \<Longrightarrow> url_char x"
  "plain_host h \<Longrightarrow> x \<in> set h \<Longrightarrow> url_char x"
  "plain_path p \<Longrightarrow> x \<in> set p \<Longrightarrow> url_char x"
  using scp_user_char_excludes [of x] scp_host_char_excludes [of x] scp_path_char_excludes [of x]
  by (simp_all add: url_char_def plain_user_def plain_host_def plain_path_def list_all_iff)

lemma plain_host_escape: "plain_host h \<Longrightarrow> x \<in> set h \<Longrightarrow> \<not> shouldEscape_host x"
  using scp_host_char_excludes(2) by (simp add: plain_host_def list_all_iff)

lemma parseHost_plain_host: "plain_host h \<Longrightarrow> parseHost h = Inr h"
  using plain_host_escape [of h] by (intro parseHost_plain) (simp_all add: plain_not_in(2))

lemma validUserinfo_plain: "plain_user u \<Longrightarrow> validUserinfo u"
  unfolding plain_user_def validUserinfo_def
  by (elim conjE, erule list.pred_mono_strong) (auto simp: scp_user_char_def)

lemma url_Parse_plain:
  assumes "Valid Transports s" and "CHR ''/'' \<notin> set auth" and "parseAuthority auth = Inr (user, h)"
    and "\<forall>x\<in>set auth. url_char x"
    and "plain_path p"
  shows "url_Parse (s @ ''://'' @ auth @ ''/'' @ p) =
    Inr (empty_URL\<lparr>Scheme := s, User := user, Host := h, url_Path := CHR ''/'' # p\<rparr>)"
proof -
  obtain c cs where s: "s = c # cs" "is_lower c" "list_all scheme_char cs" "map to_lower s = s"
    and x: "list_all url_char s"
    using transport_scheme [OF assms(1)] by (cases s) (auto simp: scheme_name_def)
  have "\<forall>x\<in>set (s @ auth @ p). url_char x"
    using x assms(4) plain_url_char(3) [OF assms(5)] by (auto simp: list_all_iff)
  then have "\<forall>x\<in>set (s @ auth @ p). 32 \<le> byte x \<and> byte x \<noteq> 127 \<and> x \<noteq> CHR ''#'' \<and> x \<noteq> CHR ''?''"
    by (simp only: url_char_def)
  moreover have "CHR ''%'' \<notin> set p"
    using plain_not_in(3) [OF assms(5)] by simp
  ultimately show ?thesis
    using url_Parse_authority [OF s assms(2,3), of p] by simp
qed

lemma Parse_of_url:
  "url_Parse raw = Inr u \<Longrightarrow> Valid Transports (Scheme u) \<Longrightarrow> Parse raw = Inr u"
  by (simp add: Parse_cases ParseTransport_def)

lemma url_Parse_transport:
  assumes "Valid Transports s" and "plain_host h" and "plain_path p"
  shows "url_Parse (s @ ''://'' @ h @ ''/'' @ p) =
    Inr (empty_URL\<lparr>Scheme := s, Host := h, url_Path := CHR ''/'' # p\<rparr>)"
proof -
  have "parseAuthority h = Inr (None, h)"
    using assms(2) by (simp add: parseAuthority_host parseHost_plain_host plain_not_in(2))
  from url_Parse_plain [OF assms(1) _ this _ assms(3)] show ?thesis
    using plain_url_char(2) [OF assms(2)] plain_not_in(2) [OF assms(2)] by (simp add: empty_URL_def)
qed

lemma url_Parse_transport_user:
  assumes "Valid Transports s" and "plain_user u" and "plain_host h" and "plain_path p"
  shows "url_Parse (s @ ''://'' @ u @ ''@'' @ h @ ''/'' @ p) =
    Inr (empty_URL\<lparr>Scheme := s, User := Some (u, None), Host := h, url_Path := CHR ''/'' # p\<rparr>)"
proof -
  have "parseAuthority (u @ CHR ''@'' # h) = Inr (Some (u, None), h)"
    using assms(2,3)
    by (simp add: parseAuthority_user parseHost_plain_host validUserinfo_plain plain_not_in)
  moreover have "url_char (CHR ''@'')"
    by (simp add: url_char_def byte_def)
  then have "\<forall>x\<in>set (u @ CHR ''@'' # h). url_char x"
    using plain_url_char(1) [OF assms(2)] plain_url_char(2) [OF assms(3)] by auto
  moreover have "CHR ''/'' \<notin> set (u @ CHR ''@'' # h)"
    using plain_not_in(1) [OF assms(2)] plain_not_in(2) [OF assms(3)] by simp
  ultimately show ?thesis
    using url_Parse_plain [OF assms(1) _ _ _ assms(4), of "u @ CHR ''@'' # h" "Some (u, None)" h]
    by simp
qed

lemmas Parse_transport = Parse_of_url [OF url_Parse_transport]
lemmas Parse_transport_user = Parse_of_url [OF url_Parse_transport_user]

lemma takeWhile_plain:
  "list_all P a \<Longrightarrow> \<not> P c \<Longrightarrow> takeWhile P (a @ c # r) = a \<and> dropWhile P (a @ c # r) = c # r"
  by (induction a) auto

lemma dropWhile_absent: "c \<notin> set s \<Longrightarrow> dropWhile (\<lambda>x. x = c) s = s"
  by (cases s) auto

lemma ParseScp_plain:
  assumes "plain_user u" and "plain_host h" and "plain_path p"
  shows "ParseScp (u @ ''@'' @ h @ '':'' @ p) =
    Inr (empty_URL\<lparr>Scheme := ''ssh'', User := Some (u, None), Host := h, url_Path := p\<rparr>)"
proof -
  have c: "\<not> scp_user_char (CHR ''@'')" "\<not> scp_host_char (CHR '':'')"
    by (auto simp: scp_user_char_def scp_host_char_def is_upper_def is_lower_def is_digit_def byte_def)
  have user: "scp_user (u @ ''@'' @ h @ '':'' @ p) = (u @ ''@'', h @ '':'' @ p)"
    using assms(1) takeWhile_plain [of scp_user_char u "CHR ''@''" "h @ '':'' @ p"] c
    by (simp add: scp_user_def plain_user_def)
  have host: "takeWhile scp_host_char (h @ '':'' @ p) = h" "dropWhile scp_host_char (h @ '':'' @ p) = CHR '':'' # p"
    using assms(2) takeWhile_plain [of scp_host_char h "CHR '':''" p] c by (simp_all add: plain_host_def)
  have path: "takeWhile scp_path_char p = p" "dropWhile scp_path_char p = []"
    using assms(3) by (simp_all add: plain_path_def list_all_iff)
  have "scpSyntax (u @ ''@'' @ h @ '':'' @ p) = Some (u @ ''@'', h, p, [])"
    unfolding scpSyntax_def user prod.case Let_def host list.case path
    using assms(2,3) by (simp add: HasPrefix_def plain_host_def plain_path_def)
  moreover have "TrimRight (u @ ''@'') (CHR ''@'') = u"
  proof -
    have "CHR ''@'' \<notin> set u"
      by (rule plain_not_in(1) [OF assms(1)]) simp
    then have "dropWhile (\<lambda>x. x = CHR ''@'') (rev u) = rev u"
      by (simp add: dropWhile_absent)
    then show ?thesis by (simp add: TrimRight_def)
  qed
  ultimately show ?thesis
    using assms(1) by (simp add: ParseScp_def plain_user_def Let_def empty_URL_def)
qed

lemma url_Parse_scp_form:
  assumes "plain_user u" and "plain_host h" and "plain_path p"
  shows "\<exists>e. url_Parse (u @ ''@'' @ h @ '':'' @ p) = Inl e"
proof -
  let ?raw = "u @ ''@'' @ h @ '':'' @ p"
  have "\<not> scheme_char (CHR ''@'')"
    by (auto simp: scheme_char_def is_upper_def is_lower_def is_digit_def byte_def)
  then have "getScheme ?raw = Inr ([], ?raw)"
    using getScheme_none [of u "CHR ''@''" "h @ '':'' @ p"] plain_not_in(1) [OF assms(1)] by simp
  moreover have "?raw = (u @ ''@'' @ h) @ CHR '':'' # p" by simp
  ultimately show ?thesis
    using plain_not_in(1) [OF assms(1)] plain_not_in(2) [OF assms(2)] plain_not_in(3) [OF assms(3)] assms(1)
    by (intro url_Parse_colon_segment [where a = "u @ ''@'' @ h" and b = p]) (simp_all add: plain_user_def)
qed

lemma Parse_scp:
  assumes "plain_user u" and "plain_host h" and "plain_path p"
  shows "Parse (u @ ''@'' @ h @ '':'' @ p) =
    Inr (empty_URL\<lparr>Scheme := ''ssh'', User := Some (u, None), Host := h, url_Path := p\<rparr>)"
  using url_Parse_scp_form [OF assms] ParseScp_plain [OF assms] by (auto simp: Parse_cases ParseTransport_def)

lemma NormalizeGitUrl_Parse:
  "Parse raw = Inr u \<Longrightarrow> NormalizeGitUrl raw = Trim (Host u @ ''/'' @ Trim (url_Path u) (CHR ''/'')) (CHR ''/'')"
  by (simp add: NormalizeGitUrl_def)

lemma hd_dropWhile_neq: "c \<notin> set s \<Longrightarrow> dropWhile P s \<noteq> [] \<Longrightarrow> hd (dropWhile P s) \<noteq> c"
  by (metis hd_in_set set_dropWhileD)

lemma scpSyntax_no_colon:
  assumes "CHR ''@'' \<notin> set s" and "CHR '':'' \<notin> set s"
  shows "scpSyntax s = None"
proof -
  have "scp_user s = ([], s)"
    using hd_dropWhile_neq [OF assms(1), of scp_user_char] by (auto simp: scp_user_def Let_def)
  moreover have "c \<noteq> CHR '':''" if "dropWhile scp_host_char s = c # r" for c r
    using hd_dropWhile_neq [OF assms(2), of scp_host_char] that by auto
  ultimately show ?thesis
    by (simp add: scpSyntax_def Let_def split: list.split)
qed

lemma url_Parse_path:
  assumes "plain_path s" and "\<not> HasPrefix s ''//''"
  shows "url_Parse s = Inr (empty_URL\<lparr>url_Path := s\<rparr>)"
proof -
  have "c \<notin> set ''#?%'' \<and> 32 \<le> byte c \<and> byte c \<noteq> 127" if "c \<in> set s" for c
    using scp_path_char_excludes [of c] assms(1) that by (simp add: plain_path_def list_all_iff)
  moreover have "CHR '':'' \<notin> set s"
    by (rule plain_not_in(3) [OF assms(1)]) simp
  ultimately show ?thesis
    using assms(2) by (intro url_Parse_relative ballI)
qed

lemma NormalizeGitUrl_path:
  assumes "plain_path s" and "\<not> HasPrefix s ''//''"
  shows "NormalizeGitUrl s = Trim (Trim s (CHR ''/'')) (CHR ''/'')"
proof -
  have "ParseTransport s = Inl (ErrorString (''scheme '' @ Quote [] @ '' is not a valid transport''))"
    using url_Parse_path [OF assms] by (simp add: ParseTransport_def Valid_Transports empty_URL_def)
  moreover have "CHR '':'' \<notin> set s" and "CHR ''@'' \<notin> set s"
    by (rule plain_not_in(3) [OF assms(1)], simp)+
  then have "scpSyntax s = None"
    by (rule scpSyntax_no_colon [rotated])
  ultimately have "Parse s = ParseLocal s"
    by (simp add: Parse_cases ParseScp_def ParseLocal_def)
  then show ?thesis
    by (simp add: NormalizeGitUrl_def ParseLocal_def empty_URL_def)
qed

lemma hd_absent: "c \<notin> set s \<Longrightarrow> s \<noteq> [] \<Longrightarrow> hd s \<noteq> c"
  by (cases s) auto

section \<open>Normal forms agree\<close>

text \<open>The path without its leading and trailing slashes does not become empty.\<close>

definition clean_path :: "string \<Rightarrow> bool" where
  "clean_path p \<longleftrightarrow> plain_path p \<and> hd p \<noteq> CHR ''/'' \<and> last p \<noteq> CHR ''/''"

lemma normal_form:
  assumes "plain_host h" and "clean_path p"
  shows "Trim (h @ ''/'' @ Trim p (CHR ''/'')) (CHR ''/'') = h @ ''/'' @ p"
proof -
  have "Trim p (CHR ''/'') = p"
    using assms(2) by (intro Trim_id) (auto simp: clean_path_def plain_path_def)
  moreover have "CHR ''/'' \<notin> set h"
    by (rule plain_not_in(2) [OF assms(1)]) simp
  then have "Trim (h @ ''/'' @ p) (CHR ''/'') = h @ ''/'' @ p"
    using assms hd_absent [of "CHR ''/''" h]
    by (intro Trim_id) (auto simp: plain_host_def clean_path_def plain_path_def)
  ultimately show ?thesis by simp
qed

lemma NormalizeGitUrl_transport:
  assumes "Valid Transports s" and "plain_host h" and "clean_path p"
  shows "NormalizeGitUrl (s @ ''://'' @ h @ ''/'' @ p) = h @ ''/'' @ p"
proof -
  have "plain_path p" using assms(3) by (simp add: clean_path_def)
  from NormalizeGitUrl_Parse [OF Parse_transport [OF assms(1,2) this]] assms(1) show ?thesis
    using normal_form [OF assms(2,3)] by (simp add: empty_URL_def)
qed

lemma NormalizeGitUrl_transport_user:
  assumes "Valid Transports s" and "plain_user u" and "plain_host h" and "clean_path p"
  shows "NormalizeGitUrl (s @ ''://'' @ u @ ''@'' @ h @ ''/'' @ p) = h @ ''/'' @ p"
proof -
  have "plain_path p" using assms(4) by (simp add: clean_path_def)
  from NormalizeGitUrl_Parse [OF Parse_transport_user [OF assms(1,2,3) this]] assms(1) show ?thesis
    using normal_form [OF assms(3,4)] by (simp add: empty_URL_def)
qed

lemma NormalizeGitUrl_scp:
  assumes "plain_user u" and "plain_host h" and "clean_path p"
  shows "NormalizeGitUrl (u @ ''@'' @ h @ '':'' @ p) = h @ ''/'' @ p"
proof -
  have "plain_path p" using assms(3) by (simp add: clean_path_def)
  from NormalizeGitUrl_Parse [OF Parse_scp [OF assms(1,2) this]] show ?thesis
    using normal_form [OF assms(2,3)] by (simp add: empty_URL_def)
qed

lemma scp_char_path: "scp_host_char c \<Longrightarrow> scp_path_char c"
  by (auto simp: scp_host_char_def scp_path_char_def)

lemma bare_form:
  assumes "plain_host h" and "clean_path p"
  shows "plain_path (h @ ''/'' @ p)" and "\<not> HasPrefix (h @ ''/'' @ p) ''//''"
    and "Trim (h @ ''/'' @ p) (CHR ''/'') = h @ ''/'' @ p"
proof -
  show "plain_path (h @ ''/'' @ p)"
    using assms scp_char_path
    by (auto simp: plain_host_def clean_path_def plain_path_def list_all_iff scp_path_char_def)
  have "CHR ''/'' \<notin> set h"
    by (rule plain_not_in(2) [OF assms(1)]) simp
  moreover have "h \<noteq> []"
    using assms(1) by (simp add: plain_host_def)
  ultimately have slash: "hd h \<noteq> CHR ''/''" "h \<noteq> []"
    using hd_absent [of "CHR ''/''" h] by simp_all
  then show "\<not> HasPrefix (h @ ''/'' @ p) ''//''"
    by (cases h) auto
  show "Trim (h @ ''/'' @ p) (CHR ''/'') = h @ ''/'' @ p"
    using slash assms(2) by (intro Trim_id) (auto simp: clean_path_def plain_path_def)
qed

lemma NormalizeGitUrl_bare:
  assumes "plain_host h" and "clean_path p"
  shows "NormalizeGitUrl (h @ ''/'' @ p) = h @ ''/'' @ p"
  by (simp only: NormalizeGitUrl_path [OF bare_form(1,2) [OF assms]] bare_form(3) [OF assms])

lemma FindCredByUrl_spec:
  "FindCredByUrl url creds =
     find (\<lambda>c. prefix (NormalizeGitUrl (rc_URL c)) (NormalizeGitUrl url)) creds"
  by (induction creds) (auto simp: HasPrefix_iff_prefix)

section \<open>Properties\<close>

text \<open>
  The four plain ways to write the repository with path \<open>p\<close> on the host \<open>h\<close>: with a transport, with a transport and a
  user, as \<open>user@host:path\<close>, and bare; without a port, a query or escapes. Only these have the same
  normal form: a port belongs to the host, and a suffix \<^verbatim>\<open>.git\<close> to the path.
\<close>

definition plain_spellings :: "string \<Rightarrow> string \<Rightarrow> string \<Rightarrow> string \<Rightarrow> string set" where
  "plain_spellings s u h p =
     {s @ ''://'' @ h @ ''/'' @ p, s @ ''://'' @ u @ ''@'' @ h @ ''/'' @ p, u @ ''@'' @ h @ '':'' @ p, h @ ''/'' @ p}"

lemma NormalizeGitUrl_spelling:
  assumes "Valid Transports s" and "plain_user u" and "plain_host h" and "clean_path p" and "url \<in> plain_spellings s u h p"
  shows "NormalizeGitUrl url = h @ ''/'' @ p"
  using assms(5) NormalizeGitUrl_transport [OF assms(1,3,4)] NormalizeGitUrl_transport_user [OF assms(1-4)]
    NormalizeGitUrl_scp [OF assms(2-4)] NormalizeGitUrl_bare [OF assms(3,4)]
  unfolding plain_spellings_def by (elim insertE emptyE) simp_all

text \<open>
  C28. Four plain spellings, one credential. In the four plain ways to write it, without a port, query or escapes, a
  repository has the same normal form \<open>host/path\<close>, and the credential chosen for it is the first one
  listed whose own normal form is a prefix of that text. So if a credential is listed for the
  repository or for a prefix of its path, itself in any of the four spellings, whatever transport
  and user they name, then a credential is found.
\<close>

theorem FindCredByUrl_spelling:
  assumes "Valid Transports s" and "plain_user u" and "plain_host h" and "clean_path p" and "url \<in> plain_spellings s u h p"
  shows "NormalizeGitUrl url = h @ ''/'' @ p \<and>
    FindCredByUrl url creds = find (\<lambda>c. prefix (NormalizeGitUrl (rc_URL c)) (h @ ''/'' @ p)) creds \<and>
    (\<forall>c \<in> set creds. \<forall>s' u' q. Valid Transports s' \<and> plain_user u' \<and> clean_path q \<and> prefix q p \<and>
       rc_URL c \<in> plain_spellings s' u' h q \<longrightarrow> (\<exists>c'. FindCredByUrl url creds = Some c'))"
proof -
  have url: "NormalizeGitUrl url = h @ ''/'' @ p"
    by (rule NormalizeGitUrl_spelling [OF assms])
  then have spec: "FindCredByUrl url creds = find (\<lambda>c. prefix (NormalizeGitUrl (rc_URL c)) (h @ ''/'' @ p)) creds"
    by (simp add: FindCredByUrl_spec)
  have "prefix (NormalizeGitUrl (rc_URL c)) (h @ ''/'' @ p)"
    if "Valid Transports s'" "plain_user u'" "clean_path q" "prefix q p" "rc_URL c \<in> plain_spellings s' u' h q" for c s' u' q
    using NormalizeGitUrl_spelling [OF that(1,2) assms(3) that(3,5)] that(4) by simp
  then have "FindCredByUrl url creds \<noteq> None"
    if "Valid Transports s'" "plain_user u'" "clean_path q" "prefix q p" "rc_URL c \<in> plain_spellings s' u' h q"
      "c \<in> set creds" for c s' u' q
    using that unfolding spec find_None_iff by blast
  then show ?thesis
    using url spec by blast
qed

theorem FindCredByUrl_spelling_witness:
  "let cred = \<lparr>rc_URL = ''https://github.com/numaproj'', rc_HTTPCredential = None, rc_SSHCredential = None, rc_TLS = None\<rparr>
   in NormalizeGitUrl ''git@github.com:numaproj/numaplane.git'' = ''github.com/numaproj/numaplane.git'' \<and>
      (\<exists>c. FindCredByUrl ''git@github.com:numaproj/numaplane.git'' [cred] = Some c)"
proof -
  let ?cred = "\<lparr>rc_URL = ''https://github.com/numaproj'', rc_HTTPCredential = None, rc_SSHCredential = None, rc_TLS = None\<rparr>"
  note plain = Valid_Transports plain_user_def plain_host_def clean_path_def plain_path_def
    scp_user_char_def scp_host_char_def scp_path_char_def is_upper_def is_lower_def is_digit_def byte_def
  have valid: "Valid Transports ''https''" "plain_user ''git''" "plain_host ''github.com''"
      "clean_path ''numaproj/numaplane.git''" "clean_path ''numaproj''" "prefix ''numaproj'' ''numaproj/numaplane.git''"
    by (simp_all add: plain)
  have "''git@github.com:numaproj/numaplane.git'' \<in>
      plain_spellings ''https'' ''git'' ''github.com'' ''numaproj/numaplane.git''"
    by (simp add: plain_spellings_def)
  note result = FindCredByUrl_spelling [OF valid(1-4) this, of "[?cred]"]
  have "rc_URL ?cred \<in> plain_spellings ''https'' ''git'' ''github.com'' ''numaproj''"
    by (simp add: plain_spellings_def)
  with valid have "\<exists>c. FindCredByUrl ''git@github.com:numaproj/numaplane.git'' [?cred] = Some c"
    by (intro result [THEN conjunct2, THEN conjunct2, THEN bspec, of ?cred, THEN spec, of "''https''", THEN spec, of "''git''",
          THEN spec, of "''numaproj''", THEN mp]) simp_all
  then show ?thesis
    using result [THEN conjunct1] by (simp add: Let_def)
qed

text \<open>Other forms of the same repository have other normal forms.\<close>

lemma NormalizeGitUrl_port_suffix:
  "NormalizeGitUrl ''ssh://git@h:22/p'' = ''h:22/p'' \<and> NormalizeGitUrl ''https://h/p.git'' = ''h/p.git''"
  by code_simp

text \<open>
  \<open>Parse\<close> never fails, and which of the three parsers answers is determined: the transport
  parser when it accepts the URL, otherwise the scp parser when the syntax matches, otherwise
  the local one. The scheme of the result is a valid transport in every case.
\<close>

theorem Parse_result:
  "\<exists>u. Parse raw = Inr u \<and> Valid Transports (Scheme u) \<and> GetURLScheme raw = Inr (Scheme u) \<and>
     (if \<exists>v. ParseTransport raw = Inr v then ParseTransport raw = Inr u
      else if scpSyntax raw \<noteq> None then ParseScp raw = Inr u \<and> Scheme u = ''ssh''
      else u = empty_URL\<lparr>Scheme := ''file'', url_Path := raw\<rparr>)"
proof -
  obtain u where u: "Parse raw = Inr u" using Parse_total by blast
  have valid: "Valid Transports (Scheme v)" if "ParseTransport raw = Inr v" for v
    using that by (auto simp: ParseTransport_def bindE_eq_Inr split: if_splits)
  have scp: "ParseScp raw = Inr v \<longleftrightarrow> scpSyntax raw \<noteq> None \<and> ParseScp raw = Inr v \<and> Scheme v = ''ssh''" for v
    by (auto simp: ParseScp_def Let_def empty_URL_def split: option.splits)
  have none: "scpSyntax raw = None \<longleftrightarrow> (\<exists>e. ParseScp raw = Inl e)"
    by (auto simp: ParseScp_def Let_def split: option.splits)
  show ?thesis
  proof (cases "ParseTransport raw")
    case (Inr v)
    then show ?thesis using valid [OF Inr] by (simp add: Parse_cases GetURLScheme_def)
  next
    case Inl1: (Inl e)
    show ?thesis
    proof (cases "ParseScp raw")
      case (Inr v)
      then show ?thesis
        using scp [of v] Inl1 by (simp add: Parse_cases GetURLScheme_def Valid_Transports)
    next
      case (Inl e')
      then show ?thesis
        using none Inl1
        by (simp add: Parse_cases GetURLScheme_def ParseLocal_def Valid_Transports empty_URL_def)
    qed
  qed
qed

text \<open>
  \<open>CheckGitURL\<close> accepts every URL that \<open>net/url\<close> rejects, in particular the form
  \<open>user@host:path\<close>, and the transport form; it refuses the bare form \<open>host/path\<close>, which
  \<open>Parse\<close> still accepts as a local path.
\<close>

theorem CheckGitURL_spelling:
  assumes "Valid Transports s" and "plain_user u" and "plain_host h" and "clean_path p"
  shows "CheckGitURL (s @ ''://'' @ u @ ''@'' @ h @ ''/'' @ p) \<and>
    CheckGitURL (u @ ''@'' @ h @ '':'' @ p) \<and> \<not> CheckGitURL (h @ ''/'' @ p)"
proof -
  have p: "plain_path p" using assms(4) by (simp add: clean_path_def)
  obtain e where "url_Parse (u @ ''@'' @ h @ '':'' @ p) = Inl e"
    using url_Parse_scp_form [OF assms(2,3) p] by blast
  moreover note url_Parse_transport_user [OF assms(1-3) p] url_Parse_path [OF bare_form(1,2) [OF assms(3,4)]]
  ultimately show ?thesis
    using assms(1) by (simp add: CheckGitURL_def empty_URL_def Valid_Transports)
qed

theorem CheckGitURL_spelling_witness:
  "CheckGitURL ''git@github.com:numaproj/numaplane.git'' \<and> \<not> CheckGitURL ''github.com/numaproj/numaplane.git''"
proof -
  have "CheckGitURL (''git'' @ ''@'' @ ''github.com'' @ '':'' @ ''numaproj/numaplane.git'') \<and>
      \<not> CheckGitURL (''github.com'' @ ''/'' @ ''numaproj/numaplane.git'')"
    by (rule CheckGitURL_spelling [where s = "''https''" and u = "''git''", THEN conjunct2])
      (simp_all add: Valid_Transports plain_user_def plain_host_def clean_path_def plain_path_def
        scp_user_char_def scp_host_char_def scp_path_char_def is_upper_def is_lower_def is_digit_def byte_def)
  then show ?thesis by simp
qed

end
