(* ===== verification/KubeUtil.thy ===== *)
theory KubeUtil
  imports GitSyncTypes
begin

text \<open>
  Helpers on Kubernetes objects (\<open>internal/util/kubernetes/kubernetes.go\<close>): names, the tracking
  label, secrets, and the deletion of objects. The accessors of \<open>unstructured.Unstructured\<close>
  and the calls of the Kubernetes client are library code and stand here as parameters.
\<close>

section \<open>Library code used\<close>

text \<open>
  \<open>get_gvk\<close> is \<open>GroupVersionKind()\<close> and \<open>gvk_String\<close> its \<open>String()\<close>.
  What \<open>unstructured.NestedFieldNoCopy\<close> finds: nothing, an explicit null, or a value.
\<close>

datatype nested_field = FieldMissing | FieldNil | FieldValue

record GroupVersionKind =
  gvk_Group :: string
  gvk_Version :: string
  gvk_Kind :: string

record 'u unstructured_ops =
  NestedFieldNoCopy :: "'u \<Rightarrow> string list \<Rightarrow> go_error + nested_field"
  NestedStringMap :: "'u \<Rightarrow> string list \<Rightarrow> go_error + (string \<rightharpoonup> string)"
  SetLabels :: "'u \<Rightarrow> (string \<rightharpoonup> string) \<Rightarrow> 'u"
  GetNamespace :: "'u \<Rightarrow> string"
  SetNamespace :: "'u \<Rightarrow> string \<Rightarrow> 'u"
  GetName :: "'u \<Rightarrow> string"
  get_gvk :: "'u \<Rightarrow> GroupVersionKind"
  gvk_String :: "'u \<Rightarrow> string"

text \<open>
  The part of \<open>client.Client\<close> these helpers call; \<open>'w\<close> is the cluster. A secret is its
  \<open>Data\<close>.
\<close>

record ('w, 'u) k8s_client =
  Get_Secret :: "string \<Rightarrow> string \<Rightarrow> 'w \<Rightarrow> go_error + (string \<rightharpoonup> string)"
  Delete :: "'u \<Rightarrow> 'w \<Rightarrow> ('w, unit) result"

section \<open>Names\<close>

definition validManifestExtensions :: "string list" where
  "validManifestExtensions = [''yaml'', ''yml'', ''json'']"

text \<open>\<open>isDNS1123Label\<close> is \<open>validation.IsDNS1123Label\<close>: the messages about the name.\<close>

definition IsValidKubernetesNamespace :: "(string \<Rightarrow> string list) \<Rightarrow> string \<Rightarrow> bool" where
  "IsValidKubernetesNamespace isDNS1123Label name \<longleftrightarrow>
     isDNS1123Label name = [] \<and> \<not> (HasPrefix name ''kubernetes-'' \<or> HasPrefix name ''kube-'')"

definition IsValidKubernetesManifestFile :: "string \<Rightarrow> bool" where
  "IsValidKubernetesManifestFile fileName =
     (let fileExt = Split fileName (CHR ''.'')
      in fileExt ! (length fileExt - 1) \<in> set validManifestExtensions)"

section \<open>The tracking label\<close>

text \<open>A Go map that may be nil is an optional map.\<close>

definition nestedNullableStringMap ::
  "('u, 'x) unstructured_ops_scheme \<Rightarrow> 'u \<Rightarrow> string list \<Rightarrow> go_error + (string \<rightharpoonup> string) option" where
  "nestedNullableStringMap U obj flds =
     bindE (NestedFieldNoCopy U obj flds) (\<lambda>v.
       if v = FieldValue then bindE (NestedStringMap U obj flds) (\<lambda>m. Inr (Some m)) else Inr None)"

definition label_fields :: "string list" where
  "label_fields = [''metadata'', ''labels'']"

definition label_error :: "('u, 'x) unstructured_ops_scheme \<Rightarrow> 'u \<Rightarrow> go_error \<Rightarrow> go_error" where
  "label_error U un e = WrapError (''failed to get labels from target object '' @ gvk_String U un @ '' '' @
     GetNamespace U un @ ''/'' @ GetName U un @ '': '') e"

text \<open>Indexing a Go map at an absent key gives the zero value.\<close>

definition GetGitSyncInstanceLabel ::
  "('u, 'x) unstructured_ops_scheme \<Rightarrow> 'u \<Rightarrow> string \<Rightarrow> go_error + string" where
  "GetGitSyncInstanceLabel U un key =
     (case nestedNullableStringMap U un label_fields of
        Inl e \<Rightarrow> Inl (label_error U un e)
      | Inr (Some labels) \<Rightarrow> Inr (case labels key of Some v \<Rightarrow> v | None \<Rightarrow> [])
      | Inr None \<Rightarrow> Inr [])"

definition SetGitSyncInstanceLabel ::
  "('u, 'x) unstructured_ops_scheme \<Rightarrow> 'u \<Rightarrow> string \<Rightarrow> string \<Rightarrow> go_error + 'u" where
  "SetGitSyncInstanceLabel U target key val =
     (case nestedNullableStringMap U target label_fields of
        Inl e \<Rightarrow> Inl (label_error U target e)
      | Inr m \<Rightarrow>
          (let labels = (case m of None \<Rightarrow> Map.empty | Some labels \<Rightarrow> labels)
           in Inr (SetLabels U target (labels(key \<mapsto> val)))))"

section \<open>Secrets\<close>

definition GetSecret ::
  "('w, 'u) k8s_client \<Rightarrow> string \<Rightarrow> string \<Rightarrow> 'w \<Rightarrow> go_error + (string \<rightharpoonup> string)" where
  "GetSecret C namespace secretName w =
     (if namespace = [] then Inl (ErrorString ''namespace cannot be empty'')
      else if secretName = [] then Inl (ErrorString ''secretName cannot be empty'')
      else Get_Secret C namespace secretName w)"

definition GetSecretValue ::
  "('w, 'u) k8s_client \<Rightarrow> SecretKeySelector \<Rightarrow> 'w \<Rightarrow> go_error + string" where
  "GetSecretValue C sel w =
     bindE (GetSecret C (sks_Namespace sel) (sks_Name sel) w) (\<lambda>data.
       (case data (sks_Key sel) of
          None \<Rightarrow> Inl (ErrorString (''key '' @ sks_Key sel @ '' not found in secret '' @
                    sks_Namespace sel @ ''/'' @ sks_Name sel))
        | Some value \<Rightarrow> Inr value))"

section \<open>Deletion\<close>

definition DeleteKubernetesResource ::
  "('u, 'x) unstructured_ops_scheme \<Rightarrow> ('w, 'u) k8s_client \<Rightarrow> 'u \<Rightarrow> 'w \<Rightarrow> ('w, unit) result" where
  "DeleteKubernetesResource U C item w =
     (case Delete C item w of
        (Err e, w') \<Rightarrow>
          (if IsNotFound e then (Ok (), w')
           else (Err (ErrorString (''error deleting resource '' @ GetNamespace U item @ ''/'' @
                   GetName U item @ '': '' @ Error e)), w'))
      | r \<Rightarrow> r)"

text \<open>The loop of \<open>DeleteManagedObjects\<close>; the list is the order in which the map is walked.\<close>

fun DeleteManagedObjects ::
  "('u, 'x) unstructured_ops_scheme \<Rightarrow> ('w, 'u) k8s_client \<Rightarrow> 'u list \<Rightarrow> 'w \<Rightarrow> ('w, unit) result" where
  "DeleteManagedObjects U C [] w = (Ok (), w)"
| "DeleteManagedObjects U C (obj # objs) w =
     bindR (DeleteKubernetesResource U C obj w) (\<lambda>_. DeleteManagedObjects U C objs)"

section \<open>Lemmas\<close>

lemma member_Bex: "x \<in> A \<longleftrightarrow> (\<exists>e\<in>A. x = e)"
  by blast

lemma Split_last_ext:
  assumes "c \<notin> set ext"
  shows "last (Split s c) = ext \<longleftrightarrow> s = ext \<or> (\<exists>stem. s = stem @ c # ext)"
proof
  assume last: "last (Split s c) = ext"
  obtain ps where ps: "Split s c = ps @ [ext]"
    using last Split_not_Nil by (metis append_butlast_last_id)
  have s: "s = Join (ps @ [ext]) [c]"
    using ps Join_Split [of s c] by simp
  show "s = ext \<or> (\<exists>stem. s = stem @ c # ext)"
  proof (cases "ps = []")
    case True
    with s show ?thesis by simp
  next
    case False
    then have "Join (ps @ [ext]) [c] = Join ps [c] @ c # ext"
    proof (induction ps)
      case (Cons p ps)
      then show ?case by (cases "ps = []") (auto simp: Join_Cons)
    qed simp
    with s show ?thesis by blast
  qed
next
  assume "s = ext \<or> (\<exists>stem. s = stem @ c # ext)"
  then show "last (Split s c) = ext"
  proof
    assume "\<exists>stem. s = stem @ c # ext"
    then obtain stem where s: "s = stem @ c # ext" by blast
    then show ?thesis
      using assms by (simp add: Split_append_sep Split_no_sep)
  qed (simp add: Split_no_sep assms)
qed

text \<open>What an object must satisfy for its labels to be readable.\<close>

definition labels_of :: "('u, 'x) unstructured_ops_scheme \<Rightarrow> 'u \<Rightarrow> (string \<rightharpoonup> string) option" where
  "labels_of U u =
     (case nestedNullableStringMap U u label_fields of
        Inl e \<Rightarrow> None
      | Inr m \<Rightarrow> Some (case m of None \<Rightarrow> Map.empty | Some labels \<Rightarrow> labels))"

lemma GetLabel_labels_of:
  "GetGitSyncInstanceLabel U u key = Inr v \<longleftrightarrow>
     (\<exists>labels. labels_of U u = Some labels \<and> v = (case labels key of Some x \<Rightarrow> x | None \<Rightarrow> []))"
  by (auto simp: GetGitSyncInstanceLabel_def labels_of_def split: sum.splits option.splits)

lemma SetLabel_labels_of:
  "SetGitSyncInstanceLabel U u key val = Inr u' \<longleftrightarrow>
     (\<exists>labels. labels_of U u = Some labels \<and> u' = SetLabels U u (labels(key \<mapsto> val)))"
  by (auto simp: SetGitSyncInstanceLabel_def labels_of_def Let_def split: sum.splits option.splits)

text \<open>
  The documented behaviour of \<open>SetLabels\<close> with a non-empty map: it stores the map under
  \<open>metadata.labels\<close>, where \<open>NestedFieldNoCopy\<close> and \<open>NestedStringMap\<close> find it.
\<close>

definition set_labels_law :: "('u, 'x) unstructured_ops_scheme \<Rightarrow> bool" where
  "set_labels_law U \<longleftrightarrow>
     (\<forall>u m. m \<noteq> Map.empty \<longrightarrow>
        NestedFieldNoCopy U (SetLabels U u m) label_fields = Inr FieldValue \<and>
        NestedStringMap U (SetLabels U u m) label_fields = Inr m)"

lemma labels_of_SetLabels:
  "set_labels_law U \<Longrightarrow> labels_of U (SetLabels U u (m(k \<mapsto> v))) = Some (m(k \<mapsto> v))"
  by (simp add: set_labels_law_def labels_of_def nestedNullableStringMap_def)

text \<open>Deletion of one object succeeds when the client deletes it or does not find it.\<close>

definition delete_done :: "'w outcome \<Rightarrow> bool" where
  "delete_done r \<longleftrightarrow> (case r of Ok _ \<Rightarrow> True | Err e \<Rightarrow> IsNotFound e | Panic p \<Rightarrow> False)"

lemma DeleteKubernetesResource_snd: "snd (DeleteKubernetesResource U C u w) = snd (Delete C u w)"
  by (auto simp: DeleteKubernetesResource_def split: prod.splits outcome.splits)

lemma DeleteKubernetesResource_Ok:
  "fst (DeleteKubernetesResource U C u w) = Ok () \<longleftrightarrow> delete_done (fst (Delete C u w))"
  by (auto simp: DeleteKubernetesResource_def delete_done_def split: prod.splits outcome.splits)

text \<open>The cluster after the client was asked to delete each object of a list.\<close>

definition delete_all :: "('w, 'u) k8s_client \<Rightarrow> 'u list \<Rightarrow> 'w \<Rightarrow> 'w" where
  "delete_all C us w = fold (\<lambda>u w. snd (Delete C u w)) us w"

fun all_done :: "('w, 'u) k8s_client \<Rightarrow> 'u list \<Rightarrow> 'w \<Rightarrow> bool" where
  "all_done C [] w = True"
| "all_done C (u # us) w = (delete_done (fst (Delete C u w)) \<and> all_done C us (snd (Delete C u w)))"

lemma DeleteManagedObjects_Cons:
  "DeleteManagedObjects U C (u # us) w =
     (if delete_done (fst (Delete C u w)) then DeleteManagedObjects U C us (snd (Delete C u w))
      else DeleteKubernetesResource U C u w)"
proof -
  obtain r w' where d: "DeleteKubernetesResource U C u w = (r, w')" by fastforce
  then have "w' = snd (Delete C u w)" and "r = Ok () \<longleftrightarrow> delete_done (fst (Delete C u w))"
    using DeleteKubernetesResource_snd [of U C u w] DeleteKubernetesResource_Ok [of U C u w] by auto
  with d show ?thesis by (cases r) auto
qed

lemmas DeleteManagedObjects_rec = DeleteManagedObjects.simps(1) DeleteManagedObjects_Cons

lemma DeleteManagedObjects_all:
  "all_done C us w \<Longrightarrow> DeleteManagedObjects U C us w = (Ok (), delete_all C us w)"
  by (induction us arbitrary: w) (auto simp: DeleteManagedObjects_Cons delete_all_def simp del: DeleteManagedObjects.simps(2))

lemma DeleteManagedObjects_append:
  "all_done C us w \<Longrightarrow> DeleteManagedObjects U C (us @ vs) w = DeleteManagedObjects U C vs (delete_all C us w)"
  by (induction us arbitrary: w) (auto simp: DeleteManagedObjects_Cons delete_all_def simp del: DeleteManagedObjects.simps(2))

section \<open>Properties\<close>

text \<open>
  C11. The tracking label. When \<open>SetGitSyncInstanceLabel\<close> succeeds, reading the label back gives
  the value that was set, and every other label reads as before.
\<close>

theorem instance_label_roundtrip:
  assumes "set_labels_law U" and "SetGitSyncInstanceLabel U u key val = Inr u'"
  shows "GetGitSyncInstanceLabel U u' k =
    (if k = key then Inr val else GetGitSyncInstanceLabel U u k)"
proof -
  from assms obtain labels where labels: "labels_of U u = Some labels"
    and u': "labels_of U u' = Some (labels(key \<mapsto> val))"
    by (auto simp: SetLabel_labels_of labels_of_SetLabels)
  have "GetGitSyncInstanceLabel U u' k = Inr (if k = key then val else case labels k of Some x \<Rightarrow> x | None \<Rightarrow> [])"
    using u' GetLabel_labels_of [of U u' k] by auto
  moreover have "GetGitSyncInstanceLabel U u k = Inr (case labels k of Some x \<Rightarrow> x | None \<Rightarrow> [])"
    using labels GetLabel_labels_of [of U u k] by auto
  ultimately show ?thesis by simp
qed

text \<open>A concrete accessor record: an object is its labels (perhaps null) and its namespace.\<close>

definition plain_ops :: "((string \<rightharpoonup> string) option \<times> string) unstructured_ops" where
  "plain_ops =
     \<lparr>NestedFieldNoCopy = (\<lambda>u f. Inr (if fst u = None then FieldNil else FieldValue)),
      NestedStringMap = (\<lambda>u f. case fst u of None \<Rightarrow> Inl (ErrorString ''not a map'') | Some m \<Rightarrow> Inr m),
      SetLabels = (\<lambda>u m. (Some m, snd u)),
      GetNamespace = snd,
      SetNamespace = (\<lambda>u n. (fst u, n)),
      GetName = (\<lambda>u. ''object''),
      get_gvk = (\<lambda>u. \<lparr>gvk_Group = ''apps'', gvk_Version = ''v1'', gvk_Kind = ''Deployment''\<rparr>),
      gvk_String = (\<lambda>u. ''apps/v1, Kind=Deployment'')\<rparr>"

lemma plain_ops_law: "set_labels_law plain_ops"
  by (simp add: set_labels_law_def plain_ops_def)

theorem instance_label_roundtrip_witness:
  "\<exists>u'. SetGitSyncInstanceLabel plain_ops (None, ''ns'') ''tracking'' ''my-app'' = Inr u' \<and>
     GetGitSyncInstanceLabel plain_ops u' ''tracking'' = Inr ''my-app''"
proof -
  have set: "SetGitSyncInstanceLabel plain_ops (None, ''ns'') ''tracking'' ''my-app'' =
      Inr (Some [''tracking'' \<mapsto> ''my-app''], ''ns'')"
    by (simp add: SetGitSyncInstanceLabel_def nestedNullableStringMap_def plain_ops_def)
  show ?thesis
    using instance_label_roundtrip [OF plain_ops_law set, of "''tracking''"] set by auto
qed

text \<open>
  Sequential deletion. \<open>DeleteManagedObjects\<close> succeeds exactly when every object, in the
  order of the walk, is deleted or not found. Otherwise it fails at the first object whose
  deletion fails, after asking for the deletion of every object before it and of none after it.
\<close>

theorem DeleteManagedObjects_sequential:
  "if all_done C us w then DeleteManagedObjects U C us w = (Ok (), delete_all C us w)
   else (\<exists>pre u post. us = pre @ u # post \<and> all_done C pre w \<and>
      \<not> delete_done (fst (Delete C u (delete_all C pre w))) \<and>
      DeleteManagedObjects U C us w = DeleteKubernetesResource U C u (delete_all C pre w) \<and>
      fst (DeleteManagedObjects U C us w) \<noteq> Ok () \<and>
      snd (DeleteManagedObjects U C us w) = delete_all C (pre @ [u]) w)"
proof (cases "all_done C us w")
  case True
  then show ?thesis by (simp add: DeleteManagedObjects_all)
next
  case False
  then have "\<exists>pre u post. us = pre @ u # post \<and> all_done C pre w \<and>
      \<not> delete_done (fst (Delete C u (delete_all C pre w)))"
  proof (induction us arbitrary: w)
    case (Cons v us)
    show ?case
    proof (cases "delete_done (fst (Delete C v w))")
      case True
      with Cons obtain pre u post where "us = pre @ u # post" "all_done C pre (snd (Delete C v w))"
        "\<not> delete_done (fst (Delete C u (delete_all C pre (snd (Delete C v w)))))"
        by fastforce
      with True show ?thesis
        by (intro exI [of _ "v # pre"] exI [of _ u] exI [of _ post]) (simp add: delete_all_def)
    next
      case False
      then show ?thesis
        by (intro exI [of _ "[]"] exI [of _ v] exI [of _ us]) (simp add: delete_all_def)
    qed
  qed simp
  then obtain pre u post where *: "us = pre @ u # post" "all_done C pre w"
    "\<not> delete_done (fst (Delete C u (delete_all C pre w)))" by blast
  have "DeleteManagedObjects U C us w = DeleteKubernetesResource U C u (delete_all C pre w)"
    using * by (simp add: DeleteManagedObjects_append DeleteManagedObjects_Cons del: DeleteManagedObjects.simps(2))
  moreover have "snd (DeleteKubernetesResource U C u (delete_all C pre w)) = delete_all C (pre @ [u]) w"
    by (simp add: DeleteKubernetesResource_snd delete_all_def)
  moreover have "fst (DeleteKubernetesResource U C u (delete_all C pre w)) \<noteq> Ok ()"
    using *(3) by (simp add: DeleteKubernetesResource_Ok)
  ultimately show ?thesis
    using * False by (simp del: DeleteManagedObjects.simps(2)) blast
qed

text \<open>
  Manifest files are told by the text after the last dot: \<open>yaml\<close>, \<open>yml\<close> or \<open>json\<close>, in
  lower case, also as the whole file name.
\<close>

theorem manifest_file_iff:
  "IsValidKubernetesManifestFile f \<longleftrightarrow>
     (\<exists>ext\<in>{''yaml'', ''yml'', ''json''}. f = ext \<or> (\<exists>stem. f = stem @ ''.'' @ ext))"
proof -
  have dot: "CHR ''.'' \<notin> set ext" if "ext \<in> {''yaml'', ''yml'', ''json''}" for ext
    using that by auto
  have "IsValidKubernetesManifestFile f \<longleftrightarrow> last (Split f (CHR ''.'')) \<in> {''yaml'', ''yml'', ''json''}"
    by (simp add: IsValidKubernetesManifestFile_def validManifestExtensions_def Let_def last_conv_nth)
  also have "\<dots> \<longleftrightarrow> (\<exists>ext\<in>{''yaml'', ''yml'', ''json''}. last (Split f (CHR ''.'')) = ext)"
    by (rule member_Bex)
  also have "\<dots> \<longleftrightarrow> (\<exists>ext\<in>{''yaml'', ''yml'', ''json''}. f = ext \<or> (\<exists>stem. f = stem @ ''.'' @ ext))"
    by (rule bex_cong [OF refl], unfold append_Cons append_Nil, rule Split_last_ext, erule dot)
  finally show ?thesis .
qed

end
