(* ===== verification/GlobalConfig.thy ===== *)
theory GlobalConfig
  imports GitSyncTypes
begin

text \<open>
  The controller's configuration (\<open>internal/controller/config/config.go\<close>): the manager that
  holds it, loading, reloading on a file change, and the copy handed to readers. The viper
  library and the JSON encoder are parameters. The locale \<open>config_store\<close> states what the
  controller's and the agent's managers have in common.
\<close>

section \<open>The interface of a configuration manager\<close>

text \<open>
  \<open>decode f c\<close> unmarshals the file content \<open>f\<close> into a variable that holds \<open>c\<close>: an error or
  none, and what the variable holds afterwards. \<open>changed f s\<close> handles a change event.
\<close>

locale config_store =
  fixes current :: "'s \<Rightarrow> 'c"
    and decode :: "'f \<Rightarrow> 'c \<Rightarrow> go_error option \<times> 'c"
    and zero :: 'c
    and changed :: "'f \<Rightarrow> 's \<Rightarrow> go_error option \<times> 's"
  assumes changed_current: "current (snd (changed f s)) = snd (decode f zero)"
    and changed_error: "fst (changed f s) = fst (decode f zero)"
begin

text \<open>A sequence of change events: the errors reported, and the final state.\<close>

fun events :: "'f list \<Rightarrow> 's \<Rightarrow> go_error list \<times> 's" where
  "events [] s = ([], s)"
| "events (f # fs) s =
     (case changed f s of (e, s') \<Rightarrow>
      (case events fs s' of (es, s'') \<Rightarrow> ((case e of None \<Rightarrow> [] | Some x \<Rightarrow> [x]) @ es, s'')))"

lemma events_current:
  "fs \<noteq> [] \<Longrightarrow> current (snd (events fs s)) = snd (decode (last fs) zero)"
proof (induction fs arbitrary: s)
  case (Cons f fs)
  obtain e s' where d: "changed f s = (e, s')" by fastforce
  then have "current s' = snd (decode f zero)"
    using changed_current [of f s] by simp
  with d Cons.IH [of s'] show ?case
    by (cases "fs = []") (auto split: prod.splits)
qed simp

lemma events_errors: "fst (events fs s) = List.map_filter (\<lambda>f. fst (decode f zero)) fs"
proof (induction fs arbitrary: s)
  case (Cons f fs)
  obtain e s' where d: "changed f s = (e, s')" by fastforce
  then have "e = fst (decode f zero)"
    using changed_error [of f s] by simp
  with d Cons.IH [of s'] show ?case
    by (auto simp: List.map_filter_simps split: prod.splits option.splits)
qed (simp add: List.map_filter_simps)

end

section \<open>The configuration\<close>

record GlobalConfig =
  ClusterName :: string
  SyncTimeIntervalMs :: int
  AutomatedSyncDisabled :: bool
  gc_CascadeDeletion :: bool
  AutoHealDisabled :: bool
  IncludedResources :: string
  RepoCredentials :: "RepoCredential list"
  LogLevel :: int
  PersistentRepoClonePath :: string

text \<open>The literal \<open>GlobalConfig\{\}\<close>.\<close>

definition zero_GlobalConfig :: GlobalConfig where
  "zero_GlobalConfig = \<lparr>ClusterName = [], SyncTimeIntervalMs = 0, AutomatedSyncDisabled = False,
     gc_CascadeDeletion = False, AutoHealDisabled = False, IncludedResources = [], RepoCredentials = [],
     LogLevel = 0, PersistentRepoClonePath = []\<rparr>"

section \<open>Libraries\<close>

text \<open>
  A value of type \<open>'f\<close> is what viper sees of the configuration file at one moment.
  Unmarshalling writes into the variable it is given, also when it fails half-way.
\<close>

record ('f, 'c) viper_api =
  ReadInConfig :: "'f \<Rightarrow> go_error option"
  viper_Unmarshal :: "'f \<Rightarrow> 'c \<Rightarrow> go_error option \<times> 'c"

record 'c json_api =
  json_Marshal :: "'c \<Rightarrow> go_error + string"
  json_Unmarshal :: "string \<Rightarrow> 'c \<Rightarrow> go_error option \<times> 'c"

section \<open>The manager\<close>

record ConfigManager =
  cm_config :: GlobalConfig
  cm_watching :: bool

text \<open>What \<open>once.Do\<close> creates.\<close>

definition new_ConfigManager :: ConfigManager where
  "new_ConfigManager = \<lparr>cm_config = zero_GlobalConfig, cm_watching = False\<rparr>"

definition CloneWithSerialization :: "GlobalConfig json_api \<Rightarrow> GlobalConfig \<Rightarrow> go_error + GlobalConfig" where
  "CloneWithSerialization J orig =
     bindE (json_Marshal J orig) (\<lambda>origJSON.
       (case json_Unmarshal J origJSON zero_GlobalConfig of
          (Some e, _) \<Rightarrow> Inl e
        | (None, clone) \<Rightarrow> Inr clone))"

text \<open>Go returns both a configuration and an error; some callers ignore the error.\<close>

definition GetConfig :: "GlobalConfig json_api \<Rightarrow> ConfigManager \<Rightarrow> GlobalConfig \<times> go_error option" where
  "GetConfig J cm =
     (case CloneWithSerialization J (cm_config cm) of
        Inl e \<Rightarrow> (zero_GlobalConfig, Some e)
      | Inr config \<Rightarrow> (config, None))"

definition LoadConfig ::
  "('f, GlobalConfig) viper_api \<Rightarrow> 'f \<Rightarrow> ConfigManager \<Rightarrow> (ConfigManager, unit) result" where
  "LoadConfig V f cm =
     (case ReadInConfig V f of
        Some e \<Rightarrow> (Err (WrapError ''failed to load configuration file. '' e), cm)
      | None \<Rightarrow>
          (case viper_Unmarshal V f (cm_config cm) of
             (Some e, c) \<Rightarrow> (Err (WrapError ''failed unmarshal configuration file. '' e), cm\<lparr>cm_config := c\<rparr>)
           | (None, c) \<Rightarrow> (Ok (), cm\<lparr>cm_config := c, cm_watching := True\<rparr>)))"

text \<open>
  The function given to \<open>v.OnConfigChange\<close>; the first result is what \<open>onErrorReloading\<close> is
  called with, if it is called.
\<close>

definition OnConfigChange ::
  "('f, GlobalConfig) viper_api \<Rightarrow> 'f \<Rightarrow> ConfigManager \<Rightarrow> go_error option \<times> ConfigManager" where
  "OnConfigChange V f cm =
     (case viper_Unmarshal V f zero_GlobalConfig of
        (err, newConfig) \<Rightarrow> (err, cm\<lparr>cm_config := newConfig\<rparr>))"

interpretation ctl_config: config_store cm_config "viper_Unmarshal V" zero_GlobalConfig "OnConfigChange V"
  for V :: "('f, GlobalConfig) viper_api"
  by unfold_locales (simp_all add: OnConfigChange_def split: prod.splits)

text \<open>A run of change events after a start.\<close>

fun reloads :: "('f, GlobalConfig) viper_api \<Rightarrow> 'f list \<Rightarrow> ConfigManager \<Rightarrow> go_error list \<times> ConfigManager" where
  "reloads V [] cm = ([], cm)"
| "reloads V (f # fs) cm =
     (case OnConfigChange V f cm of (e, cm') \<Rightarrow>
      (case reloads V fs cm' of (es, cm'') \<Rightarrow> ((case e of None \<Rightarrow> [] | Some x \<Rightarrow> [x]) @ es, cm'')))"

lemma reloads_events: "reloads V fs cm = ctl_config.events V fs cm"
  by (induction fs arbitrary: cm) (auto split: prod.splits)

text \<open>The encoder's documented behaviour on a configuration: decoding the encoding gives it back.\<close>

definition json_ok :: "GlobalConfig json_api \<Rightarrow> GlobalConfig \<Rightarrow> bool" where
  "json_ok J c \<longleftrightarrow> (\<exists>s. json_Marshal J c = Inr s \<and> json_Unmarshal J s zero_GlobalConfig = (None, c))"

lemma GetConfig_current: "json_ok J (cm_config cm) \<Longrightarrow> GetConfig J cm = (cm_config cm, None)"
  by (auto simp: json_ok_def GetConfig_def CloneWithSerialization_def)

text \<open>
  C32. Reloading. After any non-empty sequence of change events readers get what the last
  content of the file decodes to from an empty configuration, whatever was loaded before, and
  also when that last decoding failed; the errors reported are those of the failed decodings,
  in order.
\<close>

theorem GetConfig_after_reloads:
  assumes "fs \<noteq> []" and "json_ok J (snd (viper_Unmarshal V (last fs) zero_GlobalConfig))"
  shows "GetConfig J (snd (reloads V fs cm)) = (snd (viper_Unmarshal V (last fs) zero_GlobalConfig), None) \<and>
    fst (reloads V fs cm) = List.map_filter (\<lambda>f. fst (viper_Unmarshal V f zero_GlobalConfig)) fs"
  using assms ctl_config.events_current [of fs V cm] ctl_config.events_errors [of V fs cm]
  by (simp add: reloads_events GetConfig_current)

text \<open>
  An encoder and a viper for the witness: the encoding of a configuration is its cluster name,
  which is all these configurations hold; an empty file does not decode.
\<close>

definition name_json :: "GlobalConfig json_api" where
  "name_json = \<lparr>json_Marshal = (\<lambda>c. Inr (ClusterName c)),
     json_Unmarshal = (\<lambda>s c. (None, c\<lparr>ClusterName := s\<rparr>))\<rparr>"

definition name_viper :: "(string, GlobalConfig) viper_api" where
  "name_viper = \<lparr>ReadInConfig = (\<lambda>f. None),
     viper_Unmarshal = (\<lambda>f c. if f = [] then (Some (ErrorString ''bad file''), c)
                              else (None, c\<lparr>ClusterName := f\<rparr>))\<rparr>"

theorem GetConfig_after_reloads_witness:
  "let cm = \<lparr>cm_config = zero_GlobalConfig\<lparr>ClusterName := ''prod''\<rparr>, cm_watching = True\<rparr>
   in GetConfig name_json (snd (reloads name_viper [''dev'', []] cm)) = (zero_GlobalConfig, None) \<and>
      fst (reloads name_viper [''dev'', []] cm) = [ErrorString ''bad file'']"
  using GetConfig_after_reloads [of "[''dev'', []]" name_json name_viper
      "\<lparr>cm_config = zero_GlobalConfig\<lparr>ClusterName := ''prod''\<rparr>, cm_watching = True\<rparr>"]
  by (simp add: json_ok_def name_json_def name_viper_def zero_GlobalConfig_def List.map_filter_simps)

end
