(* ===== verification/GitOptions.thy ===== *)
theory GitOptions
  imports GitUrl KubeUtil GlobalConfig
begin

text \<open>
  Authentication and options of git operations (\<open>internal/util/git/git.go\<close>): which secret is read
  for a repository, the options of clone, pull and fetch, and how the user's git configuration
  changes them. go-git, the SSH key parser and the file system are parameters.
\<close>

section \<open>Types of go-git the code fills in\<close>

record AuthorizationHeader =
  ah_Key :: string
  ah_Value :: string

datatype auth_method =
    BasicAuth string string
  | PublicKeys string string
  | HeaderAuth AuthorizationHeader

definition AuthorizationHeader_String :: "AuthorizationHeader \<Rightarrow> string" where
  "AuthorizationHeader_String h = ah_Key h @ '': '' @ ah_Value h"

definition AuthorizationHeader_Name :: "AuthorizationHeader \<Rightarrow> string" where
  "AuthorizationHeader_Name h = ''extraheader''"

text \<open>
  \<open>SetAuth\<close> on the headers of a request. \<open>http.Header.Set\<close> replaces all values of the key in its canonical form:
  the first letter and each letter after a hyphen in upper case, the others in lower case; a key with a character that
  no header may have is left as it is.
\<close>

definition header_char :: "char \<Rightarrow> bool" where
  "header_char c \<longleftrightarrow> is_alnum c \<or> c \<in> set ''!#$%&*+-.^_`|~'' \<or> c = CHR 0x27"

definition upper_char :: "char \<Rightarrow> char" where
  "upper_char c = (if is_lower c then char_of (byte c - 32) else c)"

fun canonical_from :: "bool \<Rightarrow> string \<Rightarrow> string" where
  "canonical_from upper [] = []"
| "canonical_from upper (c # cs) = (if upper then upper_char c else to_lower c) # canonical_from (c = CHR ''-'') cs"

definition CanonicalHeaderKey :: "string \<Rightarrow> string" where
  "CanonicalHeaderKey key = (if list_all header_char key then canonical_from True key else key)"

definition SetAuth :: "AuthorizationHeader \<Rightarrow> (string \<rightharpoonup> string list) \<Rightarrow> (string \<rightharpoonup> string list)" where
  "SetAuth h r = r(CanonicalHeaderKey (ah_Key h) \<mapsto> [ah_Value h])"

text \<open>The key \<open>authz_header\<close> finds is canonical already.\<close>

lemma canonical_Authorization: "CanonicalHeaderKey ''Authorization'' = ''Authorization''"
  by (simp add: CanonicalHeaderKey_def header_char_def is_upper_def is_lower_def is_digit_def byte_def
      upper_char_def to_lower_def)

text \<open>
  The fields the three kinds of options have in common; \<open>opt_URL\<close> is \<open>URL\<close> of clone options
  and \<open>RemoteURL\<close> of the two others.
\<close>

record git_options =
  opt_URL :: string
  opt_Auth :: "auth_method option"
  opt_InsecureSkipTLS :: bool

type_synonym CloneOptions = git_options

record FetchOptions = git_options +
  fo_RefSpecs :: "string list"
  fo_Force :: bool

record PullOptions = git_options +
  po_Force :: bool
  po_RemoteName :: string
  po_ReferenceName :: string

text \<open>
  Library functions: \<open>transport.NewEndpoint\<close> followed by \<open>String\<close>, \<open>ssh.NewPublicKeys\<close>, and what
  \<open>FileKeySelector.GetSecretValue\<close> reads files with.
\<close>

record 'w git_libs =
  NewEndpoint :: "string \<Rightarrow> go_error + string"
  NewPublicKeys :: "string \<Rightarrow> string \<Rightarrow> string \<Rightarrow> go_error + auth_method"
  os_ReadFile :: "'w \<Rightarrow> string \<Rightarrow> go_error + string"
  json_to_map :: "string \<Rightarrow> go_error + (string \<rightharpoonup> iface)"
  yaml_to_map :: "string \<Rightarrow> go_error + (string \<rightharpoonup> iface)"

section \<open>Authentication\<close>

text \<open>The errors of \<open>getSecretValue\<close> are modelled without the selector they print (\<^verbatim>\<open>%+v\<close>).\<close>

definition getSecretValue ::
  "('w, 'x) git_libs_scheme \<Rightarrow> ('w, 'u) k8s_client \<Rightarrow> SecretSource \<Rightarrow> 'w \<Rightarrow> go_error + string" where
  "getSecretValue G C src w =
     (case FromKubernetesSecret src of
        Some sel \<Rightarrow>
          (case GetSecretValue C sel w of
             Inl e \<Rightarrow> Inl (WrapError ''failed to get secret from K8S Secret: '' e)
           | Inr v \<Rightarrow> Inr v)
      | None \<Rightarrow>
          (case FromFile src of
             Some fks \<Rightarrow>
               (case FileKeySelector_GetSecretValue (os_ReadFile G w) (json_to_map G) (yaml_to_map G) fks of
                  Inl e \<Rightarrow> Inl (WrapError ''failed to get secret from file: '' e)
                | Inr v \<Rightarrow> Inr v)
           | None \<Rightarrow> Inl (ErrorString
               ''invalid SecretSource: either FromKubernetesSecret or FromFile should be specified: {FromKubernetesSecret:<nil> FromFile:<nil>}'')))"

definition GetAuthMethod ::
  "('w, 'x) git_libs_scheme \<Rightarrow> ('w, 'u) k8s_client \<Rightarrow> RepoCredential option \<Rightarrow> string \<Rightarrow> 'w \<Rightarrow>
   go_error + (auth_method option \<times> bool)" where
  "GetAuthMethod G C repoCred repoUrl w =
     (case GetURLScheme repoUrl of
        Inl e \<Rightarrow> Inl (WrapError ''failed to parse URL scheme: '' e)
      | Inr scheme \<Rightarrow>
          (case repoCred of
             None \<Rightarrow> Inr (None, False)
           | Some cred \<Rightarrow>
               (let insecureSkipTLS = (case rc_TLS cred of Some t \<Rightarrow> InsecureSkipVerify t | None \<Rightarrow> False)
                in if scheme = ''http'' \<or> scheme = ''https''
                   then (case rc_HTTPCredential cred of
                           None \<Rightarrow> Inr (None, insecureSkipTLS)
                         | Some http \<Rightarrow>
                             (case getSecretValue G C (Password http) w of
                                Inl e \<Rightarrow> Inl (WrapError ''failed to get HTTP credential: '' e)
                              | Inr password \<Rightarrow> Inr (Some (BasicAuth (Username http) password), insecureSkipTLS)))
                   else if scheme = ''ssh''
                   then (case rc_SSHCredential cred of
                           None \<Rightarrow> Inr (None, insecureSkipTLS)
                         | Some sshc \<Rightarrow>
                             (case getSecretValue G C (SSHKey sshc) w of
                                Inl e \<Rightarrow> Inl (WrapError ''Failed to get SSH credential: '' e)
                              | Inr sshKey \<Rightarrow>
                                  bindE (Parse repoUrl) (\<lambda>parsedUrl.
                                    (case NewPublicKeys G (user_Username (User parsedUrl)) sshKey [] of
                                       Inl e \<Rightarrow> Inl (WrapError ''failed to create SSH public keys: '' e)
                                     | Inr auth \<Rightarrow> Inr (Some auth, insecureSkipTLS)))))
                   else Inl (ErrorString (''unsupported URL scheme: '' @ scheme)))))"

section \<open>Options\<close>

definition endpoint_of :: "('w, 'x) git_libs_scheme \<Rightarrow> string \<Rightarrow> go_error + string" where
  "endpoint_of G repoUrl =
     (case NewEndpoint G repoUrl of
        Inl e \<Rightarrow> Inl (WrapError ''invalid repository URL: '' e)
      | Inr s \<Rightarrow> Inr s)"

definition GetRepoCloneOptions ::
  "('w, 'x) git_libs_scheme \<Rightarrow> ('w, 'u) k8s_client \<Rightarrow> RepoCredential option \<Rightarrow> string \<Rightarrow> 'w \<Rightarrow> go_error + CloneOptions" where
  "GetRepoCloneOptions G C repoCred repoUrl w =
     bindE (endpoint_of G repoUrl) (\<lambda>endpoint.
     bindE (GetAuthMethod G C repoCred repoUrl w) (\<lambda>(method, skipTls).
       Inr \<lparr>opt_URL = endpoint, opt_Auth = method, opt_InsecureSkipTLS = skipTls\<rparr>))"

definition GetRepoPullOptions ::
  "('w, 'x) git_libs_scheme \<Rightarrow> ('w, 'u) k8s_client \<Rightarrow> RepoCredential option \<Rightarrow> string \<Rightarrow> string \<Rightarrow> 'w \<Rightarrow> go_error + PullOptions" where
  "GetRepoPullOptions G C repoCred repoUrl refName w =
     bindE (endpoint_of G repoUrl) (\<lambda>remoteURL.
     bindE (GetAuthMethod G C repoCred repoUrl w) (\<lambda>(method, skipTls).
       Inr \<lparr>opt_URL = remoteURL, opt_Auth = method, opt_InsecureSkipTLS = skipTls, po_Force = True,
            po_RemoteName = ''origin'', po_ReferenceName = ''refs/heads/'' @ refName\<rparr>))"

definition GetRepoFetchOptions ::
  "('w, 'x) git_libs_scheme \<Rightarrow> ('w, 'u) k8s_client \<Rightarrow> RepoCredential option \<Rightarrow> string \<Rightarrow> 'w \<Rightarrow> go_error + FetchOptions" where
  "GetRepoFetchOptions G C repoCred repoUrl w =
     bindE (endpoint_of G repoUrl) (\<lambda>remoteURL.
     bindE (GetAuthMethod G C repoCred repoUrl w) (\<lambda>(method, skipTls).
       Inr \<lparr>opt_URL = remoteURL, opt_Auth = method, opt_InsecureSkipTLS = skipTls,
            fo_RefSpecs = [''refs/*:refs/*''], fo_Force = True\<rparr>))"

section \<open>The git configuration\<close>

text \<open>
  The parsed configuration: the URL mappings, in the order in which the map is walked, and the
  raw configuration, which may be nil: a section, its subsection and the value of an option
  (empty when absent).
\<close>

record git_config =
  URLs :: "(string \<times> string) list"
  config_Raw :: "(string \<Rightarrow> (string \<Rightarrow> (string \<Rightarrow> string) option) option) option"

text \<open>The first mapping whose \<open>InsteadOf\<close> is the given prefix, with its key parsed.\<close>

fun find_url_mapping :: "(string \<times> string) list \<Rightarrow> string \<Rightarrow> go_error + (string \<times> URL) option" where
  "find_url_mapping [] insteadOf = Inr None"
| "find_url_mapping ((k, v) # rest) insteadOf =
     (if v = insteadOf
      then (case url_Parse k of
              Inl e \<Rightarrow> Inl (ErrorString (''invalid URL '' @ quoted k @ '' in git config: '' @ Error e))
            | Inr keyURL \<Rightarrow> Inr (Some (k, keyURL)))
      else find_url_mapping rest insteadOf)"

definition scheme_host :: "URL \<Rightarrow> string" where
  "scheme_host u = Scheme u @ ''://'' @ Host u"

definition authz_header ::
  "(string \<Rightarrow> (string \<Rightarrow> (string \<Rightarrow> string) option) option) \<Rightarrow> string \<Rightarrow> AuthorizationHeader option" where
  "authz_header raw httpSubSecKey =
     (case raw ''http'' of
        None \<Rightarrow> None
      | Some httpSection \<Rightarrow>
          (case httpSection httpSubSecKey of
             None \<Rightarrow> None
           | Some subSection \<Rightarrow>
               (let opt = subSection ''extraheader''
                in if HasPrefix opt ''Authorization:''
                   then (case Cut opt (CHR '':'') of (before, after, found) \<Rightarrow>
                           if found then Some \<lparr>ah_Key = before, ah_Value = after\<rparr> else None)
                   else None)))"

text \<open>The options after the call; they are unchanged when it fails. A nil \<open>Raw\<close> is dereferenced.\<close>

definition UpdateOptionsWithGitConfig ::
  "git_config option \<Rightarrow> ('a git_options_scheme) option \<Rightarrow> ('a git_options_scheme) option outcome" where
  "UpdateOptionsWithGitConfig gitConfig options =
     (case (options, gitConfig) of
        (Some opts, Some cfg) \<Rightarrow>
          (if URLs cfg = [] \<and> config_Raw cfg = None then Ok options
           else
             let repoURL = opt_URL opts
             in (case url_Parse repoURL of
                   Inl e \<Rightarrow> Err (ErrorString (''error parsing repo URL '' @ quoted repoURL @ '': '' @ Error e))
                 | Inr rURL \<Rightarrow>
                     (case find_url_mapping (URLs cfg) (scheme_host rURL) of
                        Inl e \<Rightarrow> Err e
                      | Inr m \<Rightarrow>
                          (let newURL = (case m of Some (k, _) \<Rightarrow> k @ url_Path rURL | None \<Rightarrow> repoURL);
                               httpSubSecKey = (case m of Some (_, keyURL) \<Rightarrow> scheme_host keyURL | None \<Rightarrow> [])
                           in (case config_Raw cfg of
                                 None \<Rightarrow> Panic NilDereference
                               | Some raw \<Rightarrow>
                                   Ok (Some (opts\<lparr>opt_URL := newURL,
                                     opt_Auth := (case authz_header raw httpSubSecKey of
                                                    Some h \<Rightarrow> Some (HeaderAuth h)
                                                  | None \<Rightarrow> opt_Auth opts)\<rparr>)))))))
      | _ \<Rightarrow> Ok options)"

section \<open>Lemmas\<close>

lemma GetURLScheme_Inr: "Parse raw = Inr u \<Longrightarrow> GetURLScheme raw = Inr (Scheme u)"
  by (simp add: GetURLScheme_def)

text \<open>What a repository URL is authenticated with, case by case.\<close>

definition auth_for ::
  "('w, 'x) git_libs_scheme \<Rightarrow> ('w, 'u) k8s_client \<Rightarrow> RepoCredential \<Rightarrow> URL \<Rightarrow> 'w \<Rightarrow> auth_method option \<Rightarrow> bool" where
  "auth_for G C cred u w a \<longleftrightarrow>
     (Scheme u \<in> {''http'', ''https''} \<and>
        (case rc_HTTPCredential cred of
           None \<Rightarrow> a = None
         | Some http \<Rightarrow> \<exists>p. getSecretValue G C (Password http) w = Inr p \<and> a = Some (BasicAuth (Username http) p))) \<or>
     (Scheme u = ''ssh'' \<and>
        (case rc_SSHCredential cred of
           None \<Rightarrow> a = None
         | Some sshc \<Rightarrow> \<exists>k. getSecretValue G C (SSHKey sshc) w = Inr k \<and>
             (\<exists>m. NewPublicKeys G (user_Username (User u)) k [] = Inr m \<and> a = Some m)))"

lemma GetAuthMethod_spec:
  assumes "Parse url = Inr u"
  shows "GetAuthMethod G C (Some cred) url w = Inr (a, tls) \<longleftrightarrow>
    auth_for G C cred u w a \<and> tls = (rc_TLS cred = Some \<lparr>InsecureSkipVerify = True\<rparr>)"
proof -
  have tls: "(case rc_TLS cred of Some t \<Rightarrow> InsecureSkipVerify t | None \<Rightarrow> False) =
      (rc_TLS cred = Some \<lparr>InsecureSkipVerify = True\<rparr>)"
    by (cases "rc_TLS cred"; cases "the (rc_TLS cred)") auto
  show ?thesis
    unfolding GetAuthMethod_def GetURLScheme_Inr [OF assms] auth_for_def tls assms
    by (auto simp: Let_def split: option.splits sum.splits)
qed

lemma find_url_mapping_Some:
  "find_url_mapping m i = Inr (Some (k, u)) \<Longrightarrow> (k, i) \<in> set m \<and> url_Parse k = Inr u"
  by (induction m i rule: find_url_mapping.induct) (auto split: if_splits sum.splits)

lemma authz_header_key:
  assumes "authz_header raw sec = Some h"
  shows "ah_Key h = ''Authorization''"
proof -
  obtain opt a where opt: "HasPrefix opt ''Authorization:''" "Cut opt (CHR '':'') = (ah_Key h, a, True)"
    using assms by (auto simp: authz_header_def Let_def split: option.splits if_splits prod.splits)
  then obtain r where "opt = ''Authorization'' @ CHR '':'' # r"
    by (auto simp: HasPrefix_iff_prefix prefix_def)
  then show ?thesis
    using opt(2) Cut_found [of "CHR '':''" "''Authorization''" r] by simp
qed

section \<open>Properties\<close>

text \<open>
  C25. Credentials go to the matching protocol only. With a credential, a repository whose URL
  is HTTP is authenticated with the user and password of its HTTP part, one whose URL is SSH
  with a key for the user of the URL, and with nothing where that part is missing; every other
  scheme is an error, and so is a secret that cannot be read. Without a credential there is no
  authentication, for any scheme.
\<close>

theorem GetAuthMethod_matches_scheme:
  "\<exists>u. Parse url = Inr u \<and>
     (GetAuthMethod G C (Some cred) url w = Inr (a, tls) \<longleftrightarrow>
        auth_for G C cred u w a \<and> tls = (rc_TLS cred = Some \<lparr>InsecureSkipVerify = True\<rparr>)) \<and>
     GetAuthMethod G C None url w = Inr (None, False)"
proof -
  obtain u where u: "Parse url = Inr u" using Parse_total by blast
  have "GetAuthMethod G C None url w = Inr (None, False)"
    using u by (simp add: GetAuthMethod_def GetURLScheme_Inr)
  then show ?thesis
    by (intro exI [of _ u] conjI u GetAuthMethod_spec [OF u])
qed

text \<open>
  A credential is not confined to its path. The credential of \<open>host/p\<close> is found for every
  repository whose normal form merely starts with those characters, such as \<open>host/pq/r\<close>; the
  clone options of such a repository carry its user and password.
\<close>

theorem credential_reaches_siblings:
  assumes "plain_host h" and "clean_path p" and "clean_path (p @ q)"
    and "rc_URL cred = h @ ''/'' @ p" and "rc_HTTPCredential cred = Some http"
    and "getSecretValue G C (Password http) w = Inr pw"
    and "NewEndpoint G (''https://'' @ h @ ''/'' @ p @ q) = Inr ep"
  shows "let url = ''https://'' @ h @ ''/'' @ p @ q
    in FindCredByUrl url (cred # creds) = Some cred \<and>
       (\<exists>tls. GetRepoCloneOptions G C (FindCredByUrl url (cred # creds)) url w =
          Inr \<lparr>opt_URL = ep, opt_Auth = Some (BasicAuth (Username http) pw), opt_InsecureSkipTLS = tls\<rparr>)"
proof -
  let ?url = "''https'' @ ''://'' @ h @ ''/'' @ p @ q"
  have valid: "Valid Transports ''https''" by (simp add: Valid_Transports)
  have norm: "NormalizeGitUrl ?url = h @ ''/'' @ p @ q"
    by (rule NormalizeGitUrl_transport [OF valid assms(1,3)])
  have "NormalizeGitUrl (rc_URL cred) = h @ ''/'' @ p"
    using NormalizeGitUrl_bare [OF assms(1,2)] assms(4) by simp
  then have find: "FindCredByUrl ?url (cred # creds) = Some cred"
    unfolding FindCredByUrl.simps norm by (simp add: HasPrefix_def)
  have "plain_path (p @ q)" using assms(3) by (simp add: clean_path_def)
  from Parse_transport [OF valid assms(1) this] obtain u where u: "Parse ?url = Inr u" "Scheme u = ''https''"
    using valid by (simp add: empty_URL_def)
  define tls where "tls = (rc_TLS cred = Some \<lparr>InsecureSkipVerify = True\<rparr>)"
  have "GetAuthMethod G C (Some cred) ?url w = Inr (Some (BasicAuth (Username http) pw), tls)"
    unfolding GetAuthMethod_spec [OF u(1)] using u(2) assms(5,6) by (simp add: auth_for_def tls_def)
  then have "GetRepoCloneOptions G C (Some cred) ?url w =
      Inr \<lparr>opt_URL = ep, opt_Auth = Some (BasicAuth (Username http) pw), opt_InsecureSkipTLS = tls\<rparr>"
    using assms(7) by (simp add: GetRepoCloneOptions_def endpoint_of_def)
  with find show ?thesis by (simp add: Let_def del: FindCredByUrl.simps)
qed

text \<open>A file system and a client for the witness: one secret, \<open>ns/creds\<close>, with one key.\<close>

definition one_secret :: "(unit, unit) k8s_client" where
  "one_secret = \<lparr>Get_Secret = (\<lambda>ns n w. if ns = ''ns'' \<and> n = ''creds'' then Inr [''token'' \<mapsto> ''s3cr3t'']
       else Inl (TaggedError NotFound ''not found'')),
     Delete = (\<lambda>u w. (Ok (), w))\<rparr>"

definition no_files :: "unit git_libs" where
  "no_files = \<lparr>NewEndpoint = Inr, NewPublicKeys = (\<lambda>u k p. Inr (PublicKeys u k)),
     os_ReadFile = (\<lambda>w f. Inl (ErrorString ''no such file'')),
     json_to_map = (\<lambda>s. Inr Map.empty), yaml_to_map = (\<lambda>s. Inr Map.empty)\<rparr>"

definition token_credential :: HTTPCredential where
  "token_credential = \<lparr>Username = ''bot'', Password = \<lparr>FromKubernetesSecret =
     Some \<lparr>sks_Kind = [], sks_Namespace = ''ns'', sks_Name = ''creds'', sks_UID = [], sks_APIVersion = [],
           sks_ResourceVersion = [], sks_FieldPath = [], sks_Key = ''token''\<rparr>, FromFile = None\<rparr>\<rparr>"

theorem credential_reaches_siblings_witness:
  "let cred = \<lparr>rc_URL = ''github.com/acme'', rc_HTTPCredential = Some token_credential,
        rc_SSHCredential = None, rc_TLS = None\<rparr>
   in FindCredByUrl ''https://github.com/acme-evil/repo'' [cred] = Some cred"
proof -
  define cred where "cred = \<lparr>rc_URL = ''github.com/acme'', rc_HTTPCredential = Some token_credential,
      rc_SSHCredential = None, rc_TLS = None\<rparr>"
  have secret: "getSecretValue no_files one_secret (Password token_credential) () = Inr ''s3cr3t''"
    by (simp add: getSecretValue_def GetSecretValue_def GetSecret_def one_secret_def token_credential_def)
  have endpoint: "NewEndpoint no_files (''https://'' @ ''github.com'' @ ''/'' @ ''acme'' @ ''-evil/repo'') =
      Inr (''https://'' @ ''github.com'' @ ''/'' @ ''acme'' @ ''-evil/repo'')"
    by (simp add: no_files_def)
  have "FindCredByUrl (''https://'' @ ''github.com'' @ ''/'' @ ''acme'' @ ''-evil/repo'') [cred] = Some cred"
    by (rule credential_reaches_siblings [OF _ _ _ _ _ secret endpoint, unfolded Let_def, THEN conjunct1])
      (simp_all add: cred_def plain_host_def clean_path_def plain_path_def
        scp_host_char_def scp_path_char_def is_upper_def is_lower_def is_digit_def byte_def)
  then show ?thesis by (simp add: cred_def Let_def del: FindCredByUrl.simps)
qed

text \<open>
  The git configuration. \<open>UpdateOptionsWithGitConfig\<close> panics exactly when the configuration
  has mappings but no raw part, the URL of the options parses and so does the key of the
  mapping that applies to it. When it succeeds, only the URL and the authentication change: the
  path of the URL is kept behind the key of the first mapping for its scheme and host, if
  there is one, and the authentication is either kept or an Authorization header.
\<close>

theorem UpdateOptions_spec:
  "((\<exists>p. UpdateOptionsWithGitConfig (Some cfg) (Some opts) = Panic p) \<longleftrightarrow>
      URLs cfg \<noteq> [] \<and> config_Raw cfg = None \<and>
      (\<exists>rURL m. url_Parse (opt_URL opts) = Inr rURL \<and> find_url_mapping (URLs cfg) (scheme_host rURL) = Inr m)) \<and>
   (case UpdateOptionsWithGitConfig (Some cfg) (Some opts) of
      Ok (Some opts') \<Rightarrow>
        (\<exists>url auth. opts' = opts\<lparr>opt_URL := url, opt_Auth := auth\<rparr> \<and>
           (url = opt_URL opts \<or>
              (\<exists>rURL k u. url_Parse (opt_URL opts) = Inr rURL \<and> url = k @ url_Path rURL \<and>
                 (k, scheme_host rURL) \<in> set (URLs cfg) \<and> url_Parse k = Inr u)) \<and>
           (auth = opt_Auth opts \<or>
              (\<exists>h. auth = Some (HeaderAuth h) \<and> ah_Key h = ''Authorization'')))
    | Ok None \<Rightarrow> False
    | _ \<Rightarrow> True)"
proof (cases "(URLs cfg = [] \<and> config_Raw cfg = None) \<or> (\<exists>e. url_Parse (opt_URL opts) = Inl e)")
  case True
  then show ?thesis
    by (cases "URLs cfg = [] \<and> config_Raw cfg = None")
      (auto simp: UpdateOptionsWithGitConfig_def Let_def intro!: exI [of _ "opt_Auth opts"])
next
  case False
  then obtain rURL where r: "url_Parse (opt_URL opts) = Inr rURL"
    by (cases "url_Parse (opt_URL opts)") auto
  show ?thesis
  proof (cases "find_url_mapping (URLs cfg) (scheme_host rURL)")
    case (Inl e)
    with False r show ?thesis by (auto simp: UpdateOptionsWithGitConfig_def Let_def)
  next
    case (Inr m)
    show ?thesis
    proof (cases "config_Raw cfg")
      case None
      with False r Inr show ?thesis by (auto simp: UpdateOptionsWithGitConfig_def Let_def)
    next
      case (Some raw)
      define auth where "auth = (case authz_header raw (case m of Some (k, u) \<Rightarrow> scheme_host u | None \<Rightarrow> []) of
        Some h \<Rightarrow> Some (HeaderAuth h) | None \<Rightarrow> opt_Auth opts)"
      define url where "url = (case m of Some (k, u) \<Rightarrow> k @ url_Path rURL | None \<Rightarrow> opt_URL opts)"
      have ok: "UpdateOptionsWithGitConfig (Some cfg) (Some opts) = Ok (Some (opts\<lparr>opt_URL := url, opt_Auth := auth\<rparr>))"
        using Some r Inr by (simp add: UpdateOptionsWithGitConfig_def Let_def auth_def url_def)
      have a: "auth = opt_Auth opts \<or> (\<exists>h. auth = Some (HeaderAuth h) \<and> ah_Key h = ''Authorization'')"
        using authz_header_key by (auto simp: auth_def split: option.splits)
      have u: "url = opt_URL opts \<or> (\<exists>rURL k u. url_Parse (opt_URL opts) = Inr rURL \<and> url = k @ url_Path rURL \<and>
                 (k, scheme_host rURL) \<in> set (URLs cfg) \<and> url_Parse k = Inr u)"
        using find_url_mapping_Some [of "URLs cfg" "scheme_host rURL"] Inr r
        by (auto simp: url_def split: option.splits)
      show ?thesis
        unfolding ok outcome.case option.case using Some
        by (intro conjI exI [of _ url] exI [of _ auth] refl u a) simp
    qed
  qed
qed

end
