(* ===== verification/LiveCache.thy ===== *)
theory LiveCache
  imports KubeUtil GlobalConfig
begin

text \<open>
  The live state cache (\<open>internal/sync/cache.go\<close>): which resources it includes, what it records
  about a resource, when the underlying cluster cache is created or invalidated, and which live
  objects belong to a GitSync. The cluster cache of gitops-engine, the health check, the JSON
  encoder and xxhash are parameters.
\<close>

section \<open>The resource filter\<close>

record ResourceType =
  rt_Group :: string
  rt_Kind :: string

definition malformed_filter :: "string \<Rightarrow> go_error" where
  "malformed_filter rules = ErrorString (''malformed resource filter rules '' @ Quote rules)"

text \<open>
  One round of the loop of \<open>parseResourceFilter\<close>. \<open>Split\<close> returns at least one piece, so index
  0 is always there; index 1 is not.
\<close>

definition parse_filter_rule :: "string \<Rightarrow> string \<Rightarrow> ResourceType outcome" where
  "parse_filter_rule rules rule =
     (let ruleArr = Split rule (CHR '','')
      in if length ruleArr \<noteq> 2 then Err (malformed_filter rules)
         else
           let groupArr = Split (ruleArr ! 0) (CHR ''='');
               kindArr = Split (ruleArr ! 1) (CHR ''='')
           in if \<not> EqualFold (groupArr ! 0) ''group'' \<or> \<not> EqualFold (kindArr ! 0) ''kind''
              then Err (malformed_filter rules)
              else if length groupArr < 2 \<or> length kindArr < 2 then Panic IndexOutOfRange
              else Ok \<lparr>rt_Group = groupArr ! 1, rt_Kind = kindArr ! 1\<rparr>)"

fun parse_filter_loop :: "string \<Rightarrow> string list \<Rightarrow> ResourceType list \<Rightarrow> ResourceType list outcome" where
  "parse_filter_loop rules [] filtered = Ok filtered"
| "parse_filter_loop rules (rule # rest) filtered =
     (case parse_filter_rule rules rule of
        Ok r \<Rightarrow> parse_filter_loop rules rest (filtered @ [r])
      | Err e \<Rightarrow> Err e
      | Panic p \<Rightarrow> Panic p)"

definition parseResourceFilter :: "string \<Rightarrow> ResourceType list outcome" where
  "parseResourceFilter rules =
     (if rules = [] then Ok [] else parse_filter_loop rules (Split rules (CHR '';'')) [])"

fun IsExcludedResource :: "ResourceType list \<Rightarrow> string \<Rightarrow> string \<Rightarrow> bool" where
  "IsExcludedResource [] grp kind = True"
| "IsExcludedResource (resource # rest) grp kind =
     (if rt_Kind resource = []
      then (if grp = rt_Group resource then False else IsExcludedResource rest grp kind)
      else if grp = rt_Group resource \<and> kind = rt_Kind resource then False
      else IsExcludedResource rest grp kind)"

section \<open>Settings\<close>

text \<open>\<open>ResourcesFilter\<close> is an interface: nil in the zero value of the settings.\<close>

record cacheSettings =
  ResourcesFilter :: "ResourceType list option"
  ignoreResourceUpdatesEnabled :: bool

definition zero_cacheSettings :: cacheSettings where
  "zero_cacheSettings = \<lparr>ResourcesFilter = None, ignoreResourceUpdatesEnabled = False\<rparr>"

text \<open>\<open>cfg\<close> is what \<open>GetConfig\<close> returns at this moment.\<close>

definition loadCacheSettings :: "GlobalConfig \<times> go_error option \<Rightarrow> cacheSettings outcome" where
  "loadCacheSettings cfg =
     (case cfg of
        (_, Some e) \<Rightarrow> Err (WrapError ''error on getting global config: '' e)
      | (globalConfig, None) \<Rightarrow>
          (case parseResourceFilter (IncludedResources globalConfig) of
             Err e \<Rightarrow> Err (WrapError ''error on parsing resource filter rules: '' e)
           | Panic p \<Rightarrow> Panic p
           | Ok includedResources \<Rightarrow>
               Ok \<lparr>ResourcesFilter = Some includedResources, ignoreResourceUpdatesEnabled = False\<rparr>))"

section \<open>What the cache records about a resource\<close>

record ResourceInfo =
  GitSyncName :: string
  Health :: "string option"
  manifestHash :: string

definition empty_ResourceInfo :: ResourceInfo where
  "empty_ResourceInfo = \<lparr>GitSyncName = [], Health = None, manifestHash = []\<rparr>"

definition LabelKeyGitSyncInstance :: string where
  "LabelKeyGitSyncInstance = ''numaplane.numaproj.io/tracking-id''"

text \<open>\<open>GetResourceHealth\<close> gives the status, if any; \<open>Sum64\<close> is xxhash, as a number.\<close>

record 'u resource_libs =
  GetResourceHealth :: "'u \<Rightarrow> string option"
  MarshalJSON :: "'u \<Rightarrow> go_error + string"
  Sum64 :: "string \<Rightarrow> nat"

definition getGitSyncName :: "('u, 'x) unstructured_ops_scheme \<Rightarrow> 'u \<Rightarrow> string" where
  "getGitSyncName U un =
     (case GetGitSyncInstanceLabel U un LabelKeyGitSyncInstance of Inl e \<Rightarrow> [] | Inr value \<Rightarrow> value)"

text \<open>\<open>strconv.FormatUint(n, 16)\<close>.\<close>

definition hex_digit :: "nat \<Rightarrow> char" where
  "hex_digit n = ''0123456789abcdef'' ! n"

fun FormatUint16 :: "nat \<Rightarrow> string" where
  "FormatUint16 n = (if n < 16 then [hex_digit n] else FormatUint16 (n div 16) @ [hex_digit (n mod 16)])"

declare FormatUint16.simps [simp del]

definition hash :: "('u, 'x) resource_libs_scheme \<Rightarrow> string \<Rightarrow> string" where
  "hash L data = FormatUint16 (Sum64 L data)"

definition NoopNormalizer_Normalize :: "'u \<Rightarrow> go_error + 'u" where
  "NoopNormalizer_Normalize un = Inr un"

definition generateManifestHash :: "('u, 'x) resource_libs_scheme \<Rightarrow> 'u \<Rightarrow> go_error + string" where
  "generateManifestHash L un =
     (case NoopNormalizer_Normalize un of
        Inl e \<Rightarrow> Inl (WrapError ''error normalizing resource: '' e)
      | Inr resource \<Rightarrow>
          (case MarshalJSON L resource of
             Inl e \<Rightarrow> Inl (WrapError ''error marshaling resource: '' e)
           | Inr data \<Rightarrow> Inr (hash L data)))"

definition shouldHashManifest :: "string \<Rightarrow> GroupVersionKind \<Rightarrow> bool" where
  "shouldHashManifest gitSyncName gvk \<longleftrightarrow>
     gitSyncName \<noteq> [] \<or> (gvk_Group gvk = ''numaplane.numaproj.io'' \<and> gvk_Kind gvk = ''GitSync'')"

text \<open>The second result tells the cluster cache to keep the whole manifest.\<close>

definition PopulateResourceInfo ::
  "('u, 'x) unstructured_ops_scheme \<Rightarrow> ('u, 'y) resource_libs_scheme \<Rightarrow> cacheSettings \<Rightarrow> 'u \<Rightarrow> bool \<Rightarrow> ResourceInfo \<times> bool" where
  "PopulateResourceInfo U L settings un isRoot =
     (let gitSyncName = getGitSyncName U un;
          gvk = get_gvk U un;
          name = (if isRoot \<and> gitSyncName \<noteq> [] then gitSyncName else []);
          h = (if ignoreResourceUpdatesEnabled settings \<and> shouldHashManifest gitSyncName gvk
               then (case generateManifestHash L un of Inl e \<Rightarrow> [] | Inr h \<Rightarrow> h) else [])
      in (\<lparr>GitSyncName = name, Health = GetResourceHealth L un, manifestHash = h\<rparr>,
          name \<noteq> [] \<or> gvk_Kind gvk = ''CustomResourceDefinition''))"

text \<open>The \<open>Info\<close> of a cached resource: \<open>None\<close> when it is not a \<open>*ResourceInfo\<close> or is nil.\<close>

definition resInfo :: "ResourceInfo option \<Rightarrow> ResourceInfo" where
  "resInfo r = (case r of None \<Rightarrow> empty_ResourceInfo | Some info \<Rightarrow> info)"

definition skipResourceUpdate :: "ResourceInfo option \<Rightarrow> ResourceInfo option \<Rightarrow> bool" where
  "skipResourceUpdate oldInfo newInfo =
     (case (oldInfo, newInfo) of
        (Some old, Some new) \<Rightarrow>
          let isSameHealthStatus = ((Health old = None \<and> Health new = None) \<or>
                (Health old \<noteq> None \<and> Health new \<noteq> None \<and> the (Health old) = the (Health new)));
              isSameManifest = (manifestHash old \<noteq> [] \<and> manifestHash new \<noteq> [] \<and>
                manifestHash old = manifestHash new)
          in isSameHealthStatus \<and> isSameManifest
      | _ \<Rightarrow> False)"

text \<open>The handler registered with \<open>OnResourceUpdated\<close>: whether it returns before its end.\<close>

definition update_skipped ::
  "cacheSettings \<Rightarrow> ResourceInfo option option \<Rightarrow> ResourceInfo option option \<Rightarrow> bool" where
  "update_skipped settings newRes oldRes \<longleftrightarrow>
     ignoreResourceUpdatesEnabled settings \<and>
     (case (oldRes, newRes) of
        (Some old, Some new) \<Rightarrow> skipResourceUpdate (Some (resInfo old)) (Some (resInfo new))
      | _ \<Rightarrow> False)"

section \<open>Retryable errors\<close>

text \<open>
  What \<open>isRetryableError\<close> observes of an error: the predicates of \<open>apierrors\<close> it satisfies, its
  dynamic type, its text, and whether it wraps \<open>ECONNRESET\<close>.
\<close>

datatype api_reason =
    InternalError | Invalid | TooManyRequests | ServerTimeout | ServiceUnavailable | Timeout
  | UnexpectedObject | UnexpectedServer | Forbidden | Conflict

datatype error_type =
    DNSError | OpError | UnknownNetworkError | UrlError | OtherNetError | ExitError string | OtherError

record observed_error =
  has_reason :: "api_reason \<Rightarrow> bool"
  dyn_type :: error_type
  err_text :: string
  is_ECONNRESET :: bool

definition isExceededQuotaErr :: "observed_error \<Rightarrow> bool" where
  "isExceededQuotaErr e \<longleftrightarrow> has_reason e Forbidden \<and> Contains_str (err_text e) ''exceeded quota''"

definition isResourceQuotaConflictErr :: "observed_error \<Rightarrow> bool" where
  "isResourceQuotaConflictErr e \<longleftrightarrow>
     has_reason e Conflict \<and> Contains_str (err_text e) ''Operation cannot be fulfilled on resourcequota''"

definition transient_texts :: "string list" where
  "transient_texts = [''net/http: TLS handshake timeout'', ''i/o timeout'', ''connection timed out'',
     ''connection reset by peer'']"

definition isTransientNetworkErr :: "observed_error \<Rightarrow> bool" where
  "isTransientNetworkErr e =
     (case dyn_type e of
        DNSError \<Rightarrow> True
      | OpError \<Rightarrow> True
      | UnknownNetworkError \<Rightarrow> True
      | UrlError \<Rightarrow> Contains_str (err_text e) ''Connection closed by foreign host''
      | t \<Rightarrow>
          (let errorString = (case t of ExitError stderr \<Rightarrow> err_text e @ '' '' @ stderr | _ \<Rightarrow> err_text e)
           in list_ex (Contains_str errorString) transient_texts))"

definition isRetryableError :: "observed_error option \<Rightarrow> bool" where
  "isRetryableError err =
     (case err of
        None \<Rightarrow> False
      | Some e \<Rightarrow>
          has_reason e InternalError \<or> has_reason e Invalid \<or> has_reason e TooManyRequests \<or>
          has_reason e ServerTimeout \<or> has_reason e ServiceUnavailable \<or> has_reason e Timeout \<or>
          has_reason e UnexpectedObject \<or> has_reason e UnexpectedServer \<or>
          isResourceQuotaConflictErr e \<or> isTransientNetworkErr e \<or> isExceededQuotaErr e \<or>
          is_ECONNRESET e)"

section \<open>The options of a cluster cache\<close>

text \<open>
  The options \<open>getCluster\<close> gives a new cluster cache, durations in seconds. The handler
  \<open>PopulateResourceInfo\<close> and the logger, which it passes too, are not repeated here.
\<close>

record cluster_options =
  ListSemaphore :: int
  ListPageSize :: int
  ListPageBufferSize :: int
  WatchResyncTimeout :: int
  ClusterSyncRetryTimeout :: int
  ResyncTimeout :: int
  co_Settings :: cacheSettings
  RetryLimit :: int
  RetryUseBackoff :: bool
  RetryFunc :: "observed_error option \<Rightarrow> bool"

definition clusterCacheOpts :: "cacheSettings \<Rightarrow> cluster_options" where
  "clusterCacheOpts settings =
     \<lparr>ListSemaphore = 50, ListPageSize = 500, ListPageBufferSize = 1, WatchResyncTimeout = 10 * 60,
      ClusterSyncRetryTimeout = 10, ResyncTimeout = 12 * 60 * 60, co_Settings = settings,
      RetryLimit = 1, RetryUseBackoff = False, RetryFunc = isRetryableError\<rparr>"

section \<open>The cache object\<close>

text \<open>
  \<open>'k\<close> is the state of a cluster cache of gitops-engine, \<open>'key\<close> a resource key. A cluster
  cache is asked for the live objects of a predicate on their \<open>Info\<close>; the list stands for the
  map returned, in the order in which the caller walks it.
\<close>

record ('k, 'key, 'u) cluster_api =
  NewClusterCache :: "cluster_options \<Rightarrow> 'k"
  Invalidate :: "cacheSettings \<Rightarrow> 'k \<Rightarrow> 'k"
  EnsureSynced :: "'k \<Rightarrow> ('k, unit) result"
  ManagedLiveObjs :: "'u list \<Rightarrow> (ResourceInfo option \<Rightarrow> bool) \<Rightarrow> 'k \<Rightarrow> ('k, ('key \<times> 'u) list) result"

record 'k liveStateCache =
  lc_logger :: bool
  lc_cluster :: "'k option"
  lc_settings :: cacheSettings

definition NewLiveStateCache :: "'k liveStateCache" where
  "NewLiveStateCache = \<lparr>lc_logger = False, lc_cluster = None, lc_settings = zero_cacheSettings\<rparr>"

definition newLiveStateCache :: "'k option \<Rightarrow> 'k liveStateCache" where
  "newLiveStateCache cluster = \<lparr>lc_logger = True, lc_cluster = cluster, lc_settings = zero_cacheSettings\<rparr>"

definition Init :: "GlobalConfig \<times> go_error option \<Rightarrow> 'k liveStateCache \<Rightarrow> ('k liveStateCache, unit) result" where
  "Init cfg c =
     (let c' = c\<lparr>lc_logger := True\<rparr>
      in case loadCacheSettings cfg of
           Err e \<Rightarrow> (Err (WrapError ''error on init live state cache: '' e), c')
         | Panic p \<Rightarrow> (Panic p, c')
         | Ok setting \<Rightarrow> (Ok (), c'\<lparr>lc_settings := setting\<rparr>))"

text \<open>A method called on a nil logger or a nil cluster cache panics.\<close>

definition invalidate ::
  "('k, 'key, 'u) cluster_api \<Rightarrow> cacheSettings \<Rightarrow> 'k liveStateCache \<Rightarrow> ('k liveStateCache, unit) result" where
  "invalidate K settings c =
     (if \<not> lc_logger c then (Panic NilDereference, c)
      else
        let c' = c\<lparr>lc_settings := settings\<rparr>
        in case lc_cluster c' of
             None \<Rightarrow> (Panic NilDereference, c')
           | Some k \<Rightarrow> (Ok (), c'\<lparr>lc_cluster := Some (Invalidate K settings k)\<rparr>))"

text \<open>
  \<open>getCluster\<close>. The error of \<open>loadCacheSettings\<close> is logged and the nil pointer returned with it
  is then dereferenced. The calls of a cache are taken one at a time, as if each held the lock
  throughout; the second look at \<open>c.cluster\<close> under the lock then finds what the first found.
\<close>

definition getCluster ::
  "('k, 'key, 'u) cluster_api \<Rightarrow> GlobalConfig \<times> go_error option \<Rightarrow> 'k liveStateCache \<Rightarrow> ('k liveStateCache, 'k) result" where
  "getCluster K cfg c =
     (case loadCacheSettings cfg of
        Panic p \<Rightarrow> (Panic p, c)
      | Err e \<Rightarrow> (Panic NilDereference, c)
      | Ok next \<Rightarrow>
          bindR (if lc_settings c \<noteq> next then invalidate K next (c\<lparr>lc_settings := next\<rparr>) else (Ok (), c))
            (\<lambda>_ c'. case lc_cluster c' of
               Some k \<Rightarrow> (Ok k, c')
             | None \<Rightarrow>
                 let k = NewClusterCache K (clusterCacheOpts (lc_settings c')) in (Ok k, c'\<lparr>lc_cluster := Some k\<rparr>)))"

text \<open>The cluster cache is a pointer: what a call does to it is seen through \<open>c.cluster\<close>.\<close>

definition on_cluster :: "('k \<Rightarrow> ('k, 'a) result) \<Rightarrow> 'k \<Rightarrow> 'k liveStateCache \<Rightarrow> ('k liveStateCache, 'a) result" where
  "on_cluster f k c = (case f k of (r, k') \<Rightarrow> (r, c\<lparr>lc_cluster := Some k'\<rparr>))"

definition getSyncedCluster ::
  "('k, 'key, 'u) cluster_api \<Rightarrow> GlobalConfig \<times> go_error option \<Rightarrow> 'k liveStateCache \<Rightarrow> ('k liveStateCache, 'k) result" where
  "getSyncedCluster K cfg c =
     bindR (getCluster K cfg c) (\<lambda>k c'.
       bindR (mapErr (WrapError ''error synchronizing cache state : '') (on_cluster (EnsureSynced K) k c'))
         (\<lambda>_ c''. (Ok (the (lc_cluster c'')), c'')))"

definition GetClusterCache ::
  "('k, 'key, 'u) cluster_api \<Rightarrow> GlobalConfig \<times> go_error option \<Rightarrow> 'k liveStateCache \<Rightarrow> ('k liveStateCache, 'k) result" where
  "GetClusterCache K cfg c = getSyncedCluster K cfg c"

definition owned_by :: "GitSync \<Rightarrow> ResourceInfo option \<Rightarrow> bool" where
  "owned_by gitsync r \<longleftrightarrow> GitSyncName (resInfo r) = gs_Name gitsync"

definition GetManagedLiveObjs ::
  "('k, 'key, 'u) cluster_api \<Rightarrow> GlobalConfig \<times> go_error option \<Rightarrow> GitSync \<Rightarrow> 'u list \<Rightarrow> 'k liveStateCache \<Rightarrow>
   ('k liveStateCache, ('key \<times> 'u) list) result" where
  "GetManagedLiveObjs K cfg gitsync targetObjs c =
     bindR (mapErr (WrapError (''failed to get cluster info for '' @ Quote (Cluster (spec_Destination (gs_Spec gitsync))) @ '': ''))
              (getSyncedCluster K cfg c))
       (\<lambda>clusterInfo c'. on_cluster (ManagedLiveObjs K targetObjs (owned_by gitsync)) clusterInfo c')"

section \<open>Lemmas on the filter\<close>

lemma Split_single: "length (Split s c) < 2 \<longleftrightarrow> c \<notin> set s"
  by (simp add: length_Split count_list_0_iff)

lemma two_pieces: "length xs = 2 \<longleftrightarrow> (\<exists>a b. xs = [a, b])"
  by (auto simp: length_Suc_conv numeral_2_eq_2)

text \<open>A rule as the documentation writes it, and filters that can be written so.\<close>

definition render_rule :: "ResourceType \<Rightarrow> string" where
  "render_rule r = ''group='' @ rt_Group r @ '',kind='' @ rt_Kind r"

definition render_filter :: "ResourceType list \<Rightarrow> string" where
  "render_filter rs = Join (map render_rule rs) '';''"

definition plain_rule :: "ResourceType \<Rightarrow> bool" where
  "plain_rule r \<longleftrightarrow> set (rt_Group r @ rt_Kind r) \<inter> {CHR '';'', CHR '','', CHR ''=''} = {}"

lemma EqualFold_keys: "EqualFold ''group'' ''group''" "EqualFold ''kind'' ''kind''"
  by (simp_all add: EqualFold_def to_lower_def is_upper_def byte_def)

lemma parse_render_rule:
  assumes "plain_rule r"
  shows "parse_filter_rule rules (render_rule r) = Ok r"
proof -
  have "CHR '','' \<notin> set (rt_Group r)" "CHR '','' \<notin> set (rt_Kind r)"
    and eq: "CHR ''='' \<notin> set (rt_Group r)" "CHR ''='' \<notin> set (rt_Kind r)"
    using assms by (auto simp: plain_rule_def)
  then have rule: "Split (render_rule r) (CHR '','') = [''group='' @ rt_Group r, ''kind='' @ rt_Kind r]"
    using Split_append [of "CHR '',''" "''group='' @ rt_Group r" "''kind='' @ rt_Kind r"]
    by (simp add: render_rule_def Split_no_sep)
  have pieces: "Split (''group='' @ rt_Group r) (CHR ''='') = [''group'', rt_Group r]"
    "Split (''kind='' @ rt_Kind r) (CHR ''='') = [''kind'', rt_Kind r]"
    using eq by (simp_all add: Split_no_sep)
  have nth: "[''group='' @ rt_Group r, ''kind='' @ rt_Kind r] ! 1 = ''kind='' @ rt_Kind r"
    "[''group='' @ rt_Group r, ''kind='' @ rt_Kind r] ! 0 = ''group='' @ rt_Group r"
    by (simp_all only: nth_Cons_0 One_nat_def nth_Cons_Suc)
  show ?thesis
    unfolding parse_filter_rule_def Let_def rule nth pieces by (simp add: EqualFold_keys)
qed

lemma parse_filter_loop_render:
  "list_all plain_rule rs \<Longrightarrow> parse_filter_loop rules (map render_rule rs) acc = Ok (acc @ rs)"
  by (induction rs arbitrary: acc) (auto simp: parse_render_rule)

lemma render_rule_no_sep: "plain_rule r \<Longrightarrow> CHR '';'' \<notin> set (render_rule r)"
  by (auto simp: render_rule_def plain_rule_def)

lemma parseResourceFilter_render:
  assumes "list_all plain_rule rs"
  shows "parseResourceFilter (render_filter rs) = Ok rs"
proof (cases "rs = []")
  case True
  then show ?thesis by (simp add: render_filter_def parseResourceFilter_def)
next
  case False
  then have split: "Split (render_filter rs) (CHR '';'') = map render_rule rs"
    unfolding render_filter_def
    using assms render_rule_no_sep by (intro Split_Join) (auto simp: list_all_iff)
  moreover have "render_filter rs \<noteq> []"
    using False by (cases rs; cases "tl rs") (auto simp: render_filter_def render_rule_def)
  ultimately show ?thesis
    using parse_filter_loop_render [OF assms, of "render_filter rs" "[]"] by (simp add: parseResourceFilter_def)
qed

lemma IsExcludedResource_iff:
  "IsExcludedResource rs grp kind \<longleftrightarrow>
     \<not> (\<exists>r\<in>set rs. rt_Group r = grp \<and> (rt_Kind r = [] \<or> rt_Kind r = kind))"
  by (induction rs grp kind rule: IsExcludedResource.induct) auto

text \<open>A rule with both keys in place, one of them without its \<open>=\<close>.\<close>

definition rule_lacks_value :: "string \<Rightarrow> bool" where
  "rule_lacks_value r \<longleftrightarrow>
     (\<exists>g k. Split r (CHR '','') = [g, k] \<and>
        EqualFold (hd (Split g (CHR ''=''))) ''group'' \<and> EqualFold (hd (Split k (CHR ''=''))) ''kind'' \<and>
        (CHR ''='' \<notin> set g \<or> CHR ''='' \<notin> set k))"

lemma parse_filter_rule_panics:
  "parse_filter_rule rules r = Panic p \<longleftrightarrow> p = IndexOutOfRange \<and> rule_lacks_value r"
proof (cases "\<exists>g k. Split r (CHR '','') = [g, k]")
  case True
  then obtain g k where r: "Split r (CHR '','') = [g, k]" by blast
  have "[g, k] ! 1 = k" "[g, k] ! 0 = g" by simp_all
  then show ?thesis
    unfolding parse_filter_rule_def rule_lacks_value_def Let_def r
    by (auto simp: Split_single hd_conv_nth)
next
  case False
  then show ?thesis
    by (auto simp: parse_filter_rule_def rule_lacks_value_def two_pieces Let_def)
qed

lemma parse_filter_loop_panics:
  "parse_filter_loop rules rs acc = Panic p \<longleftrightarrow>
     (\<exists>pre r post. rs = pre @ r # post \<and> list_all (\<lambda>r. \<exists>t. parse_filter_rule rules r = Ok t) pre \<and>
        parse_filter_rule rules r = Panic p)"
proof (induction rs arbitrary: acc)
  case (Cons a rs)
  show ?case
  proof (cases "parse_filter_rule rules a")
    case (Ok t)
    have "(\<exists>pre r post. a # rs = pre @ r # post \<and> list_all (\<lambda>r. \<exists>t. parse_filter_rule rules r = Ok t) pre \<and>
        parse_filter_rule rules r = Panic p) \<longleftrightarrow>
      (\<exists>pre r post. rs = pre @ r # post \<and> list_all (\<lambda>r. \<exists>t. parse_filter_rule rules r = Ok t) pre \<and>
        parse_filter_rule rules r = Panic p)" (is "?l \<longleftrightarrow> ?r")
    proof
      assume ?l
      then obtain pre r post where *: "a # rs = pre @ r # post"
        "list_all (\<lambda>r. \<exists>t. parse_filter_rule rules r = Ok t) pre" "parse_filter_rule rules r = Panic p" by blast
      then obtain pre' where "pre = a # pre'"
        using Ok by (cases pre) auto
      with * show ?r by (intro exI [of _ pre'] exI [of _ r] exI [of _ post]) simp
    next
      assume ?r
      then obtain pre r post where "rs = pre @ r # post"
        "list_all (\<lambda>r. \<exists>t. parse_filter_rule rules r = Ok t) pre" "parse_filter_rule rules r = Panic p" by blast
      with Ok show ?l by (intro exI [of _ "a # pre"] exI [of _ r] exI [of _ post]) simp
    qed
    with Ok show ?thesis
      using Cons.IH by simp
  next
    case (Err e)
    then show ?thesis by (auto simp: Cons_eq_append_conv)
  next
    case (Panic q)
    have "\<exists>pre r post. a # rs = pre @ r # post \<and> list_all (\<lambda>r. \<exists>t. parse_filter_rule rules r = Ok t) pre \<and>
        parse_filter_rule rules r = Panic q"
      using Panic by (intro exI [of _ "[]"] exI [of _ a] exI [of _ rs]) simp
    moreover have "q = p" if "a # rs = pre @ r # post" "list_all (\<lambda>r. \<exists>t. parse_filter_rule rules r = Ok t) pre"
      "parse_filter_rule rules r = Panic p" for pre r post
      using that Panic by (cases pre) auto
    ultimately show ?thesis using Panic by auto
  qed
qed simp

section \<open>Lemmas on the cache\<close>

lemma loadCacheSettings_Ok:
  "loadCacheSettings cfg = Ok s \<longleftrightarrow>
     snd cfg = None \<and> (\<exists>rs. parseResourceFilter (IncludedResources (fst cfg)) = Ok rs \<and>
        s = \<lparr>ResourcesFilter = Some rs, ignoreResourceUpdatesEnabled = False\<rparr>)"
  by (cases cfg) (auto simp: loadCacheSettings_def split: option.splits outcome.splits)

text \<open>What \<open>getCluster\<close> makes of the cluster cache when it succeeds.\<close>

definition next_cluster :: "('k, 'key, 'u) cluster_api \<Rightarrow> cacheSettings \<Rightarrow> cacheSettings \<Rightarrow> 'k option \<Rightarrow> 'k" where
  "next_cluster K old new k =
     (case k of None \<Rightarrow> NewClusterCache K (clusterCacheOpts new)
      | Some k \<Rightarrow> if old = new then k else Invalidate K new k)"

lemma getCluster_Ok:
  assumes "loadCacheSettings cfg = Ok s"
    and "lc_settings c = s \<or> (lc_logger c \<and> lc_cluster c \<noteq> None)"
  shows "getCluster K cfg c =
    (let k = next_cluster K (lc_settings c) s (lc_cluster c)
     in (Ok k, c\<lparr>lc_settings := s, lc_cluster := Some k\<rparr>))"
  using assms
  by (cases c) (auto simp: getCluster_def next_cluster_def invalidate_def Let_def split: option.splits)

lemma getCluster_panics:
  assumes "loadCacheSettings cfg = Ok s" and "lc_settings c \<noteq> s" and "\<not> lc_logger c \<or> lc_cluster c = None"
  shows "fst (getCluster K cfg c) = Panic NilDereference"
  using assms by (auto simp: getCluster_def invalidate_def Let_def split: option.splits)

text \<open>The cluster cache after a start with settings \<open>s\<close> and calls that load \<open>ss\<close>.\<close>

fun cluster_history :: "('k, 'key, 'u) cluster_api \<Rightarrow> cacheSettings \<Rightarrow> 'k \<Rightarrow> cacheSettings list \<Rightarrow> 'k" where
  "cluster_history K s k [] = k"
| "cluster_history K s k (s' # ss) = cluster_history K s' (if s = s' then k else Invalidate K s' k) ss"

text \<open>A sequence of \<open>getCluster\<close> calls, each with the configuration of its moment.\<close>

fun get_clusters ::
  "('k, 'key, 'u) cluster_api \<Rightarrow> (GlobalConfig \<times> go_error option) list \<Rightarrow> 'k liveStateCache \<Rightarrow> ('k liveStateCache, unit) result" where
  "get_clusters K [] c = (Ok (), c)"
| "get_clusters K (cfg # cfgs) c = bindR (getCluster K cfg c) (\<lambda>_. get_clusters K cfgs)"

lemma get_clusters_history:
  assumes "list_all2 (\<lambda>cfg s. loadCacheSettings cfg = Ok s) cfgs ss"
    and "lc_logger c" and "lc_cluster c = Some k"
  shows "get_clusters K cfgs c =
    (Ok (), c\<lparr>lc_settings := last (lc_settings c # ss),
             lc_cluster := Some (cluster_history K (lc_settings c) k ss)\<rparr>)"
  using assms
proof (induction cfgs arbitrary: c k ss)
  case (Cons cfg cfgs)
  then obtain s ss' where ss: "ss = s # ss'" "loadCacheSettings cfg = Ok s"
    "list_all2 (\<lambda>cfg s. loadCacheSettings cfg = Ok s) cfgs ss'"
    by (auto simp: list_all2_Cons1)
  then show ?case
    using Cons.IH [OF ss(3), of "c\<lparr>lc_settings := s, lc_cluster := Some (next_cluster K (lc_settings c) s (Some k))\<rparr>"]
      Cons.prems getCluster_Ok [OF ss(2), of c K]
    by (auto simp: next_cluster_def Let_def)
qed simp

section \<open>Properties\<close>

text \<open>
  C30. The filter of a configuration. For any list of rules free of the separators, the
  configuration text that documents them is loaded as settings whose filter includes exactly
  the resources of a listed group with a listed or empty kind; the empty text includes nothing.
\<close>

theorem filter_means_its_rules:
  assumes "list_all plain_rule rs" and "IncludedResources cfg = render_filter rs"
  shows "\<exists>filter'. loadCacheSettings (cfg, None) =
      Ok \<lparr>ResourcesFilter = Some filter', ignoreResourceUpdatesEnabled = False\<rparr> \<and>
    (IsExcludedResource filter' grp kind \<longleftrightarrow>
       \<not> (\<exists>r\<in>set rs. rt_Group r = grp \<and> (rt_Kind r = [] \<or> rt_Kind r = kind)))"
  using parseResourceFilter_render [OF assms(1)] assms(2)
  by (auto simp: loadCacheSettings_def IsExcludedResource_iff)

theorem filter_means_its_rules_witness:
  "\<exists>filter'. loadCacheSettings (zero_GlobalConfig\<lparr>IncludedResources :=
        render_filter [\<lparr>rt_Group = ''apps'', rt_Kind = ''Deployment''\<rparr>, \<lparr>rt_Group = ''numaflow'', rt_Kind = []\<rparr>]\<rparr>, None) =
      Ok \<lparr>ResourcesFilter = Some filter', ignoreResourceUpdatesEnabled = False\<rparr> \<and>
    IsExcludedResource filter' ''apps'' ''Pod''"
  using filter_means_its_rules [where rs = "[\<lparr>rt_Group = ''apps'', rt_Kind = ''Deployment''\<rparr>,
        \<lparr>rt_Group = ''numaflow'', rt_Kind = []\<rparr>]" and grp = "''apps''" and kind = "''Pod''"
      and cfg = "zero_GlobalConfig\<lparr>IncludedResources := render_filter [\<lparr>rt_Group = ''apps'', rt_Kind = ''Deployment''\<rparr>,
        \<lparr>rt_Group = ''numaflow'', rt_Kind = []\<rparr>]\<rparr>"]
  by (simp add: plain_rule_def)

text \<open>
  Parsing the filter panics exactly when the first rule that is not accepted has its two
  keys \<open>group\<close> and \<open>kind\<close> but one of them lacks the sign \<open>=\<close>; it is then an index out of range.
  Any other malformed rule is an error.
\<close>

theorem filter_panics_iff:
  "parseResourceFilter rules = Panic p \<longleftrightarrow> p = IndexOutOfRange \<and> rules \<noteq> [] \<and>
     (\<exists>pre r post. Split rules (CHR '';'') = pre @ r # post \<and>
        list_all (\<lambda>r. \<exists>t. parse_filter_rule rules r = Ok t) pre \<and> rule_lacks_value r)"
  by (auto simp: parseResourceFilter_def parse_filter_loop_panics parse_filter_rule_panics)

text \<open>
  C12. The cluster cache follows the configuration. After a successful \<open>Init\<close>, if the first
  call of \<open>getCluster\<close> still loads the settings of \<open>Init\<close>, then no later call fails while the
  configuration loads: the cluster cache is created once, with those settings, and is
  invalidated at exactly the calls whose settings differ from those of the call before.
\<close>

theorem cluster_follows_config:
  fixes K :: "('k, 'key, 'u) cluster_api"
  assumes "loadCacheSettings cfg0 = Ok s" and "loadCacheSettings cfg = Ok s"
    and "list_all2 (\<lambda>cfg s. loadCacheSettings cfg = Ok s) cfgs ss"
  shows "get_clusters K (cfg # cfgs) (snd (Init cfg0 NewLiveStateCache)) =
    (Ok (), \<lparr>lc_logger = True, lc_cluster = Some (cluster_history K s (NewClusterCache K (clusterCacheOpts s)) ss),
             lc_settings = last (s # ss)\<rparr>)"
proof -
  let ?c = "\<lparr>lc_logger = True, lc_cluster = None :: 'k option, lc_settings = s\<rparr>"
  have "snd (Init cfg0 NewLiveStateCache) = ?c"
    using assms(1) by (simp add: Init_def NewLiveStateCache_def Let_def)
  moreover have "getCluster K cfg ?c = (Ok (NewClusterCache K (clusterCacheOpts s)), ?c\<lparr>lc_cluster := Some (NewClusterCache K (clusterCacheOpts s))\<rparr>)"
    using getCluster_Ok [OF assms(2), of ?c K] by (simp add: next_cluster_def Let_def)
  ultimately show ?thesis
    using get_clusters_history [OF assms(3), where K = K and k = "NewClusterCache K (clusterCacheOpts s)"
        and c = "?c\<lparr>lc_cluster := Some (NewClusterCache K (clusterCacheOpts s))\<rparr>"] by simp
qed

theorem cluster_follows_config_witness:
  "\<exists>c. get_clusters (\<lparr>NewClusterCache = (\<lambda>opts. [co_Settings opts]), Invalidate = (\<lambda>s k. k @ [s]), EnsureSynced = (\<lambda>k. (Ok (), k)),
        ManagedLiveObjs = (\<lambda>t p k. (Ok [], k))\<rparr> :: (cacheSettings list, string, string) cluster_api)
      [(zero_GlobalConfig, None), (zero_GlobalConfig, None)] (snd (Init (zero_GlobalConfig, None) NewLiveStateCache)) = (Ok (), c) \<and>
    map_option length (lc_cluster c) = Some 1"
proof -
  have load: "loadCacheSettings (zero_GlobalConfig, None) = Ok \<lparr>ResourcesFilter = Some [], ignoreResourceUpdatesEnabled = False\<rparr>"
    by (simp add: loadCacheSettings_def parseResourceFilter_def zero_GlobalConfig_def)
  show ?thesis
    using cluster_follows_config [OF load load, of "[(zero_GlobalConfig, None)]"
        "[\<lparr>ResourcesFilter = Some [], ignoreResourceUpdatesEnabled = False\<rparr>]"
        "\<lparr>NewClusterCache = (\<lambda>opts. [co_Settings opts]), Invalidate = (\<lambda>s k. k @ [s]), EnsureSynced = (\<lambda>k. (Ok (), k)),
          ManagedLiveObjs = (\<lambda>t p k. (Ok [], k))\<rparr> :: (cacheSettings list, string, string) cluster_api"]
    by (simp add: load)
qed

text \<open>
  When \<open>getCluster\<close> crashes. The first call after a successful \<open>Init\<close> panics exactly when
  it does not load the settings \<open>Init\<close> loaded: because the configuration cannot be read, its
  filter is malformed, or its filter has changed meanwhile.
\<close>

theorem getCluster_crashes:
  assumes "loadCacheSettings cfg0 = Ok s0"
  shows "(\<exists>p. fst (getCluster K cfg (snd (Init cfg0 NewLiveStateCache))) = Panic p) \<longleftrightarrow>
    loadCacheSettings cfg \<noteq> Ok s0"
  using assms
  by (cases "loadCacheSettings cfg") (auto simp: getCluster_def Init_def NewLiveStateCache_def invalidate_def Let_def)

theorem getCluster_crashes_witness:
  "\<exists>p. fst (getCluster (\<lparr>NewClusterCache = (\<lambda>opts. [co_Settings opts]), Invalidate = (\<lambda>s k. k @ [s]), EnsureSynced = (\<lambda>k. (Ok (), k)),
        ManagedLiveObjs = (\<lambda>t p k. (Ok [], k))\<rparr> :: (cacheSettings list, string, string) cluster_api)
      (zero_GlobalConfig\<lparr>IncludedResources := ''group''\<rparr>, None)
      (snd (Init (zero_GlobalConfig, None) NewLiveStateCache))) = Panic p"
proof -
  have load: "loadCacheSettings (zero_GlobalConfig, None) = Ok \<lparr>ResourcesFilter = Some [], ignoreResourceUpdatesEnabled = False\<rparr>"
    by (simp add: loadCacheSettings_def parseResourceFilter_def zero_GlobalConfig_def)
  show ?thesis
    unfolding getCluster_crashes [OF load]
    by (simp add: loadCacheSettings_def parseResourceFilter_def parse_filter_rule_def)
qed

text \<open>
  No update is ever ignored. Settings that were loaded never enable ignoring updates, so the
  handler of resource updates runs to its end for every update and no manifest is hashed.
\<close>

theorem updates_never_skipped:
  assumes "loadCacheSettings cfg = Ok s"
  shows "\<not> update_skipped s newRes oldRes \<and> manifestHash (fst (PopulateResourceInfo U L s un isRoot)) = []"
  using assms by (auto simp: loadCacheSettings_Ok update_skipped_def PopulateResourceInfo_def Let_def)

theorem updates_never_skipped_witness:
  "\<not> update_skipped \<lparr>ResourcesFilter = Some [], ignoreResourceUpdatesEnabled = False\<rparr> (Some None) (Some None)"
  by (rule updates_never_skipped [where cfg = "(zero_GlobalConfig, None)", THEN conjunct1])
    (simp add: loadCacheSettings_def parseResourceFilter_def zero_GlobalConfig_def)

text \<open>
  A resource is kept with its manifest exactly when it is a root that carries the tracking
  label or a custom resource definition, and it is then recorded under the name in its label.
\<close>

theorem PopulateResourceInfo_owner:
  "let (info, keep) = PopulateResourceInfo U L s un isRoot
   in GitSyncName info = (if isRoot then getGitSyncName U un else []) \<and>
      (keep \<longleftrightarrow> isRoot \<and> getGitSyncName U un \<noteq> [] \<or> gvk_Kind (get_gvk U un) = ''CustomResourceDefinition'')"
  by (auto simp: PopulateResourceInfo_def Let_def)

end
