(* ===== verification/Metrics.thy ===== *)
theory Metrics
  imports GitSyncTypes
begin

text \<open>
  The metrics of the controller (\<open>internal/metrics\<close>): the metrics declared, with their labels,
  their registration, and the operations that count, observe and set. Prometheus is modelled by
  the samples it holds; as documented, registering a name twice panics, and so does a call of
  \<open>WithLabelValues\<close> whose number of values is not the number of labels.
\<close>

section \<open>The metrics declared\<close>

datatype metric_kind = Counter | Histogram | Gauge

record metric_desc =
  metric_name :: string
  metric_kind :: metric_kind
  metric_labels :: "string list"

definition descAppDefaultLabels :: "string list" where
  "descAppDefaultLabels = [''name'', ''namespace'']"

abbreviation desc :: "string \<Rightarrow> metric_kind \<Rightarrow> string list \<Rightarrow> metric_desc" where
  "desc n k ls \<equiv> \<lparr>metric_name = n, metric_kind = k, metric_labels = ls\<rparr>"

definition syncCounter :: metric_desc where
  "syncCounter = desc ''numaplane_gitsync_sync_total'' Counter
     (descAppDefaultLabels @ [''dest_namespace'', ''dest_cluster'', ''phase''])"

definition workQueueSyncWaiTime :: metric_desc where
  "workQueueSyncWaiTime = desc ''numaplane_workqueue_sync_wait_time_millisecond'' Histogram []"

definition gitSyncUpdateErrorCounter :: metric_desc where
  "gitSyncUpdateErrorCounter = desc ''numaplane_gitsync_update_error'' Counter descAppDefaultLabels"

definition reconcileHistogram :: metric_desc where
  "reconcileHistogram = desc ''numaplane_gitsync_reconcile_duration_second'' Histogram [''namespace'', ''dest_cluster'']"

definition kubeRequestCounter :: metric_desc where
  "kubeRequestCounter = desc ''numaplane_gitsync_kube_request_total'' Counter
     [''response_code'', ''verb'', ''resource_kind'', ''resource_namespace'']"

definition kubectlExecCounter :: metric_desc where
  "kubectlExecCounter = desc ''numaplane_kubectl_exec_total'' Counter [''hostname'', ''command'']"

definition gitRequestCounter :: metric_desc where
  "gitRequestCounter = desc ''numaplane_git_request_total'' Counter []"

definition gitRequestFailedCounter :: metric_desc where
  "gitRequestFailedCounter = desc ''numaplane_git_request_failed_total'' Counter []"

definition gitRequestLatency :: metric_desc where
  "gitRequestLatency = desc ''numaplane_git_request_latency'' Histogram []"

definition monitoredKubeAPI :: metric_desc where
  "monitoredKubeAPI = desc ''numaplane_monitored_kube_api_total'' Gauge []"

definition kubeCachedResource :: metric_desc where
  "kubeCachedResource = desc ''numaplane_kube_cache_resource_total'' Gauge []"

definition kubeCacheFailed :: metric_desc where
  "kubeCacheFailed = desc ''numaplane_kube_cache_error'' Counter []"

section \<open>The server\<close>

text \<open>
  The samples of each metric, by name and label values, latest first: a counter has one sample
  per increment, a gauge one per \<open>Set\<close>. Durations are in nanoseconds.
\<close>

record MetricsServer =
  hostname :: string
  registered :: "string list"
  samples :: "string \<Rightarrow> string list \<Rightarrow> int list"

definition MustRegister :: "metric_desc \<Rightarrow> MetricsServer \<Rightarrow> MetricsServer option" where
  "MustRegister d m = (if metric_name d \<in> set (registered m) then None
     else Some (m\<lparr>registered := registered m @ [metric_name d]\<rparr>))"

fun MustRegister_all :: "metric_desc list \<Rightarrow> MetricsServer \<Rightarrow> MetricsServer option" where
  "MustRegister_all [] m = Some m"
| "MustRegister_all (d # ds) m = Option.bind (MustRegister d m) (MustRegister_all ds)"

definition all_metrics :: "metric_desc list" where
  "all_metrics = [syncCounter, workQueueSyncWaiTime, gitSyncUpdateErrorCounter, reconcileHistogram,
     kubeRequestCounter, kubectlExecCounter, gitRequestCounter, gitRequestFailedCounter,
     gitRequestLatency, monitoredKubeAPI, kubeCachedResource, kubeCacheFailed]"

text \<open>\<open>os.Hostname\<close> is the parameter; \<open>None\<close> is the panic of \<open>MustRegister\<close>.\<close>

definition NewMetricsServer :: "go_error + string \<Rightarrow> (go_error + MetricsServer) option" where
  "NewMetricsServer os_Hostname =
     (case os_Hostname of
        Inl e \<Rightarrow> Some (Inl e)
      | Inr h \<Rightarrow> map_option Inr
          (MustRegister_all all_metrics \<lparr>hostname = h, registered = [], samples = (\<lambda>_ _. [])\<rparr>))"

text \<open>\<open>WithLabelValues(values...)\<close> followed by \<open>Inc\<close>, \<open>Observe\<close> or \<open>Set\<close>.\<close>

definition record_sample :: "metric_desc \<Rightarrow> string list \<Rightarrow> int \<Rightarrow> MetricsServer \<Rightarrow> MetricsServer option" where
  "record_sample d values x m =
     (if length values \<noteq> length (metric_labels d) then None
      else Some (m\<lparr>samples := (samples m)(metric_name d := (samples m (metric_name d))
                    (values := x # samples m (metric_name d) values))\<rparr>))"

text \<open>
  \<open>OperationPhase\<close> of gitops-engine is a string; \<open>Completed\<close>, \<open>Successful\<close> and the constant
  \<open>OperationError\<close> are the library's.
\<close>

record phase_ops =
  Completed :: "string \<Rightarrow> bool"
  Successful :: "string \<Rightarrow> bool"
  OperationError :: string

definition IncSync :: "phase_ops \<Rightarrow> GitSync \<Rightarrow> string \<Rightarrow> MetricsServer \<Rightarrow> MetricsServer option" where
  "IncSync P gitSync state m =
     (if \<not> Completed P state then Some m
      else record_sample syncCounter
        [gs_Name gitSync, gs_Namespace gitSync, dest_Namespace (spec_Destination (gs_Spec gitSync)),
         Cluster (spec_Destination (gs_Spec gitSync)), state] 1 m)"

definition ObserveWorkerQueueSyncWaitTime :: "int \<Rightarrow> MetricsServer \<Rightarrow> MetricsServer option" where
  "ObserveWorkerQueueSyncWaitTime duration m = record_sample workQueueSyncWaiTime [] (duration div 1000000) m"

definition InGitSyncUpdateError :: "GitSync \<Rightarrow> MetricsServer \<Rightarrow> MetricsServer option" where
  "InGitSyncUpdateError gitSync m =
     record_sample gitSyncUpdateErrorCounter [gs_Name gitSync, gs_Namespace gitSync] 1 m"

definition ObserveReconcile :: "GitSync \<Rightarrow> int \<Rightarrow> MetricsServer \<Rightarrow> MetricsServer option" where
  "ObserveReconcile gitSync duration m =
     record_sample reconcileHistogram [gs_Namespace gitSync, Cluster (spec_Destination (gs_Spec gitSync))] duration m"

definition IncKubernetesRequest :: "string \<Rightarrow> string \<Rightarrow> string \<Rightarrow> string \<Rightarrow> MetricsServer \<Rightarrow> MetricsServer option" where
  "IncKubernetesRequest statusCode verb resourceKind resourceNamespace m =
     record_sample kubeRequestCounter [statusCode, verb, resourceKind, resourceNamespace] 1 m"

definition IncKubectlExec :: "string \<Rightarrow> MetricsServer \<Rightarrow> MetricsServer option" where
  "IncKubectlExec command m = record_sample kubectlExecCounter [hostname m, command] 1 m"

definition IncGitRequest :: "MetricsServer \<Rightarrow> MetricsServer option" where
  "IncGitRequest m = record_sample gitRequestCounter [] 1 m"

definition IncGitRequestFailed :: "MetricsServer \<Rightarrow> MetricsServer option" where
  "IncGitRequestFailed m = record_sample gitRequestFailedCounter [] 1 m"

definition ObserveGitRequestLatency :: "int \<Rightarrow> MetricsServer \<Rightarrow> MetricsServer option" where
  "ObserveGitRequestLatency duration m = record_sample gitRequestLatency [] duration m"

definition SetMonitoredKubeAPI :: "int \<Rightarrow> MetricsServer \<Rightarrow> MetricsServer option" where
  "SetMonitoredKubeAPI apiRequest m = record_sample monitoredKubeAPI [] apiRequest m"

definition SetKubeCachedResource :: "int \<Rightarrow> MetricsServer \<Rightarrow> MetricsServer option" where
  "SetKubeCachedResource cache m = record_sample kubeCachedResource [] cache m"

definition IncKubeCacheFailed :: "MetricsServer \<Rightarrow> MetricsServer option" where
  "IncKubeCacheFailed m = record_sample kubeCacheFailed [] 1 m"

text \<open>
  The callback of \<open>AddMetricsTransportWrapper\<close>, run for each request to the API server;
  \<open>itoa\<close> is \<open>strconv.Itoa\<close>.
\<close>

record request_info =
  ri_Namespace :: string
  ri_Kind :: string
  ri_StatusCode :: int
  ri_Verb :: string

definition transport_inc :: "(int \<Rightarrow> string) \<Rightarrow> request_info \<Rightarrow> MetricsServer \<Rightarrow> MetricsServer option" where
  "transport_inc itoa info m =
     IncKubernetesRequest (itoa (ri_StatusCode info)) (ri_Verb info) (ri_Kind info) (ri_Namespace info) m"

section \<open>Every operation as one call\<close>

datatype metric_call =
    MSync GitSync string | MWait int | MUpdateError GitSync | MReconcile GitSync int
  | MKube string string string string | MExec string | MGit | MGitFailed | MLatency int
  | MApi int | MCached int | MCacheFailed

fun run_metric :: "phase_ops \<Rightarrow> metric_call \<Rightarrow> MetricsServer \<Rightarrow> MetricsServer option" where
  "run_metric P (MSync g s) = IncSync P g s"
| "run_metric P (MWait d) = ObserveWorkerQueueSyncWaitTime d"
| "run_metric P (MUpdateError g) = InGitSyncUpdateError g"
| "run_metric P (MReconcile g d) = ObserveReconcile g d"
| "run_metric P (MKube a b c d) = IncKubernetesRequest a b c d"
| "run_metric P (MExec c) = IncKubectlExec c"
| "run_metric P MGit = IncGitRequest"
| "run_metric P MGitFailed = IncGitRequestFailed"
| "run_metric P (MLatency d) = ObserveGitRequestLatency d"
| "run_metric P (MApi n) = SetMonitoredKubeAPI n"
| "run_metric P (MCached n) = SetKubeCachedResource n"
| "run_metric P MCacheFailed = IncKubeCacheFailed"

fun run_metrics :: "phase_ops \<Rightarrow> metric_call list \<Rightarrow> MetricsServer \<Rightarrow> MetricsServer option" where
  "run_metrics P [] m = Some m"
| "run_metrics P (c # cs) m = Option.bind (run_metric P c m) (run_metrics P cs)"

lemmas metric_descs =
  syncCounter_def workQueueSyncWaiTime_def gitSyncUpdateErrorCounter_def reconcileHistogram_def
  kubeRequestCounter_def kubectlExecCounter_def gitRequestCounter_def gitRequestFailedCounter_def
  gitRequestLatency_def monitoredKubeAPI_def kubeCachedResource_def kubeCacheFailed_def
  descAppDefaultLabels_def

lemmas metric_ops =
  IncSync_def ObserveWorkerQueueSyncWaitTime_def InGitSyncUpdateError_def ObserveReconcile_def
  IncKubernetesRequest_def IncKubectlExec_def IncGitRequest_def IncGitRequestFailed_def
  ObserveGitRequestLatency_def SetMonitoredKubeAPI_def SetKubeCachedResource_def IncKubeCacheFailed_def

lemma run_metric_total: "\<exists>m'. run_metric P c m = Some m'"
  by (cases c) (simp_all add: metric_ops metric_descs record_sample_def)

lemma MustRegister_all_distinct:
  "distinct (map metric_name ds) \<Longrightarrow> set (map metric_name ds) \<inter> set (registered m) = {} \<Longrightarrow>
   MustRegister_all ds m = Some (m\<lparr>registered := registered m @ map metric_name ds\<rparr>)"
  by (induction ds arbitrary: m) (auto simp: MustRegister_def)

lemma all_metrics_distinct: "distinct (map metric_name all_metrics)"
  by (simp add: all_metrics_def metric_descs)

text \<open>The number of completed synchronisations of a GitSync among the calls, by phase.\<close>

definition sync_labels :: "GitSync \<Rightarrow> string \<Rightarrow> string list" where
  "sync_labels g state = [gs_Name g, gs_Namespace g, dest_Namespace (spec_Destination (gs_Spec g)),
     Cluster (spec_Destination (gs_Spec g)), state]"

definition sync_calls :: "phase_ops \<Rightarrow> string list \<Rightarrow> metric_call list \<Rightarrow> nat" where
  "sync_calls P ls cs =
     length (filter (\<lambda>c. case c of MSync g s \<Rightarrow> Completed P s \<and> sync_labels g s = ls | _ \<Rightarrow> False) cs)"

lemma run_metric_sync:
  assumes "run_metric P c m = Some m'"
  shows "length (samples m' (metric_name syncCounter) ls) =
    length (samples m (metric_name syncCounter) ls) + sync_calls P ls [c]"
  using assms
  by (cases c)
    (auto simp: metric_ops metric_descs record_sample_def sync_calls_def sync_labels_def split: if_splits)

text \<open>
  Metrics never stop the controller and count what they say. Registration succeeds whenever
  the host name is known, no sequence of calls panics for a wrong number of labels, and
  afterwards the counter of synchronisations has, for each GitSync and phase, grown by the
  number of completed synchronisations reported.
\<close>

theorem metrics_total_and_exact:
  "\<exists>m0. NewMetricsServer (Inr h) = Some (Inr m0) \<and>
     (\<exists>m. run_metrics P cs m0 = Some m \<and>
        length (samples m (metric_name syncCounter) ls) = sync_calls P ls cs)"
proof -
  define m0 where "m0 = \<lparr>hostname = h, registered = map metric_name all_metrics, samples = (\<lambda>_ _. [])\<rparr>"
  have reg: "NewMetricsServer (Inr h) = Some (Inr m0)"
    using MustRegister_all_distinct [OF all_metrics_distinct]
    by (simp add: NewMetricsServer_def m0_def)
  have "\<exists>m'. run_metrics P cs m = Some m' \<and>
      length (samples m' (metric_name syncCounter) ls) =
        length (samples m (metric_name syncCounter) ls) + sync_calls P ls cs" for m
  proof (induction cs arbitrary: m)
    case (Cons c cs)
    obtain m1 where m1: "run_metric P c m = Some m1" using run_metric_total by blast
    have "sync_calls P ls (c # cs) = sync_calls P ls [c] + sync_calls P ls cs"
      by (simp add: sync_calls_def)
    with m1 Cons.IH [of m1] run_metric_sync [OF m1, of ls] show ?case by auto
  qed (simp add: sync_calls_def)
  from this [of m0] reg show ?thesis by (auto simp: m0_def)
qed

end
