(* ===== verification/GitRepo.thy ===== *)
theory GitRepo
  imports GitOptions LiveCache Metrics
begin

text \<open>
  Working copies and manifests (\<open>internal/git/util.go\<close>): cloning or opening the local repository of
  a GitSync, bringing it to the target revision, and reading the manifests of the three source
  types. go-git, kustomize, helm, the YAML splitter and the file system are parameters; \<open>'w\<close> is
  the world they act on (remotes, local disk, cluster), \<open>'r\<close> an open repository, \<open>'t\<close> a git tree.
\<close>

section \<open>Libraries\<close>

text \<open>
  Hashes are their text. An iteration of go-git is the list of what it visits and the error
  that ends it, if any. A file of a tree has a name and contents, or an error on reading them.
\<close>

record helm_opts =
  ho_Name :: string
  ho_Namespace :: string
  ho_Set :: "string \<rightharpoonup> string"
  ho_SkipCrds :: bool
  ho_Values :: "string list"

record ('w, 'r, 't, 'u) repo_libs = "'w git_libs" +
  git_LoadConfig :: "'w \<Rightarrow> go_error + git_config option"
  PlainClone :: "string \<Rightarrow> CloneOptions option \<Rightarrow> 'w \<Rightarrow> ('w, 'r) result"
  PlainOpen :: "string \<Rightarrow> 'w \<Rightarrow> go_error + 'r"
  Head :: "'r \<Rightarrow> 'w \<Rightarrow> go_error + (bool \<times> string)"
  ResolveRevision :: "'r \<Rightarrow> string \<Rightarrow> 'w \<Rightarrow> go_error + string"
  repo_Reference :: "'r \<Rightarrow> string \<Rightarrow> 'w \<Rightarrow> go_error + string"
  repo_Tag :: "'r \<Rightarrow> string \<Rightarrow> 'w \<Rightarrow> go_error + string"
  CommitObject :: "'r \<Rightarrow> string \<Rightarrow> 'w \<Rightarrow> go_error + string"
  repo_Branches :: "'r \<Rightarrow> 'w \<Rightarrow> go_error + ((string \<times> string) list \<times> go_error option)"
  repo_Log :: "'r \<Rightarrow> string \<Rightarrow> 'w \<Rightarrow> go_error + (string list \<times> go_error option)"
  NewHash :: "string \<Rightarrow> string"
  repo_Worktree :: "'r \<Rightarrow> 'w \<Rightarrow> go_error option"
  Checkout :: "'r \<Rightarrow> string \<Rightarrow> 'w \<Rightarrow> ('w, unit) result"
  Pull :: "'r \<Rightarrow> PullOptions option \<Rightarrow> 'w \<Rightarrow> ('w, unit) result"
  repo_Remote :: "'r \<Rightarrow> string \<Rightarrow> 'w \<Rightarrow> go_error option"
  remote_Fetch :: "'r \<Rightarrow> FetchOptions \<Rightarrow> 'w \<Rightarrow> ('w, unit) result"
  commit_Tree :: "'r \<Rightarrow> string \<Rightarrow> 'w \<Rightarrow> go_error + 't"
  tree_Tree :: "'t \<Rightarrow> string \<Rightarrow> 'w \<Rightarrow> go_error + 't"
  tree_Files :: "'t \<Rightarrow> 'w \<Rightarrow> (string \<times> (go_error + string)) list \<times> go_error option"
  os_Stat :: "string \<Rightarrow> 'w \<Rightarrow> go_error option"
  SplitYAML :: "string \<Rightarrow> go_error + 'u list"
  kustomize_Build :: "string \<Rightarrow> string \<Rightarrow> string \<Rightarrow> 'w \<Rightarrow> ('w, 'u list) result"
  NewHelmApp :: "string \<Rightarrow> string \<Rightarrow> 'w \<Rightarrow> go_error + string"
  helm_Template :: "string \<Rightarrow> helm_opts \<Rightarrow> 'w \<Rightarrow> ('w, string) result"
  helm_DependencyBuild :: "string \<Rightarrow> 'w \<Rightarrow> ('w, unit) result"
  repo_Sum64 :: "string \<Rightarrow> nat"

text \<open>The state the git operations act on: the world, and the calls made on the metrics server.\<close>

record 'w env =
  ext :: 'w
  metric_log :: "metric_call list"

definition on_ext :: "('w \<Rightarrow> ('w, 'a) result) \<Rightarrow> ('w, 'e) env_scheme \<Rightarrow> (('w, 'e) env_scheme, 'a) result" where
  "on_ext f s = (case f (ext s) of (r, w) \<Rightarrow> (r, s\<lparr>ext := w\<rparr>))"

definition log_metric :: "metric_call \<Rightarrow> ('w, 'e) env_scheme \<Rightarrow> ('w, 'e) env_scheme" where
  "log_metric c s = s\<lparr>metric_log := metric_log s @ [c]\<rparr>"

section \<open>Local paths and branches\<close>

definition isRootDir :: "string \<Rightarrow> bool" where
  "isRootDir path \<longleftrightarrow> length path = 0"

definition getLocalRepoPath ::
  "('w, 'r, 't, 'u) repo_libs \<Rightarrow> GlobalConfig \<times> go_error option \<Rightarrow> GitSync \<Rightarrow> go_error + string" where
  "getLocalRepoPath R cfg gitSync =
     (case cfg of
        (_, Some e) \<Rightarrow> Inl (ErrorString (''error getting config manager for repoLocalPath '' @ Error e))
      | (globalConfig, None) \<Rightarrow>
          (let baseDir = (if PersistentRepoClonePath globalConfig \<noteq> [] then PersistentRepoClonePath globalConfig
                          else ''/tmp'');
               repoUrl = FormatUint16 (repo_Sum64 R (RepoUrl (gs_Spec gitSync)))
           in Inr (baseDir @ ''/'' @ gs_Name gitSync @ ''/'' @ repoUrl)))"

definition GetCurrentBranch :: "('w, 'r, 't, 'u) repo_libs \<Rightarrow> 'r \<Rightarrow> 'w \<Rightarrow> go_error + string" where
  "GetCurrentBranch R r w =
     (case Head R r w of
        Inl e \<Rightarrow> Inl (WrapError ''failed to get HEAD: '' e)
      | Inr (isBranch, short) \<Rightarrow>
          (if isBranch then Inr short
           else Inl (ErrorString ''HEAD is detached and not pointing to any branch'')))"

text \<open>
  The nested iteration the two searches share: the branches in order, for each the commits of
  its log until the one wanted; \<open>first\<close> is the variable the closures assign.
\<close>

fun branch_search ::
  "('w, 'r, 't, 'u) repo_libs \<Rightarrow> 'r \<Rightarrow> 'w \<Rightarrow> string \<Rightarrow> go_error option \<Rightarrow> (string \<times> string) list \<Rightarrow> string \<Rightarrow>
   go_error + string" where
  "branch_search R r w commit refs_err [] first = (case refs_err of Some e \<Rightarrow> Inl e | None \<Rightarrow> Inr first)"
| "branch_search R r w commit refs_err ((name, h) # refs) first =
     (case repo_Log R r h w of
        Inl e \<Rightarrow> Inl e
      | Inr (commits, log_err) \<Rightarrow>
          (if commit \<in> set commits
           then (if name \<noteq> [] then Inr name else branch_search R r w commit refs_err refs name)
           else (case log_err of
                   Some e \<Rightarrow> Inl e
                 | None \<Rightarrow> if first \<noteq> [] then Inr first else branch_search R r w commit refs_err refs first)))"

definition findFirstBranchContainingTag ::
  "('w, 'r, 't, 'u) repo_libs \<Rightarrow> 'r \<Rightarrow> string \<Rightarrow> 'w \<Rightarrow> go_error + string" where
  "findFirstBranchContainingTag R r tagName w =
     (case repo_Tag R r tagName w of
        Inl e \<Rightarrow> Inl (ErrorString (''failed to find tag '' @ quoted tagName @ '': '' @ Error e))
      | Inr tagHash \<Rightarrow>
          (case CommitObject R r tagHash w of
             Inl e \<Rightarrow> Inl (ErrorString (''failed to get commit from tag '' @ quoted tagName @ '': '' @ Error e))
           | Inr commit \<Rightarrow>
               (case repo_Branches R r w of
                  Inl e \<Rightarrow> Inl (ErrorString (''failed to list branches: '' @ Error e))
                | Inr (refs, refs_err) \<Rightarrow>
                    (case branch_search R r w commit refs_err refs [] of
                       Inl e \<Rightarrow> Inl (ErrorString (''error while checking branches: '' @ Error e))
                     | Inr first \<Rightarrow>
                         (if first = []
                          then Inl (ErrorString (''no branch found containing the commit from tag '' @ quoted tagName))
                          else Inr first)))))"

definition findFirstBranchContainingCommit ::
  "('w, 'r, 't, 'u) repo_libs \<Rightarrow> 'r \<Rightarrow> string \<Rightarrow> 'w \<Rightarrow> go_error + string" where
  "findFirstBranchContainingCommit R r commitHash w =
     (case repo_Branches R r w of
        Inl e \<Rightarrow> Inl (ErrorString (''failed to list branches: '' @ Error e))
      | Inr (refs, refs_err) \<Rightarrow>
          (case branch_search R r w (NewHash R commitHash) refs_err refs [] of
             Inl e \<Rightarrow> Inl (ErrorString (''error while checking branches: '' @ Error e))
           | Inr first \<Rightarrow>
               (if first = []
                then Inl (ErrorString (''no branch found containing the commit '' @ commitHash))
                else Inr first)))"

definition branch_ref :: "string \<Rightarrow> string" where
  "branch_ref b = ''refs/heads/'' @ b"

definition checkoutRepo :: "('w, 'r, 't, 'u) repo_libs \<Rightarrow> 'r \<Rightarrow> string \<Rightarrow> 'w \<Rightarrow> ('w, unit) result" where
  "checkoutRepo R r refName w =
     (case repo_Worktree R r w of
        Some e \<Rightarrow> (Err (ErrorString (''failed to get worktree: '' @ Error e)), w)
      | None \<Rightarrow>
          (case repo_Reference R r (branch_ref refName) w of
             Inr name \<Rightarrow> Checkout R r name w
           | Inl _ \<Rightarrow>
               (case findFirstBranchContainingTag R r refName w of
                  Inr b \<Rightarrow> Checkout R r (branch_ref b) w
                | Inl _ \<Rightarrow>
                    (case findFirstBranchContainingCommit R r refName w of
                       Inr b \<Rightarrow> Checkout R r (branch_ref b) w
                     | Inl e \<Rightarrow> (Err (ErrorString (''reference '' @ quoted refName @
                         '' not found as a branch, tag, or in any branch as a commit: '' @ Error e)), w)))))"

definition fetchAll :: "('w, 'r, 't, 'u) repo_libs \<Rightarrow> 'r \<Rightarrow> FetchOptions \<Rightarrow> 'w \<Rightarrow> ('w, unit) result" where
  "fetchAll R r opts w =
     (case repo_Remote R r ''origin'' w of
        Some e \<Rightarrow> (Err (ErrorString (''failed to get remote: '' @ Error e)), w)
      | None \<Rightarrow>
          (case remote_Fetch R r opts w of
             (Err e, w') \<Rightarrow>
               (if error_is NoErrAlreadyUpToDate e then (Ok (), w')
                else (Err (ErrorString (''failed to fetch repo: '' @ Error e)), w'))
           | res \<Rightarrow> res))"

section \<open>Cloning and updating\<close>

text \<open>\<open>IncGitRequest\<close> is deferred: it runs on every return, also after a panic.\<close>

definition cloneRepo ::
  "('w, 'r, 't, 'u) repo_libs \<Rightarrow> GlobalConfig \<times> go_error option \<Rightarrow> GitSync \<Rightarrow> CloneOptions option \<Rightarrow>
   ('w, 'e) env_scheme \<Rightarrow> (('w, 'e) env_scheme, 'r) result" where
  "cloneRepo R cfg gitSync cloneOptions s =
     (case getLocalRepoPath R cfg gitSync of
        Inl e \<Rightarrow> (Err e, s)
      | Inr path \<Rightarrow>
          (case (case on_ext (PlainClone R path cloneOptions) s of
                   (Err e, s1) \<Rightarrow>
                     (if error_is RepositoryAlreadyExists e
                      then (case PlainOpen R path (ext s1) of
                              Inl openErr \<Rightarrow> (Err (ErrorString (''failed to open existing repo, err: '' @ Error openErr)), s1)
                            | Inr existingRepo \<Rightarrow> (Ok existingRepo, s1))
                      else (Err e, s1))
                 | res \<Rightarrow> res) of
             (res, s2) \<Rightarrow> (res, log_metric MGit s2)))"

text \<open>\<open>cfg\<close> is the configuration the caller has, \<open>now_cfg\<close> what \<open>GetConfig\<close> returns at this moment.\<close>

definition CloneRepo ::
  "('w, 'r, 't, 'u) repo_libs \<Rightarrow> ('w, 'u) k8s_client \<Rightarrow> GlobalConfig \<times> go_error option \<Rightarrow> GlobalConfig \<Rightarrow> GitSync \<Rightarrow>
   ('w, 'e) env_scheme \<Rightarrow> (('w, 'e) env_scheme, 'r) result" where
  "CloneRepo R C now_cfg globalConfig gitSync s =
     (let gitCredentials = FindCredByUrl (RepoUrl (gs_Spec gitSync)) (RepoCredentials globalConfig)
      in (case GetRepoCloneOptions R C gitCredentials (RepoUrl (gs_Spec gitSync)) (ext s) of
            Inl e \<Rightarrow> (Err (ErrorString (''error getting the clone options: '' @ Error e)), s)
          | Inr cloneOptions \<Rightarrow>
              (case git_LoadConfig R (ext s) of
                 Inl e \<Rightarrow> (Err (ErrorString (''error loading git config: '' @ Error e)), s)
               | Inr gitConfig \<Rightarrow>
                   (case UpdateOptionsWithGitConfig gitConfig (Some cloneOptions) of
                      Err e \<Rightarrow> (Err (ErrorString (''error updating clone options with git config: '' @ Error e)), s)
                    | Panic p \<Rightarrow> (Panic p, s)
                    | Ok cloneOptions' \<Rightarrow> cloneRepo R now_cfg gitSync cloneOptions' s))))"

text \<open>The part of \<open>fetchUpdates\<close> before the pull: it ends with the branch to pull.\<close>

definition goto_revision ::
  "('w, 'r, 't, 'u) repo_libs \<Rightarrow> ('w, 'u) k8s_client \<Rightarrow> RepoCredential option \<Rightarrow> GitSync \<Rightarrow> 'r \<Rightarrow>
   ('w, 'e) env_scheme \<Rightarrow> (('w, 'e) env_scheme, string) result" where
  "goto_revision R C credentials gitSync r s =
     (let target = TargetRevision (gs_Spec gitSync)
      in if GetCurrentBranch R r (ext s) = Inr target then (Ok target, s)
         else (case GetRepoFetchOptions R C credentials (RepoUrl (gs_Spec gitSync)) (ext s) of
                 Inl e \<Rightarrow> (Err (ErrorString (''error getting the fetch options: '' @ Error e)), s)
               | Inr fetchOptions \<Rightarrow>
                   bindR (if target \<noteq> ''main'' \<and> target \<noteq> ''master'' then on_ext (fetchAll R r fetchOptions) s
                          else (Ok (), s)) (\<lambda>_ s1.
                   bindR (on_ext (checkoutRepo R r target) s1) (\<lambda>_ s2.
                     (of_sum (GetCurrentBranch R r (ext s2)), s2)))))"

text \<open>The pull with its deferred metrics; \<open>lat\<close> is the time it takes.\<close>

definition pull_branch ::
  "('w, 'r, 't, 'u) repo_libs \<Rightarrow> int \<Rightarrow> 'r \<Rightarrow> PullOptions option \<Rightarrow> ('w, 'e) env_scheme \<Rightarrow> (('w, 'e) env_scheme, unit) result" where
  "pull_branch R lat r pullOptions s =
     (case (case on_ext (Pull R r pullOptions) s of
              (Err e, s1) \<Rightarrow>
                (if error_is NoErrAlreadyUpToDate e then (Ok (), s1)
                 else (Err e, log_metric MGitFailed s1))
            | res \<Rightarrow> res) of
        (res, s2) \<Rightarrow> (res, log_metric (MLatency lat) (log_metric MGit s2)))"

definition fetchUpdates ::
  "('w, 'r, 't, 'u) repo_libs \<Rightarrow> ('w, 'u) k8s_client \<Rightarrow> GlobalConfig \<times> go_error option \<Rightarrow> int \<Rightarrow> GitSync \<Rightarrow> 'r \<Rightarrow>
   ('w, 'e) env_scheme \<Rightarrow> (('w, 'e) env_scheme, unit) result" where
  "fetchUpdates R C cfg lat gitSync r s =
     (case cfg of
        (_, Some e) \<Rightarrow> (Err e, s)
      | (globalConfig, None) \<Rightarrow>
          (let credentials = FindCredByUrl (RepoUrl (gs_Spec gitSync)) (RepoCredentials globalConfig)
           in bindR (goto_revision R C credentials gitSync r s) (\<lambda>branch s1.
                (case GetRepoPullOptions R C credentials (RepoUrl (gs_Spec gitSync)) branch (ext s1) of
                   Inl e \<Rightarrow> (Err e, s1)
                 | Inr pullOptions \<Rightarrow>
                     (case git_LoadConfig R (ext s1) of
                        Inl e \<Rightarrow> (Err (ErrorString (''error loading git config: '' @ Error e)), s1)
                      | Inr gitConfig \<Rightarrow>
                          (case UpdateOptionsWithGitConfig gitConfig (Some pullOptions) of
                             Err e \<Rightarrow> (Err (ErrorString (''error updating pull options with git config: '' @ Error e)), s1)
                           | Panic p \<Rightarrow> (Panic p, s1)
                           | Ok pullOptions' \<Rightarrow>
                               (case repo_Worktree R r (ext s1) of
                                  Some e \<Rightarrow> (Err e, s1)
                                | None \<Rightarrow> pull_branch R lat r pullOptions' s1)))))))"

section \<open>Manifests\<close>

definition getLatestCommitHash :: "('w, 'r, 't, 'u) repo_libs \<Rightarrow> 'r \<Rightarrow> string \<Rightarrow> 'w \<Rightarrow> go_error + string" where
  "getLatestCommitHash R r refName w = ResolveRevision R r refName w"

definition getCommitTreeAtPath :: "('w, 'r, 't, 'u) repo_libs \<Rightarrow> 'r \<Rightarrow> string \<Rightarrow> string \<Rightarrow> 'w \<Rightarrow> go_error + 't" where
  "getCommitTreeAtPath R r path hsh w =
     bindE (CommitObject R r hsh w) (\<lambda>commit.
     bindE (commit_Tree R r commit w) (\<lambda>commitTree.
       if \<not> isRootDir path then bindE (tree_Tree R commitTree path w) (\<lambda>t. Inr t) else Inr commitTree))"

text \<open>The iteration over the files of the tree.\<close>

fun raw_files ::
  "('w, 'r, 't, 'u) repo_libs \<Rightarrow> (string \<times> (go_error + string)) list \<Rightarrow> go_error option \<Rightarrow> 'u list \<Rightarrow> go_error + 'u list" where
  "raw_files R [] files_err manifestObj = (case files_err of Some e \<Rightarrow> Inl e | None \<Rightarrow> Inr manifestObj)"
| "raw_files R ((name, contents) # files) files_err manifestObj =
     (if IsValidKubernetesManifestFile name
      then (case contents of
              Inl e \<Rightarrow> Inl (ErrorString (''failed to get file content, filename: '' @ name @ '', err: '' @ Error e))
            | Inr manifest \<Rightarrow>
                (case SplitYAML R manifest of
                   Inl e \<Rightarrow> Inl (ErrorString (''can not parse file data, err: '' @ Error e))
                 | Inr manifestData \<Rightarrow> raw_files R files files_err (manifestObj @ manifestData)))
      else raw_files R files files_err manifestObj)"

definition rawTemplate :: "('w, 'r, 't, 'u) repo_libs \<Rightarrow> 'r \<Rightarrow> GitSync \<Rightarrow> string \<Rightarrow> 'w \<Rightarrow> go_error + 'u list" where
  "rawTemplate R r gitSync hsh w =
     bindE (getCommitTreeAtPath R r (Path (gs_Spec gitSync)) hsh w) (\<lambda>tree.
       (case tree_Files R tree w of (files, files_err) \<Rightarrow> raw_files R files files_err []))"

text \<open>Later parameters of the same name win.\<close>

definition helm_set :: "HelmParameter list \<Rightarrow> (string \<rightharpoonup> string)" where
  "helm_set ps = fold (\<lambda>p m. m(hp_Name p \<mapsto> hp_Value p)) ps Map.empty"

definition helm_options :: "GitSync \<Rightarrow> HelmSource \<Rightarrow> helm_opts" where
  "helm_options gitSync hs =
     \<lparr>ho_Name = gs_Name gitSync, ho_Namespace = dest_Namespace (spec_Destination (gs_Spec gitSync)),
      ho_Set = helm_set (Parameters hs), ho_SkipCrds = True, ho_Values = ValueFiles hs\<rparr>"

definition helmTemplate ::
  "('w, 'r, 't, 'u) repo_libs \<Rightarrow> string \<Rightarrow> GitSync \<Rightarrow> 'w \<Rightarrow> ('w, 'u list) result" where
  "helmTemplate R localRepoPath gitSync w =
     (case NewHelmApp R (localRepoPath @ ''/'' @ Path (gs_Spec gitSync)) (RepoUrl (gs_Spec gitSync)) w of
        Inl e \<Rightarrow> (Err (WrapError ''error initializing helm app object: '' e), w)
      | Inr h \<Rightarrow>
          (case Helm (gs_Spec gitSync) of
             None \<Rightarrow> (Panic NilDereference, w)
           | Some hs \<Rightarrow>
               (let templateOpts = helm_options gitSync hs
                in bindR (case helm_Template R h templateOpts w of
                            (Err e, w1) \<Rightarrow>
                              (if \<not> error_is MissingDependency e then (Err e, w1)
                               else bindR (helm_DependencyBuild R h w1) (\<lambda>_ w2. helm_Template R h templateOpts w2))
                          | res \<Rightarrow> res)
                     (\<lambda>out w3. (of_sum (SplitYAML R out), w3)))))"

definition build_error :: "go_error \<Rightarrow> go_error" where
  "build_error e = ErrorString (''failed to build manifests, err: '' @ Error e)"

definition build_manifests ::
  "('w, 'r, 't, 'u) repo_libs \<Rightarrow> 'r \<Rightarrow> GitSync \<Rightarrow> string \<Rightarrow> string \<Rightarrow> SourceType \<Rightarrow>
   ('w, 'e) env_scheme \<Rightarrow> (('w, 'e) env_scheme, 'u list) result" where
  "build_manifests R r gitSync localRepoPath hsh sourceType s =
     (case sourceType of
        SourceTypeKustomize \<Rightarrow>
          on_ext (kustomize_Build R localRepoPath (Path (gs_Spec gitSync)) (RepoUrl (gs_Spec gitSync))) s
      | SourceTypeHelm \<Rightarrow> on_ext (helmTemplate R localRepoPath gitSync) s
      | SourceTypeRaw \<Rightarrow> (of_sum (rawTemplate R r gitSync hsh (ext s)), s))"

definition GetLatestManifests ::
  "('w, 'r, 't, 'u) repo_libs \<Rightarrow> ('w, 'u) k8s_client \<Rightarrow> GlobalConfig \<times> go_error option \<Rightarrow> int \<Rightarrow> 'r \<Rightarrow> GitSync \<Rightarrow>
   ('w, 'e) env_scheme \<Rightarrow> (('w, 'e) env_scheme, string \<times> 'u list) result" where
  "GetLatestManifests R C cfg lat r gitSync s =
     bindR (fetchUpdates R C cfg lat gitSync r s) (\<lambda>_ s1.
       (case getLatestCommitHash R r (TargetRevision (gs_Spec gitSync)) (ext s1) of
          Inl e \<Rightarrow> (Err e, s1)
        | Inr hsh \<Rightarrow>
            (case getLocalRepoPath R cfg gitSync of
               Inl e \<Rightarrow> (Err e, s1)
             | Inr localRepoPath \<Rightarrow>
                 (case os_Stat R (localRepoPath @ ''/'' @ Path (gs_Spec gitSync)) (ext s1) of
                    Some e \<Rightarrow> (Err (ErrorString (''invalid repo path, err: '' @ Error e)), s1)
                  | None \<Rightarrow>
                      (case ExplicitType (gs_Spec gitSync) of
                         Inl e \<Rightarrow> (Err e, s1)
                       | Inr sourceType \<Rightarrow>
                           bindR (mapErr build_error (build_manifests R r gitSync localRepoPath hsh sourceType s1))
                             (\<lambda>targetObjs s2. (Ok (hsh, targetObjs), s2)))))))"

section \<open>Lemmas\<close>

lemma on_ext_simps [simp]:
  "f (ext s) = (x, w) \<Longrightarrow> on_ext f s = (x, s\<lparr>ext := w\<rparr>)"
  by (simp add: on_ext_def)

lemma on_ext_eq: "on_ext f s = (x, t) \<longleftrightarrow> (\<exists>w. f (ext s) = (x, w) \<and> t = s\<lparr>ext := w\<rparr>)"
  by (auto simp: on_ext_def split: prod.splits)

lemma metric_log_on_ext [simp]: "metric_log (snd (on_ext f s)) = metric_log s"
  by (simp add: on_ext_def split: prod.split)

text \<open>A branch passed over by the search: its log ends without an error and without the commit.\<close>

definition lacks_commit :: "('w, 'r, 't, 'u) repo_libs \<Rightarrow> 'r \<Rightarrow> 'w \<Rightarrow> string \<Rightarrow> string \<times> string \<Rightarrow> bool" where
  "lacks_commit R r w c ref \<longleftrightarrow> (\<exists>cs. repo_Log R r (snd ref) w = Inr (cs, None) \<and> c \<notin> set cs)"

definition has_commit :: "('w, 'r, 't, 'u) repo_libs \<Rightarrow> 'r \<Rightarrow> 'w \<Rightarrow> string \<Rightarrow> string \<times> string \<Rightarrow> bool" where
  "has_commit R r w c ref \<longleftrightarrow> (\<exists>cs e. repo_Log R r (snd ref) w = Inr (cs, e) \<and> c \<in> set cs)"

lemma branch_search_found:
  assumes "list_all (lacks_commit R r w c) pre" and "has_commit R r w c (b, h)" and "b \<noteq> []"
  shows "branch_search R r w c refs_err (pre @ (b, h) # post) [] = Inr b"
  using assms(1)
proof (induction pre)
  case Nil
  then show ?case using assms(2,3) by (auto simp: has_commit_def)
next
  case (Cons ref pre)
  then show ?case by (cases ref) (auto simp: lacks_commit_def)
qed

lemma branch_search_found_iff:
  assumes "list_all (\<lambda>ref. fst ref \<noteq> []) refs"
  shows "(branch_search R r w c refs_err refs [] = Inr b \<and> b \<noteq> []) \<longleftrightarrow>
    (\<exists>pre h post. refs = pre @ (b, h) # post \<and> list_all (lacks_commit R r w c) pre \<and> has_commit R r w c (b, h))"
    (is "?l \<longleftrightarrow> ?r")
proof
  assume ?r
  then show ?l
    using assms by (auto simp: branch_search_found list_all_iff)
next
  assume ?l
  then show ?r
    using assms
  proof (induction refs)
    case Nil
    then show ?case by (auto split: option.splits)
  next
    case (Cons ref refs)
    obtain n h where ref: "ref = (n, h)" by fastforce
    with Cons.prems obtain cs e where log: "repo_Log R r h w = Inr (cs, e)"
      by (auto split: sum.splits)
    show ?case
    proof (cases "c \<in> set cs")
      case True
      with Cons.prems ref log have "b = n" by auto
      with True ref log show ?thesis
        by - (rule exI [of _ "[]"], rule exI [of _ h], rule exI [of _ refs], simp add: has_commit_def)
    next
      case False
      with Cons.prems ref log have e: "e = None" and "branch_search R r w c refs_err refs [] = Inr b \<and> b \<noteq> []"
        by (auto split: option.splits)
      with Cons obtain pre h' post where "refs = pre @ (b, h') # post" "list_all (lacks_commit R r w c) pre"
        "has_commit R r w c (b, h')" by auto
      moreover have "lacks_commit R r w c ref"
        using False e ref log by (simp add: lacks_commit_def)
      ultimately show ?thesis
        by - (rule exI [of _ "ref # pre"], rule exI [of _ h'], rule exI [of _ post], simp)
    qed
  qed
qed

text \<open>The first branch, in the order listed, whose log reaches a commit.\<close>

definition first_branch_with ::
  "('w, 'r, 't, 'u) repo_libs \<Rightarrow> 'r \<Rightarrow> 'w \<Rightarrow> (string \<times> string) list \<Rightarrow> string \<Rightarrow> string \<Rightarrow> bool" where
  "first_branch_with R r w refs c b \<longleftrightarrow>
     (\<exists>pre h post. refs = pre @ (b, h) # post \<and> list_all (lacks_commit R r w c) pre \<and> has_commit R r w c (b, h))"

definition tag_commit :: "('w, 'r, 't, 'u) repo_libs \<Rightarrow> 'r \<Rightarrow> 'w \<Rightarrow> string \<Rightarrow> string \<Rightarrow> bool" where
  "tag_commit R r w t c \<longleftrightarrow> (\<exists>h. repo_Tag R r t w = Inr h \<and> CommitObject R r h w = Inr c)"

definition revision_branch ::
  "('w, 'r, 't, 'u) repo_libs \<Rightarrow> 'r \<Rightarrow> 'w \<Rightarrow> (string \<times> string) list \<Rightarrow> string \<Rightarrow> string \<Rightarrow> bool" where
  "revision_branch R r w refs t b \<longleftrightarrow>
     (\<exists>c. tag_commit R r w t c \<and> first_branch_with R r w refs c b) \<or>
     ((\<nexists>c b'. tag_commit R r w t c \<and> first_branch_with R r w refs c b') \<and>
      first_branch_with R r w refs (NewHash R t) b)"

lemma search_result:
  assumes "list_all (\<lambda>ref. fst ref \<noteq> []) refs"
  shows "(case branch_search R r w c refs_err refs [] of
      Inl e \<Rightarrow> Inl (f e)
    | Inr first \<Rightarrow> if first = [] then Inl d else Inr first) = Inr b \<longleftrightarrow> first_branch_with R r w refs c b"
  unfolding first_branch_with_def branch_search_found_iff [OF assms, symmetric, where refs_err = refs_err]
  by (auto split: sum.split)

lemma find_tag_Inr:
  assumes "repo_Branches R r w = Inr (refs, refs_err)" and "list_all (\<lambda>ref. fst ref \<noteq> []) refs"
  shows "findFirstBranchContainingTag R r t w = Inr b \<longleftrightarrow>
    (\<exists>c. tag_commit R r w t c \<and> first_branch_with R r w refs c b)"
proof (cases "repo_Tag R r t w")
  case Inr1: (Inr th)
  show ?thesis
  proof (cases "CommitObject R r th w")
    case (Inr c)
    then show ?thesis
      using Inr1 assms(1) by (simp add: findFirstBranchContainingTag_def tag_commit_def search_result [OF assms(2)])
  qed (simp add: Inr1 findFirstBranchContainingTag_def tag_commit_def)
qed (simp add: findFirstBranchContainingTag_def tag_commit_def)

lemma find_commit_Inr:
  assumes "repo_Branches R r w = Inr (refs, refs_err)" and "list_all (\<lambda>ref. fst ref \<noteq> []) refs"
  shows "findFirstBranchContainingCommit R r t w = Inr b \<longleftrightarrow> first_branch_with R r w refs (NewHash R t) b"
  using assms(1) by (simp add: findFirstBranchContainingCommit_def search_result [OF assms(2)])

text \<open>The manifests of a list of files: those of each manifest file, in order.\<close>

definition file_part :: "('w, 'r, 't, 'u) repo_libs \<Rightarrow> string \<times> (go_error + string) \<Rightarrow> 'u list \<Rightarrow> bool" where
  "file_part R f part \<longleftrightarrow>
     (if IsValidKubernetesManifestFile (fst f)
      then (\<exists>text. snd f = Inr text \<and> SplitYAML R text = Inr part) else part = [])"

definition manifests_of :: "('w, 'r, 't, 'u) repo_libs \<Rightarrow> (string \<times> (go_error + string)) list \<Rightarrow> 'u list \<Rightarrow> bool" where
  "manifests_of R files objs \<longleftrightarrow> (\<exists>parts. objs = concat parts \<and> list_all2 (file_part R) files parts)"

lemma manifests_of_Cons:
  "manifests_of R (f # files) objs \<longleftrightarrow>
     (\<exists>part rest. objs = part @ rest \<and> file_part R f part \<and> manifests_of R files rest)"
proof
  assume "manifests_of R (f # files) objs"
  then obtain part parts where "objs = part @ concat parts" "file_part R f part" "list_all2 (file_part R) files parts"
    by (auto simp: manifests_of_def list_all2_Cons1)
  then show "\<exists>part rest. objs = part @ rest \<and> file_part R f part \<and> manifests_of R files rest"
    unfolding manifests_of_def by blast
next
  assume "\<exists>part rest. objs = part @ rest \<and> file_part R f part \<and> manifests_of R files rest"
  then obtain part parts where "objs = part @ concat parts" "file_part R f part" "list_all2 (file_part R) files parts"
    unfolding manifests_of_def by blast
  then have "objs = concat (part # parts) \<and> list_all2 (file_part R) (f # files) (part # parts)" by simp
  then show "manifests_of R (f # files) objs"
    unfolding manifests_of_def by blast
qed

lemma raw_files_Cons:
  "raw_files R (f # files) err acc = Inr objs \<longleftrightarrow>
     (\<exists>part. file_part R f part \<and> raw_files R files err (acc @ part) = Inr objs)"
proof -
  obtain n c where f: "f = (n, c)" by fastforce
  show ?thesis
  proof (cases "IsValidKubernetesManifestFile n")
    case False
    then show ?thesis by (simp add: f file_part_def)
  next
    case True
    then show ?thesis
      by (cases c; cases "SplitYAML R (projr c)") (simp_all add: f file_part_def)
  qed
qed

lemma raw_files_Inr:
  "raw_files R files err acc = Inr objs \<longleftrightarrow> err = None \<and> (\<exists>objs'. objs = acc @ objs' \<and> manifests_of R files objs')"
proof (induction files arbitrary: acc)
  case Nil
  then show ?case by (auto simp: manifests_of_def split: option.splits)
next
  case (Cons f files)
  show ?case
    unfolding raw_files_Cons Cons.IH manifests_of_Cons by auto
qed

text \<open>The files deployed for a commit and a path.\<close>

definition commit_files ::
  "('w, 'r, 't, 'u) repo_libs \<Rightarrow> 'r \<Rightarrow> string \<Rightarrow> string \<Rightarrow> 'w \<Rightarrow> (string \<times> (go_error + string)) list \<Rightarrow> bool" where
  "commit_files R r path hsh w files \<longleftrightarrow>
     (\<exists>c t t'. CommitObject R r hsh w = Inr c \<and> commit_Tree R r c w = Inr t \<and>
        (if path = [] then t' = t else tree_Tree R t path w = Inr t') \<and> tree_Files R t' w = (files, None))"

lemma raw_files_pair:
  "(case p of (files, err) \<Rightarrow> raw_files R files err []) = Inr objs \<longleftrightarrow> (\<exists>files. p = (files, None) \<and> manifests_of R files objs)"
  by (cases p) (auto simp: raw_files_Inr)

lemma rawTemplate_Inr:
  "rawTemplate R r g hsh w = Inr objs \<longleftrightarrow>
     (\<exists>files. commit_files R r (Path (gs_Spec g)) hsh w files \<and> manifests_of R files objs)"
  unfolding rawTemplate_def getCommitTreeAtPath_def isRootDir_def bindE_eq_Inr raw_files_pair commit_files_def
  by (cases "Path (gs_Spec g) = []") (auto simp: bindE_eq_Inr)

lemma GetLatestManifests_Ok:
  "GetLatestManifests R C cfg lat r g s = (Ok (hsh, objs), s') \<longleftrightarrow>
     (\<exists>s1 p t. fetchUpdates R C cfg lat g r s = (Ok (), s1) \<and>
        ResolveRevision R r (TargetRevision (gs_Spec g)) (ext s1) = Inr hsh \<and>
        getLocalRepoPath R cfg g = Inr p \<and> os_Stat R (p @ ''/'' @ Path (gs_Spec g)) (ext s1) = None \<and>
        ExplicitType (gs_Spec g) = Inr t \<and> build_manifests R r g p hsh t s1 = (Ok objs, s'))"
  unfolding GetLatestManifests_def Ok_iffs getLatestCommitHash_def by auto

lemma goto_revision_metrics: "metric_log (snd (goto_revision R C cred g r s)) = metric_log s"
  by (auto simp: goto_revision_def Let_def split: sum.splits intro!: bindR_keeps [of metric_log])

section \<open>A small repository\<close>

text \<open>
  An instance of the libraries for the witnesses. The first component of the world is the branch
  the working copy is on. There are two branches, \<open>dev\<close> at \<open>d2\<close> and \<open>main\<close> at \<open>c2\<close>, and the tag \<open>v1\<close> at the commit
  \<open>c1\<close> before \<open>c2\<close>; kustomize prints the branch it builds from.
\<close>

definition small_repo :: "(string \<times> 'x, unit, string, string) repo_libs" where
  "small_repo =
     \<lparr>NewEndpoint = Inr, NewPublicKeys = (\<lambda>u k p. Inr (PublicKeys u k)),
      os_ReadFile = (\<lambda>w f. Inl (ErrorString ''no such file'')),
      json_to_map = (\<lambda>s. Inr Map.empty), yaml_to_map = (\<lambda>s. Inr Map.empty),
      git_LoadConfig = (\<lambda>w. Inr None),
      PlainClone = (\<lambda>p opts w. (Ok (), (''main'', snd w))), PlainOpen = (\<lambda>p w. Inr ()),
      Head = (\<lambda>r w. Inr (True, fst w)),
      ResolveRevision = (\<lambda>r t w. Inr (if t = ''v1'' then ''c1'' else if t = ''dev'' then ''d2'' else ''c2'')),
      repo_Reference = (\<lambda>r n w. if n = ''refs/heads/main'' \<or> n = ''refs/heads/dev'' then Inr n
                              else Inl (ErrorString ''reference not found'')),
      repo_Tag = (\<lambda>r t w. if t = ''v1'' then Inr ''c1'' else Inl (ErrorString ''tag not found'')),
      CommitObject = (\<lambda>r h w. Inr h),
      repo_Branches = (\<lambda>r w. Inr ([(''dev'', ''d2''), (''main'', ''c2'')], None)),
      repo_Log = (\<lambda>r h w. Inr (if h = ''c2'' then [''c2'', ''c1''] else [h], None)),
      NewHash = (\<lambda>h. h), repo_Worktree = (\<lambda>r w. None),
      Checkout = (\<lambda>r n w. (Ok (), (drop 11 n, snd w))), Pull = (\<lambda>r opts w. (Ok (), w)),
      repo_Remote = (\<lambda>r n w. None), remote_Fetch = (\<lambda>r opts w. (Ok (), w)),
      commit_Tree = (\<lambda>r c w. Inr c), tree_Tree = (\<lambda>t p w. Inr t),
      tree_Files = (\<lambda>t w. ([(''app.yaml'', Inr (''image: '' @ t)), (''README.md'', Inr ''notes'')], None)),
      os_Stat = (\<lambda>p w. None), SplitYAML = (\<lambda>m. Inr [m]),
      kustomize_Build = (\<lambda>p q u w. (Ok [''built from '' @ fst w], w)),
      NewHelmApp = (\<lambda>p u w. Inr p), helm_Template = (\<lambda>h opts w. (Ok [], w)),
      helm_DependencyBuild = (\<lambda>h w. (Ok (), w)), repo_Sum64 = length\<rparr>"

lemma small_repo_simps [simp]:
  "NewEndpoint small_repo = Inr"
  "NewPublicKeys small_repo = (\<lambda>u k p. Inr (PublicKeys u k))"
  "os_ReadFile small_repo = (\<lambda>w f. Inl (ErrorString ''no such file''))"
  "json_to_map small_repo = (\<lambda>s. Inr Map.empty)"
  "yaml_to_map small_repo = (\<lambda>s. Inr Map.empty)"
  "git_LoadConfig small_repo = (\<lambda>w. Inr None)"
  "PlainClone small_repo = (\<lambda>p opts w. (Ok (), (''main'', snd w)))"
  "PlainOpen small_repo = (\<lambda>p w. Inr ())"
  "Head small_repo = (\<lambda>r w. Inr (True, fst w))"
  "ResolveRevision small_repo = (\<lambda>r t w. Inr (if t = ''v1'' then ''c1'' else if t = ''dev'' then ''d2'' else ''c2''))"
  "repo_Reference small_repo = (\<lambda>r n w. if n = ''refs/heads/main'' \<or> n = ''refs/heads/dev'' then Inr n else Inl (ErrorString ''reference not found''))"
  "repo_Tag small_repo = (\<lambda>r t w. if t = ''v1'' then Inr ''c1'' else Inl (ErrorString ''tag not found''))"
  "CommitObject small_repo = (\<lambda>r h w. Inr h)"
  "repo_Branches small_repo = (\<lambda>r w. Inr ([(''dev'', ''d2''), (''main'', ''c2'')], None))"
  "repo_Log small_repo = (\<lambda>r h w. Inr (if h = ''c2'' then [''c2'', ''c1''] else [h], None))"
  "NewHash small_repo = (\<lambda>h. h)"
  "repo_Worktree small_repo = (\<lambda>r w. None)"
  "Checkout small_repo = (\<lambda>r n w. (Ok (), (drop 11 n, snd w)))"
  "Pull small_repo = (\<lambda>r opts w. (Ok (), w))"
  "repo_Remote small_repo = (\<lambda>r n w. None)"
  "remote_Fetch small_repo = (\<lambda>r opts w. (Ok (), w))"
  "commit_Tree small_repo = (\<lambda>r c w. Inr c)"
  "tree_Tree small_repo = (\<lambda>t p w. Inr t)"
  "tree_Files small_repo = (\<lambda>t w. ([(''app.yaml'', Inr (''image: '' @ t)), (''README.md'', Inr ''notes'')], None))"
  "os_Stat small_repo = (\<lambda>p w. None)"
  "SplitYAML small_repo = (\<lambda>m. Inr [m])"
  "kustomize_Build small_repo = (\<lambda>p q u w. (Ok [''built from '' @ fst w], w))"
  "NewHelmApp small_repo = (\<lambda>p u w. Inr p)"
  "helm_Template small_repo = (\<lambda>h opts w. (Ok [], w))"
  "helm_DependencyBuild small_repo = (\<lambda>h w. (Ok (), w))"
  "repo_Sum64 small_repo = length"
  by (simp_all add: small_repo_def)

definition no_secrets :: "('w, string) k8s_client" where
  "no_secrets = \<lparr>Get_Secret = (\<lambda>ns n w. Inl (TaggedError NotFound ''not found'')), Delete = (\<lambda>u w. (Ok (), w))\<rparr>"

definition small_gitsync :: "string \<Rightarrow> unit option \<Rightarrow> GitSync" where
  "small_gitsync revision kust =
     \<lparr>gs_Namespace = ''ns'', gs_Name = ''my-app'', gs_Finalizers = [], gs_DeletionTimestamp = None,
      gs_Spec = \<lparr>RepoUrl = ''https://github.com/acme/repo'', Path = [], TargetRevision = revision,
        Kustomize = kust, Helm = None, Raw = None,
        spec_Destination = \<lparr>Cluster = ''prod'', dest_Namespace = ''apps''\<rparr>\<rparr>,
      gs_Status = empty_status\<rparr>"

lemma small_options:
  "GetRepoFetchOptions small_repo no_secrets None url w = Inr \<lparr>opt_URL = url, opt_Auth = None,
     opt_InsecureSkipTLS = False, fo_RefSpecs = [''refs/*:refs/*''], fo_Force = True\<rparr>"
  "GetRepoPullOptions small_repo no_secrets None url b w = Inr \<lparr>opt_URL = url, opt_Auth = None,
     opt_InsecureSkipTLS = False, po_Force = True, po_RemoteName = ''origin'', po_ReferenceName = ''refs/heads/'' @ b\<rparr>"
  "GetRepoCloneOptions small_repo no_secrets None url w = Inr \<lparr>opt_URL = url, opt_Auth = None,
     opt_InsecureSkipTLS = False\<rparr>"
proof -
  have "GetAuthMethod small_repo no_secrets None url w = Inr (None, False)"
    using Parse_total [of url] by (auto simp: GetAuthMethod_def GetURLScheme_def)
  then show
    "GetRepoFetchOptions small_repo no_secrets None url w = Inr \<lparr>opt_URL = url, opt_Auth = None,
     opt_InsecureSkipTLS = False, fo_RefSpecs = [''refs/*:refs/*''], fo_Force = True\<rparr>"
    "GetRepoPullOptions small_repo no_secrets None url b w = Inr \<lparr>opt_URL = url, opt_Auth = None,
     opt_InsecureSkipTLS = False, po_Force = True, po_RemoteName = ''origin'', po_ReferenceName = ''refs/heads/'' @ b\<rparr>"
    "GetRepoCloneOptions small_repo no_secrets None url w = Inr \<lparr>opt_URL = url, opt_Auth = None,
     opt_InsecureSkipTLS = False\<rparr>"
    by (simp_all add: GetRepoFetchOptions_def GetRepoPullOptions_def GetRepoCloneOptions_def endpoint_of_def)
qed

lemma small_fetchUpdates:
  "fetchUpdates small_repo no_secrets (zero_GlobalConfig, None) lat (small_gitsync ''v1'' kust) ()
     \<lparr>ext = (''main'', x), metric_log = []\<rparr> = (Ok (), \<lparr>ext = (''main'', x), metric_log = [MGit, MLatency lat]\<rparr>)"
proof -
  have "goto_revision small_repo no_secrets None (small_gitsync ''v1'' kust) () \<lparr>ext = (''main'', x), metric_log = []\<rparr> =
      (Ok ''main'', \<lparr>ext = (''main'', x), metric_log = []\<rparr>)"
    unfolding goto_revision_def Let_def small_options
    by (simp add: small_gitsync_def GetCurrentBranch_def on_ext_def fetchAll_def checkoutRepo_def
        findFirstBranchContainingTag_def branch_ref_def)
  then show ?thesis
    by (simp add: fetchUpdates_def zero_GlobalConfig_def Let_def small_options UpdateOptionsWithGitConfig_def
        pull_branch_def log_metric_def on_ext_def small_gitsync_def)
qed

section \<open>Properties\<close>

text \<open>
  C8. Raw manifests are those of the commit reported. For a GitSync with a raw source,
  \<open>GetLatestManifests\<close> succeeds exactly when the update of the working copy does, the target
  revision resolves to a commit, the path exists on disk, and every manifest file under the
  path in the tree of that commit can be read and split; the result is the hash of that commit
  with the manifests of those files in order.
\<close>

theorem raw_manifests_at_commit:
  assumes "ExplicitType (gs_Spec g) = Inr SourceTypeRaw"
  shows "GetLatestManifests R C cfg lat r g s = (Ok (hsh, objs), s') \<longleftrightarrow>
    fetchUpdates R C cfg lat g r s = (Ok (), s') \<and>
    ResolveRevision R r (TargetRevision (gs_Spec g)) (ext s') = Inr hsh \<and>
    (\<exists>p. getLocalRepoPath R cfg g = Inr p \<and> os_Stat R (p @ ''/'' @ Path (gs_Spec g)) (ext s') = None) \<and>
    (\<exists>files. commit_files R r (Path (gs_Spec g)) hsh (ext s') files \<and> manifests_of R files objs)"
  unfolding GetLatestManifests_Ok assms
  by (auto simp: build_manifests_def Ok_iffs rawTemplate_Inr)

theorem raw_manifests_at_commit_witness:
  "GetLatestManifests small_repo no_secrets (zero_GlobalConfig, None) 7 () (small_gitsync ''v1'' None)
     \<lparr>ext = (''main'', ()), metric_log = []\<rparr> =
   (Ok (''c1'', [''image: c1'']), \<lparr>ext = (''main'', ()), metric_log = [MGit, MLatency 7]\<rparr>)"
proof -
  have raw: "ExplicitType (gs_Spec (small_gitsync ''v1'' None)) = Inr SourceTypeRaw"
    by (simp add: small_gitsync_def ExplicitType_def appTypes_def)
  have "IsValidKubernetesManifestFile ''app.yaml''" "\<not> IsValidKubernetesManifestFile ''README.md''"
    by (simp_all add: IsValidKubernetesManifestFile_def validManifestExtensions_def)
  then have "manifests_of small_repo [(''app.yaml'', Inr ''image: c1''), (''README.md'', Inr ''notes'')] [''image: c1'']"
    by (simp add: manifests_of_def file_part_def exI [of _ "[[''image: c1''], []]"])
  then show ?thesis
    unfolding raw_manifests_at_commit [OF raw] small_fetchUpdates
    by (auto simp: commit_files_def getLocalRepoPath_def zero_GlobalConfig_def small_gitsync_def)
qed

text \<open>
  Kustomize builds the working copy, not the commit reported. With a kustomize source the
  manifests are built from the disk as the update left it, that is from the branch
  \<open>checkoutRepo\<close> chose, and are returned with the hash the target revision resolves to; for a
  tag behind the head of its branch the two are different commits.
\<close>

theorem kustomize_from_working_copy:
  assumes "ExplicitType (gs_Spec g) = Inr SourceTypeKustomize"
    and "GetLatestManifests R C cfg lat r g s = (Ok (hsh, objs), s')"
  shows "\<exists>s1 p. fetchUpdates R C cfg lat g r s = (Ok (), s1) \<and>
    ResolveRevision R r (TargetRevision (gs_Spec g)) (ext s1) = Inr hsh \<and> getLocalRepoPath R cfg g = Inr p \<and>
    kustomize_Build R p (Path (gs_Spec g)) (RepoUrl (gs_Spec g)) (ext s1) = (Ok objs, ext s')"
  using assms(2) unfolding GetLatestManifests_Ok assms(1)
  by (auto simp: build_manifests_def on_ext_eq)

theorem kustomize_from_working_copy_witness:
  "\<exists>objs s'. GetLatestManifests small_repo no_secrets (zero_GlobalConfig, None) 7 () (small_gitsync ''v1'' (Some ()))
      \<lparr>ext = (''main'', ()), metric_log = []\<rparr> = (Ok (''c1'', objs), s') \<and> objs = [''built from main'']"
proof -
  let ?g = "small_gitsync ''v1'' (Some ())"
  have kust: "ExplicitType (gs_Spec ?g) = Inr SourceTypeKustomize"
    by (simp add: small_gitsync_def ExplicitType_def appTypes_def)
  obtain objs s' where res: "GetLatestManifests small_repo no_secrets (zero_GlobalConfig, None) 7 () ?g
      \<lparr>ext = (''main'', ()), metric_log = []\<rparr> = (Ok (''c1'', objs), s')"
    unfolding GetLatestManifests_def small_fetchUpdates kust
    by (simp add: getLatestCommitHash_def getLocalRepoPath_def zero_GlobalConfig_def on_ext_def build_manifests_def
        small_gitsync_def)
  from kustomize_from_working_copy [OF kust this] have "objs = [''built from main'']"
    by (auto simp: small_fetchUpdates)
  with res show ?thesis by blast
qed

text \<open>
  C29. Which branch is checked out. When the names of the branches are not empty, the working
  copy is put on the branch named by the target revision if there is one; otherwise on the
  first branch, in the order listed, whose log reaches the commit of the tag of that name, or,
  failing that, the commit with that hash; never on the tag or the commit itself. If there is
  no such branch nothing is checked out and the result is an error.
\<close>

theorem checkoutRepo_target:
  assumes "repo_Worktree R r w = None" and "repo_Branches R r w = Inr (refs, refs_err)"
    and "list_all (\<lambda>ref. fst ref \<noteq> []) refs"
  shows "case repo_Reference R r (branch_ref t) w of
      Inr name \<Rightarrow> checkoutRepo R r t w = Checkout R r name w
    | Inl _ \<Rightarrow>
        (\<forall>b. revision_branch R r w refs t b \<longrightarrow> checkoutRepo R r t w = Checkout R r (branch_ref b) w) \<and>
        ((\<nexists>b. revision_branch R r w refs t b) \<longrightarrow> (\<exists>e. checkoutRepo R r t w = (Err e, w)))"
proof (cases "repo_Reference R r (branch_ref t) w")
  case (Inr name)
  with assms(1) show ?thesis by (simp add: checkoutRepo_def)
next
  case (Inl e)
  note tag = find_tag_Inr [OF assms(2,3), of t] and commit = find_commit_Inr [OF assms(2,3), of t]
  show ?thesis
  proof (cases "findFirstBranchContainingTag R r t w")
    case (Inr b)
    then have "revision_branch R r w refs t b' \<longleftrightarrow> b' = b" for b'
      using tag [of b] tag [of b'] by (auto simp: revision_branch_def)
    with Inl Inr assms(1) show ?thesis by (simp add: checkoutRepo_def)
  next
    case Inl2: (Inl e2)
    then have rb: "revision_branch R r w refs t b \<longleftrightarrow> findFirstBranchContainingCommit R r t w = Inr b" for b
      using tag commit by (auto simp: revision_branch_def)
    show ?thesis
      using Inl Inl2 assms(1)
      by (cases "findFirstBranchContainingCommit R r t w") (simp_all add: checkoutRepo_def rb)
  qed
qed

theorem checkoutRepo_target_witness:
  "checkoutRepo small_repo () ''v1'' (''dev'', ()) = (Ok (), (''main'', ()))"
proof -
  have "lacks_commit small_repo () (''dev'', ()) ''c1'' (''dev'', ''d2'')" "has_commit small_repo () (''dev'', ()) ''c1'' (''main'', ''c2'')"
    by (simp_all add: lacks_commit_def has_commit_def)
  then have "first_branch_with small_repo () (''dev'', ()) [(''dev'', ''d2''), (''main'', ''c2'')] ''c1'' ''main''"
    unfolding first_branch_with_def
    by - (rule exI [of _ "[(''dev'', ''d2'')]"], rule exI [of _ "''c2''"], rule exI [of _ "[]"], simp)
  moreover have "tag_commit small_repo () (''dev'', ()) ''v1'' ''c1''"
    by (simp add: tag_commit_def)
  ultimately have "revision_branch small_repo () (''dev'', ()) [(''dev'', ''d2''), (''main'', ''c2'')] ''v1'' ''main''"
    unfolding revision_branch_def by blast
  then have "checkoutRepo small_repo () ''v1'' (''dev'', ()) = Checkout small_repo () (branch_ref ''main'') (''dev'', ())"
    using checkoutRepo_target [of small_repo "()" "(''dev'', ())" "[(''dev'', ''d2''), (''main'', ''c2'')]" None "''v1''"]
    by (simp add: branch_ref_def)
  then show ?thesis
    by (simp add: branch_ref_def)
qed

text \<open>
  Metrics of a pull. \<open>fetchUpdates\<close> counts a git request, with its latency, exactly when it
  reaches the pull, and a failed request exactly when the pull fails otherwise than by being up
  to date; in particular a fetch or a checkout that fails is not counted at all.
\<close>

theorem fetchUpdates_metrics:
  "case fetchUpdates R C cfg lat g r s of (res, s') \<Rightarrow>
     (metric_log s' = metric_log s \<and> res \<noteq> Ok ()) \<or>
     (metric_log s' = metric_log s @ [MGit, MLatency lat] \<and> (res = Ok () \<or> (\<exists>p. res = Panic p))) \<or>
     (metric_log s' = metric_log s @ [MGitFailed, MGit, MLatency lat] \<and>
        (\<exists>e. res = Err e \<and> \<not> error_is NoErrAlreadyUpToDate e))"
proof (cases "snd cfg")
  case (Some e)
  then show ?thesis by (cases cfg) (simp add: fetchUpdates_def)
next
  case None
  define cred where "cred = FindCredByUrl (RepoUrl (gs_Spec g)) (RepoCredentials (fst cfg))"
  obtain rb s1 where g: "goto_revision R C cred g r s = (rb, s1)" by fastforce
  have log: "metric_log s1 = metric_log s"
    using goto_revision_metrics [of R C cred g r s] g by simp
  have pull: "(metric_log s' = metric_log s @ [MGit, MLatency lat] \<and> (res = Ok () \<or> (\<exists>p. res = Panic p))) \<or>
     (metric_log s' = metric_log s @ [MGitFailed, MGit, MLatency lat] \<and>
        (\<exists>e. res = Err e \<and> \<not> error_is NoErrAlreadyUpToDate e))"
    if "pull_branch R lat r po s1 = (res, s')" for po res s'
    using log that
    by (cases "Pull R r po (ext s1)"; cases "fst (Pull R r po (ext s1))")
      (auto simp: pull_branch_def log_metric_def split: if_splits)
  show ?thesis
  proof (cases rb)
    case (Ok branch)
    with None g log show ?thesis
      by (cases cfg)
        (auto simp: fetchUpdates_def cred_def Let_def dest!: pull split: sum.split option.split outcome.split)
  qed (use None g log in \<open>cases cfg; simp add: fetchUpdates_def cred_def Let_def\<close>)+
qed

end
