(* ===== verification/DiffNormalizer.thy ===== *)
theory DiffNormalizer
  imports KubeUtil
begin

text \<open>
  Normalising objects before they are compared (\<open>internal/sync/diff.go\<close>): overrides are turned
  into JSON patches that remove fields, and the patches that match an object are applied to it.
  The glob matcher, the JSON codec, the JSON patch library and the diff itself are parameters.
\<close>

section \<open>Overrides\<close>

record OverrideIgnoreDiff =
  oid_JSONPointers :: "string list"

record ResourceOverride =
  IgnoreDifferences :: OverrideIgnoreDiff

record ResourceIgnoreDifferences =
  rid_Group :: string
  rid_Kind :: string
  rid_Name :: string
  rid_Namespace :: string
  rid_JSONPointers :: "string list"

definition getGroupKindForOverrideKey :: "string \<Rightarrow> go_error + (string \<times> string)" where
  "getGroupKindForOverrideKey key =
     (case Split key (CHR ''/'') of
        [g, k] \<Rightarrow> Inr (g, k)
      | [k] \<Rightarrow> Inr ([], k)
      | _ \<Rightarrow> Inl (ErrorString (''override key must be <group>/<kind> or <kind>, got: '' @ quoted key @ '' '')))"

section \<open>Patches\<close>

record ('p, 'u) patch_libs =
  glob_Match :: "string \<Rightarrow> string \<Rightarrow> bool"
  Marshal_remove :: "string \<Rightarrow> go_error + string"
  DecodePatch :: "string \<Rightarrow> go_error + 'p"
  patch_Apply :: "'p \<Rightarrow> string \<Rightarrow> go_error + string"
  un_Marshal :: "'u \<Rightarrow> go_error + string"
  un_Unmarshal :: "string \<Rightarrow> 'u \<Rightarrow> go_error option \<times> 'u"

text \<open>\<open>jsonPatchNormalizerPatch\<close> with the embedded \<open>baseNormalizerPatch\<close>.\<close>

record baseNormalizerPatch =
  np_Group :: string
  np_Kind :: string
  np_namespace :: string
  np_name :: string

record 'p jsonPatchNormalizerPatch = baseNormalizerPatch +
  np_patch :: 'p

definition Apply :: "('p, 'u) patch_libs \<Rightarrow> 'p jsonPatchNormalizerPatch \<Rightarrow> string \<Rightarrow> go_error + string" where
  "Apply L np data = bindE (patch_Apply L (np_patch np) data) (\<lambda>patchedData. Inr patchedData)"

text \<open>
  The first loop of \<open>NewIgnoreNormalizer\<close>, over the map of overrides in the order of the walk.
  The error of a malformed key is logged and the loop goes on with an empty group and kind.
\<close>

fun collect_ignores :: "(string \<times> ResourceOverride) list \<Rightarrow> ResourceIgnoreDifferences list" where
  "collect_ignores [] = []"
| "collect_ignores ((key, override) # rest) =
     (case (case getGroupKindForOverrideKey key of Inl e \<Rightarrow> ([], []) | Inr gk \<Rightarrow> gk) of (g, k) \<Rightarrow>
        (if length (oid_JSONPointers (IgnoreDifferences override)) > 0
         then [\<lparr>rid_Group = g, rid_Kind = k, rid_Name = [], rid_Namespace = [],
                rid_JSONPointers = oid_JSONPointers (IgnoreDifferences override)\<rparr>]
         else []) @ collect_ignores rest)"

text \<open>The second loop: a patch per path, stopping at the first error.\<close>

fun build_patches ::
  "('p, 'u) patch_libs \<Rightarrow> ResourceIgnoreDifferences \<Rightarrow> string list \<Rightarrow> go_error + 'p jsonPatchNormalizerPatch list" where
  "build_patches L ig [] = Inr []"
| "build_patches L ig (p # paths) =
     bindE (Marshal_remove L p) (\<lambda>patchData.
     bindE (DecodePatch L patchData) (\<lambda>patch.
     bindE (build_patches L ig paths) (\<lambda>patches.
       Inr (\<lparr>np_Group = rid_Group ig, np_Kind = rid_Kind ig, np_namespace = rid_Namespace ig,
             np_name = rid_Name ig, np_patch = patch\<rparr> # patches))))"

fun build_all :: "('p, 'u) patch_libs \<Rightarrow> ResourceIgnoreDifferences list \<Rightarrow> go_error + 'p jsonPatchNormalizerPatch list" where
  "build_all L [] = Inr []"
| "build_all L (ig # igs) =
     bindE (build_patches L ig (rid_JSONPointers ig)) (\<lambda>ps.
     bindE (build_all L igs) (\<lambda>qs. Inr (ps @ qs)))"

definition NewIgnoreNormalizer ::
  "('p, 'u) patch_libs \<Rightarrow> (string \<times> ResourceOverride) list \<Rightarrow> go_error + 'p jsonPatchNormalizerPatch list" where
  "NewIgnoreNormalizer L overrides = build_all L (collect_ignores overrides)"

section \<open>Normalising an object\<close>

definition patch_matches ::
  "('u, 'x) unstructured_ops_scheme \<Rightarrow> ('p, 'u) patch_libs \<Rightarrow> 'u \<Rightarrow> 'p jsonPatchNormalizerPatch \<Rightarrow> bool" where
  "patch_matches U L un patch \<longleftrightarrow>
     glob_Match L (np_Group patch) (gvk_Group (get_gvk U un)) \<and>
     glob_Match L (np_Kind patch) (gvk_Kind (get_gvk U un)) \<and>
     (np_name patch = [] \<or> np_name patch = GetName U un) \<and>
     (np_namespace patch = [] \<or> np_namespace patch = GetNamespace U un)"

text \<open>The loop over the matched patches: a patch that fails is skipped.\<close>

fun apply_patches :: "('p, 'u) patch_libs \<Rightarrow> 'p jsonPatchNormalizerPatch list \<Rightarrow> string \<Rightarrow> string" where
  "apply_patches L [] docData = docData"
| "apply_patches L (patch # patches) docData =
     (case Apply L patch docData of
        Inl e \<Rightarrow> apply_patches L patches docData
      | Inr patchedDocData \<Rightarrow> apply_patches L patches patchedDocData)"

text \<open>A nil object is \<open>None\<close>; otherwise the object is updated in place.\<close>

definition Normalize ::
  "('u, 'x) unstructured_ops_scheme \<Rightarrow> ('p, 'u) patch_libs \<Rightarrow> 'p jsonPatchNormalizerPatch list \<Rightarrow>
   'u option \<Rightarrow> go_error option \<times> 'u option" where
  "Normalize U L patches obj =
     (case obj of
        None \<Rightarrow> (Some (ErrorString ''invalid argument: unstructured is nil''), None)
      | Some un \<Rightarrow>
          (let matched = filter (patch_matches U L un) patches
           in if matched = [] then (None, Some un)
              else (case un_Marshal L un of
                      Inl e \<Rightarrow> (Some e, Some un)
                    | Inr docData \<Rightarrow>
                        (case un_Unmarshal L (apply_patches L matched docData) un of
                           (e, un') \<Rightarrow> (e, Some un')))))"

definition shouldLogError :: "go_error \<Rightarrow> bool" where
  "shouldLogError e =
     (if Contains_str (Error e) ''Unable to remove nonexistent key'' then False
      else if Contains_str (Error e) ''remove operation does not apply: doc is missing path'' then False
      else True)"

text \<open>\<open>diffArray\<close> is \<open>diff.DiffArray\<close> with the caller's options and the given normaliser.\<close>

definition StateDiffs ::
  "('u, 'x) unstructured_ops_scheme \<Rightarrow> ('p, 'u) patch_libs \<Rightarrow>
   ('u option list \<Rightarrow> 'u option list \<Rightarrow> ('u option \<Rightarrow> go_error option \<times> 'u option) \<Rightarrow> go_error + 'd) \<Rightarrow>
   'u option list \<Rightarrow> 'u option list \<Rightarrow> (string \<times> ResourceOverride) list \<Rightarrow> go_error + 'd" where
  "StateDiffs U L diffArray configs lives overrides =
     (case NewIgnoreNormalizer L overrides of
        Inl e \<Rightarrow> Inl (WrapError ''failed to create diff normalizer: '' e)
      | Inr patches \<Rightarrow>
          (case diffArray configs lives (Normalize U L patches) of
             Inl e \<Rightarrow> Inl (WrapError ''failed to calculate diff: '' e)
           | Inr array \<Rightarrow> Inr array))"

text \<open>The overrides \<open>compareState\<close> passes.\<close>

definition status_overrides :: "(string \<times> ResourceOverride) list" where
  "status_overrides = [(''*/*'', \<lparr>IgnoreDifferences = \<lparr>oid_JSONPointers = [''/status'']\<rparr>\<rparr>)]"

section \<open>Lemmas\<close>

lemma collect_status: "collect_ignores status_overrides =
    [\<lparr>rid_Group = ''*'', rid_Kind = ''*'', rid_Name = [], rid_Namespace = [], rid_JSONPointers = [''/status'']\<rparr>]"
  by (simp add: status_overrides_def getGroupKindForOverrideKey_def)

text \<open>
  What the libraries document of the patch that removes \<open>/status\<close>. \<open>status_of\<close> and
  \<open>without_status\<close> read the object: an object encodes and decodes back; the patch applied to
  the encoding of an object with a status gives the encoding of the object without it, and
  fails on an object that has none; the pattern \<open>*\<close> matches any group and kind.
\<close>

definition status_laws ::
  "('p, 'u) patch_libs \<Rightarrow> ('u \<Rightarrow> bool) \<Rightarrow> ('u \<Rightarrow> 'u) \<Rightarrow> 'p \<Rightarrow> bool" where
  "status_laws L has_status without_status p \<longleftrightarrow>
     (\<forall>t. glob_Match L ''*'' t) \<and>
     (\<exists>d. Marshal_remove L ''/status'' = Inr d \<and> DecodePatch L d = Inr p) \<and>
     (\<forall>u. \<exists>doc. un_Marshal L u = Inr doc \<and>
        (\<forall>v. un_Unmarshal L doc v = (None, u)) \<and>
        (if has_status u then (\<exists>doc'. patch_Apply L p doc = Inr doc' \<and> un_Marshal L (without_status u) = Inr doc')
         else (\<exists>e. patch_Apply L p doc = Inl e)))"

definition status_patch :: "'p \<Rightarrow> 'p jsonPatchNormalizerPatch" where
  "status_patch p = \<lparr>np_Group = ''*'', np_Kind = ''*'', np_namespace = [], np_name = [], np_patch = p\<rparr>"

lemma NewIgnoreNormalizer_status:
  "status_laws L h ws p \<Longrightarrow> NewIgnoreNormalizer L status_overrides = Inr [status_patch p]"
  by (auto simp: NewIgnoreNormalizer_def collect_status status_laws_def status_patch_def)

lemma Normalize_status:
  assumes "status_laws L has_status without_status p"
  shows "Normalize U L [status_patch p] (Some u) =
    (None, Some (if has_status u then without_status u else u))"
proof -
  have m: "patch_matches U L u (status_patch p)"
    using assms by (simp add: patch_matches_def status_patch_def status_laws_def)
  obtain doc where doc: "un_Marshal L u = Inr doc" "un_Unmarshal L doc u = (None, u)"
    "if has_status u then (\<exists>doc'. patch_Apply L p doc = Inr doc' \<and> un_Marshal L (without_status u) = Inr doc')
     else (\<exists>e. patch_Apply L p doc = Inl e)"
    using assms unfolding status_laws_def by metis
  show ?thesis
  proof (cases "has_status u")
    case True
    then obtain doc' where d: "patch_Apply L p doc = Inr doc'" "un_Marshal L (without_status u) = Inr doc'"
      using doc(3) by auto
    then have "un_Unmarshal L doc' u = (None, without_status u)"
      using assms unfolding status_laws_def by (metis Inr_inject)
    with True m doc d show ?thesis
      by (simp add: Normalize_def Apply_def status_patch_def)
  next
    case False
    then obtain e where "patch_Apply L p doc = Inl e"
      using doc(3) by auto
    with False m doc show ?thesis
      by (simp add: Normalize_def Apply_def status_patch_def)
  qed
qed

section \<open>Properties\<close>

text \<open>
  The status is ignored. With the overrides of \<open>compareState\<close> every object is compared
  without its status and otherwise as it is, so two objects that differ only in their status
  are compared as equal ones, and the diff is computed over all the objects given.
\<close>

theorem StateDiffs_ignores_status:
  assumes "status_laws L has_status without_status p"
  shows "StateDiffs U L diffArray configs lives status_overrides =
    (case diffArray configs lives
       (\<lambda>obj. case obj of
          None \<Rightarrow> (Some (ErrorString ''invalid argument: unstructured is nil''), None)
        | Some u \<Rightarrow> (None, Some (if has_status u then without_status u else u))) of
       Inl e \<Rightarrow> Inl (WrapError ''failed to calculate diff: '' e)
     | Inr d \<Rightarrow> Inr d)"
proof -
  have "Normalize U L [status_patch p] = (\<lambda>obj. case obj of
          None \<Rightarrow> (Some (ErrorString ''invalid argument: unstructured is nil''), None)
        | Some u \<Rightarrow> (None, Some (if has_status u then without_status u else u)))"
  proof
    fix obj
    show "Normalize U L [status_patch p] obj = (case obj of
          None \<Rightarrow> (Some (ErrorString ''invalid argument: unstructured is nil''), None)
        | Some u \<Rightarrow> (None, Some (if has_status u then without_status u else u)))"
    proof (cases obj)
      case None
      then show ?thesis by (simp add: Normalize_def)
    next
      case (Some u)
      then show ?thesis using Normalize_status [OF assms, of U u] by simp
    qed
  qed
  then show ?thesis
    by (simp add: StateDiffs_def NewIgnoreNormalizer_status [OF assms])
qed

text \<open>Objects of the witness: a body and perhaps a status, encoded as one string each.\<close>

definition pair_libs :: "(unit, string \<times> char option) patch_libs" where
  "pair_libs =
     \<lparr>glob_Match = (\<lambda>pat t. pat = ''*'' \<or> pat = t),
      Marshal_remove = Inr,
      DecodePatch = (\<lambda>d. Inr ()),
      patch_Apply = (\<lambda>p doc. case doc of
          c # x # body \<Rightarrow> if c = CHR ''1'' then Inr (CHR ''0'' # CHR ''-'' # body) else Inl (ErrorString ''Unable to remove nonexistent key'')
        | _ \<Rightarrow> Inl (ErrorString ''bad document'')),
      un_Marshal = (\<lambda>u. case u of (body, None) \<Rightarrow> Inr (CHR ''0'' # CHR ''-'' # body) | (body, Some s) \<Rightarrow> Inr (CHR ''1'' # s # body)),
      un_Unmarshal = (\<lambda>doc u. case doc of
          c # x # body \<Rightarrow> (None, (body, if c = CHR ''1'' then Some x else None))
        | _ \<Rightarrow> (Some (ErrorString ''bad document''), u))\<rparr>"

lemma pair_libs_laws: "status_laws pair_libs (\<lambda>u. snd u \<noteq> None) (\<lambda>u. (fst u, None)) ()"
  by (simp add: status_laws_def pair_libs_def split: prod.split option.split)

definition pair_ops :: "(string \<times> char option) unstructured_ops" where
  "pair_ops =
     \<lparr>NestedFieldNoCopy = (\<lambda>u f. Inr FieldMissing),
      NestedStringMap = (\<lambda>u f. Inr Map.empty),
      SetLabels = (\<lambda>u m. u), GetNamespace = (\<lambda>u. ''ns''), SetNamespace = (\<lambda>u n. u), GetName = (\<lambda>u. ''object''),
      get_gvk = (\<lambda>u. \<lparr>gvk_Group = ''apps'', gvk_Version = ''v1'', gvk_Kind = ''Deployment''\<rparr>),
      gvk_String = (\<lambda>u. ''apps/v1, Kind=Deployment'')\<rparr>"

theorem StateDiffs_ignores_status_witness:
  "StateDiffs pair_ops pair_libs
      (\<lambda>cs ls n. Inr (map (\<lambda>(c, l). snd (n c) \<noteq> snd (n l)) (zip cs ls)))
      [Some (''spec'', None), Some (''spec'', None)] [Some (''spec'', Some (CHR ''R'')), Some (''old'', None)] status_overrides =
    Inr [False, True]"
  by (simp add: StateDiffs_ignores_status [OF pair_libs_laws])

text \<open>
  Override keys. A key without a slash is a kind, one with a single slash a group and a
  kind, and any other is an error; but an error only makes the override apply to the empty
  group and kind, never fails the construction.
\<close>

theorem override_key_spec:
  "(getGroupKindForOverrideKey key = Inr (g, k) \<longleftrightarrow>
      CHR ''/'' \<notin> set g \<and> CHR ''/'' \<notin> set k \<and> (key = g @ ''/'' @ k \<or> g = [] \<and> key = k)) \<and>
   ((\<exists>e. getGroupKindForOverrideKey key = Inl e) \<longleftrightarrow> 2 \<le> count_list key (CHR ''/''))"
proof
  let ?c = "CHR ''/''"
  have key: "key = Join (Split key ?c) [?c]" by (simp add: Join_Split)
  show "getGroupKindForOverrideKey key = Inr (g, k) \<longleftrightarrow>
      ?c \<notin> set g \<and> ?c \<notin> set k \<and> (key = g @ ''/'' @ k \<or> g = [] \<and> key = k)" (is "?l \<longleftrightarrow> ?r")
  proof
    assume ?l
    then have split: "Split key ?c = [g, k] \<or> g = [] \<and> Split key ?c = [k]"
      by (auto simp: getGroupKindForOverrideKey_def split: list.splits)
    have "?c \<notin> set g" "?c \<notin> set k"
      using split Split_pieces [of g key ?c] Split_pieces [of k key ?c] by auto
    then show ?r
      using split key by (elim disjE) (simp_all only: Join.simps append.simps not_False_eq_True, simp_all)
  next
    assume ?r
    then show ?l
      using Split_append [of ?c g k] by (auto simp: getGroupKindForOverrideKey_def Split_no_sep)
  qed
  have "(\<exists>e. getGroupKindForOverrideKey key = Inl e) \<longleftrightarrow> 3 \<le> length (Split key ?c)"
    by (auto simp: getGroupKindForOverrideKey_def split: list.splits)
  then show "(\<exists>e. getGroupKindForOverrideKey key = Inl e) \<longleftrightarrow> 2 \<le> count_list key ?c"
    by (simp add: length_Split)
qed

end
