(* ===== verification/Logger.thy ===== *)
theory Logger
  imports GlobalConfig
begin

text \<open>
  The loggers (\<open>internal/util/logger\<close>): the mapping of levels, what a level lets through, and
  the loggers derived from the base logger. A logger points to a \<open>LogSink\<close>; the sinks live in a
  store, because copies of a logger share theirs. A \<open>zerolog.Logger\<close> is its level and the
  fields of its context; how it writes a line is not modelled.
\<close>

section \<open>Levels\<close>

definition infoLevelShift :: int where "infoLevelShift = 3"

definition FatalLevel :: int where "FatalLevel = infoLevelShift - 2"
definition WarnLevel :: int where "WarnLevel = infoLevelShift - 1"
definition InfoLevel :: int where "InfoLevel = infoLevelShift"
definition DebugLevel :: int where "DebugLevel = infoLevelShift + 1"
definition VerboseLevel :: int where "VerboseLevel = infoLevelShift + 2"

definition defaultLevel :: int where "defaultLevel = InfoLevel"

definition logrVerbosityToZerologLevelMap :: "int \<rightharpoonup> int" where
  "logrVerbosityToZerologLevelMap =
     [FatalLevel \<mapsto> 4, WarnLevel \<mapsto> 2, InfoLevel \<mapsto> 1, DebugLevel \<mapsto> 0, VerboseLevel \<mapsto> -2]"

text \<open>A level that is not in the map gives the zero value.\<close>

definition getZerologLevelFromLogrVerbosity :: "int \<Rightarrow> int" where
  "getZerologLevelFromLogrVerbosity level =
     (case logrVerbosityToZerologLevelMap level of Some z \<Rightarrow> z | None \<Rightarrow> 0)"

text \<open>The level of the \<open>zerolog.Logger\<close> returned.\<close>

definition setLoggerLevel :: "int \<Rightarrow> int" where
  "setLoggerLevel level =
     getZerologLevelFromLogrVerbosity (if level < FatalLevel then defaultLevel else level)"

text \<open>\<open>zerologName\<close> is \<open>Level.String\<close> of zerolog.\<close>

definition zerologLevelFieldMarshalFunc :: "(int \<Rightarrow> string) \<Rightarrow> int \<Rightarrow> string" where
  "zerologLevelFieldMarshalFunc zerologName lvl =
     (if lvl = getZerologLevelFromLogrVerbosity VerboseLevel then ''verbose'' else zerologName lvl)"

section \<open>Sinks and loggers\<close>

type_synonym log_fields = "(string \<times> string) list"

record LogSink =
  sink_level :: int
  sink_fields :: log_fields
  sink_name :: string
  sink_depth :: int

record NumaLogger =
  nl_sink :: nat
  nl_LogLevel :: int

record log_state =
  sinks :: "nat \<Rightarrow> LogSink"
  next_sink :: nat
  zl_global :: int

definition alloc_sink :: "LogSink \<Rightarrow> log_state \<Rightarrow> nat \<times> log_state" where
  "alloc_sink k s = (next_sink s, s\<lparr>sinks := (sinks s)(next_sink s := k), next_sink := Suc (next_sink s)\<rparr>)"

text \<open>\<open>Init\<close>, which \<open>logr.New\<close> calls with its call depth.\<close>

definition LogSink_Init :: "int \<Rightarrow> LogSink \<Rightarrow> LogSink" where
  "LogSink_Init callDepth ls = ls\<lparr>sink_depth := callDepth + 2\<rparr>"

definition LogSink_Enabled :: "log_state \<Rightarrow> LogSink \<Rightarrow> int \<Rightarrow> bool" where
  "LogSink_Enabled s ls level =
     (let zlLevel = getZerologLevelFromLogrVerbosity (level + infoLevelShift)
      in zlLevel \<ge> sink_level ls \<and> zlLevel \<ge> zl_global s)"

definition LogSink_WithName :: "string \<Rightarrow> LogSink \<Rightarrow> LogSink" where
  "LogSink_WithName name ls =
     ls\<lparr>sink_name := (if sink_name ls \<noteq> [] then sink_name ls @ ''.'' @ name else name)\<rparr>"

text \<open>The new \<open>zerolog.Logger\<close> has the level of the old one and its context with the fields added.\<close>

definition LogSink_WithValues :: "log_fields \<Rightarrow> LogSink \<Rightarrow> LogSink" where
  "LogSink_WithValues keysAndValues ls = ls\<lparr>sink_fields := sink_fields ls @ keysAndValues\<rparr>"

definition LogSink_WithCallDepth :: "int \<Rightarrow> LogSink \<Rightarrow> LogSink" where
  "LogSink_WithCallDepth depth ls = ls\<lparr>sink_depth := sink_depth ls + depth\<rparr>"

text \<open>A derived logger has a sink of its own.\<close>

definition derive :: "(LogSink \<Rightarrow> LogSink) \<Rightarrow> NumaLogger \<Rightarrow> log_state \<Rightarrow> NumaLogger \<times> log_state" where
  "derive f nl s = (case alloc_sink (f (sinks s (nl_sink nl))) s of (a, s') \<Rightarrow> (nl\<lparr>nl_sink := a\<rparr>, s'))"

definition NumaLogger_WithName :: "string \<Rightarrow> NumaLogger \<Rightarrow> log_state \<Rightarrow> NumaLogger \<times> log_state" where
  "NumaLogger_WithName name nl s = derive (LogSink_WithName name) nl s"

definition NumaLogger_WithValues :: "log_fields \<Rightarrow> NumaLogger \<Rightarrow> log_state \<Rightarrow> NumaLogger \<times> log_state" where
  "NumaLogger_WithValues keysAndValues nl s = derive (LogSink_WithValues keysAndValues) nl s"

definition NumaLogger_WithCallDepth :: "int \<Rightarrow> NumaLogger \<Rightarrow> log_state \<Rightarrow> NumaLogger \<times> log_state" where
  "NumaLogger_WithCallDepth depth nl s = derive (LogSink_WithCallDepth depth) nl s"

definition newNumaLogger :: "int option \<Rightarrow> log_state \<Rightarrow> NumaLogger \<times> log_state" where
  "newNumaLogger level s =
     (let s1 = s\<lparr>zl_global := getZerologLevelFromLogrVerbosity VerboseLevel\<rparr>;
          lvl = (case level of Some l \<Rightarrow> l | None \<Rightarrow> defaultLevel);
          sink = LogSink_Init 1 \<lparr>sink_level = setLoggerLevel lvl, sink_fields = [], sink_name = [], sink_depth = 0\<rparr>
      in (case alloc_sink sink s1 of (a, s2) \<Rightarrow>
            derive (LogSink_WithName ''numaplane'') \<lparr>nl_sink = a, nl_LogLevel = lvl\<rparr> s2))"

text \<open>\<open>cfg\<close> is what \<open>GetConfig\<close> returns at this moment.\<close>

definition New :: "GlobalConfig \<times> go_error option \<Rightarrow> log_state \<Rightarrow> NumaLogger \<times> log_state" where
  "New cfg s =
     (case cfg of (globalConfig, err) \<Rightarrow>
        newNumaLogger (case err of Some e \<Rightarrow> None | None \<Rightarrow> Some (LogLevel globalConfig)) s)"

text \<open>The copied \<open>logr.Logger\<close> still points to the same sink.\<close>

definition NumaLogger_DeepCopy :: "NumaLogger \<Rightarrow> NumaLogger" where
  "NumaLogger_DeepCopy nl = \<lparr>nl_sink = nl_sink nl, nl_LogLevel = nl_LogLevel nl\<rparr>"

definition SetLevel :: "int \<Rightarrow> NumaLogger \<Rightarrow> log_state \<Rightarrow> NumaLogger \<times> log_state" where
  "SetLevel level nl s =
     (nl\<lparr>nl_LogLevel := level\<rparr>,
      s\<lparr>sinks := (sinks s)(nl_sink nl := (sinks s (nl_sink nl))\<lparr>sink_level := setLoggerLevel level\<rparr>)\<rparr>)"

text \<open>The context holds a logger or none.\<close>

definition WithLogger :: "NumaLogger \<Rightarrow> NumaLogger option" where
  "WithLogger nl = Some (NumaLogger_DeepCopy nl)"

definition FromContext :: "GlobalConfig \<times> go_error option \<Rightarrow> NumaLogger option \<Rightarrow> log_state \<Rightarrow> NumaLogger \<times> log_state" where
  "FromContext cfg ctx s = (case ctx of Some nl \<Rightarrow> (NumaLogger_DeepCopy nl, s) | None \<Rightarrow> New cfg s)"

section \<open>The logging methods\<close>

text \<open>
  Each method hands its sink a level, to which the sink adds the shift back: the zerolog level
  of the event of a message of each severity.
\<close>

datatype severity = Fatal | Warn | Info | Debug | Verbose

primrec severity_level :: "severity \<Rightarrow> int" where
  "severity_level Fatal = FatalLevel"
| "severity_level Warn = WarnLevel"
| "severity_level Info = InfoLevel"
| "severity_level Debug = DebugLevel"
| "severity_level Verbose = VerboseLevel"

instantiation severity :: linorder
begin

definition less_eq_severity :: "severity \<Rightarrow> severity \<Rightarrow> bool" where
  "less_eq_severity a b \<longleftrightarrow> severity_level a \<le> severity_level b"

definition less_severity :: "severity \<Rightarrow> severity \<Rightarrow> bool" where
  "less_severity a b \<longleftrightarrow> severity_level a < severity_level b"

instance
proof
  fix a b :: severity
  show "a \<le> b \<Longrightarrow> b \<le> a \<Longrightarrow> a = b"
    by (cases a; cases b) (simp_all add: less_eq_severity_def FatalLevel_def WarnLevel_def InfoLevel_def
      DebugLevel_def VerboseLevel_def)
qed (auto simp: less_eq_severity_def less_severity_def)

end

definition log_call_level :: "severity \<Rightarrow> int" where
  "log_call_level sev = severity_level sev - infoLevelShift"

text \<open>
  An event as it is handed to zerolog. \<open>zlEvent\<close> is the event that zerolog started, with its level,
  or nil when the level is disabled; \<open>WithLevel\<close> and \<open>zlErr\<close> are zerolog's, given the level of the
  logger.
\<close>

record log_event =
  ev_level :: int
  ev_name :: "string option"
  ev_fields :: log_fields
  ev_skip :: int
  ev_msg :: string

definition LogSink_log :: "int option \<Rightarrow> string \<Rightarrow> log_fields \<Rightarrow> LogSink \<Rightarrow> log_event option" where
  "LogSink_log zlEvent msg keysAndValues ls =
     (case zlEvent of
        None \<Rightarrow> None
      | Some lvl \<Rightarrow> Some \<lparr>ev_level = lvl,
          ev_name = (if sink_name ls \<noteq> [] then Some (sink_name ls) else None),
          ev_fields = sink_fields ls @ keysAndValues, ev_skip = sink_depth ls, ev_msg = msg\<rparr>)"

definition LogSink_Info ::
  "(int \<Rightarrow> int \<Rightarrow> int option) \<Rightarrow> int \<Rightarrow> string \<Rightarrow> log_fields \<Rightarrow> LogSink \<Rightarrow> log_event option" where
  "LogSink_Info WithLevel level msg keysAndValues ls =
     LogSink_log (WithLevel (sink_level ls) (getZerologLevelFromLogrVerbosity (level + infoLevelShift)))
       msg keysAndValues ls"

definition LogSink_Error ::
  "(int \<Rightarrow> string \<Rightarrow> int option) \<Rightarrow> string \<Rightarrow> string \<Rightarrow> log_fields \<Rightarrow> LogSink \<Rightarrow> log_event option" where
  "LogSink_Error zlErr err msg keysAndValues ls = LogSink_log (zlErr (sink_level ls) err) msg keysAndValues ls"

text \<open>\<open>Warn\<close>, \<open>Info\<close>, \<open>Debug\<close> and \<open>Verbose\<close>; \<open>Fatal\<close> adds the error to the fields and exits with code 1.\<close>

definition NumaLogger_log ::
  "(int \<Rightarrow> int \<Rightarrow> int option) \<Rightarrow> severity \<Rightarrow> string \<Rightarrow> log_fields \<Rightarrow> NumaLogger \<Rightarrow> log_state \<Rightarrow> log_event option" where
  "NumaLogger_log WithLevel sev msg keysAndValues nl s =
     LogSink_Info WithLevel (log_call_level sev) msg keysAndValues (sinks s (nl_sink nl))"

definition NumaLogger_Fatal ::
  "(int \<Rightarrow> int \<Rightarrow> int option) \<Rightarrow> string \<Rightarrow> string \<Rightarrow> log_fields \<Rightarrow> NumaLogger \<Rightarrow> log_state \<Rightarrow> log_event option \<times> int" where
  "NumaLogger_Fatal WithLevel err msg keysAndValues nl s =
     (NumaLogger_log WithLevel Fatal msg (keysAndValues @ [(''error'', err)]) nl s, 1)"

text \<open>Whether a logger is enabled for the messages of a severity.\<close>

definition lets_through :: "log_state \<Rightarrow> NumaLogger \<Rightarrow> severity \<Rightarrow> bool" where
  "lets_through s nl sev = LogSink_Enabled s (sinks s (nl_sink nl)) (log_call_level sev)"

section \<open>The base logger\<close>

record base_state =
  logs :: log_state
  baseLogger :: NumaLogger

definition SetBaseLogger :: "NumaLogger \<Rightarrow> base_state \<Rightarrow> base_state" where
  "SetBaseLogger nl b = b\<lparr>baseLogger := NumaLogger_DeepCopy nl\<rparr>"

definition GetBaseLogger :: "base_state \<Rightarrow> NumaLogger" where
  "GetBaseLogger b = NumaLogger_DeepCopy (baseLogger b)"

text \<open>The error of \<open>GetConfig\<close> is logged and the zero configuration used.\<close>

definition RefreshBaseLoggerLevel :: "GlobalConfig \<times> go_error option \<Rightarrow> base_state \<Rightarrow> base_state" where
  "RefreshBaseLoggerLevel cfg b =
     (let globalConfig = fst cfg
      in if LogLevel globalConfig \<noteq> nl_LogLevel (baseLogger b)
         then (case SetLevel (LogLevel globalConfig) (baseLogger b) (logs b) of
                 (nl, s) \<Rightarrow> b\<lparr>logs := s, baseLogger := nl\<rparr>)
         else b)"

text \<open>The package variable is initialised with \<open>New\<close>.\<close>

definition init_base :: "GlobalConfig \<times> go_error option \<Rightarrow> base_state" where
  "init_base cfg =
     (case New cfg \<lparr>sinks = (\<lambda>_. \<lparr>sink_level = 0, sink_fields = [], sink_name = [], sink_depth = 0\<rparr>), next_sink = 0, zl_global = 0\<rparr> of
        (nl, s) \<Rightarrow> \<lparr>logs = s, baseLogger = nl\<rparr>)"

section \<open>Lemmas\<close>

lemmas level_defs = FatalLevel_def WarnLevel_def InfoLevel_def DebugLevel_def VerboseLevel_def
  infoLevelShift_def defaultLevel_def

lemma zerolog_levels:
  "getZerologLevelFromLogrVerbosity 1 = 4" "getZerologLevelFromLogrVerbosity 2 = 2"
  "getZerologLevelFromLogrVerbosity 3 = 1" "getZerologLevelFromLogrVerbosity 4 = 0"
  "getZerologLevelFromLogrVerbosity 5 = -2"
  by (simp_all add: getZerologLevelFromLogrVerbosity_def logrVerbosityToZerologLevelMap_def level_defs)

lemma zerolog_level_other: "n \<notin> {1..5} \<Longrightarrow> getZerologLevelFromLogrVerbosity n = 0"
  by (auto simp: getZerologLevelFromLogrVerbosity_def logrVerbosityToZerologLevelMap_def level_defs)

text \<open>The severity a configured number means.\<close>

definition effective :: "int \<Rightarrow> severity" where
  "effective n = (if n < 1 then Info else if n = 1 then Fatal else if n = 2 then Warn
     else if n = 3 then Info else if n = 5 then Verbose else Debug)"

lemma int_1_5: "(1::int) \<le> n \<Longrightarrow> n \<le> 5 \<Longrightarrow> n = 1 \<or> n = 2 \<or> n = 3 \<or> n = 4 \<or> n = 5"
  by arith

lemma setLoggerLevel_effective:
  "setLoggerLevel n = getZerologLevelFromLogrVerbosity (severity_level (effective n))"
proof (cases "1 \<le> n \<and> n \<le> 5")
  case True
  then show ?thesis
    using int_1_5 [of n] by (elim conjE disjE) (auto simp: setLoggerLevel_def effective_def level_defs)
next
  case False
  then show ?thesis
    using zerolog_level_other [of n]
    by (auto simp: setLoggerLevel_def effective_def level_defs zerolog_levels)
qed

lemma severity_order:
  "getZerologLevelFromLogrVerbosity (severity_level a) \<ge> getZerologLevelFromLogrVerbosity (severity_level b) \<longleftrightarrow> a \<le> b"
  by (cases a; cases b) (simp_all add: less_eq_severity_def level_defs zerolog_levels)

lemma severity_least: "getZerologLevelFromLogrVerbosity (severity_level a) \<ge> -2"
  by (cases a) (simp_all add: level_defs zerolog_levels)

text \<open>The state of a logger that was set to a level.\<close>

definition has_level :: "log_state \<Rightarrow> NumaLogger \<Rightarrow> int \<Rightarrow> bool" where
  "has_level s nl n \<longleftrightarrow> zl_global s = -2 \<and> sink_level (sinks s (nl_sink nl)) = setLoggerLevel n"

lemma has_level_lets: "has_level s nl n \<Longrightarrow> lets_through s nl sev \<longleftrightarrow> sev \<le> effective n"
  using severity_least [of sev] severity_order [of "effective n" sev]
  by (simp add: has_level_def lets_through_def LogSink_Enabled_def log_call_level_def
      setLoggerLevel_effective severity_order)

lemma has_level_New: "New cfg s = (nl, s') \<Longrightarrow>
   has_level s' nl (nl_LogLevel nl) \<and>
   nl_LogLevel nl = (case snd cfg of None \<Rightarrow> LogLevel (fst cfg) | Some e \<Rightarrow> defaultLevel)"
  by (auto simp: New_def newNumaLogger_def Let_def alloc_sink_def derive_def has_level_def LogSink_Init_def
      LogSink_WithName_def level_defs zerolog_levels split: prod.splits option.splits)

definition base_ok :: "base_state \<Rightarrow> bool" where
  "base_ok b \<longleftrightarrow> has_level (logs b) (baseLogger b) (nl_LogLevel (baseLogger b))"

lemma base_ok_init: "base_ok (init_base cfg)"
  by (auto simp: base_ok_def init_base_def dest!: has_level_New split: prod.splits)

lemma base_ok_refresh: "base_ok b \<Longrightarrow> base_ok (RefreshBaseLoggerLevel cfg b)"
  by (auto simp: base_ok_def RefreshBaseLoggerLevel_def SetLevel_def has_level_def Let_def)

lemma refresh_level: "nl_LogLevel (baseLogger (RefreshBaseLoggerLevel cfg b)) = LogLevel (fst cfg)"
  by (simp add: RefreshBaseLoggerLevel_def SetLevel_def Let_def)

section \<open>Properties\<close>

text \<open>
  The level of the configuration. Whatever configurations were seen before, after
  \<open>RefreshBaseLoggerLevel\<close> with a configured level the base logger, and every copy handed out,
  lets through the messages at most as verbose as that level; a level below 1 counts as Info,
  and a level above 5 as Debug, not as Verbose.
\<close>

theorem refreshed_level_enabled:
  "lets_through (logs (RefreshBaseLoggerLevel cfg (fold RefreshBaseLoggerLevel cfgs (init_base cfg0))))
     (GetBaseLogger (RefreshBaseLoggerLevel cfg (fold RefreshBaseLoggerLevel cfgs (init_base cfg0)))) sev \<longleftrightarrow>
   sev \<le> (if LogLevel (fst cfg) < 1 then Info
          else if LogLevel (fst cfg) > 5 then Debug
          else effective (LogLevel (fst cfg)))"
proof -
  have "base_ok (fold RefreshBaseLoggerLevel cfgs b)" if "base_ok b" for b
    using that by (induction cfgs arbitrary: b) (auto simp: base_ok_refresh)
  then have "base_ok (RefreshBaseLoggerLevel cfg (fold RefreshBaseLoggerLevel cfgs (init_base cfg0)))" (is "base_ok ?b")
    by (simp add: base_ok_init base_ok_refresh)
  then have "has_level (logs ?b) (GetBaseLogger ?b) (LogLevel (fst cfg))"
    by (simp add: base_ok_def refresh_level GetBaseLogger_def NumaLogger_DeepCopy_def has_level_def)
  from has_level_lets [OF this, of sev] show ?thesis
    by (auto simp: effective_def)
qed

text \<open>
  Copies share their sink. Setting the level of a logger obtained from \<open>GetBaseLogger\<close>
  changes what the base logger lets through, and refreshing with an unchanged configuration
  does not undo it.
\<close>

theorem copy_changes_base_logger:
  assumes "base_ok b" and "LogLevel (fst cfg) = nl_LogLevel (baseLogger b)"
  shows "let b' = b\<lparr>logs := snd (SetLevel n (GetBaseLogger b) (logs b))\<rparr>;
             b'' = RefreshBaseLoggerLevel cfg b'
         in (lets_through (logs b'') (baseLogger b'') sev \<longleftrightarrow> sev \<le> effective n) \<and>
            nl_LogLevel (baseLogger b'') = nl_LogLevel (baseLogger b)"
proof -
  let ?b' = "b\<lparr>logs := snd (SetLevel n (GetBaseLogger b) (logs b))\<rparr>"
  have same: "RefreshBaseLoggerLevel cfg ?b' = ?b'"
    using assms(2) by (simp add: RefreshBaseLoggerLevel_def)
  have "has_level (logs ?b') (baseLogger ?b') n"
    using assms(1) by (simp add: base_ok_def has_level_def SetLevel_def GetBaseLogger_def NumaLogger_DeepCopy_def)
  from has_level_lets [OF this] same show ?thesis by (simp add: Let_def)
qed

theorem copy_changes_base_logger_witness:
  "let b = init_base (zero_GlobalConfig\<lparr>LogLevel := 5\<rparr>, None);
       b' = b\<lparr>logs := snd (SetLevel 1 (GetBaseLogger b) (logs b))\<rparr>;
       b'' = RefreshBaseLoggerLevel (zero_GlobalConfig\<lparr>LogLevel := 5\<rparr>, None) b'
   in \<not> lets_through (logs b'') (baseLogger b'') Info"
proof -
  let ?cfg = "(zero_GlobalConfig\<lparr>LogLevel := 5\<rparr>, None)"
  have "LogLevel (fst ?cfg) = nl_LogLevel (baseLogger (init_base ?cfg))"
    by (simp add: init_base_def New_def newNumaLogger_def Let_def alloc_sink_def derive_def)
  from copy_changes_base_logger [OF base_ok_init this, of 1 Info]
  show ?thesis
    by (simp add: Let_def effective_def less_eq_severity_def level_defs)
qed

end
