(* ===== verification/SyncRun.thy ===== *)
theory SyncRun
  imports GitRepo DiffNormalizer WatchList Logger
begin

text \<open>
  One synchronisation (\<open>runOnce\<close> and what it calls in \<open>internal/sync/syncer.go\<close>): from the key of
  a GitSync to the live objects and the commit status. The Kubernetes API server, the git
  remotes and the disk are the world \<open>'w\<close>; the libraries that act on it are parameters.
\<close>

section \<open>Libraries\<close>

text \<open>The options given to every synchronisation.\<close>

record sync_settings =
  dryRun :: bool
  prune :: bool
  force :: bool
  skipHooks :: bool
  manifestValidation :: bool
  pruneLast :: bool
  modificationChecker :: bool
  replace_objects :: bool
  serverSideApply :: bool
  serverSideApplyManager :: string

definition SSAManager :: string where
  "SSAManager = ''numaplane-controller''"

definition sync_opts :: sync_settings where
  "sync_opts = \<lparr>dryRun = False, prune = True, force = False, skipHooks = False, manifestValidation = True,
     pruneLast = False, modificationChecker = True, replace_objects = False, serverSideApply = True,
     serverSideApplyManager = SSAManager\<rparr>"

text \<open>
  \<open>Get_GitSync\<close> and \<open>Status_Update\<close> are the client's calls on GitSync objects. A clean-up
  function returned by a library may be nil. \<open>gitops_Reconcile\<close> takes the cluster cache as
  information provider, or the stub. \<open>run_Sync\<close> is \<open>syncCtx.Sync()\<close> followed by \<open>GetState()\<close>.
\<close>

record ('w, 'k, 'key, 'u, 'r, 't, 'p, 'rec, 'd) sync_libs =
  repoL :: "('w, 'r, 't, 'u) repo_libs"
  unL :: "'u unstructured_ops"
  clusterL :: "('k, 'key, 'u) cluster_api"
  patchL :: "('p, 'u) patch_libs"
  clientL :: "('w, 'u) k8s_client"
  phaseL :: phase_ops
  Get_GitSync :: "string \<Rightarrow> string \<Rightarrow> 'w \<Rightarrow> go_error + GitSync"
  Status_Update :: "GitSync \<Rightarrow> 'w \<Rightarrow> ('w, unit) result"
  APIResources :: "'k \<Rightarrow> int"
  ManageResources :: "'k \<Rightarrow> 'w \<Rightarrow> go_error option \<times> ('w \<Rightarrow> 'w) option"
  gitops_Reconcile :: "'u list \<Rightarrow> ('key \<times> 'u) list \<Rightarrow> string \<Rightarrow> 'k option \<Rightarrow> 'rec"
  rec_Target :: "'rec \<Rightarrow> 'u option list"
  rec_Live :: "'rec \<Rightarrow> 'u option list"
  DiffArray :: "bool \<Rightarrow> 'u option list \<Rightarrow> 'u option list \<Rightarrow> ('u option \<Rightarrow> go_error option \<times> 'u option) \<Rightarrow> 'w \<Rightarrow> go_error + 'd"
  NewSyncContext :: "string \<Rightarrow> 'rec \<Rightarrow> string \<Rightarrow> sync_settings \<Rightarrow> 'd \<Rightarrow> 'w \<Rightarrow> go_error option \<times> ('w \<Rightarrow> 'w) option"
  run_Sync :: "string \<Rightarrow> 'rec \<Rightarrow> string \<Rightarrow> sync_settings \<Rightarrow> 'd \<Rightarrow> 'w \<Rightarrow> (string \<times> string) \<times> 'w"

section \<open>The state of a syncer\<close>

record ('w, 'k) syncer = "'w env" +
  ss_watch :: watch_state
  ss_cache :: "'k liveStateCache"
  ss_base :: base_state

definition on_cache :: "('k liveStateCache \<Rightarrow> ('k liveStateCache, 'a) result) \<Rightarrow> ('w, 'k) syncer \<Rightarrow> (('w, 'k) syncer, 'a) result" where
  "on_cache f s = (case f (ss_cache s) of (r, c) \<Rightarrow> (r, s\<lparr>ss_cache := c\<rparr>))"

definition stop_watching :: "string \<Rightarrow> ('w, 'k) syncer \<Rightarrow> ('w, 'k) syncer" where
  "stop_watching key s = s\<lparr>ss_watch := StopWatching key (ss_watch s)\<rparr>"

text \<open>A deferred call runs whatever the outcome; a nil function deferred panics when it runs.\<close>

definition deferred :: "('s \<Rightarrow> 's) \<Rightarrow> ('s, 'a) result \<Rightarrow> ('s, 'a) result" where
  "deferred f r = (case r of (x, s) \<Rightarrow> (x, f s))"

definition deferred_cleanup ::
  "('w \<Rightarrow> 'w) option \<Rightarrow> (('w, 'e) env_scheme, 'a) result \<Rightarrow> (('w, 'e) env_scheme, 'a) result" where
  "deferred_cleanup cleanup r =
     (case r of (x, s) \<Rightarrow>
        (case cleanup of
           None \<Rightarrow> (Panic (case x of Panic p \<Rightarrow> p | _ \<Rightarrow> NilFunctionCall), s)
         | Some f \<Rightarrow> (x, s\<lparr>ext := f (ext s)\<rparr>)))"

section \<open>Keys\<close>

definition KeyOfGitSync :: "GitSync \<Rightarrow> string" where
  "KeyOfGitSync gitSync = gs_Namespace gitSync @ ''/'' @ gs_Name gitSync"

section \<open>Manifests\<close>

fun applyLabelAndNamespace ::
  "('u, 'x) unstructured_ops_scheme \<Rightarrow> 'u list \<Rightarrow> string \<Rightarrow> string \<Rightarrow> go_error + 'u list" where
  "applyLabelAndNamespace U [] gitSyncName destinationNamespace = Inr []"
| "applyLabelAndNamespace U (m # ms) gitSyncName destinationNamespace =
     bindE (SetGitSyncInstanceLabel U m LabelKeyGitSyncInstance gitSyncName) (\<lambda>m'.
     bindE (applyLabelAndNamespace U ms gitSyncName destinationNamespace) (\<lambda>uns.
       Inr (SetNamespace U m' destinationNamespace # uns)))"

section \<open>Comparing and synchronising\<close>

definition getResourceOperations ::
  "('w, 'k, 'key, 'u, 'r, 't, 'p, 'rec, 'd) sync_libs \<Rightarrow> GlobalConfig \<times> go_error option \<Rightarrow> ('w, 'k) syncer \<Rightarrow>
   (('w, 'k) syncer, ('w \<Rightarrow> 'w) option) result" where
  "getResourceOperations L cfg s =
     bindR (mapErr (WrapError ''error getting cluster cache: '') (on_cache (GetClusterCache (clusterL L) cfg) s))
       (\<lambda>clusterCache s1.
          (case ManageResources L clusterCache (ext s1) of
             (Some e, _) \<Rightarrow> (Err (WrapError ''error creating kubectl ResourceOperations: '' e), s1)
           | (None, cleanup) \<Rightarrow> (Ok cleanup, s1)))"

text \<open>
  \<open>compareState\<close>. The cluster cache is nil after an error of \<open>GetClusterCache\<close>, and its
  \<open>GetGVKParser\<close> is called all the same; the clean-up function is nil after an error of
  \<open>getResourceOperations\<close>, and is deferred all the same.
\<close>

definition compare_objects ::
  "('w, 'k, 'key, 'u, 'r, 't, 'p, 'rec, 'd) sync_libs \<Rightarrow> GlobalConfig \<times> go_error option \<Rightarrow> 'k option \<Rightarrow> 'rec \<Rightarrow>
   ('w, 'k) syncer \<Rightarrow> (('w, 'k) syncer, 'rec \<times> 'd) result" where
  "compare_objects L cfg clusterCache res s =
     (case getResourceOperations L cfg s of
        (Panic p, s1) \<Rightarrow> (Panic p, s1)
      | (r, s1) \<Rightarrow>
          deferred_cleanup (case r of Ok cleanup \<Rightarrow> cleanup | _ \<Rightarrow> None)
            (case clusterCache of
               None \<Rightarrow> (Panic NilDereference, s1)
             | Some k \<Rightarrow>
                 (case StateDiffs (unL L) (patchL L)
                         (\<lambda>cs ls n. DiffArray L (case r of Ok _ \<Rightarrow> True | _ \<Rightarrow> False) cs ls n (ext s1))
                         (rec_Target L res) (rec_Live L res) status_overrides of
                    Inl e \<Rightarrow> (Err e, s1)
                  | Inr diffResults \<Rightarrow> (Ok (res, diffResults), s1))))"

definition compareState ::
  "('w, 'k, 'key, 'u, 'r, 't, 'p, 'rec, 'd) sync_libs \<Rightarrow> GlobalConfig \<times> go_error option \<Rightarrow> GitSync \<Rightarrow> 'u list \<Rightarrow>
   ('w, 'k) syncer \<Rightarrow> (('w, 'k) syncer, 'rec \<times> 'd) result" where
  "compareState L cfg gitSync targetObjs s =
     (case on_cache (GetClusterCache (clusterL L) cfg) s of
        (Panic p, s1) \<Rightarrow> (Panic p, s1)
      | (r1, s1) \<Rightarrow>
          (let clusterCache = (case r1 of Ok k \<Rightarrow> Some k | _ \<Rightarrow> None)
           in bindR (on_cache (GetManagedLiveObjs (clusterL L) cfg gitSync targetObjs) s1) (\<lambda>liveObjByKey s2.
                compare_objects L cfg clusterCache
                  (gitops_Reconcile L targetObjs liveObjByKey
                     (dest_Namespace (spec_Destination (gs_Spec gitSync))) clusterCache) s2)))"

text \<open>\<open>sync\<close> returns a phase and a message; an error is the phase \<open>OperationError\<close> with its text.\<close>

definition sync ::
  "('w, 'k, 'key, 'u, 'r, 't, 'p, 'rec, 'd) sync_libs \<Rightarrow> GlobalConfig \<times> go_error option \<Rightarrow> GitSync \<Rightarrow> 'u list \<Rightarrow>
   ('w, 'k) syncer \<Rightarrow> (('w, 'k) syncer, string \<times> string) result" where
  "sync L cfg gitSync targetObjs s =
     (let failed = (\<lambda>e. (OperationError (phaseL L), Error e));
          rev' = TargetRevision (gs_Spec gitSync);
          ns = dest_Namespace (spec_Destination (gs_Spec gitSync))
      in (case compareState L cfg gitSync targetObjs s of
            (Panic p, s1) \<Rightarrow> (Panic p, s1)
          | (Err e, s1) \<Rightarrow> (Ok (failed e), s1)
          | (Ok (res, diffResults), s1) \<Rightarrow>
              (case on_cache (GetClusterCache (clusterL L) cfg) s1 of
                 (Panic p, s2) \<Rightarrow> (Panic p, s2)
               | (Err e, s2) \<Rightarrow> (Ok (failed e), log_metric MCacheFailed s2)
               | (Ok cluster, s2) \<Rightarrow>
                   (let s3 = log_metric (MCached (int (length targetObjs)))
                               (log_metric (MApi (APIResources L cluster)) s2)
                    in (case NewSyncContext L rev' res ns sync_opts diffResults (ext s3) of
                          (err, cleanup) \<Rightarrow>
                            deferred_cleanup cleanup
                              (case err of
                                 Some e \<Rightarrow> (Ok (failed e), s3)
                               | None \<Rightarrow>
                                   (case run_Sync L rev' res ns sync_opts diffResults (ext s3) of
                                      (state, w) \<Rightarrow> (Ok state, s3\<lparr>ext := w\<rparr>))))))))"

section \<open>The commit status\<close>

definition getCommitStatus ::
  "('w, 'k, 'key, 'u, 'r, 't, 'p, 'rec, 'd) sync_libs \<Rightarrow> string \<Rightarrow> string \<Rightarrow> 'w \<Rightarrow> go_error + CommitStatus option" where
  "getCommitStatus L ns name w =
     (case Get_GitSync L ns name w of
        Inl e \<Rightarrow> (if IsNotFound e then Inr None else Inl e)
      | Inr gitSync \<Rightarrow> Inr (status_CommitStatus (gs_Status gitSync)))"

definition mk_CommitStatus :: "string \<Rightarrow> bool \<Rightarrow> string \<Rightarrow> int \<Rightarrow> CommitStatus" where
  "mk_CommitStatus h synced errMsg now =
     \<lparr>cs_Hash = h, cs_Synced = synced, cs_SyncTime = now, cs_Error = (if \<not> synced then errMsg else [])\<rparr>"

definition updateCommitStatus ::
  "('w, 'k, 'key, 'u, 'r, 't, 'p, 'rec, 'd) sync_libs \<Rightarrow> int \<Rightarrow> string \<Rightarrow> string \<Rightarrow> string \<Rightarrow> bool \<Rightarrow> string \<Rightarrow>
   ('w, 'e) env_scheme \<Rightarrow> (('w, 'e) env_scheme, unit) result" where
  "updateCommitStatus L now ns name h synced errMsg s =
     (let commitStatus = mk_CommitStatus h synced errMsg now
      in (case Get_GitSync L ns name (ext s) of
            Inl e \<Rightarrow> (if IsNotFound e then (Ok (), s) else (Err e, s))
          | Inr gitSync \<Rightarrow>
              (if (case status_CommitStatus (gs_Status gitSync) of
                     None \<Rightarrow> False
                   | Some current \<Rightarrow> cs_Synced current = cs_Synced commitStatus \<and>
                       cs_Hash current = cs_Hash commitStatus \<and> cs_Error current = cs_Error commitStatus)
               then (Ok (), s)
               else
                 let gitSync' = gitSync\<lparr>gs_Status := (gs_Status gitSync)\<lparr>status_CommitStatus := Some commitStatus\<rparr>\<rparr>
                 in (case on_ext (Status_Update L gitSync') s of
                       (Err e, s1) \<Rightarrow> (Err e, log_metric (MUpdateError gitSync') s1)
                     | res \<Rightarrow> res))))"

section \<open>Deletion\<close>

definition GetLiveManagedObjects ::
  "('w, 'k, 'key, 'u, 'r, 't, 'p, 'rec, 'd) sync_libs \<Rightarrow> GlobalConfig \<times> go_error option \<Rightarrow> GitSync \<Rightarrow>
   ('w, 'k) syncer \<Rightarrow> (('w, 'k) syncer, ('key \<times> 'u) list) result" where
  "GetLiveManagedObjects L cfg gitSync s = on_cache (GetManagedLiveObjs (clusterL L) cfg gitSync []) s"

definition CascadeDeletion ::
  "('w, 'k, 'key, 'u, 'r, 't, 'p, 'rec, 'd) sync_libs \<Rightarrow> GlobalConfig \<times> go_error option \<Rightarrow> GitSync \<Rightarrow>
   ('w, 'k) syncer \<Rightarrow> (('w, 'k) syncer, unit) result" where
  "CascadeDeletion L cfg gitSync s =
     bindR (GetLiveManagedObjects L cfg gitSync s)
       (\<lambda>objects s1. on_ext (DeleteManagedObjects (unL L) (clientL L) (map snd objects)) s1)"

definition ProcessGitSyncDeletion ::
  "('w, 'k, 'key, 'u, 'r, 't, 'p, 'rec, 'd) sync_libs \<Rightarrow> GlobalConfig \<times> go_error option \<Rightarrow> GitSync \<Rightarrow>
   ('w, 'k) syncer \<Rightarrow> (('w, 'k) syncer, unit) result" where
  "ProcessGitSyncDeletion L cfg gitSync s =
     (case cfg of
        (_, Some e) \<Rightarrow> (Err e, s)
      | (config, None) \<Rightarrow> if gc_CascadeDeletion config then CascadeDeletion L cfg gitSync s else (Ok (), s))"

definition delete_gitsync ::
  "('w, 'k, 'key, 'u, 'r, 't, 'p, 'rec, 'd) sync_libs \<Rightarrow> GlobalConfig \<times> go_error option \<Rightarrow> GitSync \<Rightarrow> string \<Rightarrow>
   ('w, 'k) syncer \<Rightarrow> (('w, 'k) syncer, unit) result" where
  "delete_gitsync L cfg gitSync key s =
     bindR (ProcessGitSyncDeletion L cfg gitSync s) (\<lambda>_ s1. (Ok (), stop_watching key s1))"

section \<open>The handler\<close>

text \<open>The zero instant is 0.\<close>

definition being_deleted :: "GitSync \<Rightarrow> bool" where
  "being_deleted g \<longleftrightarrow> gs_DeletionTimestamp g \<noteq> None \<and> gs_DeletionTimestamp g \<noteq> Some 0"

text \<open>
  The body of \<open>runOnce\<close> after the automated synchronisation check. The configuration is taken
  to stay the same during one run; \<open>now\<close> and \<open>lat\<close> are the clock readings it uses.
\<close>

definition sync_revision ::
  "('w, 'k, 'key, 'u, 'r, 't, 'p, 'rec, 'd) sync_libs \<Rightarrow> GlobalConfig \<times> go_error option \<Rightarrow> int \<Rightarrow> int \<Rightarrow> string \<Rightarrow>
   string \<Rightarrow> GitSync \<Rightarrow> ('w, 'k) syncer \<Rightarrow> (('w, 'k) syncer, unit) result" where
  "sync_revision L cfg now lat key gitSyncName gitSync s =
     bindR (mapErr (WrapError (''failed to clone the repo of key '' @ Quote key @ '', ''))
              (CloneRepo (repoL L) (clientL L) cfg (fst cfg) gitSync s)) (\<lambda>repo s1.
     bindR (mapErr (WrapError (''failed to get the manifest of key '' @ Quote key @ '', ''))
              (GetLatestManifests (repoL L) (clientL L) cfg lat repo gitSync s1)) (\<lambda>(commitHash, manifests) s2.
       (case getCommitStatus L (gs_Namespace gitSync) (gs_Name gitSync) (ext s2) of
          Inl e \<Rightarrow> (Err (WrapError (''failed to get the current commit status of key '' @ Quote key @ '', '') e), s2)
        | Inr lastSynced \<Rightarrow>
            (if AutoHealDisabled (fst cfg) \<and> lastSynced \<noteq> None \<and> cs_Hash (the lastSynced) = commitHash
             then (Ok (), s2)
             else
               (case applyLabelAndNamespace (unL L) manifests gitSyncName
                       (dest_Namespace (spec_Destination (gs_Spec gitSync))) of
                  Inl e \<Rightarrow> (Err (WrapError (''failed to parse the manifest of key '' @ Quote key @ '', '') e), s2)
                | Inr uns \<Rightarrow>
                    bindR (sync L cfg gitSync uns s2) (\<lambda>(syncState, syncMessage) s3.
                      (let synced = Successful (phaseL L) syncState;
                           s4 = log_metric (MSync gitSync syncState) s3
                       in if being_deleted gitSync then delete_gitsync L cfg gitSync key s4
                          else updateCommitStatus L now (gs_Namespace gitSync) (gs_Name gitSync) commitHash
                                 synced syncMessage s4)))))))"

definition runOnce ::
  "('w, 'k, 'key, 'u, 'r, 't, 'p, 'rec, 'd) sync_libs \<Rightarrow> GlobalConfig \<times> go_error option \<Rightarrow> int \<Rightarrow> int \<Rightarrow> int \<Rightarrow> string \<Rightarrow>
   ('w, 'k) syncer \<Rightarrow> (('w, 'k) syncer, unit) result" where
  "runOnce L cfg now lat dur key s =
     (let s0 = s\<lparr>ss_base := RefreshBaseLoggerLevel cfg (ss_base s)\<rparr>
      in (case Split key (CHR ''/'') of
            [namespace, gitSyncName] \<Rightarrow>
              (case Get_GitSync L namespace gitSyncName (ext s0) of
                 Inl e \<Rightarrow>
                   (if IsNotFound e then (Ok (), stop_watching key s0)
                    else (Err (WrapError (''failed to query GitSync object of key '' @ Quote key @ '', '') e), s0))
               | Inr gitSync \<Rightarrow>
                   deferred (log_metric (MReconcile gitSync dur))
                     (if being_deleted gitSync then delete_gitsync L cfg gitSync key s0
                      else if AutomatedSyncDisabled (fst cfg) then (Ok (), s0)
                      else sync_revision L cfg now lat key gitSyncName gitSync s0))
          | _ \<Rightarrow> (Err (ErrorString (''invalid key '' @ Quote key)), s0)))"

text \<open>A worker logs the error of \<open>runOnce\<close> and goes on.\<close>

definition run_key ::
  "('w, 'k, 'key, 'u, 'r, 't, 'p, 'rec, 'd) sync_libs \<Rightarrow> GlobalConfig \<times> go_error option \<Rightarrow> int \<Rightarrow> int \<Rightarrow> int \<Rightarrow> string \<Rightarrow>
   ('w, 'k) syncer \<Rightarrow> (('w, 'k) syncer, unit) result" where
  "run_key L cfg now lat dur key s =
     (case runOnce L cfg now lat dur key s of
        (Panic p, s') \<Rightarrow> (Panic p, s')
      | (_, s') \<Rightarrow> (Ok (), s'))"

section \<open>What a run leaves alone\<close>

lemma watch_on_ext [simp]: "ss_watch (snd (on_ext f s)) = ss_watch s"
  by (simp add: on_ext_def split: prod.split)

lemma watch_on_cache [simp]: "ss_watch (snd (on_cache f s)) = ss_watch s"
  by (simp add: on_cache_def split: prod.split)

lemma watch_log_metric [simp]: "ss_watch (log_metric c s) = ss_watch s"
  by (simp add: log_metric_def)

lemma watch_cleanup [simp]: "ss_watch (snd (deferred_cleanup c r)) = ss_watch (snd r)"
  by (simp add: deferred_cleanup_def split: prod.split option.split)

lemma watch_stop [simp]: "ss_watch (stop_watching key s) = StopWatching key (ss_watch s)"
  by (simp add: stop_watching_def)

lemmas keeps_watch = bindR_keeps [of ss_watch]

lemma watch_CloneRepo [simp]: "ss_watch (snd (CloneRepo R C cfg gc g s)) = ss_watch s"
proof -
  have "ss_watch (snd (cloneRepo R cfg g opts s)) = ss_watch s" for opts
    by (auto simp: cloneRepo_def on_ext_def split: prod.split outcome.split sum.split)
  then show ?thesis
    by (simp add: CloneRepo_def Let_def split: sum.split outcome.split)
qed

lemma watch_goto_revision [simp]: "ss_watch (snd (goto_revision R C cred g r s)) = ss_watch s"
  by (auto simp: goto_revision_def Let_def split: sum.split intro!: keeps_watch)

lemma watch_pull_branch [simp]: "ss_watch (snd (pull_branch R lat r opts s)) = ss_watch s"
  by (auto simp: pull_branch_def on_ext_def split: prod.split outcome.split)

lemma watch_fetchUpdates [simp]: "ss_watch (snd (fetchUpdates R C cfg lat g r s)) = ss_watch s"
  by (auto simp: fetchUpdates_def Let_def split: prod.split option.split sum.split outcome.split intro!: keeps_watch)

lemma watch_build_manifests [simp]: "ss_watch (snd (build_manifests R r g p h t s)) = ss_watch s"
  by (simp add: build_manifests_def split: SourceType.split)

lemma watch_GetLatestManifests [simp]: "ss_watch (snd (GetLatestManifests R C cfg lat r g s)) = ss_watch s"
  by (auto simp: GetLatestManifests_def split: sum.split option.split intro!: keeps_watch)

lemma watch_getResourceOperations [simp]: "ss_watch (snd (getResourceOperations L cfg s)) = ss_watch s"
  by (auto simp: getResourceOperations_def split: prod.split option.split intro!: keeps_watch)

lemma watch_compare_objects [simp]: "ss_watch (snd (compare_objects L cfg cc res s)) = ss_watch s"
  using watch_getResourceOperations [of L cfg s]
  by (cases "getResourceOperations L cfg s"; cases "fst (getResourceOperations L cfg s)")
    (auto simp: compare_objects_def split: option.split sum.split)

lemma watch_compareState [simp]: "ss_watch (snd (compareState L cfg g objs s)) = ss_watch s"
proof -
  obtain r1 s1 where 1: "on_cache (GetClusterCache (clusterL L) cfg) s = (r1, s1)" by fastforce
  then have "ss_watch s1 = ss_watch s"
    using watch_on_cache [of "GetClusterCache (clusterL L) cfg" s] by simp
  with 1 show ?thesis
    by (cases r1) (auto simp: compareState_def Let_def intro!: keeps_watch)
qed

lemma watch_sync [simp]: "ss_watch (snd (sync L cfg g objs s)) = ss_watch s"
proof -
  obtain r1 s1 where 1: "compareState L cfg g objs s = (r1, s1)" by fastforce
  then have s1: "ss_watch s1 = ss_watch s"
    using watch_compareState [of L cfg g objs s] by simp
  obtain r2 s2 where 2: "on_cache (GetClusterCache (clusterL L) cfg) s1 = (r2, s2)" by fastforce
  then have "ss_watch s2 = ss_watch s1"
    using watch_on_cache [of "GetClusterCache (clusterL L) cfg" s1] by simp
  with s1 1 2 show ?thesis
    by (cases r1; cases r2) (auto simp: sync_def Let_def split: prod.split option.split)
qed

lemma watch_updateCommitStatus [simp]: "ss_watch (snd (updateCommitStatus L now ns n h b m s)) = ss_watch s"
  by (auto simp: updateCommitStatus_def Let_def on_ext_def split: sum.split option.split prod.split outcome.split)

lemma watch_ProcessGitSyncDeletion [simp]: "ss_watch (snd (ProcessGitSyncDeletion L cfg g s)) = ss_watch s"
  by (auto simp: ProcessGitSyncDeletion_def CascadeDeletion_def GetLiveManagedObjects_def
      split: prod.split option.split intro!: keeps_watch)

lemma watch_delete_gitsync:
  "ss_watch (snd (delete_gitsync L cfg g key s)) =
     (if fst (ProcessGitSyncDeletion L cfg g s) = Ok () then StopWatching key (ss_watch s) else ss_watch s)"
  using watch_ProcessGitSyncDeletion [of L cfg g s]
  by (cases "ProcessGitSyncDeletion L cfg g s"; cases "fst (ProcessGitSyncDeletion L cfg g s)")
    (auto simp: delete_gitsync_def)

lemma watch_sync_revision:
  "\<not> being_deleted g \<Longrightarrow> ss_watch (snd (sync_revision L cfg now lat key n g s)) = ss_watch s"
  by (auto simp: sync_revision_def Let_def split: sum.split option.split prod.split intro!: keeps_watch)

section \<open>Ownership\<close>

lemma owned_by_name: "gs_Name g = gs_Name g' \<Longrightarrow> owned_by g = owned_by g'"
  by (simp add: owned_by_def fun_eq_iff)

text \<open>Setting the namespace leaves the labels as they are.\<close>

definition set_namespace_law :: "('u, 'x) unstructured_ops_scheme \<Rightarrow> bool" where
  "set_namespace_law U \<longleftrightarrow>
     (\<forall>u n. NestedFieldNoCopy U (SetNamespace U u n) label_fields = NestedFieldNoCopy U u label_fields \<and>
        NestedStringMap U (SetNamespace U u n) label_fields = NestedStringMap U u label_fields \<and>
        GetNamespace U (SetNamespace U u n) = n)"

lemma label_SetNamespace:
  assumes "set_namespace_law U" and "GetGitSyncInstanceLabel U u key = Inr v"
  shows "GetGitSyncInstanceLabel U (SetNamespace U u n) key = Inr v"
proof -
  have "NestedFieldNoCopy U (SetNamespace U u n) label_fields = NestedFieldNoCopy U u label_fields"
    and "NestedStringMap U (SetNamespace U u n) label_fields = NestedStringMap U u label_fields"
    using assms(1) by (simp_all add: set_namespace_law_def)
  then have "nestedNullableStringMap U (SetNamespace U u n) label_fields = nestedNullableStringMap U u label_fields"
    by (simp only: nestedNullableStringMap_def)
  with assms(2) show ?thesis
    by (simp add: GetGitSyncInstanceLabel_def split: sum.splits)
qed

lemma getGitSyncName_Set:
  assumes "set_labels_law U" and "set_namespace_law U"
    and "SetGitSyncInstanceLabel U m LabelKeyGitSyncInstance name = Inr m'"
  shows "getGitSyncName U (SetNamespace U m' ns) = name"
proof -
  from assms(1,3) obtain labels where "labels_of U m' = Some (labels(LabelKeyGitSyncInstance \<mapsto> name))"
    by (auto simp: SetLabel_labels_of labels_of_SetLabels)
  then have "GetGitSyncInstanceLabel U m' LabelKeyGitSyncInstance = Inr name"
    unfolding GetLabel_labels_of by auto
  from label_SetNamespace [OF assms(2) this] show ?thesis
    by (simp add: getGitSyncName_def)
qed

lemma applyLabel_all:
  assumes "set_labels_law U" and "set_namespace_law U"
    and "applyLabelAndNamespace U ms name ns = Inr uns"
  shows "length uns = length ms \<and> list_all (\<lambda>u. getGitSyncName U u = name \<and> GetNamespace U u = ns) uns"
  using assms(3)
proof (induction ms arbitrary: uns)
  case (Cons m ms)
  from Cons.prems obtain m' rest where m: "SetGitSyncInstanceLabel U m LabelKeyGitSyncInstance name = Inr m'"
    and rest: "applyLabelAndNamespace U ms name ns = Inr rest" and uns: "uns = SetNamespace U m' ns # rest"
    by (auto simp: bindE_eq_Inr)
  then show ?case
    using Cons.IH [OF rest] getGitSyncName_Set [OF assms(1,2) m, of ns] assms(2)
    by (simp add: set_namespace_law_def)
qed simp

section \<open>A small system\<close>

text \<open>
  An instance for the witnesses: the small repository, beside it in the world the one GitSync
  object of the API server, and a cluster cache without live objects. The two parameters are
  what \<open>ManageResources\<close> and \<open>NewSyncContext\<close> return.
\<close>

definition string_ops :: "string unstructured_ops" where
  "string_ops = \<lparr>NestedFieldNoCopy = (\<lambda>u f. Inr FieldMissing), NestedStringMap = (\<lambda>u f. Inr Map.empty),
     SetLabels = (\<lambda>u m. u), GetNamespace = (\<lambda>u. ''apps''), SetNamespace = (\<lambda>u n. u), GetName = (\<lambda>u. u),
     get_gvk = (\<lambda>u. \<lparr>gvk_Group = ''apps'', gvk_Version = ''v1'', gvk_Kind = ''Deployment''\<rparr>),
     gvk_String = (\<lambda>u. ''apps/v1, Kind=Deployment'')\<rparr>"

definition string_patches :: "(unit, string) patch_libs" where
  "string_patches = \<lparr>glob_Match = (\<lambda>p t. True), Marshal_remove = Inr, DecodePatch = (\<lambda>d. Inr ()),
     patch_Apply = (\<lambda>p d. Inr d), un_Marshal = Inr, un_Unmarshal = (\<lambda>d u. (None, d))\<rparr>"

definition empty_cluster :: "(unit, string, string) cluster_api" where
  "empty_cluster = \<lparr>NewClusterCache = (\<lambda>s. ()), Invalidate = (\<lambda>s k. k), EnsureSynced = (\<lambda>k. (Ok (), k)),
     ManagedLiveObjs = (\<lambda>t p k. (Ok [], k))\<rparr>"

type_synonym small_world = "string \<times> GitSync"

type_synonym small_sync_libs = "(small_world, unit, string, string, unit, string, unit, string list, nat) sync_libs"

definition small_libs ::
  "go_error option \<times> (small_world \<Rightarrow> small_world) option \<Rightarrow> go_error option \<times> (small_world \<Rightarrow> small_world) option \<Rightarrow> small_sync_libs" where
  "small_libs mr nsc =
     \<lparr>repoL = small_repo, unL = string_ops, clusterL = empty_cluster, patchL = string_patches, clientL = no_secrets,
      phaseL = \<lparr>Completed = (\<lambda>p. p \<noteq> ''Running''), Successful = (\<lambda>p. p = ''Succeeded''), OperationError = ''Error''\<rparr>,
      Get_GitSync = (\<lambda>ns n w. if ns = gs_Namespace (snd w) \<and> n = gs_Name (snd w) then Inr (snd w)
                       else Inl (TaggedError NotFound ''not found'')),
      Status_Update = (\<lambda>g w. if gs_Namespace g = gs_Namespace (snd w) \<and> gs_Name g = gs_Name (snd w)
                         then (Ok (), (fst w, (snd w)\<lparr>gs_Status := gs_Status g\<rparr>)) else (Err (TaggedError NotFound ''not found''), w)),
      APIResources = (\<lambda>k. 0), ManageResources = (\<lambda>k w. mr),
      gitops_Reconcile = (\<lambda>objs live ns cc. objs), rec_Target = map Some, rec_Live = map (\<lambda>_. None),
      DiffArray = (\<lambda>ops cs ls n w. Inr (length cs)), NewSyncContext = (\<lambda>rev' res ns st d w. nsc),
      run_Sync = (\<lambda>rev' res ns st d w. ((''Succeeded'', ''synced''), w))\<rparr>"

lemma small_libs_simps [simp]:
  "repoL (small_libs mr nsc) = small_repo" "unL (small_libs mr nsc) = string_ops"
  "clusterL (small_libs mr nsc) = empty_cluster" "clientL (small_libs mr nsc) = no_secrets"
  "ManageResources (small_libs mr nsc) k w = mr" "NewSyncContext (small_libs mr nsc) t res ns st d w = nsc"
  "Get_GitSync (small_libs mr nsc) ns n w = (if ns = gs_Namespace (snd w) \<and> n = gs_Name (snd w) then Inr (snd w)
     else Inl (TaggedError NotFound ''not found''))"
  "Status_Update (small_libs mr nsc) g w = (if gs_Namespace g = gs_Namespace (snd w) \<and> gs_Name g = gs_Name (snd w)
     then (Ok (), (fst w, (snd w)\<lparr>gs_Status := gs_Status g\<rparr>)) else (Err (TaggedError NotFound ''not found''), w))"
  by (simp_all add: small_libs_def)

definition small_syncer :: "GitSync \<Rightarrow> (small_world, unit) syncer" where
  "small_syncer g = \<lparr>ext = (''main'', g), metric_log = [], ss_watch = StartWatching (KeyOfGitSync g) new_watch,
     ss_cache = snd (Init (zero_GlobalConfig, None) NewLiveStateCache), ss_base = init_base (zero_GlobalConfig, None)\<rparr>"

lemma small_cluster:
  "on_cache (GetClusterCache empty_cluster (zero_GlobalConfig, None)) (small_syncer g) =
     (Ok (), small_syncer g\<lparr>ss_cache := \<lparr>lc_logger = True, lc_cluster = Some (),
        lc_settings = \<lparr>ResourcesFilter = Some [], ignoreResourceUpdatesEnabled = False\<rparr>\<rparr>\<rparr>)"
  by (simp add: on_cache_def GetClusterCache_def getSyncedCluster_def getCluster_def small_syncer_def Init_def
      NewLiveStateCache_def loadCacheSettings_def parseResourceFilter_def zero_GlobalConfig_def Let_def on_cluster_def
      empty_cluster_def)

text \<open>With automatic healing disabled; its runs on the head of the main branch.\<close>

definition no_heal :: "GlobalConfig \<times> go_error option" where
  "no_heal = (zero_GlobalConfig\<lparr>AutoHealDisabled := True\<rparr>, None)"

lemma small_clone:
  "CloneRepo small_repo no_secrets no_heal (fst no_heal) (small_gitsync ''main'' None) s =
     (Ok (), log_metric MGit (s\<lparr>ext := (''main'', snd (ext s))\<rparr>))"
  by (simp add: CloneRepo_def no_heal_def zero_GlobalConfig_def small_options UpdateOptionsWithGitConfig_def
      cloneRepo_def getLocalRepoPath_def on_ext_def Let_def small_gitsync_def)

lemma small_update:
  "fst (ext s) = ''main'' \<Longrightarrow> fetchUpdates small_repo no_secrets no_heal lat (small_gitsync ''main'' None) () s =
     (Ok (), log_metric (MLatency lat) (log_metric MGit s))"
  by (simp add: fetchUpdates_def no_heal_def zero_GlobalConfig_def Let_def small_options goto_revision_def
      GetCurrentBranch_def UpdateOptionsWithGitConfig_def pull_branch_def log_metric_def on_ext_def small_gitsync_def)

lemma small_manifests:
  assumes "fst (ext s) = ''main''"
  shows "GetLatestManifests small_repo no_secrets no_heal lat () (small_gitsync ''main'' None) s =
     (Ok (''c2'', [''image: c2'']), log_metric (MLatency lat) (log_metric MGit s))"
proof -
  have "IsValidKubernetesManifestFile ''app.yaml''" "\<not> IsValidKubernetesManifestFile ''README.md''"
    by (simp_all add: IsValidKubernetesManifestFile_def validManifestExtensions_def)
  then have "manifests_of small_repo [(''app.yaml'', Inr ''image: c2''), (''README.md'', Inr ''notes'')] [''image: c2'']"
    by (simp add: manifests_of_def file_part_def exI [of _ "[[''image: c2''], []]"])
  then have "rawTemplate small_repo () (small_gitsync ''main'' None) ''c2'' w = Inr [''image: c2'']" for w :: "string \<times> 'a"
    unfolding rawTemplate_Inr by (auto simp: commit_files_def small_gitsync_def)
  then show ?thesis
    unfolding GetLatestManifests_Ok small_update [OF assms]
    by (simp add: small_gitsync_def ExplicitType_def appTypes_def build_manifests_def getLocalRepoPath_def
        no_heal_def zero_GlobalConfig_def Ok_iffs)
qed

text \<open>The cache is initialised with the settings of this configuration.\<close>

definition ready :: "('w, 'k) syncer \<Rightarrow> bool" where
  "ready s \<longleftrightarrow> lc_logger (ss_cache s) \<and>
     lc_settings (ss_cache s) = \<lparr>ResourcesFilter = Some [], ignoreResourceUpdatesEnabled = False\<rparr>"

lemma small_cache:
  "ready s \<Longrightarrow> \<exists>s'. on_cache (GetClusterCache empty_cluster no_heal) s = (Ok (), s') \<and> ready s' \<and> ext s' = ext s"
  by (cases "ss_cache s") (auto simp: ready_def on_cache_def GetClusterCache_def getSyncedCluster_def getCluster_def
      loadCacheSettings_def parseResourceFilter_def no_heal_def zero_GlobalConfig_def Let_def on_cluster_def
      empty_cluster_def split: option.split)

lemma small_diffs:
  "\<exists>d. StateDiffs string_ops string_patches (\<lambda>cs ls n. Inr (length cs)) cs ls status_overrides = Inr d"
  by (simp add: StateDiffs_def NewIgnoreNormalizer_def status_overrides_def getGroupKindForOverrideKey_def
      string_patches_def)

lemma small_live:
  "ready s \<Longrightarrow> \<exists>s'. on_cache (GetManagedLiveObjs empty_cluster no_heal g objs) s = (Ok [], s') \<and> ready s' \<and> ext s' = ext s"
  by (cases "ss_cache s") (auto simp: ready_def on_cache_def GetManagedLiveObjs_def getSyncedCluster_def getCluster_def
      loadCacheSettings_def parseResourceFilter_def no_heal_def zero_GlobalConfig_def Let_def on_cluster_def
      empty_cluster_def split: option.split)

abbreviation well_libs :: small_sync_libs where
  "well_libs \<equiv> small_libs (None, Some id) (None, Some id)"

lemma small_ops:
  assumes "ready s"
  shows "\<exists>s'. getResourceOperations well_libs no_heal s = (Ok (Some id), s') \<and> ready s' \<and> ext s' = ext s"
proof -
  obtain s' where "on_cache (GetClusterCache empty_cluster no_heal) s = (Ok (), s')" "ready s'" "ext s' = ext s"
    using small_cache [OF assms] by blast
  then show ?thesis by (simp add: getResourceOperations_def)
qed

lemma small_compare:
  assumes "ready s"
  shows "\<exists>res d s'. compareState well_libs no_heal g objs s = (Ok (res, d), s') \<and> ready s' \<and> ext s' = ext s"
proof -
  obtain s1 where 1: "on_cache (GetClusterCache empty_cluster no_heal) s = (Ok (), s1)" "ready s1" "ext s1 = ext s"
    using small_cache [OF assms] by blast
  obtain s2 where 2: "on_cache (GetManagedLiveObjs empty_cluster no_heal g objs) s1 = (Ok [], s2)" "ready s2" "ext s2 = ext s1"
    using small_live [OF 1(2)] by blast
  obtain s3 where 3: "getResourceOperations well_libs no_heal s2 = (Ok (Some id), s3)" "ready s3" "ext s3 = ext s2"
    using small_ops [OF 2(2)] by blast
  obtain d where "StateDiffs string_ops string_patches (\<lambda>cs ls n. Inr (length cs)) (map Some objs) (map (\<lambda>_. None) objs)
      status_overrides = Inr (d :: nat)"
    using small_diffs by metis
  with 1 2 3 show ?thesis
    by (simp add: compareState_def compare_objects_def deferred_cleanup_def Let_def) (simp add: small_libs_def ready_def)
qed

lemma small_sync:
  assumes "ready s"
  shows "\<exists>s'. sync well_libs no_heal g objs s = (Ok (''Succeeded'', ''synced''), s') \<and> ext s' = ext s"
proof -
  obtain res d s1 where 1: "compareState well_libs no_heal g objs s = (Ok (res, d), s1)" "ready s1" "ext s1 = ext s"
    using small_compare [OF assms] by blast
  obtain s2 where 2: "on_cache (GetClusterCache empty_cluster no_heal) s1 = (Ok (), s2)" "ext s2 = ext s1"
    using small_cache [OF 1(2)] by blast
  from 1 2 show ?thesis
    by (simp add: sync_def deferred_cleanup_def Let_def log_metric_def) (simp add: small_libs_def)
qed

lemma small_runOnce:
  "\<exists>s'. runOnce well_libs no_heal 42 7 9 ''ns/my-app'' (small_syncer (small_gitsync ''main'' None)) = (Ok (), s') \<and>
     Get_GitSync well_libs ''ns'' ''my-app'' (ext s') = Inr (snd (ext s'))"
proof -
  let ?g = "small_gitsync ''main'' None"
  let ?s0 = "small_syncer ?g\<lparr>ss_base := RefreshBaseLoggerLevel no_heal (ss_base (small_syncer ?g))\<rparr>"
  let ?s1 = "log_metric MGit (?s0\<lparr>ext := (''main'', snd (ext ?s0))\<rparr>)"
  let ?s2 = "log_metric (MLatency 7) (log_metric MGit ?s1)"
  have ext: "ext ?s2 = (''main'', ?g)" "ext ?s1 = (''main'', ?g)" "ext ?s0 = (''main'', ?g)"
    by (simp_all add: log_metric_def small_syncer_def)
  have ready: "ready ?s2"
    by (simp add: ready_def log_metric_def small_syncer_def Init_def NewLiveStateCache_def loadCacheSettings_def
        parseResourceFilter_def zero_GlobalConfig_def Let_def)
  have app: "applyLabelAndNamespace string_ops [''image: c2''] ''my-app'' ns = Inr [''image: c2'']" for ns
    by (simp add: SetGitSyncInstanceLabel_def nestedNullableStringMap_def string_ops_def)
  obtain s3 where 3: "sync well_libs no_heal ?g [''image: c2''] ?s2 = (Ok (''Succeeded'', ''synced''), s3)" "ext s3 = ext ?s2"
    using small_sync [OF ready] by blast
  have names: "gs_Namespace ?g = ''ns''" "gs_Name ?g = ''my-app''" "\<not> being_deleted ?g" "status_CommitStatus (gs_Status ?g) = None"
    by (simp_all add: small_gitsync_def being_deleted_def empty_status_def)
  have "\<exists>s'. sync_revision well_libs no_heal 42 7 ''ns/my-app'' ''my-app'' ?g ?s0 = (Ok (), s') \<and>
      Get_GitSync well_libs ''ns'' ''my-app'' (ext s') = Inr (snd (ext s'))"
    using small_clone [of ?s0] small_manifests [of ?s1 7] 3 names ext app
    by (simp add: sync_revision_def getCommitStatus_def updateCommitStatus_def Let_def on_ext_def log_metric_def)
  then obtain s' where s': "sync_revision well_libs no_heal 42 7 ''ns/my-app'' ''my-app'' ?g ?s0 = (Ok (), s')"
    "Get_GitSync well_libs ''ns'' ''my-app'' (ext s') = Inr (snd (ext s'))" by blast
  have "Split ''ns/my-app'' (CHR ''/'') = [''ns'', ''my-app'']" "\<not> AutomatedSyncDisabled (fst no_heal)"
    by (simp_all add: no_heal_def zero_GlobalConfig_def)
  then have "runOnce well_libs no_heal 42 7 9 ''ns/my-app'' (small_syncer ?g) = (Ok (), log_metric (MReconcile ?g 9) s')"
    using names(1-3) ext(3) s'(1) by (simp add: runOnce_def deferred_def)
  with s'(2) show ?thesis by (intro exI [of _ "log_metric (MReconcile ?g 9) s'"]) (simp add: log_metric_def)
qed

section \<open>Properties\<close>

text \<open>
  C4. When a worker stops watching a key. A run changes the watch list in exactly two cases: the
  GitSync of the key is not found, or it is being deleted and its deletion was processed
  without error. In both it stops watching that key; a deletion that fails leaves it watched,
  so that it is tried again.
\<close>

theorem runOnce_stops_watching:
  "ss_watch (snd (runOnce L cfg now lat dur key s)) =
     (if \<exists>ns n. Split key (CHR ''/'') = [ns, n] \<and>
         (case Get_GitSync L ns n (ext s) of
            Inl e \<Rightarrow> IsNotFound e
          | Inr g \<Rightarrow> being_deleted g \<and>
              fst (ProcessGitSyncDeletion L cfg g (s\<lparr>ss_base := RefreshBaseLoggerLevel cfg (ss_base s)\<rparr>)) = Ok ())
      then StopWatching key (ss_watch s) else ss_watch s)"
proof -
  let ?s = "s\<lparr>ss_base := RefreshBaseLoggerLevel cfg (ss_base s)\<rparr>"
  have watch: "ss_watch (snd (deferred (log_metric c) r)) = ss_watch (snd r)" for c and r :: "(('a, 'b) syncer, unit) result"
    by (simp add: deferred_def split: prod.split)
  show ?thesis
  proof (cases "\<exists>ns n. Split key (CHR ''/'') = [ns, n]")
    case False
    then show ?thesis by (auto simp: runOnce_def Let_def split: list.split)
  next
    case True
    then obtain ns n where key: "Split key (CHR ''/'') = [ns, n]" by blast
    show ?thesis
    proof (cases "Get_GitSync L ns n (ext s)")
      case (Inl e)
      then show ?thesis by (simp add: runOnce_def key)
    next
      case (Inr g)
      then show ?thesis
        by (auto simp: runOnce_def Let_def key watch watch_delete_gitsync watch_sync_revision)
    qed
  qed
qed

text \<open>
  Keys. The key of a GitSync splits into its namespace and its name, so \<open>runOnce\<close> looks up
  the object the reconciler watched; two objects have the same key only if namespace and name
  agree. (Neither may contain a slash, which the API server ensures.)
\<close>

theorem KeyOfGitSync_roundtrip:
  assumes "list_all (\<lambda>x. CHR ''/'' \<notin> set x) [gs_Namespace g, gs_Name g, gs_Namespace g', gs_Name g']"
  shows "Split (KeyOfGitSync g) (CHR ''/'') = [gs_Namespace g, gs_Name g] \<and>
    (KeyOfGitSync g = KeyOfGitSync g' \<longleftrightarrow> gs_Namespace g = gs_Namespace g' \<and> gs_Name g = gs_Name g')"
proof -
  have split: "Split (KeyOfGitSync g) (CHR ''/'') = [gs_Namespace g, gs_Name g]"
    if "CHR ''/'' \<notin> set (gs_Namespace g)" "CHR ''/'' \<notin> set (gs_Name g)" for g
    using that by (simp add: KeyOfGitSync_def Split_append Split_no_sep)
  note g = split [of g] and g' = split [of g']
  show ?thesis
  proof (intro conjI iffI)
    assume "KeyOfGitSync g = KeyOfGitSync g'"
    then have "[gs_Namespace g, gs_Name g] = [gs_Namespace g', gs_Name g']"
      using assms g g' by simp
    then show "gs_Namespace g = gs_Namespace g'" "gs_Name g = gs_Name g'" by simp_all
  qed (use assms g in \<open>simp_all add: KeyOfGitSync_def\<close>)
qed

theorem KeyOfGitSync_roundtrip_witness:
  "Split (KeyOfGitSync (small_gitsync ''main'' None)) (CHR ''/'') = [''ns'', ''my-app'']"
  using KeyOfGitSync_roundtrip [of "small_gitsync ''main'' None" "small_gitsync ''main'' None"]
  by (simp add: small_gitsync_def)

text \<open>
  What the API server does with a GitSync: it is found under its names, and an update of the
  status changes the status of the stored object and nothing else.
\<close>

definition status_store_law :: "('w, 'k, 'key, 'u, 'r, 't, 'p, 'rec, 'd) sync_libs \<Rightarrow> bool" where
  "status_store_law L \<longleftrightarrow>
     (\<forall>ns n w g. Get_GitSync L ns n w = Inr g \<longrightarrow> gs_Namespace g = ns \<and> gs_Name g = n) \<and>
     (\<forall>g w w'. Status_Update L g w = (Ok (), w') \<longrightarrow>
        (\<exists>g0. Get_GitSync L (gs_Namespace g) (gs_Name g) w = Inr g0 \<and>
           Get_GitSync L (gs_Namespace g) (gs_Name g) w' = Inr (g0\<lparr>gs_Status := gs_Status g\<rparr>)))"

lemma status_store_lawD:
  "status_store_law L \<Longrightarrow> Status_Update L g w = (Ok (), w') \<Longrightarrow>
     Get_GitSync L (gs_Namespace g) (gs_Name g) w = Inr g0 \<Longrightarrow>
     Get_GitSync L (gs_Namespace g) (gs_Name g) w' = Inr (g0\<lparr>gs_Status := gs_Status g\<rparr>)"
  unfolding status_store_law_def by fastforce

lemma status_store_names:
  "status_store_law L \<Longrightarrow> Get_GitSync L ns n w = Inr g \<Longrightarrow> gs_Namespace g = ns \<and> gs_Name g = n"
  unfolding status_store_law_def by blast

lemma updateCommitStatus_stored:
  assumes "status_store_law L" and "Get_GitSync L ns n (ext s) = Inr g"
    and "updateCommitStatus L now ns n h synced msg s = (Ok (), s')"
  shows "\<exists>g' cs. Get_GitSync L ns n (ext s') = Inr g' \<and> status_CommitStatus (gs_Status g') = Some cs \<and>
    cs_Hash cs = h \<and> cs_Synced cs = synced \<and> cs_Error cs = (if synced then [] else msg) \<and>
    (g' = g \<and> s' = s \<or> cs_SyncTime cs = now)"
proof -
  let ?cs = "mk_CommitStatus h synced msg now"
  let ?g = "g\<lparr>gs_Status := (gs_Status g)\<lparr>status_CommitStatus := Some ?cs\<rparr>\<rparr>"
  have names: "gs_Namespace g = ns" "gs_Name g = n"
    using assms(1,2) unfolding status_store_law_def by blast+
  show ?thesis
  proof (cases "\<exists>cur. status_CommitStatus (gs_Status g) = Some cur \<and> cs_Synced cur = synced \<and>
      cs_Hash cur = h \<and> cs_Error cur = (if synced then [] else msg)")
    case True
    then have "s' = s"
      using assms(2,3) by (auto simp: updateCommitStatus_def mk_CommitStatus_def split: if_splits)
    with True assms(2) show ?thesis by auto
  next
    case False
    have no_skip: "\<not> (case status_CommitStatus (gs_Status g) of None \<Rightarrow> False
        | Some current \<Rightarrow> cs_Synced current = cs_Synced ?cs \<and> cs_Hash current = cs_Hash ?cs \<and> cs_Error current = cs_Error ?cs)"
      using False by (auto simp: mk_CommitStatus_def split: option.splits if_splits)
    obtain x w where u: "Status_Update L ?g (ext s) = (x, w)" by fastforce
    then have "x = Ok () \<and> s' = s\<lparr>ext := w\<rparr>"
      using assms(3) no_skip unfolding updateCommitStatus_def Let_def assms(2) sum.case
      by (cases x) (auto simp: on_ext_def)
    then have "Get_GitSync L ns n (ext s') = Inr ?g"
      using status_store_lawD [OF assms(1), of ?g "ext s" w] u names assms(2) by fastforce
    then show ?thesis
      by (intro exI [of _ ?g] exI [of _ ?cs]) (simp add: mk_CommitStatus_def)
  qed
qed

text \<open>
  The commit status is recorded. If the API server stores what it accepts, then after a
  successful \<open>updateCommitStatus\<close> of an existing GitSync the stored status has the hash and the
  outcome of this synchronisation, and its message exactly when it failed; an equal status is
  not written again and keeps its time, a different one has the current time.
\<close>

theorem commit_status_recorded:
  assumes "status_store_law L" and "Get_GitSync L ns n (ext s) = Inr g"
    and "updateCommitStatus L now ns n h synced msg s = (Ok (), s')"
  shows "\<exists>g' cs. Get_GitSync L ns n (ext s') = Inr g' \<and> status_CommitStatus (gs_Status g') = Some cs \<and>
    cs_Hash cs = h \<and> cs_Synced cs = synced \<and> cs_Error cs = (if synced then [] else msg) \<and>
    (g' = g \<and> s' = s \<or> cs_SyncTime cs = now)"
  using assms by (rule updateCommitStatus_stored)

theorem commit_status_recorded_witness:
  "\<exists>g' cs. Get_GitSync (small_libs (None, None) (None, None)) ''ns'' ''my-app''
      (ext (snd (updateCommitStatus (small_libs (None, None) (None, None)) 42 ''ns'' ''my-app'' ''c2'' True []
         (small_syncer (small_gitsync ''main'' None))))) = Inr g' \<and>
    status_CommitStatus (gs_Status g') = Some cs \<and> cs_Hash cs = ''c2''"
proof -
  let ?L = "small_libs (None, None) (None, None)" and ?g = "small_gitsync ''main'' None"
  have law: "status_store_law ?L" by (auto simp: status_store_law_def split: if_splits)
  have get: "Get_GitSync ?L ''ns'' ''my-app'' (ext (small_syncer ?g)) = Inr ?g"
    by (simp add: small_syncer_def small_gitsync_def)
  obtain s' where upd: "updateCommitStatus ?L 42 ''ns'' ''my-app'' ''c2'' True [] (small_syncer ?g) = (Ok (), s')"
    by (simp add: updateCommitStatus_def small_syncer_def small_gitsync_def on_ext_def empty_status_def Let_def)
  from commit_status_recorded [OF law get upd] obtain g' cs where
    "Get_GitSync ?L ''ns'' ''my-app'' (ext s') = Inr g'" "status_CommitStatus (gs_Status g') = Some cs" "cs_Hash cs = ''c2''"
    by blast
  then show ?thesis
    unfolding upd snd_conv by (intro exI conjI)
qed

text \<open>
  C40. A failed commit is not retried. With \<open>AutoHealDisabled\<close>, once a status with the hash of the
  current commit is stored, a run does nothing beyond cloning and building the manifests: also
  when that status says the synchronisation failed.
\<close>

theorem auto_heal_skips_failed:
  assumes "CloneRepo (repoL L) (clientL L) cfg (fst cfg) g s = (Ok repo, s1)"
    and "GetLatestManifests (repoL L) (clientL L) cfg lat repo g s1 = (Ok (h, manifests), s2)"
    and "Get_GitSync L (gs_Namespace g) (gs_Name g) (ext s2) = Inr g'"
    and "status_CommitStatus (gs_Status g') = Some (mk_CommitStatus h synced msg t)" and "AutoHealDisabled (fst cfg)"
  shows "sync_revision L cfg now lat key n g s = (Ok (), s2)"
  using assms by (simp add: sync_revision_def getCommitStatus_def mk_CommitStatus_def)

definition failed_gitsync :: GitSync where
  "failed_gitsync = (small_gitsync ''main'' None)\<lparr>gs_Status :=
     empty_status\<lparr>status_CommitStatus := Some (mk_CommitStatus ''c2'' False ''quota exceeded'' 3)\<rparr>\<rparr>"

theorem auto_heal_skips_failed_witness:
  "let s = small_syncer failed_gitsync;
       r = sync_revision (small_libs (None, None) (None, None)) no_heal 42 7 ''ns/my-app'' ''my-app'' (small_gitsync ''main'' None) s
   in fst r = Ok () \<and> snd (ext (snd r)) = failed_gitsync \<and> metric_log (snd r) = [MGit, MGit, MLatency 7]"
proof -
  let ?L = "small_libs (None, None) (None, None)" and ?s = "small_syncer failed_gitsync"
  let ?s1 = "log_metric MGit (?s\<lparr>ext := (''main'', snd (ext ?s))\<rparr>)"
  have clone: "CloneRepo (repoL ?L) (clientL ?L) no_heal (fst no_heal) (small_gitsync ''main'' None) ?s = (Ok (), ?s1)"
    using small_clone by simp
  have man: "GetLatestManifests (repoL ?L) (clientL ?L) no_heal 7 () (small_gitsync ''main'' None) ?s1 =
      (Ok (''c2'', [''image: c2'']), log_metric (MLatency 7) (log_metric MGit ?s1))"
    using small_manifests [of ?s1] by (simp add: log_metric_def)
  from auto_heal_skips_failed [OF clone man, of failed_gitsync False "''quota exceeded''" 3 42 "''ns/my-app''" "''my-app''"]
  show ?thesis
    by (simp add: Let_def failed_gitsync_def small_gitsync_def small_syncer_def log_metric_def no_heal_def)
qed
text \<open>
  A failed set-up crashes the controller. If the resource operations cannot be obtained,
  \<open>compareState\<close> does not report the error: it defers a nil clean-up function, whose call panics,
  so that nothing is returned to \<open>sync\<close>.
\<close>

theorem resource_operations_failure_panics:
  assumes "getResourceOperations L cfg s = (Err e, s1)"
  shows "compare_objects L cfg (Some k) res s = (Panic NilFunctionCall, s1)"
  using assms by (simp add: compare_objects_def deferred_cleanup_def split: sum.split)

theorem resource_operations_failure_panics_witness:
  "fst (compare_objects (small_libs (Some (ErrorString ''no space left''), None) (None, None)) (zero_GlobalConfig, None)
     (Some ()) [] (small_syncer (small_gitsync ''main'' None))) = Panic NilFunctionCall"
proof -
  let ?L = "small_libs (Some (ErrorString ''no space left''), None) (None, None)"
  let ?s = "small_syncer (small_gitsync ''main'' None)"
  obtain s1 where "getResourceOperations ?L (zero_GlobalConfig, None) ?s =
      (Err (WrapError ''error creating kubectl ResourceOperations: '' (ErrorString ''no space left'')), s1)"
    by (simp add: getResourceOperations_def small_cluster)
  from resource_operations_failure_panics [OF this] show ?thesis by simp
qed

text \<open>A successful synchronisation, step by step.\<close>

lemma sync_revision_Ok:
  assumes "sync_revision L cfg now lat key n g s = (Ok (), s')" and "\<not> being_deleted g"
  obtains repo s1 h manifests s2 where
    "CloneRepo (repoL L) (clientL L) cfg (fst cfg) g s = (Ok repo, s1)"
    "GetLatestManifests (repoL L) (clientL L) cfg lat repo g s1 = (Ok (h, manifests), s2)"
    "(\<exists>cs. getCommitStatus L (gs_Namespace g) (gs_Name g) (ext s2) = Inr (Some cs) \<and>
        AutoHealDisabled (fst cfg) \<and> cs_Hash cs = h \<and> s' = s2) \<or>
     (\<exists>uns phase msg s3.
        applyLabelAndNamespace (unL L) manifests n (dest_Namespace (spec_Destination (gs_Spec g))) = Inr uns \<and>
        sync L cfg g uns s2 = (Ok (phase, msg), s3) \<and>
        updateCommitStatus L now (gs_Namespace g) (gs_Name g) h (Successful (phaseL L) phase) msg
          (log_metric (MSync g phase) s3) = (Ok (), s'))"
proof -
  from assms(1) obtain repo s1 h manifests s2 where
    c: "CloneRepo (repoL L) (clientL L) cfg (fst cfg) g s = (Ok repo, s1)" and
    m: "GetLatestManifests (repoL L) (clientL L) cfg lat repo g s1 = (Ok (h, manifests), s2)"
    unfolding sync_revision_def bindR_eq_Ok mapErr_Ok by auto
  obtain last where l: "getCommitStatus L (gs_Namespace g) (gs_Name g) (ext s2) = Inr last"
    using assms(1) unfolding sync_revision_def c m mapErr_simps bindR_simps prod.case
    by (cases "getCommitStatus L (gs_Namespace g) (gs_Name g) (ext s2)") simp_all
  show thesis
  proof (cases "AutoHealDisabled (fst cfg) \<and> last \<noteq> None \<and> cs_Hash (the last) = h")
    case True
    with assms(1) c m l show ?thesis
      by (intro that [OF c m]) (auto simp: sync_revision_def)
  next
    case False
    then have skip: "(AutoHealDisabled (fst cfg) \<and> last \<noteq> None \<and> cs_Hash (the last) = h) = False" by blast
    from assms(1) obtain uns where "applyLabelAndNamespace (unL L) manifests n (dest_Namespace (spec_Destination (gs_Spec g))) = Inr uns"
      and "bindR (sync L cfg g uns s2) (\<lambda>(syncState, syncMessage) s3.
          updateCommitStatus L now (gs_Namespace g) (gs_Name g) h
            (Successful (phaseL L) syncState) syncMessage (log_metric (MSync g syncState) s3)) = (Ok (), s')"
      unfolding sync_revision_def c m l mapErr_simps bindR_simps prod.case sum.case skip if_False case_sum_Ok
      using assms(2) by (auto simp: Let_def)
    then show ?thesis
      by (intro that [OF c m]) (auto simp: bindR_eq_Ok)
  qed
qed

text \<open>
  C5. A run from end to end. If a worker's run on the key of a GitSync that is not being deleted
  succeeds and the object is still there, its stored commit status names the commit whose
  manifests were built; and either automatic healing is disabled and that commit was recorded
  already, or the labelled manifests of that commit were synchronised and the status says
  whether this was successful, with the message of a failure.
\<close>

theorem runOnce_records_commit:
  assumes "status_store_law L" and "Split key (CHR ''/'') = [ns, n]"
    and "Get_GitSync L ns n (ext s) = Inr g" and "\<not> being_deleted g" and "\<not> AutomatedSyncDisabled (fst cfg)"
    and "runOnce L cfg now lat dur key s = (Ok (), s')" and "Get_GitSync L ns n (ext s') = Inr g'"
  shows "\<exists>s0 repo s1 h manifests s2 cs.
    CloneRepo (repoL L) (clientL L) cfg (fst cfg) g s0 = (Ok repo, s1) \<and> ext s0 = ext s \<and>
    GetLatestManifests (repoL L) (clientL L) cfg lat repo g s1 = (Ok (h, manifests), s2) \<and>
    status_CommitStatus (gs_Status g') = Some cs \<and> cs_Hash cs = h \<and>
    (AutoHealDisabled (fst cfg) \<and> ext s' = ext s2 \<or>
     (\<exists>uns phase msg s3.
        applyLabelAndNamespace (unL L) manifests n (dest_Namespace (spec_Destination (gs_Spec g))) = Inr uns \<and>
        sync L cfg g uns s2 = (Ok (phase, msg), s3) \<and> cs_Synced cs = Successful (phaseL L) phase \<and>
        cs_Error cs = (if cs_Synced cs then [] else msg)))"
proof -
  let ?s = "s\<lparr>ss_base := RefreshBaseLoggerLevel cfg (ss_base s)\<rparr>"
  have names: "gs_Namespace g = ns" "gs_Name g = n"
    using status_store_names [OF assms(1,3)] by simp_all
  from assms(2-6) obtain t where run: "sync_revision L cfg now lat key n g ?s = (Ok (), t)" and "ext s' = ext t"
    by (auto simp: runOnce_def deferred_def log_metric_def Let_def split: prod.splits)
  with assms(7) have final: "Get_GitSync L ns n (ext t) = Inr g'" by simp
  from run assms(4) show ?thesis
  proof (rule sync_revision_Ok)
    fix repo s1 h manifests s2
    assume c: "CloneRepo (repoL L) (clientL L) cfg (fst cfg) g ?s = (Ok repo, s1)"
      and m: "GetLatestManifests (repoL L) (clientL L) cfg lat repo g s1 = (Ok (h, manifests), s2)"
      and rest: "(\<exists>cs. getCommitStatus L (gs_Namespace g) (gs_Name g) (ext s2) = Inr (Some cs) \<and>
        AutoHealDisabled (fst cfg) \<and> cs_Hash cs = h \<and> t = s2) \<or>
       (\<exists>uns phase msg s3.
        applyLabelAndNamespace (unL L) manifests n (dest_Namespace (spec_Destination (gs_Spec g))) = Inr uns \<and>
        sync L cfg g uns s2 = (Ok (phase, msg), s3) \<and>
        updateCommitStatus L now (gs_Namespace g) (gs_Name g) h (Successful (phaseL L) phase) msg
          (log_metric (MSync g phase) s3) = (Ok (), t))"
    have "\<exists>cs. status_CommitStatus (gs_Status g') = Some cs \<and> cs_Hash cs = h \<and>
      (AutoHealDisabled (fst cfg) \<and> ext s' = ext s2 \<or>
       (\<exists>uns phase msg s3.
        applyLabelAndNamespace (unL L) manifests n (dest_Namespace (spec_Destination (gs_Spec g))) = Inr uns \<and>
        sync L cfg g uns s2 = (Ok (phase, msg), s3) \<and> cs_Synced cs = Successful (phaseL L) phase \<and>
        cs_Error cs = (if cs_Synced cs then [] else msg)))"
      using rest
    proof (elim disjE exE conjE)
      fix cs assume "getCommitStatus L (gs_Namespace g) (gs_Name g) (ext s2) = Inr (Some cs)"
        and "AutoHealDisabled (fst cfg)" and "cs_Hash cs = h" and "t = s2"
      then show ?thesis
        using final names \<open>ext s' = ext t\<close> by (auto simp: getCommitStatus_def)
    next
      fix uns phase msg s3
      assume sy: "applyLabelAndNamespace (unL L) manifests n (dest_Namespace (spec_Destination (gs_Spec g))) = Inr uns"
          "sync L cfg g uns s2 = (Ok (phase, msg), s3)"
        and u: "updateCommitStatus L now (gs_Namespace g) (gs_Name g) h (Successful (phaseL L) phase) msg
          (log_metric (MSync g phase) s3) = (Ok (), t)"
      obtain g1 where g1: "Get_GitSync L ns n (ext (log_metric (MSync g phase) s3)) = Inr g1"
        using u final names by (cases "Get_GitSync L ns n (ext (log_metric (MSync g phase) s3))")
          (auto simp: updateCommitStatus_def Let_def split: if_splits)
      from updateCommitStatus_stored [OF assms(1) g1 u [unfolded names]] obtain g2 cs where
        "Get_GitSync L ns n (ext t) = Inr g2" "status_CommitStatus (gs_Status g2) = Some cs" "cs_Hash cs = h"
        and outcome: "cs_Synced cs = Successful (phaseL L) phase"
          "cs_Error cs = (if Successful (phaseL L) phase then [] else msg)"
        by blast
      then have "status_CommitStatus (gs_Status g') = Some cs \<and> cs_Hash cs = h"
        using final by simp
      with sy outcome show ?thesis
        by (intro exI [of _ cs]) force
    qed
    then obtain cs where "status_CommitStatus (gs_Status g') = Some cs \<and> cs_Hash cs = h \<and>
      (AutoHealDisabled (fst cfg) \<and> ext s' = ext s2 \<or>
       (\<exists>uns phase msg s3.
        applyLabelAndNamespace (unL L) manifests n (dest_Namespace (spec_Destination (gs_Spec g))) = Inr uns \<and>
        sync L cfg g uns s2 = (Ok (phase, msg), s3) \<and> cs_Synced cs = Successful (phaseL L) phase \<and>
        cs_Error cs = (if cs_Synced cs then [] else msg)))" ..
    with c m show ?thesis
      by (intro exI [of _ ?s] exI [of _ repo] exI [of _ s1] exI [of _ h] exI [of _ manifests] exI [of _ s2]
          exI [of _ cs] conjI) simp_all
  qed
qed

theorem runOnce_records_commit_witness:
  "\<exists>cs. status_CommitStatus (gs_Status (snd (ext (snd (runOnce well_libs no_heal 42 7 9 ''ns/my-app''
      (small_syncer (small_gitsync ''main'' None))))))) = Some cs \<and> cs_Hash cs = ''c2''"
proof -
  let ?g = "small_gitsync ''main'' None"
  obtain s' where run: "runOnce well_libs no_heal 42 7 9 ''ns/my-app'' (small_syncer ?g) = (Ok (), s')"
    and final: "Get_GitSync well_libs ''ns'' ''my-app'' (ext s') = Inr (snd (ext s'))"
    using small_runOnce by blast
  have law: "status_store_law well_libs" by (auto simp: status_store_law_def split: if_splits)
  have key: "Split ''ns/my-app'' (CHR ''/'') = [''ns'', ''my-app'']" by simp
  have get: "Get_GitSync well_libs ''ns'' ''my-app'' (ext (small_syncer ?g)) = Inr ?g"
    by (simp add: small_syncer_def small_gitsync_def)
  have auto_on: "\<not> AutomatedSyncDisabled (fst no_heal)" "\<not> being_deleted ?g"
    by (simp_all add: no_heal_def zero_GlobalConfig_def being_deleted_def small_gitsync_def)
  from runOnce_records_commit [OF law key get auto_on(2,1) run final] obtain s0 s1 s2 :: "(small_world, unit) syncer"
      and repo h manifests cs where
    c: "CloneRepo (repoL well_libs) (clientL well_libs) no_heal (fst no_heal) ?g s0 = (Ok repo, s1)" and
    m: "GetLatestManifests (repoL well_libs) (clientL well_libs) no_heal 7 repo ?g s1 = (Ok (h, manifests), s2)" and
    cs: "status_CommitStatus (gs_Status (snd (ext s'))) = Some cs" "cs_Hash cs = h"
    by blast
  have "s1 = log_metric MGit (s0\<lparr>ext := (''main'', snd (ext s0))\<rparr>)"
    using c small_clone [of s0] by simp
  then have "fst (ext s1) = ''main''" by (simp add: log_metric_def)
  from small_manifests [OF this, of 7] m have "h = ''c2''" by simp
  with cs show ?thesis unfolding run snd_conv by blast
qed

end
