(* ===== verification/Reconciler.thy ===== *)
theory Reconciler
  imports SyncRun
begin

text \<open>
  The controller's reconciler (\<open>internal/controller/gitsync_controller.go\<close>): it validates a
  GitSync, adds or removes the finalizer, starts or stops watching its key, and writes the
  object and its status back. Its syncer, which may be nil, is the state of \<open>SyncRun\<close>.
\<close>

section \<open>Libraries\<close>

text \<open>
  The client's \<open>Update\<close>, which returns the object as the server answers it; the validator of
  names; \<open>controllerutil\<close> on the list of finalizers; \<open>equality.Semantic.DeepEqual\<close> on them.
\<close>

record 'w ctl_libs =
  Update_GitSync :: "GitSync \<Rightarrow> 'w \<Rightarrow> ('w, GitSync) result"
  isDNS1123Label :: "string \<Rightarrow> string list"
  ContainsFinalizer :: "string list \<Rightarrow> string \<Rightarrow> bool"
  AddFinalizer :: "string list \<Rightarrow> string \<Rightarrow> string list"
  RemoveFinalizer :: "string list \<Rightarrow> string \<Rightarrow> string list"
  Semantic_DeepEqual :: "string list \<Rightarrow> string list \<Rightarrow> bool"

section \<open>The reconciler\<close>

record GitSyncReconciler =
  clusterName :: string
  has_syncer :: bool

definition finalizerName :: string where
  "finalizerName = ''numaplane-controller''"

definition NewGitSyncReconciler :: "GlobalConfig \<times> go_error option \<Rightarrow> bool \<Rightarrow> go_error + GitSyncReconciler" where
  "NewGitSyncReconciler cfg syncer =
     (case cfg of
        (_, Some e) \<Rightarrow> Inl e
      | (getConfig, None) \<Rightarrow> Inr \<lparr>clusterName = ClusterName getConfig, has_syncer = syncer\<rparr>)"

definition validate :: "'w ctl_libs \<Rightarrow> GitSync \<Rightarrow> go_error option" where
  "validate A gitSync =
     (let specs = gs_Spec gitSync; destination = spec_Destination specs
      in if \<not> CheckGitURL (RepoUrl specs)
         then Some (ErrorString (''invalid remote repository url '' @ RepoUrl specs))
         else if TargetRevision specs = []
         then Some (ErrorString (''targetRevision cannot be empty for repository Path '' @ RepoUrl specs))
         else if Cluster destination = [] then Some (ErrorString ''cluster name cannot be empty'')
         else if \<not> IsValidKubernetesNamespace (isDNS1123Label A) (dest_Namespace destination)
         then Some (ErrorString (''namespace is not a valid string for cluster '' @ Cluster destination))
         else None)"

definition needsUpdate :: "'w ctl_libs \<Rightarrow> GitSync option \<Rightarrow> GitSync \<Rightarrow> bool" where
  "needsUpdate A old new =
     (case old of
        None \<Rightarrow> True
      | Some g \<Rightarrow> \<not> Semantic_DeepEqual A (gs_Finalizers g) (gs_Finalizers new))"

text \<open>
  \<open>reconcile\<close> changes the object it is given and the syncer. The branch for an object being
  deleted does what \<open>runOnce\<close> does with it (\<open>delete_gitsync\<close>), then removes the finalizer.
\<close>

definition reconcile ::
  "('w, 'k, 'key, 'u, 'r, 't, 'p, 'rec, 'd) sync_libs \<Rightarrow> 'w ctl_libs \<Rightarrow> GitSyncReconciler \<Rightarrow>
   GlobalConfig \<times> go_error option \<Rightarrow> int \<Rightarrow> GitSync \<Rightarrow> ('w, 'k) syncer \<Rightarrow> (GitSync \<times> ('w, 'k) syncer, unit) result" where
  "reconcile L A r cfg now gitSync s =
     (if \<not> ContainsClusterDestination (gs_Spec gitSync) (clusterName r)
      then (Ok (), gitSync\<lparr>gs_Status := MarkNotApplicable now ''ClusterMismatch''
              ''This cluster isn't a destination'' (gs_Status gitSync)\<rparr>, s)
      else
        (let gitSyncKey = KeyOfGitSync gitSync
         in if being_deleted gitSync
            then (case (if has_syncer r then delete_gitsync L cfg gitSync gitSyncKey s else (Ok (), s)) of
                    (Ok _, s1) \<Rightarrow>
                      (Ok (), (if ContainsFinalizer A (gs_Finalizers gitSync) finalizerName
                               then gitSync\<lparr>gs_Finalizers := RemoveFinalizer A (gs_Finalizers gitSync) finalizerName\<rparr>
                               else gitSync), s1)
                  | (Err e, s1) \<Rightarrow> (Err e, gitSync, s1)
                  | (Panic p, s1) \<Rightarrow> (Panic p, gitSync, s1))
            else
              (case validate A gitSync of
                 Some err \<Rightarrow>
                   (Err err, gitSync\<lparr>gs_Status := MarkFailed now ''InvalidSpec'' (Error err) (gs_Status gitSync)\<rparr>, s)
               | None \<Rightarrow>
                   (let g1 = (if \<not> ContainsFinalizer A (gs_Finalizers gitSync) finalizerName
                              then gitSync\<lparr>gs_Finalizers := AddFinalizer A (gs_Finalizers gitSync) finalizerName\<rparr>
                              else gitSync);
                        s1 = (if has_syncer r then s\<lparr>ss_watch := StartWatching gitSyncKey (ss_watch s)\<rparr> else s)
                    in (Ok (), g1\<lparr>gs_Status := MarkRunning now (gs_Status g1)\<rparr>, s1)))))"

text \<open>
  \<open>write_back\<close> is the end of \<open>Reconcile\<close>, after a \<open>reconcile\<close> without error: the object first, when
  its finalizers changed, then the status.
\<close>

definition write_back ::
  "('w, 'k, 'key, 'u, 'r, 't, 'p, 'rec, 'd) sync_libs \<Rightarrow> 'w ctl_libs \<Rightarrow> GitSync \<Rightarrow> GitSync \<Rightarrow>
   ('w, 'k) syncer \<Rightarrow> (('w, 'k) syncer, unit) result" where
  "write_back L A gitSyncOrig gitSync s =
     bindR (if needsUpdate A (Some gitSyncOrig) gitSync
            then bindR (on_ext (Update_GitSync A gitSync) s)
                   (\<lambda>updated s1. (Ok (updated\<lparr>gs_Status := gs_Status gitSync\<rparr>), s1))
            else (Ok gitSync, s))
       (\<lambda>gitSync' s2. if being_deleted gitSync' then (Ok (), s2) else on_ext (Status_Update L gitSync') s2)"

text \<open>\<open>now1\<close> and \<open>now2\<close> are the clock when the conditions are initialised and when they are set.\<close>

definition Reconcile ::
  "('w, 'k, 'key, 'u, 'r, 't, 'p, 'rec, 'd) sync_libs \<Rightarrow> 'w ctl_libs \<Rightarrow> GitSyncReconciler \<Rightarrow>
   GlobalConfig \<times> go_error option \<Rightarrow> int \<Rightarrow> int \<Rightarrow> string \<Rightarrow> string \<Rightarrow> ('w, 'k) syncer \<Rightarrow> (('w, 'k) syncer, unit) result" where
  "Reconcile L A r cfg now1 now2 namespace name s =
     (let s0 = s\<lparr>ss_base := RefreshBaseLoggerLevel cfg (ss_base s)\<rparr>
      in (case Get_GitSync L namespace name (ext s0) of
            Inl e \<Rightarrow> (if IsNotFound e then (Ok (), s0) else (Err e, s0))
          | Inr gitSyncOrig \<Rightarrow>
              (case reconcile L A r cfg now2
                      (gitSyncOrig\<lparr>gs_Status := InitConditions now1 (gs_Status gitSyncOrig)\<rparr>) s0 of
                 (Err e, _, s1) \<Rightarrow> (Err e, s1)
               | (Panic p, _, s1) \<Rightarrow> (Panic p, s1)
               | (Ok _, gitSync, s1) \<Rightarrow> write_back L A gitSyncOrig gitSync s1)))"

section \<open>What the libraries promise\<close>

text \<open>
  \<open>controllerutil\<close> and \<open>equality\<close>: finalizers are a list seen as a set. The API server stores
  the object it accepts and answers with it; an object being deleted is gone once it has no
  finalizer left.
\<close>

definition finalizer_law :: "'w ctl_libs \<Rightarrow> bool" where
  "finalizer_law A \<longleftrightarrow>
     (\<forall>fs f. (ContainsFinalizer A fs f \<longleftrightarrow> f \<in> set fs) \<and>
        set (AddFinalizer A fs f) = insert f (set fs) \<and>
        RemoveFinalizer A fs f = filter (\<lambda>x. x \<noteq> f) fs) \<and>
     (\<forall>a b. Semantic_DeepEqual A a b \<longleftrightarrow> a = b)"

definition update_law ::
  "('w, 'k, 'key, 'u, 'r, 't, 'p, 'rec, 'd) sync_libs \<Rightarrow> 'w ctl_libs \<Rightarrow> bool" where
  "update_law L A \<longleftrightarrow>
     (\<forall>g g' w w'. Update_GitSync A g w = (Ok g', w') \<longrightarrow>
        gs_Namespace g' = gs_Namespace g \<and> gs_Name g' = gs_Name g \<and>
        gs_Finalizers g' = gs_Finalizers g \<and> gs_DeletionTimestamp g' = gs_DeletionTimestamp g \<and>
        (if being_deleted g \<and> gs_Finalizers g = []
         then \<exists>e. Get_GitSync L (gs_Namespace g) (gs_Name g) w' = Inl e \<and> IsNotFound e
         else Get_GitSync L (gs_Namespace g) (gs_Name g) w' = Inr g'))"

lemma finalizer_lawD:
  assumes "finalizer_law A"
  shows "ContainsFinalizer A fs f \<longleftrightarrow> f \<in> set fs" "set (AddFinalizer A fs f) = insert f (set fs)"
    "RemoveFinalizer A fs f = filter (\<lambda>x. x \<noteq> f) fs" "Semantic_DeepEqual A a b \<longleftrightarrow> a = b"
  using assms by (simp_all add: finalizer_law_def)

lemma update_lawD:
  assumes "update_law L A" and "Update_GitSync A g w = (Ok g', w')"
  shows "gs_Namespace g' = gs_Namespace g" "gs_Name g' = gs_Name g" "gs_Finalizers g' = gs_Finalizers g"
    "being_deleted g' = being_deleted g"
    "if being_deleted g \<and> gs_Finalizers g = []
     then \<exists>e. Get_GitSync L (gs_Namespace g) (gs_Name g) w' = Inl e \<and> IsNotFound e
     else Get_GitSync L (gs_Namespace g) (gs_Name g) w' = Inr g'"
  using assms unfolding update_law_def being_deleted_def by metis+

section \<open>Lemmas\<close>

lemma validate_status [simp]: "validate A (g\<lparr>gs_Status := st\<rparr>) = validate A g"
  by (simp add: validate_def Let_def)

lemma KeyOfGitSync_status [simp]: "KeyOfGitSync (g\<lparr>gs_Status := st\<rparr>) = KeyOfGitSync g"
  by (simp add: KeyOfGitSync_def)

lemma being_deleted_updates [simp]:
  "being_deleted (g\<lparr>gs_Status := st\<rparr>) = being_deleted g"
  "being_deleted (g\<lparr>gs_Finalizers := fs\<rparr>) = being_deleted g"
  by (simp_all add: being_deleted_def)

lemma watch_write_back [simp]: "ss_watch (snd (write_back L A g0 g s)) = ss_watch s"
  by (auto simp: write_back_def intro!: keeps_watch)

text \<open>The deletion of an object does not read its status.\<close>

lemma owned_by_status [simp]: "owned_by (g\<lparr>gs_Status := st\<rparr>) = owned_by g"
  by (rule owned_by_name) simp

lemma GetManagedLiveObjs_status [simp]:
  "GetManagedLiveObjs K cfg (g\<lparr>gs_Status := st\<rparr>) objs = GetManagedLiveObjs K cfg g objs"
  by (rule ext) (simp add: GetManagedLiveObjs_def)

lemma ProcessGitSyncDeletion_status [simp]:
  "ProcessGitSyncDeletion L cfg (g\<lparr>gs_Status := st\<rparr>) s = ProcessGitSyncDeletion L cfg g s"
  by (simp add: ProcessGitSyncDeletion_def CascadeDeletion_def GetLiveManagedObjects_def split: prod.split option.split)

lemma delete_gitsync_status [simp]:
  "delete_gitsync L cfg (g\<lparr>gs_Status := st\<rparr>) key s = delete_gitsync L cfg g key s"
  by (simp add: delete_gitsync_def)

lemma delete_gitsync_Ok:
  "fst (delete_gitsync L cfg g key s) = Ok () \<longleftrightarrow> fst (ProcessGitSyncDeletion L cfg g s) = Ok ()"
  by (cases "ProcessGitSyncDeletion L cfg g s"; cases "fst (ProcessGitSyncDeletion L cfg g s)")
    (auto simp: delete_gitsync_def)

text \<open>What \<open>reconcile\<close> does to the watch list and to the object, when it succeeds.\<close>

lemma reconcile_watch:
  "ss_watch (snd (snd (reconcile L A r cfg now g s))) =
     (if \<not> ContainsClusterDestination (gs_Spec g) (clusterName r) \<or> \<not> has_syncer r then ss_watch s
      else if being_deleted g
      then (if fst (ProcessGitSyncDeletion L cfg g s) = Ok () then StopWatching (KeyOfGitSync g) (ss_watch s)
            else ss_watch s)
      else if validate A g = None then StartWatching (KeyOfGitSync g) (ss_watch s) else ss_watch s)"
  using watch_delete_gitsync [of L cfg g "KeyOfGitSync g" s]
  by (auto simp: reconcile_def Let_def split: option.split outcome.split prod.split)

lemma reconcile_running:
  assumes "ContainsClusterDestination (gs_Spec g) (clusterName r)" and "\<not> being_deleted g"
    and "reconcile L A r cfg now g s = (Ok (), g', s')"
  shows "validate A g = None" and "gs_Status g' = MarkRunning now (gs_Status g)" and "ext s' = ext s"
    and "gs_Namespace g' = gs_Namespace g" and "gs_Name g' = gs_Name g" and "\<not> being_deleted g'"
    and "gs_Finalizers g' = (if ContainsFinalizer A (gs_Finalizers g) finalizerName then gs_Finalizers g
      else AddFinalizer A (gs_Finalizers g) finalizerName)"
  using assms by (auto simp: reconcile_def Let_def split: option.splits if_splits)

lemma reconcile_deleted:
  assumes "ContainsClusterDestination (gs_Spec g) (clusterName r)" and "being_deleted g" and "has_syncer r"
    and "reconcile L A r cfg now g s = (Ok (), g', s')"
  shows "fst (ProcessGitSyncDeletion L cfg g s) = Ok ()" and "being_deleted g'"
    and "gs_Namespace g' = gs_Namespace g" and "gs_Name g' = gs_Name g"
    and "gs_Finalizers g' = (if ContainsFinalizer A (gs_Finalizers g) finalizerName
      then RemoveFinalizer A (gs_Finalizers g) finalizerName else gs_Finalizers g)"
  using assms delete_gitsync_Ok [of L cfg g "KeyOfGitSync g" s]
  by (auto simp: reconcile_def Let_def split: outcome.splits prod.splits if_splits)

text \<open>What is stored after a write-back.\<close>

lemma write_back_stored:
  assumes laws: "status_store_law L" "update_law L A"
    and stored: "Get_GitSync L (gs_Namespace g) (gs_Name g) (ext s) = Inr g0"
    and alive: "\<not> being_deleted g" and ok: "write_back L A g0 g s = (Ok (), s')"
    and same: "\<not> needsUpdate A (Some g0) g \<longrightarrow> gs_Finalizers g0 = gs_Finalizers g"
  shows "\<exists>g'. Get_GitSync L (gs_Namespace g) (gs_Name g) (ext s') = Inr g' \<and>
    gs_Finalizers g' = gs_Finalizers g \<and> gs_Status g' = gs_Status g"
proof (cases "needsUpdate A (Some g0) g")
  case False
  with ok alive obtain w where "Status_Update L g (ext s) = (Ok (), w)" and "ext s' = w"
    by (auto simp: write_back_def on_ext_def split: prod.splits)
  from status_store_lawD [OF laws(1) this(1) stored] this(2) False same show ?thesis
    by auto
next
  case True
  with ok obtain g1 w1 where u: "Update_GitSync A g (ext s) = (Ok g1, w1)"
    by (auto simp: write_back_def on_ext_def bindR_eq_Ok split: prod.splits)
  note law = update_lawD [OF laws(2) u]
  have get: "Get_GitSync L (gs_Namespace g) (gs_Name g) w1 = Inr g1"
    using law(5) alive by simp
  from u ok True law(4) alive obtain w2 where s: "Status_Update L (g1\<lparr>gs_Status := gs_Status g\<rparr>) w1 = (Ok (), w2)" "ext s' = w2"
    by (auto simp: write_back_def on_ext_def split: prod.splits)
  from status_store_lawD [OF laws(1) s(1), of g1] get law(1-3) s(2) show ?thesis
    by auto
qed

text \<open>A run of \<open>Reconcile\<close> on an existing object, in two parts.\<close>

lemma Reconcile_Ok:
  assumes "Reconcile L A r cfg now1 now2 ns n s = (Ok (), s')" and "Get_GitSync L ns n (ext s) = Inr g"
  obtains g' s1 where
    "reconcile L A r cfg now2 (g\<lparr>gs_Status := InitConditions now1 (gs_Status g)\<rparr>)
       (s\<lparr>ss_base := RefreshBaseLoggerLevel cfg (ss_base s)\<rparr>) = (Ok (), g', s1)"
    and "write_back L A g g' s1 = (Ok (), s')"
  using assms by (auto simp: Reconcile_def Let_def split: prod.splits outcome.splits)

text \<open>The conditions of a GitSync that is configured again are written with the time of this run.\<close>

lemma running_condition:
  assumes "conditions_wf (Conditions st)"
  shows "condition_of GitSyncConditionConfigured (Conditions (MarkRunning now2 (InitConditions now1 st))) =
    Some (mk_condition GitSyncConditionConfigured ConditionTrue ''Successful'' ''Successful''\<lparr>cond_LastTransitionTime := now2\<rparr>)"
proof -
  let ?u = "mk_condition GitSyncConditionConfigured ConditionUnknown ''Unknown'' []"
  let ?t = "mk_condition GitSyncConditionConfigured ConditionTrue ''Successful'' ''Successful''"
  have d: "distinct (map cond_Type (Conditions st))"
    using assms by (simp add: conditions_wf_def)
  have init: "\<exists>c. condition_of GitSyncConditionConfigured (Conditions (setCondition now1 ?u st)) = Some c \<and>
      cond_Status c = ConditionUnknown"
    using d
  proof (cases rule: setCondition_cases [of st ?u now1])
    case (same c)
    then show ?thesis using same_conditionD [of ?u c] by (simp add: mk_condition_def)
  next
    case written
    then show ?thesis
      using setCondition_written(2) [OF d, of GitSyncConditionConfigured "?u\<lparr>cond_LastTransitionTime := now1\<rparr>"]
      by (simp add: mk_condition_def)
  qed
  let ?st = "setCondition now1 ?u st"
  have d': "distinct (map cond_Type (Conditions ?st))"
    using setCondition_wf [OF assms, of now1 ?u] by (simp add: conditions_wf_def)
  then have "condition_of GitSyncConditionConfigured (Conditions (setCondition now2 ?t ?st)) =
      Some (?t\<lparr>cond_LastTransitionTime := now2\<rparr>)"
  proof (cases rule: setCondition_cases [of ?st ?t now2])
    case (same c)
    with init same_conditionD [of ?t c] show ?thesis by (auto simp: mk_condition_def)
  next
    case written
    then show ?thesis
      using setCondition_written(2) [OF d', of GitSyncConditionConfigured "?t\<lparr>cond_LastTransitionTime := now2\<rparr>"]
      by (simp add: mk_condition_def)
  qed
  moreover have "Conditions (MarkRunning now2 (InitConditions now1 st)) = Conditions (setCondition now2 ?t ?st)"
    by (simp add: MarkRunning_def InitConditions_def MarkConditionTrue_def markTypeStatus_def SetPhase_def
        setCondition_def split: option.split prod.split)
  ultimately show ?thesis by simp
qed

section \<open>A small system\<close>

text \<open>
  For the witnesses, the API server of \<open>SyncRun\<close> also accepts updates of its one object; an object
  that is deleted and has no finalizer left disappears, which shows as another name.
\<close>

definition small_ctl :: "small_world ctl_libs" where
  "small_ctl = \<lparr>Update_GitSync = (\<lambda>g w.
       if gs_Namespace g = gs_Namespace (snd w) \<and> gs_Name g = gs_Name (snd w)
       then let g' = g\<lparr>gs_Status := gs_Status (snd w)\<rparr>
            in (Ok g', (fst w, if being_deleted g \<and> gs_Finalizers g = [] then g'\<lparr>gs_Name := CHR ''-'' # gs_Name g\<rparr> else g'))
       else (Err (TaggedError NotFound ''not found''), w)),
     isDNS1123Label = (\<lambda>n. []), ContainsFinalizer = (\<lambda>fs f. f \<in> set fs),
     AddFinalizer = (\<lambda>fs f. if f \<in> set fs then fs else fs @ [f]),
     RemoveFinalizer = (\<lambda>fs f. filter (\<lambda>x. x \<noteq> f) fs), Semantic_DeepEqual = (=)\<rparr>"

lemma small_ctl_simps:
  "Update_GitSync small_ctl g w =
     (if gs_Namespace g = gs_Namespace (snd w) \<and> gs_Name g = gs_Name (snd w)
      then let g' = g\<lparr>gs_Status := gs_Status (snd w)\<rparr>
           in (Ok g', (fst w, if being_deleted g \<and> gs_Finalizers g = [] then g'\<lparr>gs_Name := CHR ''-'' # gs_Name g\<rparr> else g'))
      else (Err (TaggedError NotFound ''not found''), w))"
  "isDNS1123Label small_ctl name = []" "ContainsFinalizer small_ctl fs f \<longleftrightarrow> f \<in> set fs"
  "AddFinalizer small_ctl fs f = (if f \<in> set fs then fs else fs @ [f])"
  "RemoveFinalizer small_ctl fs f = filter (\<lambda>x. x \<noteq> f) fs" "Semantic_DeepEqual small_ctl a b \<longleftrightarrow> a = b"
  by (simp_all add: small_ctl_def)

lemma small_gitsync_simps:
  "gs_Namespace (small_gitsync rev' k) = ''ns''" "gs_Name (small_gitsync rev' k) = ''my-app''"
  "gs_Finalizers (small_gitsync rev' k) = []" "\<not> being_deleted (small_gitsync rev' k)"
  by (simp_all add: small_gitsync_def being_deleted_def)

lemma ext_small_syncer: "ext (small_syncer g) = (''main'', g)"
  by (simp add: small_syncer_def)

lemma small_finalizer_law: "finalizer_law small_ctl"
  by (auto simp: finalizer_law_def small_ctl_def)

lemma small_update_law: "update_law (small_libs mr nsc) small_ctl"
  by (auto simp: update_law_def small_ctl_def Let_def split: if_splits)

lemma small_status_law: "status_store_law (small_libs mr nsc)"
  by (auto simp: status_store_law_def split: if_splits)

lemma small_url: "CheckGitURL ''https://github.com/acme/repo''"
proof -
  have "url_Parse (''https'' @ ''://'' @ ''github.com'' @ ''/'' @ ''acme/repo'') =
      Inr (empty_URL\<lparr>Scheme := ''https'', Host := ''github.com'', url_Path := CHR ''/'' # ''acme/repo''\<rparr>)"
    by (rule url_Parse_transport) (simp_all add: Valid_Transports plain_host_def plain_path_def
        scp_host_char_def scp_path_char_def is_upper_def is_lower_def is_digit_def byte_def)
  then show ?thesis
    by (simp add: CheckGitURL_def empty_URL_def Valid_Transports)
qed

lemma small_valid: "validate small_ctl (small_gitsync ''main'' k) = None"
  using small_url
  by (simp add: validate_def small_gitsync_def Let_def IsValidKubernetesNamespace_def small_ctl_def HasPrefix_def)

definition prod_reconciler :: GitSyncReconciler where
  "prod_reconciler = \<lparr>clusterName = ''prod'', has_syncer = True\<rparr>"

section \<open>Properties\<close>

text \<open>
  What a reconciliation does to the watch list. Of the keys watched, \<open>Reconcile\<close> can change only
  the one of the object it reads: it stops watching a deleted object of this cluster once the
  deletion was processed, and starts watching a valid one. An object that is invalid, or was
  moved to another cluster, stays watched if it was.
\<close>

theorem Reconcile_watch:
  "ss_watch (snd (Reconcile L A r cfg now1 now2 ns n s)) =
     (case Get_GitSync L ns n (ext s) of
        Inl _ \<Rightarrow> ss_watch s
      | Inr g \<Rightarrow>
          if \<not> (ContainsClusterDestination (gs_Spec g) (clusterName r) \<and> has_syncer r) then ss_watch s
          else if being_deleted g
          then (if fst (ProcessGitSyncDeletion L cfg g (s\<lparr>ss_base := RefreshBaseLoggerLevel cfg (ss_base s)\<rparr>)) = Ok ()
                then StopWatching (KeyOfGitSync g) (ss_watch s) else ss_watch s)
          else if validate A g = None then StartWatching (KeyOfGitSync g) (ss_watch s)
          else ss_watch s)"
proof (cases "Get_GitSync L ns n (ext s)")
  case (Inr g)
  let ?g = "g\<lparr>gs_Status := InitConditions now1 (gs_Status g)\<rparr>"
  let ?s = "s\<lparr>ss_base := RefreshBaseLoggerLevel cfg (ss_base s)\<rparr>"
  obtain x g' s1 where r: "reconcile L A r cfg now2 ?g ?s = (x, g', s1)" by (cases "reconcile L A r cfg now2 ?g ?s") auto
  then have "ss_watch (snd (Reconcile L A r cfg now1 now2 ns n s)) = ss_watch s1"
    using Inr by (cases x) (simp_all add: Reconcile_def)
  with r reconcile_watch [of L A r cfg now2 ?g ?s] Inr show ?thesis by simp
qed (simp add: Reconcile_def Let_def)

text \<open>
  C3. A configured GitSync. When \<open>Reconcile\<close> succeeds for a GitSync of this cluster that is not
  being deleted, the spec is valid, the object stored in the API server has the finalizer and
  phase Running, and its Configured condition is True with the current time: also when it said
  so before the run, because \<open>InitConditions\<close> resets it each time.
\<close>

theorem Reconcile_running:
  assumes "finalizer_law A" and "update_law L A" and "status_store_law L"
    and "Get_GitSync L ns n (ext s) = Inr g" and "conditions_wf (Conditions (gs_Status g))"
    and "ContainsClusterDestination (gs_Spec g) (clusterName r)" and "\<not> being_deleted g"
    and "Reconcile L A r cfg now1 now2 ns n s = (Ok (), s')"
  shows "validate A g = None \<and> (\<exists>g' c. Get_GitSync L ns n (ext s') = Inr g' \<and>
    finalizerName \<in> set (gs_Finalizers g') \<and> Phase (gs_Status g') = GitSyncPhaseRunning \<and>
    condition_of GitSyncConditionConfigured (Conditions (gs_Status g')) = Some c \<and>
    cond_Status c = ConditionTrue \<and> cond_LastTransitionTime c = now2)"
proof -
  from assms(8,4) obtain g1 s1 where r: "reconcile L A r cfg now2 (g\<lparr>gs_Status := InitConditions now1 (gs_Status g)\<rparr>)
      (s\<lparr>ss_base := RefreshBaseLoggerLevel cfg (ss_base s)\<rparr>) = (Ok (), g1, s1)" and w: "write_back L A g g1 s1 = (Ok (), s')"
    by (rule Reconcile_Ok)
  note run = reconcile_running [OF _ _ r, simplified, OF assms(6,7)]
  have names: "gs_Namespace g = ns" "gs_Name g = n"
    using status_store_names [OF assms(3,4)] by simp_all
  have "\<exists>g'. Get_GitSync L (gs_Namespace g1) (gs_Name g1) (ext s') = Inr g' \<and>
      gs_Finalizers g' = gs_Finalizers g1 \<and> gs_Status g' = gs_Status g1"
    using run names assms(4) by (intro write_back_stored [OF assms(3,2) _ _ w])
      (simp_all add: needsUpdate_def finalizer_lawD [OF assms(1)])
  then obtain g' where g': "Get_GitSync L ns n (ext s') = Inr g'" "gs_Finalizers g' = gs_Finalizers g1"
      "gs_Status g' = MarkRunning now2 (InitConditions now1 (gs_Status g))"
    using run names by auto
  from running_condition [OF assms(5), of now2 now1] g' run show ?thesis
    by (auto simp: finalizer_lawD [OF assms(1)] MarkRunning_def SetPhase_def mk_condition_def)
qed

theorem Reconcile_running_witness:
  "\<exists>g'. Get_GitSync (small_libs (None, None) (None, None)) ''ns'' ''my-app''
      (ext (snd (Reconcile (small_libs (None, None) (None, None)) small_ctl prod_reconciler (zero_GlobalConfig, None) 7 8
         ''ns'' ''my-app'' (small_syncer (small_gitsync ''main'' None))))) = Inr g' \<and>
    finalizerName \<in> set (gs_Finalizers g')"
proof -
  let ?L = "small_libs (None, None) (None, None)" and ?g = "small_gitsync ''main'' None"
  have get: "Get_GitSync ?L ''ns'' ''my-app'' (ext (small_syncer ?g)) = Inr ?g"
    by (simp add: small_syncer_def small_gitsync_def)
  have here: "ContainsClusterDestination (gs_Spec ?g) (clusterName prod_reconciler)" "\<not> being_deleted ?g"
    "conditions_wf (Conditions (gs_Status ?g))"
    by (simp_all add: small_gitsync_def ContainsClusterDestination_def prod_reconciler_def being_deleted_def
        conditions_wf_def empty_status_def)
  have "fst (Reconcile ?L small_ctl prod_reconciler (zero_GlobalConfig, None) 7 8 ''ns'' ''my-app'' (small_syncer ?g)) = Ok ()"
    using here small_valid [of None] get
    by (simp add: Reconcile_def reconcile_def write_back_def needsUpdate_def Let_def on_ext_def prod_reconciler_def
        small_ctl_simps small_gitsync_simps ext_small_syncer)
  then obtain s' where r: "Reconcile ?L small_ctl prod_reconciler (zero_GlobalConfig, None) 7 8 ''ns'' ''my-app'' (small_syncer ?g) = (Ok (), s')"
    by (metis surjective_pairing)
  from Reconcile_running [OF small_finalizer_law small_update_law small_status_law get here(3,1,2) r]
  obtain g' where "Get_GitSync ?L ''ns'' ''my-app'' (ext s') = Inr g'" "finalizerName \<in> set (gs_Finalizers g')"
    by blast
  then show ?thesis unfolding r snd_conv by blast
qed

text \<open>
  C37. A rejected spec leaves no trace. When the spec of a GitSync of this cluster is invalid,
  \<open>Reconcile\<close> returns the error and writes nothing to the API server: the phase Failed that
  \<open>MarkFailed\<close> sets is lost, and the object keeps the phase and conditions it had.
\<close>

theorem Reconcile_rejected:
  assumes "Get_GitSync L ns n (ext s) = Inr g" and "ContainsClusterDestination (gs_Spec g) (clusterName r)"
    and "\<not> being_deleted g" and "validate A g = Some e"
  shows "Reconcile L A r cfg now1 now2 ns n s = (Err e, s\<lparr>ss_base := RefreshBaseLoggerLevel cfg (ss_base s)\<rparr>)"
  using assms by (simp add: Reconcile_def reconcile_def Let_def)

theorem Reconcile_rejected_witness:
  "\<exists>e s'. Reconcile (small_libs (None, None) (None, None)) small_ctl prod_reconciler (zero_GlobalConfig, None) 7 8
      ''ns'' ''my-app'' (small_syncer (small_gitsync [] None)) = (Err e, s') \<and>
    snd (ext s') = small_gitsync [] None"
proof -
  let ?L = "small_libs (None, None) (None, None)" and ?g = "small_gitsync [] None"
  have "Get_GitSync ?L ''ns'' ''my-app'' (ext (small_syncer ?g)) = Inr ?g"
    "ContainsClusterDestination (gs_Spec ?g) (clusterName prod_reconciler)" "\<not> being_deleted ?g"
    by (simp_all add: small_syncer_def small_gitsync_def ContainsClusterDestination_def prod_reconciler_def being_deleted_def)
  moreover have "validate small_ctl ?g \<noteq> None"
    using small_url by (simp add: validate_def small_gitsync_def Let_def)
  then obtain e where "validate small_ctl ?g = Some e" by blast
  ultimately show ?thesis
    using Reconcile_rejected [of ?L "''ns''" "''my-app''" "small_syncer ?g" ?g prod_reconciler small_ctl e
        "(zero_GlobalConfig, None)" 7 8]
    by (simp add: small_syncer_def)
qed

text \<open>
  C38. A deleted GitSync of another cluster. If the destination of a GitSync is not this cluster,
  its deletion is ignored: \<open>Reconcile\<close> writes nothing, so a finalizer that was added while the
  destination was this cluster stays, and a key watched since then stays watched.
\<close>

theorem Reconcile_foreign_deleted:
  assumes "finalizer_law A" and "Get_GitSync L ns n (ext s) = Inr g" and "being_deleted g"
    and "\<not> ContainsClusterDestination (gs_Spec g) (clusterName r)"
  shows "Reconcile L A r cfg now1 now2 ns n s = (Ok (), s\<lparr>ss_base := RefreshBaseLoggerLevel cfg (ss_base s)\<rparr>)"
  using assms finalizer_lawD(4) [OF assms(1)]
  by (simp add: Reconcile_def reconcile_def write_back_def needsUpdate_def)

theorem Reconcile_foreign_deleted_witness:
  "let g = small_gitsync ''main'' None\<lparr>gs_Finalizers := [finalizerName], gs_DeletionTimestamp := Some 5\<rparr>;
       r = Reconcile (small_libs (None, None) (None, None)) small_ctl \<lparr>clusterName = ''dev'', has_syncer = True\<rparr>
             (zero_GlobalConfig, None) 7 8 ''ns'' ''my-app'' (small_syncer g)
   in fst r = Ok () \<and> gs_Finalizers (snd (ext (snd r))) = [finalizerName] \<and>
      Contains ''ns/my-app'' (ss_watch (snd r))"
  using Reconcile_foreign_deleted [OF small_finalizer_law, of "small_libs (None, None) (None, None)" "''ns''" "''my-app''"
      "small_syncer (small_gitsync ''main'' None\<lparr>gs_Finalizers := [finalizerName], gs_DeletionTimestamp := Some 5\<rparr>)"
      "small_gitsync ''main'' None\<lparr>gs_Finalizers := [finalizerName], gs_DeletionTimestamp := Some 5\<rparr>"
      "\<lparr>clusterName = ''dev'', has_syncer = True\<rparr>" "(zero_GlobalConfig, None)" 7 8]
  by (simp add: small_syncer_def small_gitsync_def being_deleted_def ContainsClusterDestination_def KeyOfGitSync_def
      Contains_def StartWatching_def new_watch_def)

text \<open>
  C13. A deleted GitSync of this cluster. When \<open>Reconcile\<close> succeeds for it, the deletion of its
  objects was processed first, its key is not watched any more, and the finalizer is gone: the
  object is stored without it, or was removed by the API server as the last finalizer left.
\<close>

theorem Reconcile_deletes:
  assumes "finalizer_law A" and "update_law L A" and "status_store_law L" and "watch_inv (ss_watch s)"
    and "Get_GitSync L ns n (ext s) = Inr g" and "finalizerName \<in> set (gs_Finalizers g)"
    and "ContainsClusterDestination (gs_Spec g) (clusterName r)" and "being_deleted g" and "has_syncer r"
    and "Reconcile L A r cfg now1 now2 ns n s = (Ok (), s')"
  shows "fst (ProcessGitSyncDeletion L cfg g (s\<lparr>ss_base := RefreshBaseLoggerLevel cfg (ss_base s)\<rparr>)) = Ok () \<and>
    \<not> Contains (KeyOfGitSync g) (ss_watch s') \<and>
    (case Get_GitSync L ns n (ext s') of
       Inl e \<Rightarrow> IsNotFound e
     | Inr g' \<Rightarrow> gs_Finalizers g' = filter (\<lambda>f. f \<noteq> finalizerName) (gs_Finalizers g))"
proof -
  let ?s = "s\<lparr>ss_base := RefreshBaseLoggerLevel cfg (ss_base s)\<rparr>"
  let ?g = "g\<lparr>gs_Status := InitConditions now1 (gs_Status g)\<rparr>"
  from assms(10,5) obtain g1 s1 where r: "reconcile L A r cfg now2 ?g ?s = (Ok (), g1, s1)"
    and w: "write_back L A g g1 s1 = (Ok (), s')"
    by (rule Reconcile_Ok)
  note del = reconcile_deleted [OF _ _ assms(9) r, simplified, OF assms(7,8)]
  have "ss_watch s' = StopWatching (KeyOfGitSync g) (ss_watch s)"
    using reconcile_watch [of L A r cfg now2 ?g ?s] watch_write_back [of L A g g1 s1] r w del(1) assms(7-9) by simp
  then have unwatched: "\<not> Contains (KeyOfGitSync g) (ss_watch s')"
    using assms(4) watch_inv_stop [OF assms(4)] by (simp add: watch_inv_has watched_stop q_stop_def)
  have fs: "gs_Finalizers g1 = filter (\<lambda>f. f \<noteq> finalizerName) (gs_Finalizers g)"
    using del(5) assms(6) by (simp add: finalizer_lawD [OF assms(1)])
  then have "finalizerName \<notin> set (gs_Finalizers g1)" by simp
  then have "gs_Finalizers g \<noteq> gs_Finalizers g1" using assms(6) by metis
  with w del(2) obtain g2 w2 where u: "Update_GitSync A g1 (ext s1) = (Ok g2, w2)" and "ext s' = w2"
    by (auto simp: write_back_def needsUpdate_def finalizer_lawD [OF assms(1)] on_ext_def bindR_eq_Ok
        update_lawD(4) [OF assms(2)] split: prod.splits if_splits)
  moreover have "gs_Namespace g1 = ns" "gs_Name g1 = n"
    using del status_store_names [OF assms(3,5)] by simp_all
  ultimately have "case Get_GitSync L ns n (ext s') of Inl e \<Rightarrow> IsNotFound e
     | Inr g' \<Rightarrow> gs_Finalizers g' = filter (\<lambda>f. f \<noteq> finalizerName) (gs_Finalizers g)"
    using update_lawD(3,5) [OF assms(2) u] fs by (auto split: if_splits)
  with del(1) unwatched show ?thesis by simp
qed

theorem Reconcile_deletes_witness:
  "let g = small_gitsync ''main'' None\<lparr>gs_Finalizers := [finalizerName], gs_DeletionTimestamp := Some 5\<rparr>;
       r = Reconcile (small_libs (None, None) (None, None)) small_ctl prod_reconciler
             (zero_GlobalConfig, None) 7 8 ''ns'' ''my-app'' (small_syncer g)
   in fst r = Ok () \<and> \<not> Contains (KeyOfGitSync g) (ss_watch (snd r))"
proof -
  let ?L = "small_libs (None, None) (None, None)"
  let ?g = "small_gitsync ''main'' None\<lparr>gs_Finalizers := [finalizerName], gs_DeletionTimestamp := Some 5\<rparr>"
  have get: "Get_GitSync ?L ''ns'' ''my-app'' (ext (small_syncer ?g)) = Inr ?g"
    by (simp add: ext_small_syncer small_gitsync_simps)
  have here: "ContainsClusterDestination (gs_Spec ?g) (clusterName prod_reconciler)" "being_deleted ?g"
    "has_syncer prod_reconciler" "finalizerName \<in> set (gs_Finalizers ?g)" "watch_inv (ss_watch (small_syncer ?g))"
    by (simp_all add: small_gitsync_def ContainsClusterDestination_def prod_reconciler_def being_deleted_def
        small_syncer_def watch_inv_start watch_inv_new)
  have "fst (Reconcile ?L small_ctl prod_reconciler (zero_GlobalConfig, None) 7 8 ''ns'' ''my-app'' (small_syncer ?g)) = Ok ()"
    using here get
    by (simp add: Reconcile_def reconcile_def write_back_def needsUpdate_def Let_def on_ext_def small_ctl_simps
        small_gitsync_simps ext_small_syncer delete_gitsync_def ProcessGitSyncDeletion_def zero_GlobalConfig_def
        stop_watching_def)
  then obtain s' where r: "Reconcile ?L small_ctl prod_reconciler (zero_GlobalConfig, None) 7 8 ''ns'' ''my-app'' (small_syncer ?g) = (Ok (), s')"
    by (metis surjective_pairing)
  have "\<not> Contains (KeyOfGitSync ?g) (ss_watch s')"
    using Reconcile_deletes [OF small_finalizer_law small_update_law small_status_law here(5) get here(4,1,2,3) r]
    by blast
  then show ?thesis unfolding Let_def r fst_conv snd_conv by simp
qed

end
