(* ===== verification/KVSource.thy ===== *)
theory KVSource
  imports GitSyncTypes
begin

text \<open>
  Sources of key/value pairs for templating (\<open>internal/keyvaluegenerator\<close>): the interface \<open>KVSource\<close>
  as a locale, its two implementations, and the evaluation of a template.
\<close>

section \<open>The interface\<close>

text \<open>
  \<open>get\<close> is \<open>GetKeysValues\<close>: the pairs, whether this call modified them, and the source afterwards.
  \<open>pairs\<close> are the pairs a source holds. The contract is the comment of the interface: the flag
  tells whether there was a modification to the pairs as part of this call.
\<close>

type_synonym key_values = "string \<rightharpoonup> string"

locale kv_source =
  fixes get :: "'s \<Rightarrow> (key_values \<times> bool) \<times> 's"
    and pairs :: "'s \<Rightarrow> key_values"
  assumes returns_pairs: "fst (fst (get s)) = pairs (snd (get s))"
    and unmodified: "\<not> snd (fst (get s)) \<Longrightarrow> pairs (snd (get s)) = pairs s"
begin

text \<open>The flags and the last pairs of a number of calls.\<close>

fun gets :: "nat \<Rightarrow> 's \<Rightarrow> bool list \<times> 's" where
  "gets 0 s = ([], s)"
| "gets (Suc n) s = (case get s of ((_, m), s') \<Rightarrow> (case gets n s' of (ms, s'') \<Rightarrow> (m # ms, s'')))"

lemma gets_unmodified: "True \<notin> set (fst (gets n s)) \<Longrightarrow> pairs (snd (gets n s)) = pairs s"
proof (induction n arbitrary: s)
  case (Suc n)
  obtain kv m s' where g: "get s = ((kv, m), s')" by (metis surjective_pairing)
  obtain ms s'' where gs: "gets n s' = (ms, s'')" by fastforce
  from Suc.prems g gs have "\<not> m" "True \<notin> set ms" by simp_all
  with Suc.IH [of s'] unmodified [of s] g gs show ?case by simp
qed simp

text \<open>A client that keeps what it computed from the pairs may keep it until a call says otherwise.\<close>

lemma cached_value:
  assumes "True \<notin> set (fst (gets n s))" and "cache = f (pairs s)" and "\<not> snd (fst (get (snd (gets n s))))"
  shows "cache = f (fst (fst (get (snd (gets n s)))))"
  using assms gets_unmodified [OF assms(1)] by (simp add: returns_pairs unmodified)

end

section \<open>The implementations\<close>

record BasicKVSource =
  bkv_values :: key_values

definition NewBasicKVSource :: "key_values \<Rightarrow> BasicKVSource" where
  "NewBasicKVSource kv = \<lparr>bkv_values = kv\<rparr>"

definition BasicKVSource_GetKeysValues :: "BasicKVSource \<Rightarrow> (key_values \<times> bool) \<times> BasicKVSource" where
  "BasicKVSource_GetKeysValues source = ((bkv_values source, False), source)"

record MultiClusterFileKVSource =
  sourceDefinition :: MultiClusterFileGenerator
  mkv_values :: key_values

text \<open>The field \<open>values\<close> is not initialised: a nil map has no keys.\<close>

definition NewMultiClusterFileKVSource :: "MultiClusterFileGenerator \<Rightarrow> MultiClusterFileKVSource" where
  "NewMultiClusterFileKVSource def = \<lparr>sourceDefinition = def, mkv_values = Map.empty\<rparr>"

definition MultiClusterFileKVSource_GetKeysValues ::
  "MultiClusterFileKVSource \<Rightarrow> (key_values \<times> bool) \<times> MultiClusterFileKVSource" where
  "MultiClusterFileKVSource_GetKeysValues source =
     (let modified = False in ((mkv_values source, modified), source))"

interpretation basic: kv_source BasicKVSource_GetKeysValues bkv_values
  by unfold_locales (simp_all add: BasicKVSource_GetKeysValues_def)

interpretation multi: kv_source MultiClusterFileKVSource_GetKeysValues mkv_values
  by unfold_locales (simp_all add: MultiClusterFileKVSource_GetKeysValues_def)

text \<open>A value of the interface type: its dynamic type and the value.\<close>

datatype KVSource =
    KV_Basic BasicKVSource
  | KV_MultiClusterFile MultiClusterFileKVSource

fun GetKeysValues :: "KVSource \<Rightarrow> (key_values \<times> bool) \<times> KVSource" where
  "GetKeysValues (KV_Basic b) = (case BasicKVSource_GetKeysValues b of (r, b') \<Rightarrow> (r, KV_Basic b'))"
| "GetKeysValues (KV_MultiClusterFile m) =
     (case MultiClusterFileKVSource_GetKeysValues m of (r, m') \<Rightarrow> (r, KV_MultiClusterFile m'))"

primrec kv_pairs :: "KVSource \<Rightarrow> key_values" where
  "kv_pairs (KV_Basic b) = bkv_values b"
| "kv_pairs (KV_MultiClusterFile m) = mkv_values m"

interpretation kv: kv_source GetKeysValues kv_pairs
proof
  fix s show "fst (fst (GetKeysValues s)) = kv_pairs (snd (GetKeysValues s))"
    by (cases s) (simp_all add: basic.returns_pairs multi.returns_pairs split_beta)
next
  fix s show "\<not> snd (fst (GetKeysValues s)) \<Longrightarrow> kv_pairs (snd (GetKeysValues s)) = kv_pairs s"
    by (cases s) (simp_all add: basic.unmodified multi.unmodified split_beta)
qed

section \<open>Templates\<close>

text \<open>\<open>EvaluateTemplate\<close> is not implemented in the code: it returns the template.\<close>

definition EvaluateTemplate :: "string \<Rightarrow> key_values \<Rightarrow> go_error + string" where
  "EvaluateTemplate template keysValues = Inr template"

end
