(* ===== verification/Agent.thy ===== *)
theory Agent
  imports KVSource GlobalConfig Logger "HOL-Library.Word"
begin

text \<open>
  The agent (\<open>internal/agent\<close>): its configuration with a revision index, the syncer's copy of it,
  and the git source it works on. The field \<open>gitSource\<close> of the syncer may point into the syncer's
  own copy of the configuration, so that a new copy shows through it; the pointer is explicit.
\<close>

section \<open>Configuration (config.go)\<close>

record KVGenerator =
  Embedded :: "SingleClusterGenerator option"
  Reference :: "MultiClusterFileGenerator option"

record Source =
  KeyValueGenerator :: "KVGenerator option"
  GitDefinition :: CredentialedGitSource

record AgentConfig =
  ac_ClusterName :: string
  TimeIntervalSec :: "64 word"
  ac_Source :: Source
  ac_LogLevel :: int

definition zero_GitDefinition :: CredentialedGitSource where
  "zero_GitDefinition = \<lparr>RepoUrl = [], Path = [], TargetRevision = [], Kustomize = None, Helm = None, Raw = None,
     cgs_RepoCredential = None\<rparr>"

definition zero_AgentConfig :: AgentConfig where
  "zero_AgentConfig = \<lparr>ac_ClusterName = [], TimeIntervalSec = 0,
     ac_Source = \<lparr>KeyValueGenerator = None, GitDefinition = zero_GitDefinition\<rparr>, ac_LogLevel = 0\<rparr>"

record AgentConfigManager =
  acm_config :: AgentConfig
  acm_watching :: bool
  revisionIndex :: int

text \<open>What \<open>once.Do\<close> creates.\<close>

definition new_AgentConfigManager :: AgentConfigManager where
  "new_AgentConfigManager = \<lparr>acm_config = zero_AgentConfig, acm_watching = False, revisionIndex = 0\<rparr>"

definition agent_LoadConfig ::
  "('f, AgentConfig) viper_api \<Rightarrow> 'f \<Rightarrow> AgentConfigManager \<Rightarrow> (AgentConfigManager, unit) result" where
  "agent_LoadConfig V f cm =
     (case ReadInConfig V f of
        Some e \<Rightarrow> (Err (WrapError ''failed to load configuration file. '' e), cm)
      | None \<Rightarrow>
          (case viper_Unmarshal V f (acm_config cm) of
             (Some e, c) \<Rightarrow> (Err (WrapError ''failed unmarshal configuration file. '' e), cm\<lparr>acm_config := c\<rparr>)
           | (None, c) \<Rightarrow> (Ok (), cm\<lparr>acm_config := c, acm_watching := True\<rparr>)))"

text \<open>The handler given to \<open>v.OnConfigChange\<close>, with the error it reports, if any.\<close>

definition agent_OnConfigChange ::
  "('f, AgentConfig) viper_api \<Rightarrow> 'f \<Rightarrow> AgentConfigManager \<Rightarrow> go_error option \<times> AgentConfigManager" where
  "agent_OnConfigChange V f cm =
     (case viper_Unmarshal V f zero_AgentConfig of
        (err, newConfig) \<Rightarrow> (err, cm\<lparr>revisionIndex := revisionIndex cm + 1, acm_config := newConfig\<rparr>))"

definition GetRevisionIndex :: "AgentConfigManager \<Rightarrow> int" where
  "GetRevisionIndex cm = revisionIndex cm"

definition agent_CloneWithSerialization :: "AgentConfig json_api \<Rightarrow> AgentConfig \<Rightarrow> go_error + AgentConfig" where
  "agent_CloneWithSerialization J orig =
     bindE (json_Marshal J orig) (\<lambda>origJSON.
       (case json_Unmarshal J origJSON zero_AgentConfig of
          (Some e, _) \<Rightarrow> Inl e
        | (None, clone) \<Rightarrow> Inr clone))"

definition agent_GetConfig :: "AgentConfig json_api \<Rightarrow> AgentConfigManager \<Rightarrow> AgentConfig \<times> int \<times> go_error option" where
  "agent_GetConfig J cm =
     (case agent_CloneWithSerialization J (acm_config cm) of
        Inl e \<Rightarrow> (zero_AgentConfig, revisionIndex cm, Some e)
      | Inr config \<Rightarrow> (config, revisionIndex cm, None))"

interpretation agent_config: config_store acm_config "viper_Unmarshal V" zero_AgentConfig "agent_OnConfigChange V"
  for V :: "('f, AgentConfig) viper_api"
  by unfold_locales (simp_all add: agent_OnConfigChange_def split: prod.splits)

section \<open>Evaluating the git definition (kv\_evaluator.go)\<close>

definition createKVSource :: "KVGenerator option \<Rightarrow> KVSource option" where
  "createKVSource kvGenerator =
     (case kvGenerator of
        None \<Rightarrow> None
      | Some g \<Rightarrow>
          (case Embedded g of
             Some e \<Rightarrow> Some (KV_Basic (NewBasicKVSource (scg_Values e)))
           | None \<Rightarrow>
               (case Reference g of
                  Some r \<Rightarrow> Some (KV_MultiClusterFile (NewMultiClusterFileKVSource r))
                | None \<Rightarrow> None)))"

text \<open>Decoding starts from a zero \<open>CredentialedGitSource\<close>. With an error the argument is returned too.\<close>

definition evaluateGitDefinition ::
  "CredentialedGitSource json_api \<Rightarrow> CredentialedGitSource \<Rightarrow> key_values \<Rightarrow> go_error + CredentialedGitSource" where
  "evaluateGitDefinition J gitSource keysValues =
     bindE (json_Marshal J gitSource) (\<lambda>asJson.
     bindE (EvaluateTemplate asJson keysValues) (\<lambda>resultJson.
       (case json_Unmarshal J resultJson zero_GitDefinition of
          (Some e, _) \<Rightarrow> Inl e
        | (None, resultGitSource) \<Rightarrow> Inr resultGitSource)))"

section \<open>The syncer (agent\_syncer.go)\<close>

text \<open>The pointer \<open>gitSource\<close>: nil, \<open>&syncer.config.Source.GitDefinition\<close>, or an object of its own.\<close>

datatype git_source_ptr =
    NilSource
  | IntoConfig
  | Owned CredentialedGitSource

record AgentSyncer =
  as_logger :: NumaLogger
  gitSource :: git_source_ptr
  kvSource :: "KVSource option"
  as_config :: AgentConfig
  configRevision :: int

definition NewAgentSyncer :: "NumaLogger \<Rightarrow> AgentSyncer" where
  "NewAgentSyncer numaLogger =
     \<lparr>as_logger = numaLogger, gitSource = NilSource, kvSource = None, as_config = zero_AgentConfig, configRevision = -1\<rparr>"

text \<open>What a reader of \<open>syncer.gitSource\<close> sees.\<close>

definition deref_source :: "AgentSyncer \<Rightarrow> CredentialedGitSource option" where
  "deref_source a =
     (case gitSource a of
        NilSource \<Rightarrow> None
      | IntoConfig \<Rightarrow> Some (GitDefinition (ac_Source (as_config a)))
      | Owned g \<Rightarrow> Some g)"

text \<open>
  \<open>checkConfigUpdate\<close> reads the manager twice, each time under its lock: \<open>cm1\<close> and \<open>cm2\<close> are the
  manager at the two moments. The state of the loggers is \<open>s\<close>.
\<close>

definition checkConfigUpdate ::
  "AgentConfig json_api \<Rightarrow> AgentConfigManager \<Rightarrow> AgentConfigManager \<Rightarrow> AgentSyncer \<times> log_state \<Rightarrow>
   bool \<times> AgentSyncer \<times> log_state" where
  "checkConfigUpdate J cm1 cm2 = (\<lambda>(a, s).
     if GetRevisionIndex cm1 > configRevision a
     then (case agent_GetConfig J cm2 of
             (config, newRevision, Some err) \<Rightarrow> (False, a\<lparr>as_config := config\<rparr>, s)
           | (config, newRevision, None) \<Rightarrow>
               (case SetLevel (ac_LogLevel config) (as_logger a) s of
                  (nl, s') \<Rightarrow> (True, a\<lparr>as_config := config, configRevision := newRevision, as_logger := nl\<rparr>, s')))
     else (False, a, s))"

definition evaluateGitSource ::
  "AgentConfig json_api \<Rightarrow> CredentialedGitSource json_api \<Rightarrow> AgentConfigManager \<Rightarrow> AgentConfigManager \<Rightarrow>
   AgentSyncer \<times> log_state \<Rightarrow> AgentSyncer \<times> log_state" where
  "evaluateGitSource J JG cm1 cm2 st =
     (case checkConfigUpdate J cm1 cm2 st of
        (updated, a0, s) \<Rightarrow>
          (let a = (if updated then a0\<lparr>kvSource := createKVSource (KeyValueGenerator (ac_Source (as_config a0)))\<rparr> else a0)
           in (case kvSource a of
                 None \<Rightarrow> (a\<lparr>gitSource := IntoConfig\<rparr>, s)
               | Some src \<Rightarrow>
                   (case GetKeysValues src of
                      ((keysValues, newKeysValues), src') \<Rightarrow>
                        (let a1 = a\<lparr>kvSource := Some src'\<rparr>
                         in if updated \<or> newKeysValues
                            then (case evaluateGitDefinition JG (GitDefinition (ac_Source (as_config a1))) keysValues of
                                    Inl err \<Rightarrow> (a1\<lparr>gitSource := IntoConfig\<rparr>, s)
                                  | Inr g \<Rightarrow> (a1\<lparr>gitSource := Owned g\<rparr>, s))
                            else (a1, s))))))"

text \<open>\<open>syncLatest\<close> is empty in the code.\<close>

definition syncLatest :: "AgentSyncer \<times> log_state \<Rightarrow> AgentSyncer \<times> log_state" where
  "syncLatest st = st"

text \<open>The pause: \<open>time.Duration(TimeIntervalSec) * time.Second\<close>, in nanoseconds, as a signed 64-bit integer.\<close>

definition sleep_ns :: "AgentSyncer \<Rightarrow> int" where
  "sleep_ns a = sint (TimeIntervalSec (as_config a) * 1000000000)"

text \<open>One round of the loop of \<open>Run\<close>, and a number of rounds, each with the manager as it finds it.\<close>

definition agent_round ::
  "AgentConfig json_api \<Rightarrow> CredentialedGitSource json_api \<Rightarrow> AgentConfigManager \<times> AgentConfigManager \<Rightarrow>
   AgentSyncer \<times> log_state \<Rightarrow> AgentSyncer \<times> log_state" where
  "agent_round J JG = (\<lambda>(cm1, cm2) st. syncLatest (evaluateGitSource J JG cm1 cm2 st))"

fun agent_Run ::
  "AgentConfig json_api \<Rightarrow> CredentialedGitSource json_api \<Rightarrow> (AgentConfigManager \<times> AgentConfigManager) list \<Rightarrow>
   AgentSyncer \<times> log_state \<Rightarrow> AgentSyncer \<times> log_state" where
  "agent_Run J JG [] st = st"
| "agent_Run J JG (cms # rest) st = agent_Run J JG rest (agent_round J JG cms st)"

section \<open>The agent as a state machine\<close>

text \<open>
  The file watcher changes the manager at any moment, also between the two reads of
  \<open>checkConfigUpdate\<close>: \<open>peeked\<close> is the manager as the first read found it.
\<close>

record agent_state =
  manager :: AgentConfigManager
  peeked :: "AgentConfigManager option"
  agent :: "AgentSyncer \<times> log_state"

definition agent_init :: "AgentConfigManager \<Rightarrow> NumaLogger \<Rightarrow> log_state \<Rightarrow> agent_state" where
  "agent_init cm nl s = \<lparr>manager = cm, peeked = None, agent = (NewAgentSyncer nl, s)\<rparr>"

inductive agent_step ::
  "('f, AgentConfig) viper_api \<Rightarrow> AgentConfig json_api \<Rightarrow> CredentialedGitSource json_api \<Rightarrow>
   agent_state \<Rightarrow> agent_state \<Rightarrow> bool"
  for V :: "('f, AgentConfig) viper_api" and J JG where
  file_changed: "agent_step V J JG x (x\<lparr>manager := snd (agent_OnConfigChange V f (manager x))\<rparr>)"
| first_read: "peeked x = None \<Longrightarrow> agent_step V J JG x (x\<lparr>peeked := Some (manager x)\<rparr>)"
| rest_of_round: "peeked x = Some cm1 \<Longrightarrow>
    agent_step V J JG x (x\<lparr>peeked := None, agent := agent_round J JG (cm1, manager x) (agent x)\<rparr>)"

inductive_cases agent_stepE: "agent_step V J JG x y"

text \<open>What the source should be for a configuration: the definition, evaluated when there is a generator.\<close>

definition effective_source :: "CredentialedGitSource json_api \<Rightarrow> AgentConfig \<Rightarrow> CredentialedGitSource" where
  "effective_source JG c =
     (let def = GitDefinition (ac_Source c)
      in (case createKVSource (KeyValueGenerator (ac_Source c)) of
            None \<Rightarrow> def
          | Some src \<Rightarrow> (case evaluateGitDefinition JG def (kv_pairs src) of Inl e \<Rightarrow> def | Inr g \<Rightarrow> g)))"

text \<open>The syncer shows what its copy of the configuration asks for.\<close>

definition shows_config :: "CredentialedGitSource json_api \<Rightarrow> AgentSyncer \<Rightarrow> bool" where
  "shows_config JG a \<longleftrightarrow>
     deref_source a = Some (effective_source JG (as_config a)) \<and>
     kvSource a = createKVSource (KeyValueGenerator (ac_Source (as_config a)))"

definition agent_inv ::
  "AgentConfig json_api \<Rightarrow> CredentialedGitSource json_api \<Rightarrow> agent_state \<Rightarrow> bool" where
  "agent_inv J JG x \<longleftrightarrow>
     (let a = fst (agent x); rev' = revisionIndex (manager x)
      in configRevision a \<le> rev' \<and> (\<forall>cm. peeked x = Some cm \<longrightarrow> revisionIndex cm \<le> rev') \<and>
         (configRevision a = rev' \<longrightarrow>
            agent_CloneWithSerialization J (acm_config (manager x)) = Inr (as_config a) \<and> shows_config JG a))"

lemma GetKeysValues_same: "GetKeysValues src = ((kv_pairs src, False), src)"
  by (cases src) (simp_all add: BasicKVSource_GetKeysValues_def MultiClusterFileKVSource_GetKeysValues_def)

text \<open>The rest of \<open>evaluateGitSource\<close> after the check.\<close>

lemma evaluate_updated:
  assumes "checkConfigUpdate J cm1 cm2 (a, s) = (True, a0, s0)"
  shows "let a' = fst (evaluateGitSource J JG cm1 cm2 (a, s))
         in shows_config JG a' \<and> as_config a' = as_config a0 \<and> configRevision a' = configRevision a0"
  using assms
  by (simp add: evaluateGitSource_def Let_def GetKeysValues_same shows_config_def effective_source_def
      deref_source_def split: option.split sum.split)

lemma evaluate_kept:
  assumes "checkConfigUpdate J cm1 cm2 (a, s) = (False, a0, s0)"
  shows "evaluateGitSource J JG cm1 cm2 (a, s) =
    ((case kvSource a0 of None \<Rightarrow> a0\<lparr>gitSource := IntoConfig\<rparr> | Some _ \<Rightarrow> a0), s0)"
proof (cases "kvSource a0")
  case None
  with assms show ?thesis by (simp add: evaluateGitSource_def Let_def)
next
  case (Some src)
  then have "a0\<lparr>kvSource := Some src\<rparr> = a0" by simp
  with assms Some show ?thesis by (simp add: evaluateGitSource_def Let_def GetKeysValues_same)
qed

lemma evaluate_same:
  assumes "checkConfigUpdate J cm1 cm2 (a, s) = (False, a0, s0)"
  shows "let a' = fst (evaluateGitSource J JG cm1 cm2 (a, s))
         in (shows_config JG a0 \<longrightarrow> shows_config JG a') \<and> as_config a' = as_config a0 \<and>
            configRevision a' = configRevision a0 \<and> kvSource a' = kvSource a0 \<and>
            (kvSource a0 = None \<longrightarrow> deref_source a' = Some (GitDefinition (ac_Source (as_config a0))))"
  by (cases "kvSource a0")
    (auto simp: evaluate_kept [OF assms] shows_config_def effective_source_def deref_source_def Let_def)

lemma check_cases:
  obtains (current) "GetRevisionIndex cm1 \<le> configRevision a" "checkConfigUpdate J cm1 cm2 (a, s) = (False, a, s)"
  | (failed) e where "GetRevisionIndex cm1 > configRevision a" "agent_CloneWithSerialization J (acm_config cm2) = Inl e"
      "checkConfigUpdate J cm1 cm2 (a, s) = (False, a\<lparr>as_config := zero_AgentConfig\<rparr>, s)"
  | (new) c a0 s0 where "GetRevisionIndex cm1 > configRevision a" "agent_CloneWithSerialization J (acm_config cm2) = Inr c"
      "checkConfigUpdate J cm1 cm2 (a, s) = (True, a0, s0)" "as_config a0 = c" "configRevision a0 = revisionIndex cm2"
proof (cases "GetRevisionIndex cm1 > configRevision a")
  case False
  then show thesis by (intro current) (simp_all add: checkConfigUpdate_def)
next
  case True
  then show thesis
    by (cases "agent_CloneWithSerialization J (acm_config cm2)")
      (auto simp: checkConfigUpdate_def agent_GetConfig_def SetLevel_def intro: failed new)
qed

lemma agent_round_inv:
  assumes inv: "agent_inv J JG x" and peek: "revisionIndex cm1 \<le> revisionIndex (manager x)"
  shows "agent_inv J JG (x\<lparr>peeked := None, agent := agent_round J JG (cm1, manager x) (agent x)\<rparr>)"
proof -
  obtain a s where ag: "agent x = (a, s)" by fastforce
  note d = agent_round_def syncLatest_def agent_inv_def Let_def ag GetRevisionIndex_def
  show ?thesis
  proof (cases rule: check_cases [of cm1 a J "manager x" s])
    case current
    with evaluate_same [OF current(2), of JG] inv show ?thesis by (simp add: d)
  next
    case (failed e)
    with evaluate_same [OF failed(3), of JG] inv peek show ?thesis by (simp add: d)
  next
    case (new c a0 s0)
    with evaluate_updated [OF new(3), of JG] inv show ?thesis by (simp add: d)
  qed
qed

lemma agent_step_inv: "agent_step V J JG x y \<Longrightarrow> agent_inv J JG x \<Longrightarrow> agent_inv J JG y"
proof (induction rule: agent_step.induct)
  case (file_changed x f)
  then show ?case
    by (auto simp: agent_inv_def agent_OnConfigChange_def Let_def split: prod.split)
next
  case (first_read x)
  then show ?case by (simp add: agent_inv_def Let_def)
next
  case (rest_of_round x cm1)
  then show ?case by (intro agent_round_inv) (simp_all add: agent_inv_def Let_def)
qed

lemma agent_reachable_inv:
  assumes "(agent_step V J JG)\<^sup>*\<^sup>* (agent_init cm nl s) x" and "0 \<le> revisionIndex cm"
  shows "agent_inv J JG x"
  using assms(1)
proof (induction rule: rtranclp_induct)
  case base
  show ?case using assms(2) by (simp add: agent_inv_def agent_init_def NewAgentSyncer_def)
next
  case (step y z)
  then show ?case by (blast intro: agent_step_inv)
qed

section \<open>Properties\<close>

text \<open>
  C15. The agent follows its configuration. In every reachable state of the watcher and the
  syncer, also when the file changes between the two reads: a syncer whose revision is the
  manager's has a copy of the manager's configuration and the source this configuration asks
  for; and one round on the current manager makes that so if its configuration can be copied.
\<close>

theorem agent_source_current:
  assumes "(agent_step V J JG)\<^sup>*\<^sup>* (agent_init cm nl s) x" and "0 \<le> revisionIndex cm"
    and "agent_CloneWithSerialization J (acm_config (manager x)) = Inr c"
  shows "(let a = fst (agent x)
          in configRevision a < revisionIndex (manager x) \<or>
             as_config a = c \<and> deref_source a = Some (effective_source JG c)) \<and>
    (let a = fst (agent_round J JG (manager x, manager x) (agent x))
     in configRevision a = revisionIndex (manager x) \<and> as_config a = c \<and>
        deref_source a = Some (effective_source JG c))"
proof -
  have inv: "agent_inv J JG x"
    using assms(1,2) by (rule agent_reachable_inv)
  obtain a0 s0 where ag: "agent x = (a0, s0)" by fastforce
  have "configRevision (fst (agent_round J JG (manager x, manager x) (agent x))) = revisionIndex (manager x)"
  proof (cases rule: check_cases [of "manager x" a0 J "manager x" s0])
    case current
    with evaluate_same [OF current(2), of JG] inv show ?thesis
      by (simp add: ag agent_round_def syncLatest_def agent_inv_def Let_def GetRevisionIndex_def)
  next
    case (failed e)
    with assms(3) show ?thesis by simp
  next
    case (new c' a1 s1)
    with evaluate_updated [OF new(3), of JG] show ?thesis
      by (simp add: ag agent_round_def syncLatest_def Let_def)
  qed
  moreover have "agent_inv J JG (x\<lparr>peeked := None, agent := agent_round J JG (manager x, manager x) (agent x)\<rparr>)"
    by (rule agent_round_inv [OF inv]) simp
  ultimately show ?thesis
    using inv assms(3) by (auto simp: agent_inv_def shows_config_def Let_def)
qed

text \<open>For the witness: a configuration whose definition has only a repository, and its encoding.\<close>

definition repo_AgentConfig :: "string \<Rightarrow> AgentConfig" where
  "repo_AgentConfig url = zero_AgentConfig\<lparr>ac_Source := \<lparr>KeyValueGenerator = None,
     GitDefinition = zero_GitDefinition\<lparr>RepoUrl := url\<rparr>\<rparr>\<rparr>"

definition repo_json :: "AgentConfig json_api" where
  "repo_json = \<lparr>json_Marshal = (\<lambda>c. let url = RepoUrl (GitDefinition (ac_Source c))
       in if url = ''!'' then Inl (ErrorString ''unsupported value'') else Inr url),
     json_Unmarshal = (\<lambda>t c. (None, repo_AgentConfig t))\<rparr>"

definition repo_viper :: "(string, AgentConfig) viper_api" where
  "repo_viper = \<lparr>ReadInConfig = (\<lambda>f. None), viper_Unmarshal = (\<lambda>f c. (None, repo_AgentConfig f))\<rparr>"

definition source_json :: "CredentialedGitSource json_api" where
  "source_json = \<lparr>json_Marshal = (\<lambda>c. Inr (RepoUrl c)), json_Unmarshal = (\<lambda>t c. (None, c\<lparr>RepoUrl := t\<rparr>))\<rparr>"

theorem agent_source_current_witness:
  "\<forall>nl s. let x = agent_init new_AgentConfigManager nl s;
       y = x\<lparr>manager := snd (agent_OnConfigChange repo_viper ''https://git/a'' (manager x))\<rparr>
   in deref_source (fst (agent_round repo_json source_json (manager y, manager y) (agent y))) =
      Some (zero_GitDefinition\<lparr>RepoUrl := ''https://git/a''\<rparr>)"
proof (intro allI)
  fix nl s
  let ?x = "agent_init new_AgentConfigManager nl s"
  let ?y = "?x\<lparr>manager := snd (agent_OnConfigChange repo_viper ''https://git/a'' (manager ?x))\<rparr>"
  have reach: "(agent_step repo_viper repo_json source_json)\<^sup>*\<^sup>* ?x ?y"
    by (rule r_into_rtranclp) (rule agent_step.file_changed)
  have conf: "agent_CloneWithSerialization repo_json (acm_config (manager ?y)) = Inr (repo_AgentConfig ''https://git/a'')"
    by (simp add: agent_OnConfigChange_def repo_viper_def agent_CloneWithSerialization_def repo_json_def
        repo_AgentConfig_def)
  have "effective_source source_json (repo_AgentConfig ''https://git/a'') = zero_GitDefinition\<lparr>RepoUrl := ''https://git/a''\<rparr>"
    by (simp add: effective_source_def repo_AgentConfig_def createKVSource_def)
  with agent_source_current [OF reach _ conf]
  show "let x = ?x; y = x\<lparr>manager := snd (agent_OnConfigChange repo_viper ''https://git/a'' (manager x))\<rparr>
      in deref_source (fst (agent_round repo_json source_json (manager y, manager y) (agent y))) =
         Some (zero_GitDefinition\<lparr>RepoUrl := ''https://git/a''\<rparr>)"
    by (simp add: Let_def new_AgentConfigManager_def)
qed

text \<open>
  A configuration that cannot be copied. If a new revision is found and \<open>GetConfig\<close> fails, the
  syncer's own configuration is overwritten with the zero value although the revision stays:
  without a generator its source becomes an empty definition at once, and the loop runs on
  without a pause until the copy succeeds.
\<close>

theorem failed_copy_blanks_source:
  assumes "agent_CloneWithSerialization J (acm_config cm) = Inl e" and "configRevision a < revisionIndex cm"
  shows "let a' = fst (agent_round J JG (cm, cm) (a, s))
         in configRevision a' = configRevision a \<and> as_config a' = zero_AgentConfig \<and> sleep_ns a' = 0 \<and>
            deref_source a' =
              (case (kvSource a, gitSource a) of
                 (Some _, Owned g) \<Rightarrow> Some g
               | (Some _, NilSource) \<Rightarrow> None
               | _ \<Rightarrow> Some zero_GitDefinition)"
proof (cases rule: check_cases [of cm a J cm s])
  case (failed e)
  then show ?thesis
    by (auto simp: agent_round_def syncLatest_def evaluate_kept [OF failed(3)] Let_def deref_source_def sleep_ns_def
        zero_AgentConfig_def split: option.split git_source_ptr.split)
qed (use assms in \<open>simp_all add: GetRevisionIndex_def\<close>)

theorem failed_copy_blanks_source_witness:
  "\<forall>nl s. let a = (NewAgentSyncer nl)\<lparr>as_config := repo_AgentConfig ''https://git/a'', gitSource := IntoConfig, configRevision := 0\<rparr>;
       cm = \<lparr>acm_config = repo_AgentConfig ''!'', acm_watching = True, revisionIndex = 1\<rparr>
   in deref_source a = Some (zero_GitDefinition\<lparr>RepoUrl := ''https://git/a''\<rparr>) \<and>
      deref_source (fst (agent_round repo_json source_json (cm, cm) (a, s))) = Some zero_GitDefinition"
proof (intro allI)
  fix nl s
  let ?a = "(NewAgentSyncer nl)\<lparr>as_config := repo_AgentConfig ''https://git/a'', gitSource := IntoConfig, configRevision := 0\<rparr>"
  let ?cm = "\<lparr>acm_config = repo_AgentConfig ''!'', acm_watching = True, revisionIndex = 1\<rparr>"
  have "agent_CloneWithSerialization repo_json (acm_config ?cm) = Inl (ErrorString ''unsupported value'')"
    by (simp add: agent_CloneWithSerialization_def repo_json_def repo_AgentConfig_def)
  from failed_copy_blanks_source [OF this, of ?a source_json s]
  show "let a = ?a; cm = ?cm in deref_source a = Some (zero_GitDefinition\<lparr>RepoUrl := ''https://git/a''\<rparr>) \<and>
      deref_source (fst (agent_round repo_json source_json (cm, cm) (a, s))) = Some zero_GitDefinition"
    by (simp add: Let_def NewAgentSyncer_def deref_source_def repo_AgentConfig_def)
qed

text \<open>
  The pause of the agent. The product of the configured number of seconds is exact up to
  9223372036 seconds, about 292 years; the next number wraps around to a negative duration,
  for which \<open>time.Sleep\<close> returns at once.
\<close>

theorem sleep_ns_bounds:
  "(sleep_ns a = uint (TimeIntervalSec (as_config a)) * 1000000000 \<longleftrightarrow> uint (TimeIntervalSec (as_config a)) \<le> 9223372036) \<and>
   sleep_ns (a\<lparr>as_config := (as_config a)\<lparr>TimeIntervalSec := 9223372037\<rparr>\<rparr>) < 0"
proof -
  let ?n = "TimeIntervalSec (as_config a)"
  have "sint (?n * 1000000000) = uint ?n * 1000000000" if le: "uint ?n \<le> 9223372036"
  proof -
    have "uint (?n * 1000000000) = uint ?n * 1000000000"
      using le by (simp add: uint_word_ariths)
    moreover have "signed_take_bit 63 (uint ?n * 1000000000) = uint ?n * 1000000000"
    proof (rule signed_take_bit_int_eq_self)
      have "0 \<le> uint ?n * 1000000000" by simp
      moreover have "- (2 ^ 63) \<le> (0::int)" by simp
      ultimately show "- (2 ^ 63) \<le> uint ?n * 1000000000" by (rule order_trans [rotated])
      show "uint ?n * 1000000000 < 2 ^ 63" using le by simp
    qed
    ultimately show ?thesis by (simp add: sint_uint)
  qed
  moreover have "sint (?n * 1000000000) < 2 ^ 63"
    using sint_lt [of "?n * 1000000000"] by simp
  ultimately show ?thesis
    by (auto simp: sleep_ns_def)
qed

end
