(* ===== verification/Startup.thy ===== *)
theory Startup
  imports Scheduler Reconciler Agent
begin

text \<open>
  The entry points of the two programs (\<open>cmd/main.go\<close>, \<open>cmd/agent/main.go\<close>), what they create
  (\<open>NewSyncer\<close>, \<open>NewKubectl\<close>, the reconciler's registration), and the beginning of \<open>Syncer.Start\<close>.
  controller-runtime is a parameter: its manager is a value of type \<open>'m\<close> that the calls of the
  program change. A call of \<open>Fatal\<close> ends the program.
\<close>

section \<open>How a program ends\<close>

text \<open>
  \<open>Died\<close> is \<open>ctrl.GetConfigOrDie\<close> and the flag parser, which exit by themselves; \<open>Panicked\<close> is a
  panic that nothing recovers.
\<close>

datatype program_end = Finished | FatalExit string go_error | Died int | Panicked

text \<open>The end of the program that a call of \<open>NumaLogger.Fatal\<close> is.\<close>

definition fatal_end :: "go_error \<Rightarrow> string \<Rightarrow> program_end" where
  "fatal_end err msg = FatalExit msg err"

fun exit_code :: "program_end \<Rightarrow> int" where
  "exit_code Finished = 0"
| "exit_code (FatalExit msg err) = 1"
| "exit_code (Died c) = c"
| "exit_code Panicked = 2"

section \<open>NewSyncer and the kubectl runner\<close>

text \<open>\<open>NewSyncer\<close>: the options with the syncer's state; \<open>w\<close> and \<open>b\<close> are the world and the base logger at that time.\<close>

definition NewSyncer :: "(options \<Rightarrow> options) option list \<Rightarrow> 'w \<Rightarrow> base_state \<Rightarrow> options \<times> ('w, 'k) syncer" where
  "NewSyncer opts w b =
     (apply_options opts defaultOptions,
      \<lparr>ext = w, metric_log = [], ss_watch = new_watch, ss_cache = NewLiveStateCache, ss_base = b\<rparr>)"

text \<open>The function given to \<open>kubectl.SetOnKubectlRun\<close>.\<close>

definition onKubectlRun :: "string \<Rightarrow> ('w, 'e) env_scheme \<Rightarrow> ('w, 'e) env_scheme" where
  "onKubectlRun command s = log_metric (MExec command) s"

text \<open>\<open>kubectl.go\<close>: the tracer is chosen when the package is initialised, from the environment.\<close>

datatype tracer = NopTracer | LoggingTracer NumaLogger

definition init_tracer ::
  "(string \<Rightarrow> string) \<Rightarrow> GlobalConfig \<times> go_error option \<Rightarrow> log_state \<Rightarrow> tracer \<times> log_state" where
  "init_tracer getenv cfg s =
     (if getenv ''NUMAPLANE_TRACING_ENABLED'' = ''1''
      then (case New cfg s of (nl, s') \<Rightarrow> (LoggingTracer nl, s'))
      else (NopTracer, s))"

record KubectlCmd =
  kc_Tracer :: tracer
  kc_Log :: NumaLogger

definition NewKubectl :: "tracer \<Rightarrow> GlobalConfig \<times> go_error option \<Rightarrow> log_state \<Rightarrow> KubectlCmd \<times> log_state" where
  "NewKubectl tr cfg s = (case New cfg s of (nl, s') \<Rightarrow> (\<lparr>kc_Tracer = tr, kc_Log = nl\<rparr>, s'))"

text \<open>
  The beginning of \<open>Start\<close>: the state cache is initialised, an error of which is returned; then
  \<open>workers\<close> goroutines are started beside the loop of the assigner.
\<close>

definition Start_goroutines ::
  "(('w, 'k) syncer \<Rightarrow> (('w, 'k) syncer, unit) result) \<Rightarrow> options \<Rightarrow> ('w, 'k) syncer \<Rightarrow>
   (('w, 'k) syncer, sched) result" where
  "Start_goroutines cacheInit opts s =
     bindR (cacheInit s)
       (\<lambda>_ s1. (Ok ((init_sched (nat (workers opts)))\<lparr>watch := ss_watch s1\<rparr>), s1))"

section \<open>The controller's manager\<close>

record main_flags =
  metricsAddr :: string
  probeAddr :: string
  enableLeaderElection :: bool

definition default_flags :: main_flags where
  "default_flags = \<lparr>metricsAddr = '':8080'', probeAddr = '':8081'', enableLeaderElection = True\<rparr>"

record manager_options =
  mo_MetricsBindAddress :: string
  mo_HealthProbeBindAddress :: string
  mo_LeaderElection :: bool
  mo_LeaderElectionID :: string

text \<open>
  \<open>LeaderElectionRunner\<close> makes a function a runnable that needs the leader lock. The function
  is \<open>syncer.Start\<close>, here the options of the syncer it starts.
\<close>

datatype LeaderElectionRunner = LeaderElectionRunner options

primrec LeaderElectionRunner_Start :: "LeaderElectionRunner \<Rightarrow> (options \<Rightarrow> 'a) \<Rightarrow> 'a" where
  "LeaderElectionRunner_Start (LeaderElectionRunner ler) run = run ler"

definition NeedLeaderElection :: "LeaderElectionRunner \<Rightarrow> bool" where
  "NeedLeaderElection ler = True"

text \<open>
  What \<open>SetupWithManager\<close> registers: a controller for GitSync objects that drops update events
  which leave the generation of the object as it was.
\<close>

record controller_spec =
  cs_For :: string
  cs_GenerationChanged :: bool
  cs_Reconciler :: GitSyncReconciler

record 'm main_libs =
  ParseFlags :: "main_flags \<Rightarrow> int + main_flags"
  GetConfigOrDie :: "int option"
  NewManager :: "manager_options \<Rightarrow> go_error + 'm"
  mgr_Add :: "bool \<Rightarrow> LeaderElectionRunner \<Rightarrow> 'm \<Rightarrow> go_error + 'm"
  Complete :: "controller_spec \<Rightarrow> 'm \<Rightarrow> go_error + 'm"
  AddHealthzCheck :: "string \<Rightarrow> 'm \<Rightarrow> go_error + 'm"
  AddReadyzCheck :: "string \<Rightarrow> 'm \<Rightarrow> go_error + 'm"
  mgr_Start :: "'m \<Rightarrow> go_error option"
  os_Hostname :: "go_error + string"

definition SetupWithManager :: "'m main_libs \<Rightarrow> GitSyncReconciler \<Rightarrow> 'm \<Rightarrow> go_error + 'm" where
  "SetupWithManager M r mgr = Complete M \<lparr>cs_For = ''GitSync'', cs_GenerationChanged = True, cs_Reconciler = r\<rparr> mgr"

section \<open>The controller (cmd/main.go)\<close>

text \<open>The variables of the process: the configuration manager, the base logger with all sinks, and \<open>numaLogger\<close>.\<close>

record process =
  pr_config :: ConfigManager
  pr_base :: base_state
  pr_logger :: NumaLogger

text \<open>
  The package variables, and \<open>init\<close>, which panics when a scheme cannot be registered (the two
  errors). The configuration is empty at this time.
\<close>

definition init_process :: "GlobalConfig json_api \<Rightarrow> string \<Rightarrow> process" where
  "init_process J name =
     (let cfg = GetConfig J new_ConfigManager; b = init_base cfg
      in (case New cfg (logs b) of
            (nl, s) \<Rightarrow>
              (case NumaLogger_WithName name nl s of
                 (nl', s') \<Rightarrow> \<lparr>pr_config = new_ConfigManager, pr_base = b\<lparr>logs := s'\<rparr>, pr_logger = nl'\<rparr>)))"

definition init_scheme :: "go_error option \<Rightarrow> go_error option \<Rightarrow> program_end option" where
  "init_scheme clientgo api =
     (case clientgo of
        Some e \<Rightarrow> Some Panicked
      | None \<Rightarrow> (case api of Some e \<Rightarrow> Some Panicked | None \<Rightarrow> None))"

text \<open>\<open>numaLogger.SetLevel(level); logger.SetBaseLogger(numaLogger)\<close>\<close>

definition set_log_level :: "int \<Rightarrow> process \<Rightarrow> process" where
  "set_log_level level p =
     (case SetLevel level (pr_logger p) (logs (pr_base p)) of
        (nl, s) \<Rightarrow> p\<lparr>pr_logger := nl, pr_base := SetBaseLogger nl ((pr_base p)\<lparr>logs := s\<rparr>)\<rparr>)"

text \<open>What runs once the manager has been started.\<close>

record 'm started =
  st_manager :: 'm
  st_options :: manager_options
  st_syncer :: options
  st_reconciler :: GitSyncReconciler

text \<open>A step of \<open>main\<close> that is fatal when it fails.\<close>

definition or_fatal :: "go_error + 'a \<Rightarrow> string \<Rightarrow> ('a \<Rightarrow> program_end \<times> 'b option) \<Rightarrow> program_end \<times> 'b option" where
  "or_fatal x msg k = (case x of Inl err \<Rightarrow> (fatal_end err msg, None) | Inr y \<Rightarrow> k y)"

text \<open>
  The second half of \<open>main\<close>, with the configuration in hand. The configuration manager is asked
  again by \<open>NewGitSyncReconciler\<close>: \<open>cfg\<close> is its answer then.
\<close>

definition run_manager ::
  "'m main_libs \<Rightarrow> main_flags \<Rightarrow> GlobalConfig \<Rightarrow> GlobalConfig \<times> go_error option \<Rightarrow> program_end \<times> 'm started option" where
  "run_manager M fl config cfg =
     (let opts = \<lparr>mo_MetricsBindAddress = metricsAddr fl, mo_HealthProbeBindAddress = probeAddr fl,
            mo_LeaderElection = enableLeaderElection fl, mo_LeaderElectionID = ''numaplane-controller-lock''\<rparr>
      in (case GetConfigOrDie M of
         Some c \<Rightarrow> (Died c, None)
       | None \<Rightarrow>
           or_fatal (NewManager M opts) ''Unable to get a controller-runtime manager'' (\<lambda>mgr.
           (let interval = SyncTimeIntervalMs config in
           case NewMetricsServer (os_Hostname M) of
             None \<Rightarrow> (Panicked, None)
           | Some metricServer \<Rightarrow>
               or_fatal metricServer ''Failed to initialize metric'' (\<lambda>_.
               (let syncer = apply_options [Some (WithTaskInterval interval)] defaultOptions in
               let runner = LeaderElectionRunner syncer in
               or_fatal (mgr_Add M (NeedLeaderElection runner) runner mgr) ''Unable to add syncer runner'' (\<lambda>mgr1.
               or_fatal (NewGitSyncReconciler cfg True) ''Unable to create GitSync controller'' (\<lambda>reconciler.
               or_fatal (SetupWithManager M reconciler mgr1) ''Unable to set up GitSync controller'' (\<lambda>mgr2.
               or_fatal (AddHealthzCheck M ''healthz'' mgr2) ''Unable to set up health check'' (\<lambda>mgr3.
               or_fatal (AddReadyzCheck M ''readyz'' mgr3) ''Unable to set up ready check'' (\<lambda>mgr4.
                 ((case mgr_Start M mgr4 of
                     Some err \<Rightarrow> fatal_end err ''Unable to start manager''
                   | None \<Rightarrow> Finished),
                  Some \<lparr>st_manager = mgr4, st_options = opts, st_syncer = syncer,
                        st_reconciler = reconciler\<rparr>))))))))))))"

text \<open>
  \<open>main\<close>, from the variables of the process: how it ends, what it has started, and the process
  then. \<open>f\<close> is the configuration file; \<open>reloaded\<close> is what the file watcher does to the manager
  between the two reads of it.
\<close>

definition controller_main ::
  "('f, GlobalConfig) viper_api \<Rightarrow> GlobalConfig json_api \<Rightarrow> 'm main_libs \<Rightarrow> 'f \<Rightarrow>
   (ConfigManager \<Rightarrow> ConfigManager) \<Rightarrow> process \<Rightarrow> (program_end \<times> 'm started option) \<times> process" where
  "controller_main V J M f reloaded p =
     (case ParseFlags M default_flags of
        Inl c \<Rightarrow> ((Died c, None), p)
      | Inr fl \<Rightarrow>
         (case LoadConfig V f (pr_config p) of
            (Ok _, cm) \<Rightarrow>
              (case GetConfig J cm of
                 (config, Some err) \<Rightarrow> ((fatal_end err ''Failed to get config'', None), p\<lparr>pr_config := cm\<rparr>)
               | (config, None) \<Rightarrow>
                   (let p1 = set_log_level (LogLevel config) (p\<lparr>pr_config := reloaded cm\<rparr>)
                    in (run_manager M fl config (GetConfig J (pr_config p1)), p1)))
          | (Err err, cm) \<Rightarrow> ((fatal_end err ''Failed to load config file'', None), p\<lparr>pr_config := cm\<rparr>)
          | (Panic _, cm) \<Rightarrow> ((Panicked, None), p\<lparr>pr_config := cm\<rparr>)))"

section \<open>The agent (cmd/agent/main.go)\<close>

text \<open>
  The agent's manager of its own configuration is separate from the process, whose \<open>pr_config\<close> the
  agent never loads. What it starts is \<open>Run\<close>, which does not return, in the state given.
\<close>

definition agent_main ::
  "('f, AgentConfig) viper_api \<Rightarrow> AgentConfig json_api \<Rightarrow> 'f \<Rightarrow> process \<Rightarrow>
   (program_end + agent_state) \<times> process" where
  "agent_main V J f p =
     (case agent_LoadConfig V f new_AgentConfigManager of
        (Ok _, cm) \<Rightarrow>
          (case agent_GetConfig J cm of
             (config, _, Some err) \<Rightarrow> (Inl (fatal_end err ''Failed to get configuration file''), p)
           | (config, _, None) \<Rightarrow>
               (let p1 = set_log_level (ac_LogLevel config) p
                in (Inr (agent_init cm (pr_logger p1) (logs (pr_base p1))), p1)))
      | (Err err, cm) \<Rightarrow> (Inl (fatal_end err ''Failed to load configuration file''), p)
      | (Panic _, cm) \<Rightarrow> (Inl Panicked, p))"

section \<open>Lemmas\<close>

lemma or_fatal_started:
  "or_fatal x msg k = (e, Some st) \<longleftrightarrow> (\<exists>y. x = Inr y \<and> k y = (e, Some st))"
  "snd (or_fatal x msg k) = None \<longleftrightarrow> (\<exists>err. x = Inl err) \<or> (\<exists>y. x = Inr y \<and> snd (k y) = None)"
  by (cases x; simp add: or_fatal_def)+

lemma init_process_level:
  "zl_global (logs (pr_base (init_process J name))) = -2"
proof -
  obtain nl s where n: "New (GetConfig J new_ConfigManager) (logs (init_base (GetConfig J new_ConfigManager))) = (nl, s)"
    by fastforce
  have "zl_global s = -2"
    using has_level_New [OF n] by (simp add: has_level_def)
  then show ?thesis
    by (simp add: init_process_def Let_def n NumaLogger_WithName_def derive_def alloc_sink_def)
qed

lemma set_log_level_has:
  assumes "zl_global (logs (pr_base p)) = -2"
  shows "has_level (logs (pr_base (set_log_level n p))) (GetBaseLogger (pr_base (set_log_level n p))) n"
    and "has_level (logs (pr_base (set_log_level n p))) (pr_logger (set_log_level n p)) n"
    and "pr_config (set_log_level n p) = pr_config p"
  using assms
  by (simp_all add: set_log_level_def SetLevel_def SetBaseLogger_def GetBaseLogger_def NumaLogger_DeepCopy_def
      has_level_def)

lemma syncer_options: "WithTaskInterval n defaultOptions = \<lparr>workers = 20, taskInterval = n\<rparr>"
  by (simp add: WithTaskInterval_def defaultOptions_def)

text \<open>What the manager was started with, if it was started.\<close>

lemma run_manager_started:
  assumes "run_manager M fl config cfg = (e, Some st)"
  shows "(e = Finished \<or> (\<exists>err. e = fatal_end err ''Unable to start manager'')) \<and>
    st_syncer st = \<lparr>workers = 20, taskInterval = SyncTimeIntervalMs config\<rparr> \<and>
    snd cfg = None \<and> st_reconciler st = \<lparr>clusterName = ClusterName (fst cfg), has_syncer = True\<rparr> \<and>
    mo_LeaderElection (st_options st) = enableLeaderElection fl"
  using assms
  by (auto simp: run_manager_def Let_def or_fatal_started syncer_options NewGitSyncReconciler_def
      split: option.splits prod.splits)

lemma run_manager_not_started: "snd (run_manager M fl config cfg) = None \<Longrightarrow> fst (run_manager M fl config cfg) \<noteq> Finished"
  by (auto simp: run_manager_def Let_def or_fatal_def fatal_end_def split: option.splits sum.splits)

lemma controller_main_cases:
  assumes "controller_main V J M f reloaded p = ((e, r), p')"
  obtains (early) "r = None" "e \<noteq> Finished"
    | (late) fl cm config where "ParseFlags M default_flags = Inr fl" "LoadConfig V f (pr_config p) = (Ok (), cm)"
      "GetConfig J cm = (config, None)" "p' = set_log_level (LogLevel config) (p\<lparr>pr_config := reloaded cm\<rparr>)"
      "run_manager M fl config (GetConfig J (reloaded cm)) = (e, r)"
proof -
  note set = set_log_level_def SetLevel_def
  show thesis
    using assms early late
    by (auto simp: controller_main_def fatal_end_def Let_def set split: sum.splits prod.splits outcome.splits option.splits)
qed

section \<open>Properties\<close>

text \<open>
  C23. The controller starts as it is configured, or not at all. If the manager has been started,
  every step before succeeded; the syncer has twenty workers and the interval of the
  configuration file, the reconciler has the cluster name the file had when it was created, the
  base logger has the configured level, leader election is as the flag says, and the program
  ends with success or with the error of the manager. If it has not been started, the program
  did not end with success.
\<close>

theorem controller_starts_as_configured:
  assumes "controller_main V J M f reloaded (init_process J name) = ((e, r), p)"
  shows "case r of
      None \<Rightarrow> e \<noteq> Finished
    | Some st \<Rightarrow>
        (e = Finished \<or> (\<exists>err. e = fatal_end err ''Unable to start manager'')) \<and>
        (\<exists>fl cm config. ParseFlags M default_flags = Inr fl \<and> LoadConfig V f new_ConfigManager = (Ok (), cm) \<and>
           GetConfig J cm = (config, None) \<and>
           st_syncer st = \<lparr>workers = 20, taskInterval = SyncTimeIntervalMs config\<rparr> \<and>
           clusterName (st_reconciler st) = ClusterName (fst (GetConfig J (pr_config p))) \<and>
           mo_LeaderElection (st_options st) = enableLeaderElection fl \<and>
           has_level (logs (pr_base p)) (GetBaseLogger (pr_base p)) (LogLevel config))"
  using assms
proof (cases rule: controller_main_cases)
  case early
  then show ?thesis by simp
next
  case (late fl cm config)
  have cm: "LoadConfig V f new_ConfigManager = (Ok (), cm)"
    using late(2) by (simp add: init_process_def Let_def split: prod.splits)
  show ?thesis
  proof (cases r)
    case None
    then show ?thesis
      using late(5) run_manager_not_started [of M fl config "GetConfig J (reloaded cm)"] by simp
  next
    case (Some st)
    have "zl_global (logs (pr_base ((init_process J name)\<lparr>pr_config := reloaded cm\<rparr>))) = -2"
      using init_process_level by simp
    from set_log_level_has(1,3) [OF this, of "LogLevel config"]
    have "has_level (logs (pr_base p)) (GetBaseLogger (pr_base p)) (LogLevel config)" and "pr_config p = reloaded cm"
      by (simp_all add: late(4))
    then show ?thesis
      using run_manager_started [of M fl config "GetConfig J (reloaded cm)" e st] late cm Some by auto
  qed
qed

text \<open>A manager that accepts everything and counts what is added, and a configuration file with a cluster name.\<close>

definition easy_main :: "nat main_libs" where
  "easy_main =
     \<lparr>ParseFlags = Inr, GetConfigOrDie = None, NewManager = (\<lambda>opts. Inr 0), mgr_Add = (\<lambda>leader r m. Inr (Suc m)),
      Complete = (\<lambda>c m. Inr (Suc m)), AddHealthzCheck = (\<lambda>n m. Inr (Suc m)), AddReadyzCheck = (\<lambda>n m. Inr (Suc m)),
      mgr_Start = (\<lambda>m. None), os_Hostname = Inr ''host''\<rparr>"

lemma easy_registers: "\<exists>m. NewMetricsServer (Inr h) = Some (Inr m)"
  using MustRegister_all_distinct [OF all_metrics_distinct] by (simp add: NewMetricsServer_def)

lemma easy_main_runs:
  "\<exists>st p. controller_main name_viper name_json easy_main ''prod'' (\<lambda>cm. cm) (init_process name_json ''controller-manager'') =
     ((Finished, Some st), p) \<and> st_manager st = 4"
proof -
  obtain m where "NewMetricsServer (Inr ''host'') = Some (Inr m)"
    using easy_registers by blast
  moreover have "pr_config (init_process name_json ''controller-manager'') = new_ConfigManager"
    by (simp add: init_process_def Let_def split: prod.splits)
  ultimately show ?thesis
    by (simp add: controller_main_def run_manager_def or_fatal_def SetupWithManager_def NewGitSyncReconciler_def
        easy_main_def LoadConfig_def GetConfig_def CloneWithSerialization_def name_viper_def name_json_def
        new_ConfigManager_def zero_GlobalConfig_def set_log_level_def SetLevel_def Let_def)
qed

theorem controller_starts_as_configured_witness:
  "\<exists>st p. controller_main name_viper name_json easy_main ''prod'' (\<lambda>cm. cm)
      (init_process name_json ''controller-manager'') = ((Finished, Some st), p) \<and>
    st_syncer st = \<lparr>workers = 20, taskInterval = 0\<rparr>"
proof -
  obtain st p where run: "controller_main name_viper name_json easy_main ''prod'' (\<lambda>cm. cm)
      (init_process name_json ''controller-manager'') = ((Finished, Some st), p)"
    using easy_main_runs by blast
  obtain cm config where "LoadConfig name_viper ''prod'' new_ConfigManager = (Ok (), cm)"
      and "GetConfig name_json cm = (config, None)"
      and "st_syncer st = \<lparr>workers = 20, taskInterval = SyncTimeIntervalMs config\<rparr>"
    using controller_starts_as_configured [OF run] by auto
  moreover from this have "SyncTimeIntervalMs config = 0"
    by (auto simp: LoadConfig_def name_viper_def new_ConfigManager_def GetConfig_def CloneWithSerialization_def
        name_json_def zero_GlobalConfig_def)
  ultimately show ?thesis
    using run by auto
qed

text \<open>
  C19. The interval is never the default. Whatever the manager does, a configuration file without
  \<open>syncTimeIntervalMs\<close> gives the started syncer the interval zero, not the thirty seconds of
  \<open>defaultOptions\<close>: the assigner does not pause at all while no key is watched, and one
  millisecond otherwise.
\<close>

theorem unset_interval_spins:
  assumes "run_manager M fl config cfg = (e, Some st)" and "SyncTimeIntervalMs config = 0"
  shows "sleep_ms (st_syncer st) l = (if l = 0 then 0 else 1)"
  using run_manager_started [OF assms(1)] assms(2) by (simp add: sleep_ms_def go_quot_def)

theorem unset_interval_spins_witness:
  "\<exists>e st. run_manager easy_main default_flags zero_GlobalConfig (zero_GlobalConfig, None) = (e, Some st) \<and>
    sleep_ms (st_syncer st) 0 = 0"
proof -
  obtain m where "NewMetricsServer (Inr ''host'') = Some (Inr m)"
    using easy_registers by blast
  then have "\<exists>e st. run_manager easy_main default_flags zero_GlobalConfig (zero_GlobalConfig, None) = (e, Some st)"
    by (simp add: run_manager_def or_fatal_def SetupWithManager_def NewGitSyncReconciler_def easy_main_def Let_def)
  then obtain e st where run: "run_manager easy_main default_flags zero_GlobalConfig (zero_GlobalConfig, None) = (e, Some st)"
    by blast
  have "sleep_ms (st_syncer st) 0 = 0"
    using unset_interval_spins [OF run, of 0] by (simp add: zero_GlobalConfig_def)
  with run show ?thesis by blast
qed

text \<open>
  The agent starts in the initial state of its step relation, with the configuration
  it could load, and its logger has the level of that configuration.
\<close>

theorem agent_starts_as_configured:
  assumes "agent_main V J f (init_process JC name) = (Inr x, p)"
  shows "\<exists>cm nl config. x = agent_init cm nl (logs (pr_base p)) \<and> agent_LoadConfig V f new_AgentConfigManager = (Ok (), cm) \<and>
    agent_GetConfig J cm = (config, revisionIndex cm, None) \<and> has_level (logs (pr_base p)) nl (ac_LogLevel config)"
proof -
  obtain o1 cm where load: "agent_LoadConfig V f new_AgentConfigManager = (o1, cm)"
    by fastforce
  obtain config err where get: "agent_GetConfig J cm = (config, revisionIndex cm, err)"
    by (cases "agent_CloneWithSerialization J (acm_config cm)") (simp_all add: agent_GetConfig_def)
  have ok: "o1 = Ok ()" "err = None"
    using assms by (cases o1; cases err; simp add: agent_main_def load get)+
  then have "x = agent_init cm (pr_logger p) (logs (pr_base p))"
      and "p = set_log_level (ac_LogLevel config) (init_process JC name)"
    using assms by (simp_all add: agent_main_def load get Let_def) auto
  with load get ok set_log_level_has(2) [OF init_process_level] show ?thesis by blast
qed

end
