(* ===== verification/Controller.thy ===== *)
theory Controller
  imports Startup
begin

text \<open>
  The controller as a whole. First the operations of the reconciler and the workers as a labelled step
  relation on the syncer; each label is what the step was told by the API server, and a history of
  them determines the set of watched keys. Then the running program, in which the goroutines of
  \<open>Scheduler\<close> carry out these operations.
\<close>

section \<open>The controller as a whole\<close>

text \<open>
  What a step finds out: the reconciler reads an object; a worker reads the object of its key, if
  the key is one; and either of them may process a deletion, with success or not.
\<close>

datatype observation =
    Nothing_read
  | Reconciler_read "go_error + GitSync" bool
  | Worker_read string "go_error + GitSync" bool

definition deletion_done ::
  "('w, 'k, 'key, 'u, 'r, 't, 'p, 'rec, 'd) sync_libs \<Rightarrow> GlobalConfig \<times> go_error option \<Rightarrow> ('w, 'k) syncer \<Rightarrow>
   go_error + GitSync \<Rightarrow> bool" where
  "deletion_done L cfg s answer =
     (case answer of
        Inl e \<Rightarrow> False
      | Inr g \<Rightarrow> fst (ProcessGitSyncDeletion L cfg g (s\<lparr>ss_base := RefreshBaseLoggerLevel cfg (ss_base s)\<rparr>)) = Ok ())"

text \<open>
  The reconciler and the workers act on one syncer while the world changes around them. A step
  is the initialisation of the cache by \<open>Start\<close>, one reconciliation, one run of a worker on any
  key, a run of kubectl, or a change of the world; the clock readings and the configuration are
  arbitrary. The label has the answer of the API server at that moment.
\<close>

inductive ctl_step ::
  "('w, 'k, 'key, 'u, 'r, 't, 'p, 'rec, 'd) sync_libs \<Rightarrow> 'w ctl_libs \<Rightarrow> GitSyncReconciler \<Rightarrow>
   ('w, 'k) syncer \<Rightarrow> observation \<Rightarrow> ('w, 'k) syncer \<Rightarrow> bool"
  for L A r where
  cache_initialised: "ctl_step L A r s Nothing_read (snd (on_cache (Init cfg) s))"
| kubectl_ran: "ctl_step L A r s Nothing_read (onKubectlRun command s)"
| reconciled: "answer = Get_GitSync L ns n (ext s) \<Longrightarrow>
    ctl_step L A r s (Reconciler_read answer (deletion_done L cfg s answer)) (snd (Reconcile L A r cfg now1 now2 ns n s))"
| worker_ran: "Split key (CHR ''/'') = [ns, n] \<Longrightarrow> answer = Get_GitSync L ns n (ext s) \<Longrightarrow>
    ctl_step L A r s (Worker_read key answer (deletion_done L cfg s answer)) (snd (runOnce L cfg now lat dur key s))"
| worker_refused: "\<nexists>ns n. Split key (CHR ''/'') = [ns, n] \<Longrightarrow>
    ctl_step L A r s Nothing_read (snd (runOnce L cfg now lat dur key s))"
| world_changed: "ctl_step L A r s Nothing_read (s\<lparr>ext := w\<rparr>)"

inductive ctl_run ::
  "('w, 'k, 'key, 'u, 'r, 't, 'p, 'rec, 'd) sync_libs \<Rightarrow> 'w ctl_libs \<Rightarrow> GitSyncReconciler \<Rightarrow>
   ('w, 'k) syncer \<Rightarrow> observation list \<Rightarrow> ('w, 'k) syncer \<Rightarrow> bool"
  for L A r s0 where
  run_nil: "ctl_run L A r s0 [] s0"
| run_step: "ctl_run L A r s0 os s \<Longrightarrow> ctl_step L A r s o' s' \<Longrightarrow> ctl_run L A r s0 (os @ [o']) s'"

definition ctl_moves ::
  "('w, 'k, 'key, 'u, 'r, 't, 'p, 'rec, 'd) sync_libs \<Rightarrow> 'w ctl_libs \<Rightarrow> GitSyncReconciler \<Rightarrow>
   ('w, 'k) syncer \<Rightarrow> ('w, 'k) syncer \<Rightarrow> bool" where
  "ctl_moves L A r s s' \<longleftrightarrow> (\<exists>o'. ctl_step L A r s o' s')"

text \<open>A GitSync this controller may synchronise: for its cluster, valid, not being deleted.\<close>

definition accepted :: "'w ctl_libs \<Rightarrow> GitSyncReconciler \<Rightarrow> GitSync \<Rightarrow> bool" where
  "accepted A r g \<longleftrightarrow>
     ContainsClusterDestination (gs_Spec g) (clusterName r) \<and> validate A g = None \<and> \<not> being_deleted g"

text \<open>
  The specification: the set of keys to watch as a function of what was read. The key of an object
  the reconciler reads enters when the object is accepted. A key leaves when the reconciler reads its object,
  for this cluster, being deleted, and a worker when it reads that the object is gone or being
  deleted; a deletion must have been processed. Nothing else changes the set.
\<close>

definition reconciler_keys :: "'w ctl_libs \<Rightarrow> GitSyncReconciler \<Rightarrow> GitSync \<Rightarrow> bool \<Rightarrow> string set \<Rightarrow> string set" where
  "reconciler_keys A r g processed K =
     (if \<not> has_syncer r then K
      else if accepted A r g then insert (KeyOfGitSync g) K
      else if ContainsClusterDestination (gs_Spec g) (clusterName r) \<and> being_deleted g \<and> processed then K - {KeyOfGitSync g}
      else K)"

definition worker_keys :: "string \<Rightarrow> go_error + GitSync \<Rightarrow> bool \<Rightarrow> string set \<Rightarrow> string set" where
  "worker_keys key answer processed K =
     (if (case answer of Inl e \<Rightarrow> IsNotFound e | Inr g \<Rightarrow> being_deleted g \<and> processed) then K - {key} else K)"

fun next_keys :: "'w ctl_libs \<Rightarrow> GitSyncReconciler \<Rightarrow> observation \<Rightarrow> string set \<Rightarrow> string set" where
  "next_keys A r Nothing_read K = K"
| "next_keys A r (Reconciler_read (Inl e) processed) K = K"
| "next_keys A r (Reconciler_read (Inr g) processed) K = reconciler_keys A r g processed K"
| "next_keys A r (Worker_read key answer processed) K = worker_keys key answer processed K"

definition watched_keys :: "('w, 'k) syncer \<Rightarrow> string set" where
  "watched_keys s = set (watched (ss_watch s))"

lemma watched_keys_Contains: "watch_inv (ss_watch s) \<Longrightarrow> Contains key (ss_watch s) \<longleftrightarrow> key \<in> watched_keys s"
  by (simp add: watched_keys_def watch_inv_has)

lemma set_q: "set (q_start k q) = insert k (set q)" "set (q_stop k q) = set q - {k}"
  by (auto simp: q_start_def q_stop_def)

text \<open>What each kind of step does to the watch list.\<close>

lemma watch_worker:
  assumes "Split key (CHR ''/'') = [ns, n]"
  shows "ss_watch (snd (runOnce L cfg now lat dur key s)) =
    (if (case Get_GitSync L ns n (ext s) of
           Inl e \<Rightarrow> IsNotFound e
         | Inr g \<Rightarrow> being_deleted g \<and> deletion_done L cfg s (Inr g))
     then StopWatching key (ss_watch s) else ss_watch s)"
proof -
  have later: "ss_watch (snd (deferred (log_metric c) x)) = ss_watch (snd x)" for c and x :: "(('a, 'b) syncer, unit) result"
    by (simp add: deferred_def split: prod.split)
  show ?thesis
    by (auto simp: runOnce_def Let_def assms later watch_delete_gitsync watch_sync_revision deletion_done_def split: sum.split)
qed

lemma watch_worker_refused:
  "\<nexists>ns n. Split key (CHR ''/'') = [ns, n] \<Longrightarrow> ss_watch (snd (runOnce L cfg now lat dur key s)) = ss_watch s"
  by (auto simp: runOnce_def Let_def split: list.split)

lemma watch_runOnce:
  "ss_watch (snd (runOnce L cfg now lat dur key s)) \<in> {ss_watch s, StopWatching key (ss_watch s)}"
  using watch_worker [of key _ _ L cfg now lat dur s] watch_worker_refused [of key L cfg now lat dur s]
  by (cases "\<exists>ns n. Split key (CHR ''/'') = [ns, n]") auto

lemma watch_reconciler:
  "ss_watch (snd (Reconcile L A r cfg now1 now2 ns n s)) =
    (case Get_GitSync L ns n (ext s) of
       Inl e \<Rightarrow> ss_watch s
     | Inr g \<Rightarrow>
         if has_syncer r \<and> accepted A r g then StartWatching (KeyOfGitSync g) (ss_watch s)
         else if has_syncer r \<and> ContainsClusterDestination (gs_Spec g) (clusterName r) \<and> being_deleted g \<and>
           deletion_done L cfg s (Inr g) then StopWatching (KeyOfGitSync g) (ss_watch s)
         else ss_watch s)"
proof (cases "Get_GitSync L ns n (ext s)")
  case (Inr g)
  let ?g = "g\<lparr>gs_Status := InitConditions now1 (gs_Status g)\<rparr>"
  let ?s = "s\<lparr>ss_base := RefreshBaseLoggerLevel cfg (ss_base s)\<rparr>"
  obtain x g' s1 where r: "reconcile L A r cfg now2 ?g ?s = (x, g', s1)"
    by (cases "reconcile L A r cfg now2 ?g ?s") auto
  then have "ss_watch (snd (Reconcile L A r cfg now1 now2 ns n s)) = ss_watch s1"
    using Inr by (cases x) (simp_all add: Reconcile_def)
  then show ?thesis
    using r reconcile_watch [of L A r cfg now2 ?g ?s] Inr by (auto simp: accepted_def deletion_done_def)
qed (simp add: Reconcile_def Let_def)

lemma watch_Reconcile:
  "ss_watch (snd (Reconcile L A r cfg now1 now2 ns n s)) = ss_watch s \<or>
   (\<exists>key. ss_watch (snd (Reconcile L A r cfg now1 now2 ns n s)) = StopWatching key (ss_watch s)) \<or>
   (\<exists>g. Get_GitSync L ns n (ext s) = Inr g \<and> accepted A r g \<and>
      ss_watch (snd (Reconcile L A r cfg now1 now2 ns n s)) = StartWatching (KeyOfGitSync g) (ss_watch s))"
  by (auto simp: watch_reconciler split: sum.split)

text \<open>A step does to the watched keys what the specification says for what it read.\<close>

lemma ctl_step_keys:
  assumes "ctl_step L A r s o' s'" and "watch_inv (ss_watch s)"
  shows "watch_inv (ss_watch s') \<and> watched_keys s' = next_keys A r o' (watched_keys s)"
  using assms(1)
proof cases
  case (reconciled answer ns n cfg now1 now2)
  then show ?thesis
    using assms(2) watch_reconciler [of L A r cfg now1 now2 ns n s]
    by (cases "Get_GitSync L ns n (ext s)") (simp_all add: watched_keys_def watched_start watched_stop watch_inv_start watch_inv_stop set_q
        reconciler_keys_def)
next
  case (worker_ran key ns n answer cfg now lat dur)
  then show ?thesis
    using assms(2) watch_worker [OF worker_ran(3), of L cfg now lat dur s]
    by (cases "Get_GitSync L ns n (ext s)") (simp_all add: watched_keys_def watched_stop watch_inv_stop set_q worker_keys_def)
next
  case (worker_refused key cfg now lat dur)
  then show ?thesis
    using assms(2) watch_worker_refused [OF worker_refused(3), of L cfg now lat dur s] by (simp add: watched_keys_def)
qed (use assms(2) in \<open>simp_all add: watched_keys_def onKubectlRun_def log_metric_def\<close>)

lemma ctl_run_keys:
  assumes "ctl_run L A r s os s'" and "watch_inv (ss_watch s)"
  shows "watch_inv (ss_watch s') \<and> watched_keys s' = fold (next_keys A r) os (watched_keys s)"
  using assms(1)
proof induction
  case (run_step os t o' t')
  then show ?case using ctl_step_keys [OF run_step(2)] by simp
qed (simp add: assms(2))

lemma ctl_moves_run: "(ctl_moves L A r)\<^sup>*\<^sup>* s s' \<Longrightarrow> \<exists>os. ctl_run L A r s os s'"
proof (induction rule: rtranclp_induct)
  case base
  show ?case by (blast intro: run_nil)
next
  case (step y z)
  then show ?case by (auto simp: ctl_moves_def intro: run_step)
qed

lemma ctl_moves_watch_inv: "(ctl_moves L A r)\<^sup>*\<^sup>* s s' \<Longrightarrow> watch_inv (ss_watch s) \<Longrightarrow> watch_inv (ss_watch s')"
  using ctl_moves_run ctl_run_keys by blast

text \<open>A key enters only by a reconciliation that read the accepted object it belongs to.\<close>

lemma ctl_moves_enters:
  assumes "ctl_moves L A r s s'" and "watch_inv (ss_watch s)" and "key \<notin> watched_keys s" and "key \<in> watched_keys s'"
  shows "\<exists>cfg now1 now2 ns n g. Get_GitSync L ns n (ext s) = Inr g \<and> has_syncer r \<and> accepted A r g \<and>
    KeyOfGitSync g = key \<and> s' = snd (Reconcile L A r cfg now1 now2 ns n s)"
proof -
  obtain o' where step: "ctl_step L A r s o' s'"
    using assms(1) by (auto simp: ctl_moves_def)
  then have new: "key \<in> next_keys A r o' (watched_keys s)"
    using ctl_step_keys [OF _ assms(2)] assms(4) by blast
  from step show ?thesis
  proof cases
    case (reconciled answer ns n cfg now1 now2)
    then show ?thesis
      using new assms(3) by (cases answer) (fastforce simp: reconciler_keys_def split: if_splits)+
  next
    case (worker_ran key' ns n answer cfg now lat dur)
    then show ?thesis
      using new assms(3) by (auto simp: worker_keys_def split: if_splits)
  qed (use new assms(3) in auto)
qed

text \<open>A step during which a key stays watched.\<close>

definition stays_watched ::
  "('w, 'k, 'key, 'u, 'r, 't, 'p, 'rec, 'd) sync_libs \<Rightarrow> 'w ctl_libs \<Rightarrow> GitSyncReconciler \<Rightarrow> string \<Rightarrow>
   ('w, 'k) syncer \<Rightarrow> ('w, 'k) syncer \<Rightarrow> bool" where
  "stays_watched L A r key s s' \<longleftrightarrow>
     ctl_moves L A r s s' \<and> Contains key (ss_watch s) \<and> Contains key (ss_watch s')"

lemma watched_since:
  assumes run: "(ctl_moves L A r)\<^sup>*\<^sup>* s0 s" and inv: "watch_inv (ss_watch s0)"
    and "key \<notin> watched_keys s0" and "key \<in> watched_keys s"
  shows "\<exists>s1 cfg now1 now2 ns n g. (ctl_moves L A r)\<^sup>*\<^sup>* s0 s1 \<and> Get_GitSync L ns n (ext s1) = Inr g \<and>
    accepted A r g \<and> KeyOfGitSync g = key \<and> \<not> Contains key (ss_watch s1) \<and>
    (stays_watched L A r key)\<^sup>*\<^sup>* (snd (Reconcile L A r cfg now1 now2 ns n s1)) s"
  using run assms(4)
proof (induction rule: rtranclp_induct)
  case base
  with assms(3) show ?case by simp
next
  case (step y z)
  note inv_y = ctl_moves_watch_inv [OF step(1) inv]
  note inv_z = ctl_moves_watch_inv [OF rtranclp.rtrancl_into_rtrancl [OF step(1,2)] inv]
  show ?case
  proof (cases "key \<in> watched_keys y")
    case True
    with step(2,4) have "stays_watched L A r key y z"
      by (simp add: stays_watched_def watched_keys_Contains inv_y inv_z)
    with step(3) [OF True] show ?thesis
      by (blast intro: rtranclp.rtrancl_into_rtrancl)
  next
    case False
    then have "\<not> Contains key (ss_watch y)"
      by (simp add: watched_keys_Contains inv_y)
    with ctl_moves_enters [OF step(2) inv_y False step(4)] step(1) show ?thesis
      by blast
  qed
qed

section \<open>The running program\<close>

text \<open>
  The goroutines with the syncer they work on. The assigner and the end of a worker are steps of
  the scheduler. A worker busy with a key carries out \<open>runOnce\<close> on it, and the reconciler
  \<open>Reconcile\<close>; each is one step here, which may change the watch list only while nobody else
  holds the lock, and does not end in a panic, which would be the end of the program.
\<close>

record ('w, 'k) program =
  goroutines :: sched
  the_syncer :: "('w, 'k) syncer"

definition panics :: "('s, 'a) result \<Rightarrow> bool" where
  "panics r \<longleftrightarrow> (case fst r of Panic p \<Rightarrow> True | _ \<Rightarrow> False)"

definition may_commit :: "('w, 'k) program \<Rightarrow> (('w, 'k) syncer, unit) result \<Rightarrow> bool" where
  "may_commit p r \<longleftrightarrow> \<not> panics r \<and>
     (locked (goroutines p) \<longrightarrow> ss_watch (snd r) = ss_watch (the_syncer p))"

inductive program_step ::
  "('w, 'k, 'key, 'u, 'r, 't, 'p, 'rec, 'd) sync_libs \<Rightarrow> 'w ctl_libs \<Rightarrow> GitSyncReconciler \<Rightarrow>
   ('w, 'k) program \<Rightarrow> ('w, 'k) program \<Rightarrow> bool"
  for L A r where
  assigner_moved: "sched_step TAssigner (goroutines p) g \<Longrightarrow>
    program_step L A r p \<lparr>goroutines = g, the_syncer = (the_syncer p)\<lparr>ss_watch := watch g\<rparr>\<rparr>"
| worker_exited: "i < length (pool (goroutines p)) \<Longrightarrow> pool (goroutines p) ! i = WIdle \<Longrightarrow> ctx_done (goroutines p) \<Longrightarrow>
    program_step L A r p (p\<lparr>goroutines := (goroutines p)\<lparr>pool := (pool (goroutines p))[i := WExited]\<rparr>\<rparr>)"
| worker_done: "i < length (pool (goroutines p)) \<Longrightarrow> pool (goroutines p) ! i = WBusy key \<Longrightarrow>
    run = runOnce L cfg now lat dur key (the_syncer p) \<Longrightarrow> may_commit p run \<Longrightarrow>
    program_step L A r p
      \<lparr>goroutines = (goroutines p)\<lparr>watch := ss_watch (snd run), pool := (pool (goroutines p))[i := WIdle]\<rparr>,
       the_syncer = snd run\<rparr>"
| reconciler_done: "run = Reconcile L A r cfg now1 now2 ns n (the_syncer p) \<Longrightarrow> may_commit p run \<Longrightarrow>
    program_step L A r p \<lparr>goroutines = (goroutines p)\<lparr>watch := ss_watch (snd run)\<rparr>, the_syncer = snd run\<rparr>"
| cancelled: "program_step L A r p (p\<lparr>goroutines := (goroutines p)\<lparr>ctx_done := True\<rparr>\<rparr>)"
| kubectl_done: "program_step L A r p (p\<lparr>the_syncer := onKubectlRun command (the_syncer p)\<rparr>)"
| outside_world: "program_step L A r p (p\<lparr>the_syncer := (the_syncer p)\<lparr>ext := w\<rparr>\<rparr>)"

text \<open>The keys being sent or worked on.\<close>

definition in_flight :: "sched \<Rightarrow> string set" where
  "in_flight g = {k. assigner g = ASending k} \<union> {k. WBusy k \<in> set (pool g) \<or> WStopping k \<in> set (pool g)}"

text \<open>A reconciliation that reads an accepted object in the API server and has its key watched.\<close>

definition key_added ::
  "('w, 'k, 'key, 'u, 'r, 't, 'p, 'rec, 'd) sync_libs \<Rightarrow> 'w ctl_libs \<Rightarrow> GitSyncReconciler \<Rightarrow> string \<Rightarrow>
   ('w, 'k) program \<Rightarrow> ('w, 'k) program \<Rightarrow> bool" where
  "key_added L A r key p q \<longleftrightarrow>
     (\<exists>cfg now1 now2 ns n g. Get_GitSync L ns n (ext (the_syncer p)) = Inr g \<and> accepted A r g \<and> KeyOfGitSync g = key \<and>
        the_syncer q = snd (Reconcile L A r cfg now1 now2 ns n (the_syncer p)) \<and>
        key \<notin> watched_keys (the_syncer p) \<and> key \<in> watched_keys (the_syncer q))"

text \<open>In the run from \<open>p0\<close> to \<open>p\<close> there is such a step for the key.\<close>

definition was_added ::
  "('w, 'k, 'key, 'u, 'r, 't, 'p, 'rec, 'd) sync_libs \<Rightarrow> 'w ctl_libs \<Rightarrow> GitSyncReconciler \<Rightarrow>
   ('w, 'k) program \<Rightarrow> ('w, 'k) program \<Rightarrow> string \<Rightarrow> bool" where
  "was_added L A r p0 p key \<longleftrightarrow>
     (\<exists>p1 p2. (program_step L A r)\<^sup>*\<^sup>* p0 p1 \<and> program_step L A r p1 p2 \<and> key_added L A r key p1 p2 \<and>
        (program_step L A r)\<^sup>*\<^sup>* p2 p)"

definition program_inv ::
  "('w, 'k, 'key, 'u, 'r, 't, 'p, 'rec, 'd) sync_libs \<Rightarrow> 'w ctl_libs \<Rightarrow> GitSyncReconciler \<Rightarrow>
   ('w, 'k) program \<Rightarrow> ('w, 'k) program \<Rightarrow> bool" where
  "program_inv L A r p0 p \<longleftrightarrow>
     watch (goroutines p) = ss_watch (the_syncer p) \<and> watch_inv (watch (goroutines p)) \<and>
     (program_step L A r)\<^sup>*\<^sup>* p0 p \<and>
     (\<forall>k \<in> in_flight (goroutines p) \<union> watched_keys (the_syncer p). was_added L A r p0 p k)"

lemma was_added_step: "was_added L A r p0 p key \<Longrightarrow> program_step L A r p q \<Longrightarrow> was_added L A r p0 q key"
  unfolding was_added_def by (meson rtranclp.rtrancl_into_rtrancl)

lemma was_added_now:
  "(program_step L A r)\<^sup>*\<^sup>* p0 p \<Longrightarrow> program_step L A r p q \<Longrightarrow> key_added L A r key p q \<Longrightarrow> was_added L A r p0 q key"
  unfolding was_added_def by blast

lemma sched_reach1: "sched_step th s t \<Longrightarrow> sched_reach s t"
  by (rule reach_step [OF reach_refl])

lemma sched_reach_worker_done:
  assumes "i < length (pool g)" and "pool g ! i = WBusy k"
    and "w = watch g \<or> \<not> locked g \<and> w = StopWatching k (watch g)"
  shows "sched_reach g (g\<lparr>watch := w, pool := (pool g)[i := WIdle]\<rparr>)"
  using assms(3)
proof
  assume "w = watch g"
  then have "g\<lparr>watch := w, pool := (pool g)[i := WIdle]\<rparr> = g\<lparr>pool := (pool g)[i := WIdle]\<rparr>"
    by simp
  then show ?thesis
    using sched_reach1 [OF run_return [OF assms(1,2)]] by simp
next
  assume w: "\<not> locked g \<and> w = StopWatching k (watch g)"
  let ?t = "g\<lparr>pool := (pool g)[i := WStopping k]\<rparr>"
  have "sched_step (TWorker i) ?t (?t\<lparr>watch := StopWatching k (watch ?t), pool := (pool ?t)[i := WIdle]\<rparr>)"
    using assms(1) w by (intro run_stopped) (simp_all add: locked_def)
  from reach_step [OF sched_reach1 [OF run_stop [OF assms(1,2)]] this] w show ?thesis
    by simp
qed

lemma sched_reach_reconciler_done:
  assumes "w = watch g \<or> \<not> locked g \<and> (\<exists>k. w = StopWatching k (watch g) \<or> w = StartWatching k (watch g))"
  shows "sched_reach g (g\<lparr>watch := w\<rparr>)"
  using assms sched_reach1 [OF rec_start] sched_reach1 [OF rec_stop] by (auto intro: reach_refl)

lemma program_step_sched:
  assumes "program_step L A r p q" and "watch (goroutines p) = ss_watch (the_syncer p)"
  shows "sched_reach (goroutines p) (goroutines q) \<and> watch (goroutines q) = ss_watch (the_syncer q)"
  using assms(1)
proof cases
  case (assigner_moved g)
  then show ?thesis by (simp add: sched_reach1)
next
  case (worker_exited i)
  then show ?thesis
    using sched_reach1 [OF run_exit [of i "goroutines p"]] assms(2) by simp
next
  case (worker_done i key run cfg now lat dur)
  then show ?thesis
    using sched_reach_worker_done [of i "goroutines p" key "ss_watch (snd run)"] assms(2)
      watch_runOnce [of L cfg now lat dur key "the_syncer p"]
    by (auto simp: may_commit_def)
next
  case (reconciler_done run cfg now1 now2 ns n)
  then show ?thesis
    using sched_reach_reconciler_done [of "ss_watch (snd run)" "goroutines p"] assms(2)
      watch_Reconcile [of L A r cfg now1 now2 ns n "the_syncer p"]
    by (auto simp: may_commit_def)
next
  case cancelled
  then show ?thesis
    using sched_reach1 [OF cancel [of "goroutines p"]] assms(2) by simp
qed (use assms(2) in \<open>simp_all add: reach_refl onKubectlRun_def log_metric_def\<close>)

text \<open>No step puts a key in flight that was not watched.\<close>

lemma in_flight_assigner:
  assumes "sched_step TAssigner g h" and "watch_inv (watch g)"
  shows "in_flight h \<subseteq> in_flight g \<union> set (watched (watch g))" and "set (watched (watch h)) = set (watched (watch g))"
proof -
  have a: "watch_inv w \<and> set (watched w) = set (watched (watch g)) \<and> (\<forall>k. x = Some k \<longrightarrow> k \<in> set (watched (watch g)))"
    if "WatchList.assign (watch g) = (x, w)" for x w
    using watch_inv_assign [OF assms(2)] that by (cases "watched (watch g)") auto
  show "set (watched (watch h)) = set (watched (watch g))"
    using assms(1) a by (auto elim!: assigner_stepE)
  show "in_flight h \<subseteq> in_flight g \<union> set (watched (watch g))"
    using assms(1) a by (auto simp: in_flight_def elim!: assigner_stepE dest!: subsetD [OF set_update_subset_insert])
qed

lemma in_flight_pool:
  "in_flight (g\<lparr>watch := w, pool := (pool g)[i := WIdle]\<rparr>) \<subseteq> in_flight g"
  "in_flight (g\<lparr>pool := (pool g)[i := WExited]\<rparr>) \<subseteq> in_flight g"
  "in_flight (g\<lparr>watch := w\<rparr>) = in_flight g" "in_flight (g\<lparr>ctx_done := d\<rparr>) = in_flight g"
  by (auto simp: in_flight_def dest!: subsetD [OF set_update_subset_insert])

text \<open>A step keeps the watch list well formed, and a key enters it by a reconciliation only.\<close>

lemma watch_change_keys:
  assumes "watch_inv w" and "w' = w \<or> (\<exists>k. w' = StopWatching k w)"
  shows "watch_inv w' \<and> set (watched w') \<subseteq> set (watched w)"
  using assms by (auto simp: watched_stop watch_inv_stop set_q)

lemma program_step_keys:
  assumes step: "program_step L A r p q" and w: "watch_inv (watch (goroutines p))"
    and eq: "watch (goroutines p) = ss_watch (the_syncer p)"
  shows "watch_inv (watch (goroutines q))" and "in_flight (goroutines q) \<subseteq> in_flight (goroutines p) \<union> watched_keys (the_syncer p)"
    and "\<forall>k \<in> watched_keys (the_syncer q). k \<in> watched_keys (the_syncer p) \<or> key_added L A r k p q"
proof -
  have "watch_inv (watch (goroutines q)) \<and> in_flight (goroutines q) \<subseteq> in_flight (goroutines p) \<union> watched_keys (the_syncer p) \<and>
      (\<forall>k \<in> watched_keys (the_syncer q). k \<in> watched_keys (the_syncer p) \<or> key_added L A r k p q)"
    using step
  proof cases
    case (assigner_moved g)
    then have "watch_inv (watch g)"
      using w watch_inv_assign by (fastforce elim!: assigner_stepE)
    with in_flight_assigner [OF assigner_moved(2) w] assigner_moved(1) show ?thesis
      by (simp add: watched_keys_def eq)
  next
    case (worker_exited i)
    with w in_flight_pool(2) [of "goroutines p" i] show ?thesis
      by auto
  next
    case (worker_done i key run cfg now lat dur)
    have "ss_watch (snd run) = watch (goroutines p) \<or> (\<exists>k. ss_watch (snd run) = StopWatching k (watch (goroutines p)))"
      using watch_runOnce [of L cfg now lat dur key "the_syncer p"] worker_done(4) by (auto simp: eq)
    with watch_change_keys [OF w, of "ss_watch (snd run)"] worker_done(1)
      in_flight_pool(1) [where g = "goroutines p" and w = "ss_watch (snd run)" and i = i] show ?thesis
      by (auto simp: watched_keys_def eq)
  next
    case (reconciler_done run cfg now1 now2 ns n)
    have q: "watch (goroutines q) = ss_watch (snd run)" "the_syncer q = snd run"
      "in_flight (goroutines q) = in_flight (goroutines p)"
      using reconciler_done(1) by (simp_all add: in_flight_pool)
    have move: "ctl_moves L A r (the_syncer p) (snd run)"
      unfolding reconciler_done(2) ctl_moves_def by (blast intro: ctl_step.reconciled)
    have "watch_inv (ss_watch (the_syncer p))" using w eq by simp
    note inv = ctl_moves_watch_inv [OF r_into_rtranclp [of "ctl_moves L A r", OF move] this]
    have "key_added L A r k p q" if k: "k \<in> watched_keys (snd run)" "k \<notin> watched_keys (the_syncer p)" for k
    proof -
      have "\<exists>g. Get_GitSync L ns n (ext (the_syncer p)) = Inr g \<and> accepted A r g \<and> KeyOfGitSync g = k"
        using k w watch_Reconcile [of L A r cfg now1 now2 ns n "the_syncer p"] reconciler_done(2) eq
        by (auto simp: watched_keys_def watched_start watched_stop set_q)
      then show ?thesis
        unfolding key_added_def q(2) using k reconciler_done(2) by blast
    qed
    with inv q show ?thesis by auto
  qed (use w in_flight_pool in \<open>auto simp: watched_keys_def onKubectlRun_def log_metric_def\<close>)
  then show "watch_inv (watch (goroutines q))"
    and "in_flight (goroutines q) \<subseteq> in_flight (goroutines p) \<union> watched_keys (the_syncer p)"
    and "\<forall>k \<in> watched_keys (the_syncer q). k \<in> watched_keys (the_syncer p) \<or> key_added L A r k p q"
    by blast+
qed

lemma program_step_inv:
  assumes step: "program_step L A r p q" and inv: "program_inv L A r p0 p"
  shows "program_inv L A r p0 q"
proof -
  have agree: "watch (goroutines q) = ss_watch (the_syncer q)"
    using program_step_sched [OF step] inv by (simp add: program_inv_def)
  have w: "watch_inv (watch (goroutines p))" and eq: "watch (goroutines p) = ss_watch (the_syncer p)"
    and run: "(program_step L A r)\<^sup>*\<^sup>* p0 p"
    and old: "\<forall>k \<in> in_flight (goroutines p) \<union> watched_keys (the_syncer p). was_added L A r p0 p k"
    using inv unfolding program_inv_def by blast+
  note keys = program_step_keys [OF step w eq]
  have "was_added L A r p0 q k" if "k \<in> in_flight (goroutines q) \<union> watched_keys (the_syncer q)" for k
    using that keys(2,3) old was_added_step [OF _ step] was_added_now [OF run step] by blast
  with agree keys(1) run step show ?thesis
    unfolding program_inv_def by (blast intro: rtranclp.rtrancl_into_rtrancl)
qed

lemma program_reach:
  assumes "(program_step L A r)\<^sup>*\<^sup>* p0 p" and "program_inv L A r p0 p0"
  shows "program_inv L A r p0 p \<and> sched_reach (goroutines p0) (goroutines p)"
  using assms(1)
proof (induction rule: rtranclp_induct)
  case base
  with assms(2) show ?case by (simp add: reach_refl)
next
  case (step y z)
  then show ?case
    using program_step_inv [OF step(2)] program_step_sched [OF step(2)]
    by (auto simp: program_inv_def intro: reach_trans)
qed

text \<open>The program when \<open>Start\<close> has started its goroutines.\<close>

lemma program_inv_start:
  assumes "Start_goroutines (on_cache (Init cfg)) opts (snd (NewSyncer os w b)) = (Ok g, s)"
  shows "g = init_sched (nat (workers opts))"
    and "program_inv L A r \<lparr>goroutines = g, the_syncer = s\<rparr> \<lparr>goroutines = g, the_syncer = s\<rparr>"
proof -
  have run: "on_cache (Init cfg) (snd (NewSyncer os w b)) = (Ok (), s)"
      and g: "g = (init_sched (nat (workers opts)))\<lparr>watch := ss_watch s\<rparr>"
    using assms unfolding Start_goroutines_def bindR_eq_Ok by auto
  have "ss_watch s = new_watch"
    using arg_cong [OF run, of "\<lambda>x. ss_watch (snd x)", symmetric]
    by (simp only: watch_on_cache snd_conv) (simp add: NewSyncer_def)
  with g have "g = init_sched (nat (workers opts))" and "ss_watch s = new_watch"
    by (simp_all add: init_sched_def)
  then show "g = init_sched (nat (workers opts))"
    and "program_inv L A r \<lparr>goroutines = g, the_syncer = s\<rparr> \<lparr>goroutines = g, the_syncer = s\<rparr>"
    by (auto simp: program_inv_def init_sched_def watch_inv_new watched_keys_def in_flight_def)
qed

end
