(* ===== verification/Statuses.thy ===== *)
theory Statuses
  imports Controller
begin

text \<open>
  The statuses of the stored GitSync objects. The two writers are the reconciler, which sets
  phase and conditions, and the worker, which sets the commit status; the rest of what the
  program does leaves the stored statuses alone, except that a synchronisation may create GitSyncs, with empty statuses. The lemmas carry a
  predicate of the world through every operation of \<open>runOnce\<close> and \<open>Reconcile\<close>.
\<close>

section \<open>What may change the stored statuses\<close>

definition statuses :: "('w, 'k, 'key, 'u, 'r, 't, 'p, 'rec, 'd) sync_libs \<Rightarrow> 'w \<Rightarrow> GitSyncStatus set" where
  "statuses L w = {gs_Status g | ns n g. Get_GitSync L ns n w = Inr g}"

text \<open>
  What the libraries may do to the statuses. Those of git, kustomize and helm, and the functions that remove temporary
  files, do not write GitSync objects; deleting an object adds none; an update of a status stores at most the
  status it is given. A synchronisation applies manifests, which may be GitSyncs (the shipped configuration
  manages their group), so it may create and change such objects. But GitSync has a status
  subresource (\<^verbatim>\<open>config/crd/bases\<close>): Kubernetes drops the status of a manifest when it creates the
  object, and ignores it when it changes one. So, while the CRD stays as shipped, a new object has the empty status.
\<close>

definition git_frame :: "('w, 'k, 'key, 'u, 'r, 't, 'p, 'rec, 'd) sync_libs \<Rightarrow> bool" where
  "git_frame L \<longleftrightarrow>
     (\<forall>path opts w. statuses L (snd (PlainClone (repoL L) path opts w)) \<subseteq> statuses L w) \<and>
     (\<forall>r b w. statuses L (snd (Checkout (repoL L) r b w)) \<subseteq> statuses L w) \<and>
     (\<forall>r opts w. statuses L (snd (Pull (repoL L) r opts w)) \<subseteq> statuses L w) \<and>
     (\<forall>r opts w. statuses L (snd (remote_Fetch (repoL L) r opts w)) \<subseteq> statuses L w) \<and>
     (\<forall>p q u w. statuses L (snd (kustomize_Build (repoL L) p q u w)) \<subseteq> statuses L w) \<and>
     (\<forall>h opts w. statuses L (snd (helm_Template (repoL L) h opts w)) \<subseteq> statuses L w) \<and>
     (\<forall>h w. statuses L (snd (helm_DependencyBuild (repoL L) h w)) \<subseteq> statuses L w)"

definition kube_frame :: "('w, 'k, 'key, 'u, 'r, 't, 'p, 'rec, 'd) sync_libs \<Rightarrow> bool" where
  "kube_frame L \<longleftrightarrow>
     (\<forall>u w. statuses L (snd (Delete (clientL L) u w)) \<subseteq> statuses L w) \<and>
     (\<forall>k w0 e f w. ManageResources L k w0 = (e, Some f) \<longrightarrow> statuses L (f w) \<subseteq> statuses L w) \<and>
     (\<forall>v rec ns st d w0 e f w. NewSyncContext L v rec ns st d w0 = (e, Some f) \<longrightarrow> statuses L (f w) \<subseteq> statuses L w) \<and>
     (\<forall>v rec ns st d w. statuses L (snd (run_Sync L v rec ns st d w)) \<subseteq> insert empty_status (statuses L w)) \<and>
     (\<forall>g w. statuses L (snd (Status_Update L g w)) \<subseteq> insert (gs_Status g) (statuses L w))"

definition update_frame ::
  "('w, 'k, 'key, 'u, 'r, 't, 'p, 'rec, 'd) sync_libs \<Rightarrow> 'w ctl_libs \<Rightarrow> bool" where
  "update_frame L A \<longleftrightarrow> (\<forall>g w. statuses L (snd (Update_GitSync A g w)) \<subseteq> insert (gs_Status g) (statuses L w))"

text \<open>Every stored status is empty or agrees: its phase, its one condition and its message.\<close>

definition status_ok :: "GitSyncStatus \<Rightarrow> bool" where
  "status_ok st \<longleftrightarrow> Conditions st = [] \<or> status_agrees st"

definition stored_ok :: "('w, 'k, 'key, 'u, 'r, 't, 'p, 'rec, 'd) sync_libs \<Rightarrow> 'w \<Rightarrow> bool" where
  "stored_ok L w \<longleftrightarrow> (\<forall>st \<in> statuses L w. status_ok st)"

lemma status_ok_ops:
  assumes "status_ok st"
  shows "status_ok (InitConditions now st)" "status_ok (MarkRunning now st)" "status_ok (MarkFailed now r m st)"
    "status_ok (MarkNotApplicable now r m st)" "status_ok (st\<lparr>status_CommitStatus := c\<rparr>)"
  using assms apply_status_op_agrees [of st "(now, OpInit)"] apply_status_op_agrees [of st "(now, OpRunning)"]
    apply_status_op_agrees [of st "(now, OpFailed r m)"] apply_status_op_agrees [of st "(now, OpNotApplicable r m)"]
  by (auto simp: status_ok_def) (auto simp: status_agrees_def)

lemma status_ok_empty: "status_ok empty_status"
  by (simp add: status_ok_def empty_status_def)

lemma stored_mono: "statuses L w' \<subseteq> statuses L w \<Longrightarrow> stored_ok L w \<Longrightarrow> stored_ok L w'"
  by (auto simp: stored_ok_def)

lemma stored_insert: "statuses L w' \<subseteq> insert st (statuses L w) \<Longrightarrow> status_ok st \<Longrightarrow> stored_ok L w \<Longrightarrow> stored_ok L w'"
  by (auto simp: stored_ok_def)

lemma stored_get: "stored_ok L w \<Longrightarrow> Get_GitSync L ns n w = Inr g \<Longrightarrow> status_ok (gs_Status g)"
  by (auto simp: stored_ok_def statuses_def)

section \<open>Sequencing\<close>

text \<open>\<open>keeps L f s\<close>: if the stored statuses are fine before the call they are fine after it.\<close>

definition keeps :: "('w, 'k, 'key, 'u, 'r, 't, 'p, 'rec, 'd) sync_libs \<Rightarrow> ('w, 'e) env_scheme \<Rightarrow> (('w, 'e) env_scheme, 'a) result \<Rightarrow> bool" where
  "keeps L s r \<longleftrightarrow> (stored_ok L (ext s) \<longrightarrow> stored_ok L (ext (snd r)))"

named_theorems keeps_intros \<open>operations that keep the stored statuses\<close>

lemma keeps_refl [keeps_intros]: "keeps L s (x, s)"
  by (simp add: keeps_def)

lemma keeps_same: "ext s' = ext s \<Longrightarrow> keeps L s (x, s')"
  by (simp add: keeps_def)

lemma keeps_bind [keeps_intros]:
  "keeps L s r \<Longrightarrow> (\<And>x. keeps L (snd r) (k x (snd r))) \<Longrightarrow> keeps L s (bindR r k)"
  by (cases r; cases "fst r") (auto simp: keeps_def bindR_def)

lemma keeps_mapErr [keeps_intros]: "keeps L s r \<Longrightarrow> keeps L s (mapErr f r)"
  by (simp add: keeps_def)

lemma keeps_trans: "keeps L s r \<Longrightarrow> keeps L (snd r) r' \<Longrightarrow> keeps L s r'"
  by (simp add: keeps_def)

lemma keeps_log: "keeps L (log_metric c s) r \<Longrightarrow> keeps L s r"
  by (simp add: keeps_def log_metric_def)

lemma keeps_on_ext:
  assumes "\<And>w. statuses L (snd (f w)) \<subseteq> statuses L w"
  shows "keeps L s (on_ext f s)"
  using stored_mono [OF assms, of "ext s"] by (cases "f (ext s)") (simp add: keeps_def on_ext_def)

lemma keeps_on_cache [keeps_intros]: "keeps L s (on_cache f s)"
  by (simp add: keeps_def on_cache_def split: prod.split)

lemma ext_log_metric [simp]: "ext (log_metric c s) = ext s"
  by (simp add: log_metric_def)

section \<open>Cloning and manifests\<close>

lemma git_frameD:
  assumes "git_frame L"
  shows "statuses L (snd (PlainClone (repoL L) path copts w)) \<subseteq> statuses L w"
    "statuses L (snd (Checkout (repoL L) r b w)) \<subseteq> statuses L w"
    "statuses L (snd (Pull (repoL L) r popts w)) \<subseteq> statuses L w"
    "statuses L (snd (remote_Fetch (repoL L) r fopts w)) \<subseteq> statuses L w"
    "statuses L (snd (kustomize_Build (repoL L) p q u w)) \<subseteq> statuses L w"
    "statuses L (snd (helm_Template (repoL L) h hopts w)) \<subseteq> statuses L w"
    "statuses L (snd (helm_DependencyBuild (repoL L) h w)) \<subseteq> statuses L w"
  using assms unfolding git_frame_def by simp_all

lemma keeps_CloneRepo [keeps_intros]:
  assumes "git_frame L"
  shows "keeps L s (CloneRepo (repoL L) C cfg gc g s)"
proof -
  have "keeps L s (cloneRepo (repoL L) cfg g opts s)" for opts
  proof (cases "getLocalRepoPath (repoL L) cfg g")
    case (Inr path)
    obtain x s1 where c: "on_ext (PlainClone (repoL L) path opts) s = (x, s1)" by fastforce
    have "keeps L s (x, s1)"
      using keeps_on_ext [of L "PlainClone (repoL L) path opts" s] git_frameD(1) [OF assms] c by simp
    then show ?thesis
      using Inr by (cases x) (auto simp: cloneRepo_def keeps_def c split: sum.split)
  qed (simp add: cloneRepo_def keeps_refl)
  then show ?thesis
    by (simp add: CloneRepo_def Let_def keeps_refl split: sum.split outcome.split)
qed

lemma keeps_fetchAll [keeps_intros]:
  assumes "git_frame L"
  shows "keeps L s (on_ext (fetchAll (repoL L) r opts) s)"
proof (rule keeps_on_ext)
  fix w
  show "statuses L (snd (fetchAll (repoL L) r opts w)) \<subseteq> statuses L w"
    using git_frameD(4) [OF assms, of r opts w]
    by (cases "remote_Fetch (repoL L) r opts w"; cases "fst (remote_Fetch (repoL L) r opts w)")
      (simp_all add: fetchAll_def split: option.split)
qed

lemma keeps_checkoutRepo [keeps_intros]:
  assumes "git_frame L"
  shows "keeps L s (on_ext (checkoutRepo (repoL L) r target) s)"
proof (rule keeps_on_ext)
  fix w
  show "statuses L (snd (checkoutRepo (repoL L) r target w)) \<subseteq> statuses L w"
    by (simp add: checkoutRepo_def git_frameD(2) [OF assms] split: option.split sum.split)
qed

lemma keeps_goto_revision [keeps_intros]: "git_frame L \<Longrightarrow> keeps L s (goto_revision (repoL L) C cred g r s)"
  by (auto simp: goto_revision_def Let_def split: sum.split intro!: keeps_intros)

lemma keeps_pull_branch [keeps_intros]:
  assumes "git_frame L"
  shows "keeps L s (pull_branch (repoL L) lat r opts s)"
proof -
  obtain x s1 where c: "on_ext (Pull (repoL L) r opts) s = (x, s1)" by fastforce
  have "keeps L s (x, s1)"
    using keeps_on_ext [of L "Pull (repoL L) r opts" s] git_frameD(3) [OF assms] c by simp
  then show ?thesis
    by (cases x) (simp_all add: pull_branch_def keeps_def c)
qed

lemma keeps_fetchUpdates [keeps_intros]: "git_frame L \<Longrightarrow> keeps L s (fetchUpdates (repoL L) C cfg lat g r s)"
  by (auto simp: fetchUpdates_def Let_def split: prod.split option.split sum.split outcome.split
      intro!: keeps_intros)

lemma statuses_helmTemplate:
  assumes "git_frame L"
  shows "statuses L (snd (helmTemplate (repoL L) p g w)) \<subseteq> statuses L w"
proof (cases "NewHelmApp (repoL L) (p @ ''/'' @ Path (gs_Spec g)) (RepoUrl (gs_Spec g)) w")
  case (Inr h)
  show ?thesis
  proof (cases "Helm (gs_Spec g)")
    case (Some hs)
    let ?T = "helm_Template (repoL L) h (helm_options g hs)"
    obtain x1 w1 where 1: "?T w = (x1, w1)" by fastforce
    obtain x2 w2 where 2: "helm_DependencyBuild (repoL L) h w1 = (x2, w2)" by fastforce
    obtain x3 w3 where 3: "?T w2 = (x3, w3)" by fastforce
    have sub: "statuses L w1 \<subseteq> statuses L w" "statuses L w2 \<subseteq> statuses L w1" "statuses L w3 \<subseteq> statuses L w2"
      using git_frameD(6) [OF assms, of h "helm_options g hs"] git_frameD(7) [OF assms, of h w1] 1 2 3
      by (metis snd_conv)+
    have "snd (helmTemplate (repoL L) p g w) \<in> {w, w1, w2, w3}"
      using Inr Some 1 2 3
      by (cases x1; cases x2; cases x3) (auto simp: helmTemplate_def Let_def)
    with sub show ?thesis
      by (elim insertE emptyE) auto
  next
    case None
    then show ?thesis using Inr by (simp add: helmTemplate_def)
  qed
qed (simp add: helmTemplate_def)

lemma keeps_build_manifests [keeps_intros]:
  assumes "git_frame L"
  shows "keeps L s (build_manifests (repoL L) r g p h t s)"
proof (cases t)
  case SourceTypeHelm
  then show ?thesis
    by (simp add: build_manifests_def keeps_on_ext statuses_helmTemplate [OF assms])
next
  case SourceTypeKustomize
  then show ?thesis
    by (simp add: build_manifests_def keeps_on_ext git_frameD(5) [OF assms])
qed (simp add: build_manifests_def keeps_refl)

lemma keeps_GetLatestManifests [keeps_intros]:
  "git_frame L \<Longrightarrow> keeps L s (GetLatestManifests (repoL L) C cfg lat r g s)"
  by (auto simp: GetLatestManifests_def split: sum.split option.split intro!: keeps_intros)

section \<open>Synchronising\<close>

lemma kube_frameD:
  assumes "kube_frame L"
  shows "statuses L (snd (Delete (clientL L) u w)) \<subseteq> statuses L w"
    "ManageResources L k w0 = (e, Some f) \<Longrightarrow> statuses L (f w) \<subseteq> statuses L w"
    "NewSyncContext L v rc ns st d w0 = (e, Some f') \<Longrightarrow> statuses L (f' w) \<subseteq> statuses L w"
    "statuses L (snd (run_Sync L v rc ns st d w)) \<subseteq> insert empty_status (statuses L w)"
    "statuses L (snd (Status_Update L g w)) \<subseteq> insert (gs_Status g) (statuses L w)"
proof -
  note k = assms [unfolded kube_frame_def]
  show "statuses L (snd (Delete (clientL L) u w)) \<subseteq> statuses L w"
    by (rule k [THEN conjunct1, rule_format])
  show "ManageResources L k w0 = (e, Some f) \<Longrightarrow> statuses L (f w) \<subseteq> statuses L w"
    by (rule k [THEN conjunct2, THEN conjunct1, rule_format])
  show "NewSyncContext L v rc ns st d w0 = (e, Some f') \<Longrightarrow> statuses L (f' w) \<subseteq> statuses L w"
    by (rule k [THEN conjunct2, THEN conjunct2, THEN conjunct1, rule_format])
  show "statuses L (snd (run_Sync L v rc ns st d w)) \<subseteq> insert empty_status (statuses L w)"
    by (rule k [THEN conjunct2, THEN conjunct2, THEN conjunct2, THEN conjunct1, rule_format])
  show "statuses L (snd (Status_Update L g w)) \<subseteq> insert (gs_Status g) (statuses L w)"
    by (rule k [THEN conjunct2, THEN conjunct2, THEN conjunct2, THEN conjunct2, rule_format])
qed

lemma keeps_cleanup:
  assumes "keeps L s r" and "\<And>f w. c = Some f \<Longrightarrow> statuses L (f w) \<subseteq> statuses L w"
  shows "keeps L s (deferred_cleanup c r)"
proof (cases c)
  case (Some f)
  obtain x s1 where r: "r = (x, s1)" by fastforce
  show ?thesis
    using assms(1) stored_mono [OF assms(2) [OF Some], of "ext s1"] by (simp add: keeps_def deferred_cleanup_def Some r)
next
  case None
  then show ?thesis
    using assms(1) by (cases r) (simp add: keeps_def deferred_cleanup_def)
qed

lemma getResourceOperations_cleanup:
  assumes "kube_frame L" and "getResourceOperations L cfg s = (Ok (Some f), s')"
  shows "statuses L (f w) \<subseteq> statuses L w"
proof -
  obtain k s1 where "(case ManageResources L k (ext s1) of
        (Some e, _) \<Rightarrow> (Err (WrapError ''error creating kubectl ResourceOperations: '' e), s1)
      | (None, cleanup) \<Rightarrow> (Ok cleanup, s1)) = (Ok (Some f), s')"
    using assms(2) unfolding getResourceOperations_def bindR_eq_Ok by (elim exE conjE)
  then have "ManageResources L k (ext s1) = (None, Some f)"
    by (cases "ManageResources L k (ext s1)"; cases "fst (ManageResources L k (ext s1))") simp_all
  from kube_frameD(2) [OF assms(1) this] show ?thesis .
qed

lemma keeps_getResourceOperations [keeps_intros]: "keeps L s (getResourceOperations L cfg s)"
  by (auto simp: getResourceOperations_def split: prod.split option.split intro!: keeps_intros)

lemma keeps_compare_objects [keeps_intros]:
  fixes L :: "('w, 'k, 'key, 'u, 'r, 't, 'p, 'rec, 'd) sync_libs"
  assumes "kube_frame L"
  shows "keeps L s (compare_objects L cfg cc res s)"
proof -
  obtain r s1 where 1: "getResourceOperations L cfg s = (r, s1)" by fastforce
  have k: "keeps L s (x, s1)" for x :: "('rec \<times> 'd) outcome"
    using keeps_getResourceOperations [of L s cfg] 1 by (simp add: keeps_def)
  have c: "statuses L (f w) \<subseteq> statuses L w" if "r = Ok (Some f)" for f w
    using getResourceOperations_cleanup [OF assms] 1 that by blast
  show ?thesis
    by (cases r) (auto simp: compare_objects_def 1 k intro!: keeps_cleanup dest: c split: option.split sum.split)
qed

lemma keeps_compareState [keeps_intros]:
  assumes "kube_frame L"
  shows "keeps L s (compareState L cfg g objs s)"
proof -
  obtain r1 s1 where 1: "on_cache (GetClusterCache (clusterL L) cfg) s = (r1, s1)" by fastforce
  have e: "ext s1 = ext s"
    using 1 by (auto simp: on_cache_def split: prod.splits)
  show ?thesis
  proof (cases "\<exists>p. r1 = Panic p")
    case True
    then show ?thesis using 1 e by (auto simp: compareState_def keeps_def)
  next
    case False
    then have "compareState L cfg g objs s =
        bindR (on_cache (GetManagedLiveObjs (clusterL L) cfg g objs) s1) (\<lambda>live s2.
          compare_objects L cfg (case r1 of Ok k \<Rightarrow> Some k | _ \<Rightarrow> None)
            (gitops_Reconcile L objs live (dest_Namespace (spec_Destination (gs_Spec g)))
               (case r1 of Ok k \<Rightarrow> Some k | _ \<Rightarrow> None)) s2)"
      using 1 by (cases r1) (auto simp: compareState_def Let_def)
    moreover have "keeps L s1 (bindR (on_cache (GetManagedLiveObjs (clusterL L) cfg g objs) s1) (\<lambda>live s2.
          compare_objects L cfg (case r1 of Ok k \<Rightarrow> Some k | _ \<Rightarrow> None)
            (gitops_Reconcile L objs live (dest_Namespace (spec_Destination (gs_Spec g)))
               (case r1 of Ok k \<Rightarrow> Some k | _ \<Rightarrow> None)) s2))"
      by (intro keeps_bind keeps_on_cache keeps_compare_objects assms)
    ultimately show ?thesis
      using e by (simp add: keeps_def)
  qed
qed

lemma keeps_sync [keeps_intros]:
  assumes "kube_frame L"
  shows "keeps L s (sync L cfg g objs s)"
proof -
  obtain r1 s1 where 1: "compareState L cfg g objs s = (r1, s1)" by fastforce
  have k1: "stored_ok L (ext s) \<Longrightarrow> stored_ok L (ext s1)"
    using keeps_compareState [OF assms, of s cfg g objs] 1 by (simp add: keeps_def)
  obtain r2 s2 where 2: "on_cache (GetClusterCache (clusterL L) cfg) s1 = (r2, s2)" by fastforce
  have e2: "ext s2 = ext s1"
    using 2 by (auto simp: on_cache_def split: prod.splits)
  show ?thesis
  proof (cases "\<exists>res d cluster. r1 = Ok (res, d) \<and> r2 = Ok cluster")
    case False
    then show ?thesis
      using k1 e2 1 2 by (cases r1; cases r2) (auto simp: sync_def keeps_def)
  next
    case True
    then obtain res d cluster where ok: "r1 = Ok (res, d)" "r2 = Ok cluster" by blast
    let ?s3 = "log_metric (MCached (int (length objs))) (log_metric (MApi (APIResources L cluster)) s2)"
    let ?ns = "dest_Namespace (spec_Destination (gs_Spec g))" and ?v = "TargetRevision (gs_Spec g)"
    obtain err c where ctx: "NewSyncContext L ?v res ?ns sync_opts d (ext ?s3) = (err, c)" by fastforce
    obtain st w where run: "run_Sync L ?v res ?ns sync_opts d (ext ?s3) = (st, w)" by fastforce
    have w: "stored_ok L (ext s2) \<Longrightarrow> stored_ok L w"
      using stored_insert [OF kube_frameD(4) [OF assms, of ?v res ?ns sync_opts d "ext ?s3"] status_ok_empty] run by simp
    have eq: "sync L cfg g objs s = deferred_cleanup c
        (case err of Some e \<Rightarrow> (Ok (OperationError (phaseL L), Error e), ?s3) | None \<Rightarrow> (Ok st, ?s3\<lparr>ext := w\<rparr>))"
      using 1 2 ok ctx run by (simp add: sync_def Let_def split: option.split)
    have body: "keeps L s2 (case err of Some e \<Rightarrow> (Ok (OperationError (phaseL L), Error e), ?s3) | None \<Rightarrow> (Ok st, ?s3\<lparr>ext := w\<rparr>))"
      using w by (cases err) (simp_all add: keeps_def)
    have "keeps L s2 (sync L cfg g objs s)"
      unfolding eq by (rule keeps_cleanup [OF body]) (use ctx kube_frameD(3) [OF assms] in simp)
    then show ?thesis
      using k1 e2 by (simp add: keeps_def)
  qed
qed

section \<open>Writing statuses\<close>

lemma keeps_write:
  assumes "status_ok (gs_Status g)" and "\<And>w. statuses L (snd (f w)) \<subseteq> insert (gs_Status g) (statuses L w)"
  shows "keeps L s (on_ext f s)"
  using stored_insert [OF assms(2,1), of "ext s"] by (cases "f (ext s)") (simp add: keeps_def on_ext_def)

lemma keeps_updateCommitStatus [keeps_intros]:
  assumes "kube_frame L"
  shows "keeps L s (updateCommitStatus L now ns n h b m s)"
proof (cases "stored_ok L (ext s)")
  case True
  show ?thesis
  proof (cases "Get_GitSync L ns n (ext s)")
    case (Inl e)
    then show ?thesis by (simp add: updateCommitStatus_def Let_def keeps_refl)
  next
    case (Inr g)
    let ?g = "g\<lparr>gs_Status := (gs_Status g)\<lparr>status_CommitStatus := Some (mk_CommitStatus h b m now)\<rparr>\<rparr>"
    have "status_ok (gs_Status ?g)"
      using stored_get [OF True Inr] status_ok_ops(5) by simp
    then have "keeps L s (on_ext (Status_Update L ?g) s)"
      using kube_frameD(5) [OF assms] by (rule keeps_write)
    then have "stored_ok L (ext (snd (on_ext (Status_Update L ?g) s)))"
      using True by (simp add: keeps_def)
    then show ?thesis
      using True by (cases "on_ext (Status_Update L ?g) s"; cases "fst (on_ext (Status_Update L ?g) s)")
        (simp_all add: updateCommitStatus_def Let_def Inr keeps_def)
  qed
qed (simp add: keeps_def)

lemma keeps_DeleteManagedObjects:
  assumes "kube_frame L"
  shows "statuses L (snd (DeleteManagedObjects U (clientL L) objs w)) \<subseteq> statuses L w"
proof (induction objs arbitrary: w)
  case (Cons u us)
  have one: "statuses L (snd (Delete (clientL L) u w)) \<subseteq> statuses L w"
    by (rule kube_frameD(1) [OF assms])
  show ?case
  proof (cases "delete_done (fst (Delete (clientL L) u w))")
    case True
    show ?thesis
      unfolding DeleteManagedObjects_Cons if_P [OF True] by (rule order_trans [OF Cons.IH one])
  next
    case False
    show ?thesis
      unfolding DeleteManagedObjects_Cons if_not_P [OF False] DeleteKubernetesResource_snd by (rule one)
  qed
qed simp

lemma keeps_ProcessGitSyncDeletion [keeps_intros]:
  assumes "kube_frame L"
  shows "keeps L s (ProcessGitSyncDeletion L cfg g s)"
proof -
  have "keeps L s (CascadeDeletion L c g s)" for c
    unfolding CascadeDeletion_def GetLiveManagedObjects_def
    by (intro keeps_bind keeps_on_cache keeps_on_ext keeps_DeleteManagedObjects assms)
  then show ?thesis
    by (simp add: ProcessGitSyncDeletion_def keeps_refl split: prod.split option.split)
qed

lemma keeps_delete_gitsync [keeps_intros]: "kube_frame L \<Longrightarrow> keeps L s (delete_gitsync L cfg g key s)"
  by (auto simp: delete_gitsync_def stop_watching_def intro!: keeps_bind keeps_ProcessGitSyncDeletion keeps_same)

lemma keeps_sync_revision:
  assumes "git_frame L" and "kube_frame L"
  shows "keeps L s (sync_revision L cfg now lat key n g s)"
  using assms
  by (auto simp: sync_revision_def Let_def split: sum.split prod.split
      intro!: keeps_bind keeps_mapErr keeps_CloneRepo keeps_GetLatestManifests keeps_refl keeps_sync
        keeps_log [where c = "MSync g x" for x, OF keeps_delete_gitsync]
        keeps_log [where c = "MSync g x" for x, OF keeps_updateCommitStatus])

lemma keeps_deferred: "keeps L s r \<Longrightarrow> (\<And>t. ext (f t) = ext t) \<Longrightarrow> keeps L s (deferred f r)"
  by (cases r) (simp add: keeps_def deferred_def)

lemma keeps_base: "keeps L (s\<lparr>ss_base := b\<rparr>) r \<Longrightarrow> keeps L s r"
  by (simp add: keeps_def)

lemma keeps_runOnce:
  assumes "git_frame L" and "kube_frame L"
  shows "keeps L s (runOnce L cfg now lat dur key s)"
  unfolding runOnce_def Let_def
  by (rule keeps_base [where b = "RefreshBaseLoggerLevel cfg (ss_base s)"])
    (auto simp: stop_watching_def split: list.split sum.split
      intro!: keeps_same keeps_deferred keeps_delete_gitsync keeps_sync_revision assms)

text \<open>What \<open>reconcile\<close> does to the object it is given and to the world.\<close>

lemma reconcile_keeps:
  assumes "kube_frame L" and "status_ok (gs_Status g)" and "stored_ok L (ext s)"
    and "reconcile L A r cfg now g s = (x, g', s')"
  shows "status_ok (gs_Status g')" and "stored_ok L (ext s')"
proof -
  obtain y t where d: "(if has_syncer r then delete_gitsync L cfg g (KeyOfGitSync g) s else (Ok (), s)) = (y, t)"
    by fastforce
  have "stored_ok L (ext t)"
    using keeps_delete_gitsync [OF assms(1), of s cfg g "KeyOfGitSync g"] assms(3) d
    by (cases "has_syncer r") (auto simp: keeps_def)
  with assms(2-4) d show "status_ok (gs_Status g')" and "stored_ok L (ext s')"
    by (cases y; auto simp: reconcile_def Let_def status_ok_ops split: if_splits option.splits)+
qed

lemma keeps_write_back:
  assumes "kube_frame L" and "update_frame L A" and "status_ok (gs_Status g)"
  shows "keeps L s (write_back L A g0 g s)"
proof -
  have up: "keeps L s (on_ext (Update_GitSync A g) s)" for s
    by (rule keeps_write [OF assms(3)]) (rule assms(2) [unfolded update_frame_def, rule_format])
  have st: "keeps L s (on_ext (Status_Update L h) s)" if "status_ok (gs_Status h)" for h s
    using that kube_frameD(5) [OF assms(1)] by (rule keeps_write)
  show ?thesis
  proof (cases "needsUpdate A (Some g0) g")
    case True
    obtain x s1 where u: "on_ext (Update_GitSync A g) s = (x, s1)" by fastforce
    have s1: "keeps L s (y, s1)" for y :: "unit outcome"
      using up [of s] u by (simp add: keeps_def)
    show ?thesis
      using True s1 st [of "h\<lparr>gs_Status := gs_Status g\<rparr>" s1 for h] assms(3)
      by (cases x) (auto simp: write_back_def u keeps_def)
  next
    case False
    then show ?thesis
      using st [of g s] assms(3) by (simp add: write_back_def keeps_refl)
  qed
qed

lemma keeps_Reconcile:
  assumes "kube_frame L" and "update_frame L A"
  shows "keeps L s (Reconcile L A r cfg now1 now2 ns n s)"
proof (cases "stored_ok L (ext s)")
  case True
  let ?s0 = "s\<lparr>ss_base := RefreshBaseLoggerLevel cfg (ss_base s)\<rparr>"
  show ?thesis
  proof (cases "Get_GitSync L ns n (ext s)")
    case (Inr g)
    let ?g = "g\<lparr>gs_Status := InitConditions now1 (gs_Status g)\<rparr>"
    obtain x g' s1 where r: "reconcile L A r cfg now2 ?g ?s0 = (x, g', s1)"
      by (cases "reconcile L A r cfg now2 ?g ?s0") auto
    have ok: "status_ok (gs_Status ?g)" "stored_ok L (ext ?s0)"
      using stored_get [OF True Inr] True by (simp_all add: status_ok_ops)
    note after = reconcile_keeps [OF assms(1) ok r]
    show ?thesis
      using keeps_write_back [OF assms after(1), of s1 g] after(2) Inr r
      by (cases x) (simp_all add: Reconcile_def keeps_def)
  qed (simp add: Reconcile_def Let_def keeps_def)
qed (simp add: keeps_def)

section \<open>Properties\<close>

text \<open>
  C6. Stored statuses stay well formed. If every GitSync in the API server has a status that is still
  empty or whose one condition Configured, phase and message agree, then so it is after any run of
  a worker and after any reconciliation, also one that fails or panics half-way, and also a run that applies
  manifests of GitSyncs, which get the empty status. The other libraries are supposed to leave the objects
  alone, and the API server to store only what it is given.
\<close>

theorem stored_statuses_well_formed:
  assumes "git_frame L" and "kube_frame L" and "update_frame L A" and "stored_ok L (ext s)"
  shows "stored_ok L (ext (snd (runOnce L cfg now lat dur key s))) \<and>
    stored_ok L (ext (snd (Reconcile L A r cfg now1 now2 ns n s)))"
  using keeps_runOnce [OF assms(1,2), of s] keeps_Reconcile [OF assms(2,3), of s] assms(4)
  by (simp add: keeps_def)

text \<open>In the witness, every synchronisation applies the manifest of a GitSync.\<close>

definition applying_libs where
  "applying_libs = (small_libs (None, None) (None, None))
     \<lparr>run_Sync := (\<lambda>v rec ns st d w. ((''Succeeded'', ''synced''), (fst w, (small_gitsync ''main'' None)\<lparr>gs_Name := ''applied''\<rparr>)))\<rparr>"

theorem stored_statuses_well_formed_witness:
  "stored_ok applying_libs (ext (snd (runOnce applying_libs (zero_GlobalConfig, None) 9 5 6 ''ns/my-app''
        (small_syncer (small_gitsync ''main'' None))))) \<and>
   stored_ok applying_libs (ext (snd (Reconcile applying_libs small_ctl prod_reconciler (zero_GlobalConfig, None)
        7 8 ''ns'' ''my-app'' (small_syncer (small_gitsync ''main'' None)))))"
proof -
  let ?L = applying_libs
  have frames: "git_frame ?L" "kube_frame ?L" "update_frame ?L small_ctl"
    by (auto simp: git_frame_def kube_frame_def update_frame_def statuses_def small_ctl_simps no_secrets_def Let_def
        applying_libs_def small_libs_def small_repo_def small_gitsync_def empty_status_def split: if_splits)
  have start: "stored_ok ?L (ext (small_syncer (small_gitsync ''main'' None)))"
    by (auto simp: stored_ok_def statuses_def small_syncer_def small_gitsync_def status_ok_def empty_status_def
        applying_libs_def small_libs_def)
  from stored_statuses_well_formed [OF frames start] show ?thesis by blast
qed

end
