(* ===== verification/Deletion.thy ===== *)
theory Deletion
  imports Reconciler
begin

text \<open>
  Cascade deletion across the components: the reconciler (\<open>gitsync_controller.go\<close>), the deletion of a
  GitSync (\<open>syncer.go\<close>), the cluster cache (\<open>cache.go\<close>) and the sequential deletion of objects
  (\<open>kubernetes.go\<close>), composed as the code calls them.
\<close>

section \<open>What the cluster cache lists\<close>

text \<open>
  \<open>roots\<close> are the objects the cache of gitops-engine holds without an owner, each with what
  \<open>PopulateResourceInfo\<close> recorded of it. Without target objects \<open>GetManagedLiveObjs\<close> gives those of them
  that the predicate accepts.
\<close>

definition managed_law ::
  "('k, 'key, 'u) cluster_api \<Rightarrow> ('k \<Rightarrow> ('key \<times> ResourceInfo option \<times> 'u) set) \<Rightarrow> bool" where
  "managed_law K roots \<longleftrightarrow>
     (\<forall>p k objs k'. ManagedLiveObjs K [] p k = (Ok objs, k') \<longrightarrow>
        set objs = {(key, u). \<exists>info. (key, info, u) \<in> roots k \<and> p info})"

lemma live_objects:
  assumes "managed_law (clusterL L) roots" and "GetLiveManagedObjects L cfg g s = (Ok objects, s1)"
  obtains k where "fst (getSyncedCluster (clusterL L) cfg (ss_cache s)) = Ok k" and "ext s1 = ext s"
    and "snd ` set objects = {u. \<exists>key info. (key, info, u) \<in> roots k \<and> owned_by g info}"
proof -
  obtain c where objs: "GetManagedLiveObjs (clusterL L) cfg g [] (ss_cache s) = (Ok objects, c)" and s1: "s1 = s\<lparr>ss_cache := c\<rparr>"
    using assms(2) by (auto simp: GetLiveManagedObjects_def on_cache_def split: prod.splits)
  obtain r c' where sync: "getSyncedCluster (clusterL L) cfg (ss_cache s) = (r, c')"
    by fastforce
  with objs obtain k where r: "r = Ok k" and m: "on_cluster (ManagedLiveObjs (clusterL L) [] (owned_by g)) k c' = (Ok objects, c)"
    by (cases r) (auto simp: GetManagedLiveObjs_def)
  from m obtain k' where "ManagedLiveObjs (clusterL L) [] (owned_by g) k = (Ok objects, k')"
    by (auto simp: on_cluster_def split: prod.splits)
  with assms(1) have "set objects = {(key, u). \<exists>info. (key, info, u) \<in> roots k \<and> owned_by g info}"
    unfolding managed_law_def by blast
  then have "snd ` set objects = {u. \<exists>key info. (key, info, u) \<in> roots k \<and> owned_by g info}"
    by force
  with sync r s1 show thesis
    by (intro that) simp_all
qed

lemma DeleteManagedObjects_Ok:
  "fst (DeleteManagedObjects U C us w) = Ok () \<longleftrightarrow> all_done C us w"
  using DeleteKubernetesResource_Ok [of U C]
  by (induction us arbitrary: w) (auto simp: DeleteManagedObjects_rec simp del: DeleteManagedObjects.simps(2))

lemma processed_deletion:
  assumes "managed_law (clusterL L) roots" and "gc_CascadeDeletion config"
    and "ProcessGitSyncDeletion L (config, None) g s = (Ok (), s')"
  obtains us k where "fst (getSyncedCluster (clusterL L) (config, None) (ss_cache s)) = Ok k"
    and "set us = {u. \<exists>key info. (key, info, u) \<in> roots k \<and> owned_by g info}"
    and "all_done (clientL L) us (ext s)" and "ext s' = delete_all (clientL L) us (ext s)"
proof -
  obtain objects s1 where live: "GetLiveManagedObjects L (config, None) g s = (Ok objects, s1)"
      and del: "on_ext (DeleteManagedObjects (unL L) (clientL L) (map snd objects)) s1 = (Ok (), s')"
    using assms(2,3) by (auto simp: ProcessGitSyncDeletion_def CascadeDeletion_def bindR_eq_Ok)
  obtain k where k: "fst (getSyncedCluster (clusterL L) (config, None) (ss_cache s)) = Ok k" "ext s1 = ext s"
      "snd ` set objects = {u. \<exists>key info. (key, info, u) \<in> roots k \<and> owned_by g info}"
    using live_objects [OF assms(1) live] by blast
  let ?us = "map snd objects"
  obtain w where w: "DeleteManagedObjects (unL L) (clientL L) ?us (ext s) = (Ok (), w)" "ext s' = w"
    using del k(2) by (auto simp: on_ext_def split: prod.splits)
  then have gone: "all_done (clientL L) ?us (ext s)"
    using DeleteManagedObjects_Ok [of "unL L" "clientL L" ?us "ext s"] by simp
  with DeleteManagedObjects_all [OF this, of "unL L"] w have "ext s' = delete_all (clientL L) ?us (ext s)"
    by simp
  with that [of k ?us] k gone show thesis by simp
qed

section \<open>Properties\<close>

text \<open>
  C14. The finalizer is removed last. With cascade deletion enabled, a reconciliation of a deleted GitSync
  succeeds only if every object which the cluster cache lists as owned by a GitSync of this name
  was deleted or found gone, one after another; and the update that takes the finalizer away is made in the
  world this leaves.
\<close>

theorem finalizer_removed_last:
  assumes "finalizer_law A" and "update_law L A" and "managed_law (clusterL L) roots"
    and "Get_GitSync L ns n (ext s) = Inr g" and "finalizerName \<in> set (gs_Finalizers g)"
    and "ContainsClusterDestination (gs_Spec g) (clusterName r)" and "being_deleted g" and "has_syncer r"
    and "gc_CascadeDeletion config"
    and "Reconcile L A r (config, None) now1 now2 ns n s = (Ok (), s')"
  shows "\<exists>us k g1 g2. fst (getSyncedCluster (clusterL L) (config, None) (ss_cache s)) = Ok k \<and>
    set us = {u. \<exists>key info. (key, info, u) \<in> roots k \<and> owned_by g info} \<and>
    all_done (clientL L) us (ext s) \<and> finalizerName \<notin> set (gs_Finalizers g1) \<and>
    Update_GitSync A g1 (delete_all (clientL L) us (ext s)) = (Ok g2, ext s')"
proof -
  let ?s = "s\<lparr>ss_base := RefreshBaseLoggerLevel (config, None) (ss_base s)\<rparr>"
  let ?g = "g\<lparr>gs_Status := InitConditions now1 (gs_Status g)\<rparr>"
  from assms(10,4) obtain g1 s1 where r: "reconcile L A r (config, None) now2 ?g ?s = (Ok (), g1, s1)"
    and w: "write_back L A g g1 s1 = (Ok (), s')"
    by (rule Reconcile_Ok)
  note del = reconcile_deleted [OF _ _ assms(8) r, simplified, OF assms(6,7)]
  obtain s2 where p: "ProcessGitSyncDeletion L (config, None) g ?s = (Ok (), s2)"
    using del(1) by (metis surjective_pairing)
  have "ext s1 = ext s2"
    using r assms(6-8) p by (auto simp: reconcile_def delete_gitsync_def stop_watching_def)
  moreover obtain us k where "fst (getSyncedCluster (clusterL L) (config, None) (ss_cache ?s)) = Ok k"
      and "set us = {u. \<exists>key info. (key, info, u) \<in> roots k \<and> owned_by g info}"
      and "all_done (clientL L) us (ext ?s)" and "ext s2 = delete_all (clientL L) us (ext ?s)"
    by (rule processed_deletion [OF assms(3,9) p])
  moreover have fs: "finalizerName \<notin> set (gs_Finalizers g1)"
    using del(5) assms(5) by (simp add: finalizer_lawD [OF assms(1)])
  moreover have "gs_Finalizers g \<noteq> gs_Finalizers g1"
    using fs assms(5) by metis
  with w del(2) obtain g2 where "Update_GitSync A g1 (ext s1) = (Ok g2, ext s')"
    by (auto simp: write_back_def needsUpdate_def finalizer_lawD [OF assms(1)] on_ext_def bindR_eq_Ok
        update_lawD(4) [OF assms(2)] split: prod.splits if_splits)
  ultimately show ?thesis by auto
qed

text \<open>A cluster with one deployment of the GitSync.\<close>

definition one_root :: "(unit, string, string) cluster_api" where
  "one_root = empty_cluster\<lparr>ManagedLiveObjs := \<lambda>targets p k.
     (Ok (if p (Some \<lparr>GitSyncName = ''my-app'', Health = None, manifestHash = []\<rparr>) then [(''apps/web'', ''web'')] else []), k)\<rparr>"

definition one_root_objects :: "unit \<Rightarrow> (string \<times> ResourceInfo option \<times> string) set" where
  "one_root_objects k = {(''apps/web'', Some \<lparr>GitSyncName = ''my-app'', Health = None, manifestHash = []\<rparr>, ''web'')}"

lemma one_root_law: "managed_law one_root one_root_objects"
  by (auto simp: managed_law_def one_root_def one_root_objects_def split: if_splits)

lemma one_root_processed:
  assumes "ss_cache s = snd (Init (zero_GlobalConfig, None) NewLiveStateCache)" and "gs_Name g = ''my-app''"
  shows "\<exists>c. ProcessGitSyncDeletion (small_libs (None, None) (None, None)\<lparr>clusterL := one_root\<rparr>)
    (zero_GlobalConfig\<lparr>gc_CascadeDeletion := True\<rparr>, None) g s = (Ok (), s\<lparr>ss_cache := c\<rparr>)"
proof -
  have "\<exists>c. GetManagedLiveObjs one_root (zero_GlobalConfig\<lparr>gc_CascadeDeletion := True\<rparr>, None) g []
      (snd (Init (zero_GlobalConfig, None) NewLiveStateCache)) = (Ok [(''apps/web'', ''web'')], c)"
    by (simp add: GetManagedLiveObjs_def getSyncedCluster_def getCluster_def on_cluster_def Init_def NewLiveStateCache_def
        loadCacheSettings_def parseResourceFilter_def zero_GlobalConfig_def Let_def one_root_def empty_cluster_def
        owned_by_def resInfo_def assms(2))
  then show ?thesis
    using assms(1)
    by (auto simp: ProcessGitSyncDeletion_def CascadeDeletion_def GetLiveManagedObjects_def on_cache_def on_ext_def
        DeleteKubernetesResource_def no_secrets_def)
qed

theorem finalizer_removed_last_witness:
  "let g = small_gitsync ''main'' None\<lparr>gs_Finalizers := [finalizerName], gs_DeletionTimestamp := Some 5\<rparr>;
       L = small_libs (None, None) (None, None)\<lparr>clusterL := one_root\<rparr>
   in \<exists>us. ''web'' \<in> set us \<and> all_done (clientL L) us (ext (small_syncer g)) \<and>
      fst (Reconcile L small_ctl prod_reconciler (zero_GlobalConfig\<lparr>gc_CascadeDeletion := True\<rparr>, None) 7 8 ''ns'' ''my-app''
        (small_syncer g)) = Ok ()"
proof -
  let ?L = "small_libs (None, None) (None, None)\<lparr>clusterL := one_root\<rparr>"
  let ?g = "small_gitsync ''main'' None\<lparr>gs_Finalizers := [finalizerName], gs_DeletionTimestamp := Some 5\<rparr>"
  let ?cfg = "zero_GlobalConfig\<lparr>gc_CascadeDeletion := True\<rparr>"
  have get: "Get_GitSync ?L ''ns'' ''my-app'' (ext (small_syncer ?g)) = Inr ?g"
    by (simp add: small_libs_def ext_small_syncer small_gitsync_simps)
  have here: "ContainsClusterDestination (gs_Spec ?g) (clusterName prod_reconciler)" "being_deleted ?g"
    "has_syncer prod_reconciler" "finalizerName \<in> set (gs_Finalizers ?g)" "gc_CascadeDeletion ?cfg"
    by (simp_all add: small_gitsync_def ContainsClusterDestination_def prod_reconciler_def being_deleted_def)
  have same: "Get_GitSync ?L = Get_GitSync (small_libs (None, None) (None, None))"
    by (simp add: small_libs_def)
  have update: "update_law ?L small_ctl"
    using small_update_law [where mr = "(None, None)" and nsc = "(None, None)"] unfolding update_law_def same .
  have law: "managed_law (clusterL ?L) one_root_objects"
    using one_root_law by simp
  let ?s = "small_syncer ?g\<lparr>ss_base := RefreshBaseLoggerLevel (?cfg, None) (ss_base (small_syncer ?g))\<rparr>"
  obtain c where "ProcessGitSyncDeletion ?L (?cfg, None) ?g ?s = (Ok (), ?s\<lparr>ss_cache := c\<rparr>)"
    using one_root_processed [of ?s ?g] by (auto simp: small_syncer_def small_gitsync_simps)
  then have "fst (Reconcile ?L small_ctl prod_reconciler (?cfg, None) 7 8 ''ns'' ''my-app'' (small_syncer ?g)) = Ok ()"
    using here get
    by (simp add: Reconcile_def reconcile_def write_back_def needsUpdate_def Let_def on_ext_def small_ctl_simps
        small_gitsync_simps ext_small_syncer delete_gitsync_def stop_watching_def)
  then obtain s' where r: "Reconcile ?L small_ctl prod_reconciler (?cfg, None) 7 8 ''ns'' ''my-app'' (small_syncer ?g) = (Ok (), s')"
    by (metis surjective_pairing)
  note last = finalizer_removed_last [OF small_finalizer_law update law get here(4,1,2,3,5) r]
  from last obtain us k where us: "set us = {u. \<exists>key info. (key, info, u) \<in> one_root_objects k \<and> owned_by ?g info}"
      and gone: "all_done (clientL ?L) us (ext (small_syncer ?g))"
    by (elim exE conjE) (rule that)
  have "''web'' \<in> set us"
    unfolding us one_root_objects_def by (simp add: owned_by_def resInfo_def small_gitsync_simps)
  with gone show ?thesis
    unfolding Let_def r fst_conv by (intro exI [of _ us]) simp
qed

end
