(* ===== verification/SharedClone.thy ===== *)
theory SharedClone
  imports GitRepo
begin

text \<open>
  Workers that share a working copy. The path of a clone is made of the base directory, the name
  of the GitSync and a hash of its repository URL (\<open>getLocalRepoPath\<close> in
  \<^verbatim>\<open>internal/git/util.go\<close>); its namespace is not part of it, and a key of the watch list is
  namespaced. So two GitSyncs of the same name and URL in different namespaces are
  synchronised by two workers on the same files, with nothing between them.

  \<open>GetLatestManifests\<close> is split here between its calls that read or change the working copy: the fetch, the
  checkout, reading the branch, the pull, resolving the revision, and the build. A run is given by a
  schedule, the list of the workers in the order they act; each act is one of these parts. The
  ghost component \<open>holder\<close> is the worker that last chose the branch of the working copy, with that branch; \<open>built\<close> are
  the results in the order they were made, each with the holder at that moment.
\<close>

section \<open>The parts of \<open>GetLatestManifests\<close>\<close>

text \<open>Up to the checkout: the branch if the working copy is on the target revision already.\<close>

definition fetch_phase ::
  "('w, 'r, 't, 'u) repo_libs \<Rightarrow> ('w, 'u) k8s_client \<Rightarrow> GlobalConfig \<times> go_error option \<Rightarrow> GitSync \<Rightarrow> 'r \<Rightarrow>
   ('w, 'e) env_scheme \<Rightarrow> (('w, 'e) env_scheme, string option) result" where
  "fetch_phase R C cfg gitSync r s =
     (case cfg of
        (_, Some e) \<Rightarrow> (Err e, s)
      | (globalConfig, None) \<Rightarrow>
          (let target = TargetRevision (gs_Spec gitSync);
               credentials = FindCredByUrl (RepoUrl (gs_Spec gitSync)) (RepoCredentials globalConfig)
           in if GetCurrentBranch R r (ext s) = Inr target then (Ok (Some target), s)
              else (case GetRepoFetchOptions R C credentials (RepoUrl (gs_Spec gitSync)) (ext s) of
                      Inl e \<Rightarrow> (Err (ErrorString (''error getting the fetch options: '' @ Error e)), s)
                    | Inr fetchOptions \<Rightarrow>
                        bindR (if target \<noteq> ''main'' \<and> target \<noteq> ''master'' then on_ext (fetchAll R r fetchOptions) s
                               else (Ok (), s)) (\<lambda>_ s1. (Ok None, s1)))))"

definition checkout_phase ::
  "('w, 'r, 't, 'u) repo_libs \<Rightarrow> GitSync \<Rightarrow> 'r \<Rightarrow> ('w, 'e) env_scheme \<Rightarrow> (('w, 'e) env_scheme, unit) result" where
  "checkout_phase R gitSync r s = on_ext (checkoutRepo R r (TargetRevision (gs_Spec gitSync))) s"

definition branch_phase ::
  "('w, 'r, 't, 'u) repo_libs \<Rightarrow> 'r \<Rightarrow> ('w, 'e) env_scheme \<Rightarrow> (('w, 'e) env_scheme, string) result" where
  "branch_phase R r s = (of_sum (GetCurrentBranch R r (ext s)), s)"

definition pull_phase ::
  "('w, 'r, 't, 'u) repo_libs \<Rightarrow> ('w, 'u) k8s_client \<Rightarrow> GlobalConfig \<times> go_error option \<Rightarrow> int \<Rightarrow> GitSync \<Rightarrow> 'r \<Rightarrow>
   string \<Rightarrow> ('w, 'e) env_scheme \<Rightarrow> (('w, 'e) env_scheme, unit) result" where
  "pull_phase R C cfg lat gitSync r branch s =
     (let credentials = FindCredByUrl (RepoUrl (gs_Spec gitSync)) (RepoCredentials (fst cfg))
      in case GetRepoPullOptions R C credentials (RepoUrl (gs_Spec gitSync)) branch (ext s) of
           Inl e \<Rightarrow> (Err e, s)
         | Inr pullOptions \<Rightarrow>
             (case git_LoadConfig R (ext s) of
                Inl e \<Rightarrow> (Err (ErrorString (''error loading git config: '' @ Error e)), s)
              | Inr gitConfig \<Rightarrow>
                  (case UpdateOptionsWithGitConfig gitConfig (Some pullOptions) of
                     Err e \<Rightarrow> (Err (ErrorString (''error updating pull options with git config: '' @ Error e)), s)
                   | Panic p \<Rightarrow> (Panic p, s)
                   | Ok pullOptions' \<Rightarrow>
                       (case repo_Worktree R r (ext s) of
                          Some e \<Rightarrow> (Err e, s)
                        | None \<Rightarrow> pull_branch R lat r pullOptions' s))))"

definition resolve_phase ::
  "('w, 'r, 't, 'u) repo_libs \<Rightarrow> 'r \<Rightarrow> GitSync \<Rightarrow> ('w, 'e) env_scheme \<Rightarrow> (('w, 'e) env_scheme, string) result" where
  "resolve_phase R r gitSync s = (of_sum (getLatestCommitHash R r (TargetRevision (gs_Spec gitSync)) (ext s)), s)"

definition build_phase ::
  "('w, 'r, 't, 'u) repo_libs \<Rightarrow> GlobalConfig \<times> go_error option \<Rightarrow> 'r \<Rightarrow> GitSync \<Rightarrow> string \<Rightarrow>
   ('w, 'e) env_scheme \<Rightarrow> (('w, 'e) env_scheme, string \<times> 'u list) result" where
  "build_phase R cfg r gitSync hsh s =
     (case getLocalRepoPath R cfg gitSync of
        Inl e \<Rightarrow> (Err e, s)
      | Inr localRepoPath \<Rightarrow>
          (case os_Stat R (localRepoPath @ ''/'' @ Path (gs_Spec gitSync)) (ext s) of
             Some e \<Rightarrow> (Err (ErrorString (''invalid repo path, err: '' @ Error e)), s)
           | None \<Rightarrow>
               (case ExplicitType (gs_Spec gitSync) of
                  Inl e \<Rightarrow> (Err e, s)
                | Inr sourceType \<Rightarrow>
                    bindR (mapErr build_error (build_manifests R r gitSync localRepoPath hsh sourceType s))
                      (\<lambda>targetObjs s2. (Ok (hsh, targetObjs), s2)))))"

text \<open>Nothing is lost in the split.\<close>

lemma fetchUpdates_phases:
  "fetchUpdates R C cfg lat g r s =
     bindR (fetch_phase R C cfg g r s) (\<lambda>b s1.
     bindR (case b of
              Some branch \<Rightarrow> (Ok branch, s1)
            | None \<Rightarrow> bindR (checkout_phase R g r s1) (\<lambda>_ s2. branch_phase R r s2))
       (pull_phase R C cfg lat g r))"
proof (cases cfg)
  case (Pair globalConfig err)
  show ?thesis
  proof (cases err)
    case None
    then show ?thesis
      unfolding Pair fetchUpdates_def fetch_phase_def goto_revision_def pull_phase_def [abs_def] checkout_phase_def
        branch_phase_def Let_def
      by (auto simp: bindR_assoc split: sum.split)
  qed (simp add: Pair fetchUpdates_def fetch_phase_def)
qed

lemma bindR_of_sum: "bindR (of_sum x, s) k = (case x of Inl e \<Rightarrow> (Err e, s) | Inr y \<Rightarrow> k y s)"
  by (cases x) simp_all

lemma GetLatestManifests_phases:
  "GetLatestManifests R C cfg lat r g s =
     bindR (fetch_phase R C cfg g r s) (\<lambda>b s1.
     bindR (case b of
              Some branch \<Rightarrow> (Ok branch, s1)
            | None \<Rightarrow> bindR (checkout_phase R g r s1) (\<lambda>_ s2. branch_phase R r s2)) (\<lambda>branch s2.
     bindR (pull_phase R C cfg lat g r branch s2) (\<lambda>_ s3.
     bindR (resolve_phase R r g s3) (\<lambda>hsh s4. build_phase R cfg r g hsh s4))))"
  unfolding GetLatestManifests_def fetchUpdates_phases bindR_assoc resolve_phase_def build_phase_def bindR_of_sum ..

section \<open>Workers on one working copy\<close>

text \<open>Which part of the call a worker is before.\<close>

datatype phase = Opened | Fetched | CheckedOut | Switched string | Updated | Resolved string

record ('w, 'u) shared_clone =
  phases :: "nat \<Rightarrow> phase"
  disk :: "'w env"
  holder :: "(nat \<times> string) option"
  built :: "(nat \<times> (nat \<times> string) option \<times> string \<times> 'u list) list"

definition set_phase :: "nat \<Rightarrow> phase \<Rightarrow> 'w env \<Rightarrow> ('w, 'u) shared_clone \<Rightarrow> ('w, 'u) shared_clone" where
  "set_phase i p s c = c\<lparr>phases := (phases c)(i := p), disk := s\<rparr>"

text \<open>The branch a worker has chosen, as the disk shows it.\<close>

definition held :: "('w, 'r, 't, 'u) repo_libs \<Rightarrow> 'r \<Rightarrow> nat \<Rightarrow> 'w env \<Rightarrow> (nat \<times> string) option" where
  "held R r i s = (case GetCurrentBranch R r (ext s) of Inr b \<Rightarrow> Some (i, b) | Inl _ \<Rightarrow> None)"

text \<open>
  One act of worker \<open>i\<close>, whose GitSync is \<open>gs i\<close>. A part that fails ends the run of the worker,
  which begins again with the next one. After a failed checkout nobody holds the working copy.
\<close>

definition clone_act ::
  "('w, 'r, 't, 'u) repo_libs \<Rightarrow> ('w, 'u) k8s_client \<Rightarrow> GlobalConfig \<times> go_error option \<Rightarrow> int \<Rightarrow> 'r \<Rightarrow>
   (nat \<Rightarrow> GitSync) \<Rightarrow> nat \<Rightarrow> ('w, 'u) shared_clone \<Rightarrow> ('w, 'u) shared_clone" where
  "clone_act R C cfg lat r gs i c =
     (case phases c i of
        Opened \<Rightarrow>
          (case fetch_phase R C cfg (gs i) r (disk c) of
             (Ok (Some b), s) \<Rightarrow> (set_phase i (Switched b) s c)\<lparr>holder := held R r i s\<rparr>
           | (Ok None, s) \<Rightarrow> set_phase i Fetched s c
           | (_, s) \<Rightarrow> set_phase i Opened s c)
      | Fetched \<Rightarrow>
          (case checkout_phase R (gs i) r (disk c) of
             (Ok _, s) \<Rightarrow> (set_phase i CheckedOut s c)\<lparr>holder := held R r i s\<rparr>
           | (_, s) \<Rightarrow> (set_phase i Opened s c)\<lparr>holder := None\<rparr>)
      | CheckedOut \<Rightarrow>
          (case branch_phase R r (disk c) of
             (Ok b, s) \<Rightarrow> set_phase i (Switched b) s c
           | (_, s) \<Rightarrow> set_phase i Opened s c)
      | Switched b \<Rightarrow>
          (case pull_phase R C cfg lat (gs i) r b (disk c) of
             (Ok _, s) \<Rightarrow> set_phase i Updated s c
           | (_, s) \<Rightarrow> set_phase i Opened s c)
      | Updated \<Rightarrow>
          (case resolve_phase R r (gs i) (disk c) of
             (Ok hsh, s) \<Rightarrow> set_phase i (Resolved hsh) s c
           | (_, s) \<Rightarrow> set_phase i Opened s c)
      | Resolved h \<Rightarrow>
          (case build_phase R cfg r (gs i) h (disk c) of
             (Ok (hsh, objs), s) \<Rightarrow> (set_phase i Opened s c)\<lparr>built := built c @ [(i, holder c, hsh, objs)]\<rparr>
           | (_, s) \<Rightarrow> set_phase i Opened s c))"

fun clone_run ::
  "('w, 'r, 't, 'u) repo_libs \<Rightarrow> ('w, 'u) k8s_client \<Rightarrow> GlobalConfig \<times> go_error option \<Rightarrow> int \<Rightarrow> 'r \<Rightarrow>
   (nat \<Rightarrow> GitSync) \<Rightarrow> nat list \<Rightarrow> ('w, 'u) shared_clone \<Rightarrow> ('w, 'u) shared_clone" where
  "clone_run R C cfg lat r gs [] c = c"
| "clone_run R C cfg lat r gs (i # is) c = clone_run R C cfg lat r gs is (clone_act R C cfg lat r gs i c)"

definition fresh_clone :: "'w env \<Rightarrow> ('w, 'u) shared_clone" where
  "fresh_clone s = \<lparr>phases = (\<lambda>_. Opened), disk = s, holder = None, built = []\<rparr>"

text \<open>A worker that acts alone does what \<open>GetLatestManifests\<close> does.\<close>

lemma alone_is_GetLatestManifests:
  assumes "GetLatestManifests R C cfg lat r (gs i) (disk c) = (Ok (hsh, objs), s)" and "phases c i = Opened"
  shows "\<exists>n. let c' = clone_run R C cfg lat r gs (replicate n i) c
             in phases c' = phases c \<and> disk c' = s \<and> (\<exists>h. built c' = built c @ [(i, h, hsh, objs)])"
proof -
  obtain b s1 branch s2 s3 h s4 where
    f: "fetch_phase R C cfg (gs i) r (disk c) = (Ok b, s1)" and
    sw: "(case b of Some branch \<Rightarrow> (Ok branch, s1)
          | None \<Rightarrow> bindR (checkout_phase R (gs i) r s1) (\<lambda>_ s2. branch_phase R r s2)) = (Ok branch, s2)" and
    p: "pull_phase R C cfg lat (gs i) r branch s2 = (Ok (), s3)" and
    h: "resolve_phase R r (gs i) s3 = (Ok h, s4)" and
    bd: "build_phase R cfg r (gs i) h s4 = (Ok (hsh, objs), s)"
    using assms(1) unfolding GetLatestManifests_phases bindR_eq_Ok by auto
  show ?thesis
  proof (cases b)
    case None
    with sw obtain s1' where "checkout_phase R (gs i) r s1 = (Ok (), s1')" "branch_phase R r s1' = (Ok branch, s2)"
      by (auto simp: bindR_eq_Ok)
    with None f p h bd assms(2) show ?thesis
      by (intro exI [of _ 6]) (simp add: numeral_eq_Suc clone_act_def set_phase_def fun_upd_idem)
  next
    case (Some b')
    with sw f p h bd assms(2) show ?thesis
      by (intro exI [of _ 4]) (simp add: numeral_eq_Suc clone_act_def set_phase_def fun_upd_idem)
  qed
qed

section \<open>Where \<open>HEAD\<close> is\<close>

text \<open>
  What go-git and the build tools do to \<open>HEAD\<close>: a checkout that succeeds puts it on the branch
  asked for, a reference is found under its own name, and a fetch, a pull, a build and the download of
  chart dependencies leave it where it is.
\<close>

definition head_laws :: "('w, 'r, 't, 'u) repo_libs \<Rightarrow> 'r \<Rightarrow> bool" where
  "head_laws R r \<longleftrightarrow>
     (\<forall>b w w'. Checkout R r (branch_ref b) w = (Ok (), w') \<longrightarrow> Head R r w' = Inr (True, b)) \<and>
     (\<forall>n m w. repo_Reference R r n w = Inr m \<longrightarrow> m = n) \<and>
     (\<forall>opts w. Head R r (snd (remote_Fetch R r opts w)) = Head R r w) \<and>
     (\<forall>opts w. Head R r (snd (Pull R r opts w)) = Head R r w) \<and>
     (\<forall>p q u w. Head R r (snd (kustomize_Build R p q u w)) = Head R r w) \<and>
     (\<forall>h opts w. Head R r (snd (helm_Template R h opts w)) = Head R r w) \<and>
     (\<forall>h w. Head R r (snd (helm_DependencyBuild R h w)) = Head R r w)"

definition is_branch :: "('w, 'r, 't, 'u) repo_libs \<Rightarrow> 'r \<Rightarrow> string \<Rightarrow> bool" where
  "is_branch R r b \<longleftrightarrow> (\<forall>w. \<exists>n. repo_Reference R r (branch_ref b) w = Inr n)"

lemma head_kept:
  assumes "head_laws R r"
  shows "remote_Fetch R r fo w = (fetched, w') \<Longrightarrow> Head R r w' = Head R r w"
    and "Pull R r opts w = (pulled, w') \<Longrightarrow> Head R r w' = Head R r w"
    and "kustomize_Build R p q u w = (objs, w') \<Longrightarrow> Head R r w' = Head R r w"
    and "helm_Template R h ho w = (out, w') \<Longrightarrow> Head R r w' = Head R r w"
    and "Head R r (snd (helm_Template R h ho w)) = Head R r w"
    and "Head R r (snd (helm_DependencyBuild R h w)) = Head R r w"
  using assms unfolding head_laws_def by (metis snd_conv)+

lemma GetCurrentBranch_cong: "Head R r w' = Head R r w \<Longrightarrow> GetCurrentBranch R r w' = GetCurrentBranch R r w"
  by (simp add: GetCurrentBranch_def)

lemma ext_on_ext: "ext (snd (on_ext f s)) = snd (f (ext s))"
  by (simp add: on_ext_def split: prod.split)

lemma fetch_phase_head:
  assumes "head_laws R r"
  shows "Head R r (ext (snd (fetch_phase R C cfg g r s))) = Head R r (ext s)"
proof -
  have "Head R r (snd (fetchAll R r opts w)) = Head R r w" for opts w
    by (cases "remote_Fetch R r opts w"; cases "fst (remote_Fetch R r opts w)")
       (auto simp: fetchAll_def head_kept(1) [OF assms] split: option.split)
  then have "Head R r (ext (snd (on_ext (fetchAll R r opts) s))) = Head R r (ext s)" for opts
    by (simp add: ext_on_ext)
  then show ?thesis
    by (auto simp: fetch_phase_def Let_def split: prod.split option.split sum.split
        intro!: bindR_keeps [of "\<lambda>s. Head R r (ext s)"])
qed

lemma pull_phase_head:
  assumes "head_laws R r"
  shows "Head R r (ext (snd (pull_phase R C cfg lat g r b s))) = Head R r (ext s)"
proof -
  have "Head R r (ext (snd (pull_branch R lat r opts s))) = Head R r (ext s)" for opts
    by (cases "Pull R r opts (ext s)"; cases "fst (Pull R r opts (ext s))")
      (auto simp: pull_branch_def log_metric_def head_kept(2) [OF assms])
  then show ?thesis
    by (simp add: pull_phase_def Let_def split: sum.split outcome.split option.split)
qed

lemma helmTemplate_head:
  assumes "head_laws R r" and "helmTemplate R p g w = (res, w')"
  shows "Head R r w' = Head R r w"
proof -
  have "Head R r (snd (helmTemplate R p g w)) = Head R r w"
    unfolding helmTemplate_def
    by (auto simp: Let_def head_kept(4-6) [OF assms(1)] split: sum.split option.split prod.split outcome.split
        intro!: bindR_keeps [of "Head R r"])
  with assms(2) show ?thesis by simp
qed

lemma build_phase_head:
  assumes "head_laws R r"
  shows "Head R r (ext (snd (build_phase R cfg r g hsh s))) = Head R r (ext s)"
proof -
  have "Head R r (ext (snd (build_manifests R r g p hsh t s))) = Head R r (ext s)" for p hsh t
    by (auto simp: build_manifests_def on_ext_def head_kept(3) [OF assms] helmTemplate_head [OF assms]
        split: SourceType.split prod.split)
  then show ?thesis
    by (auto simp: build_phase_def split: sum.split option.split intro!: bindR_keeps [of "\<lambda>s. Head R r (ext s)"])
qed

text \<open>A worker that has chosen a branch has the branch of its target revision, if that is a branch.\<close>

lemma checkout_phase_target:
  assumes "head_laws R r" and "is_branch R r (TargetRevision (gs_Spec g))" and "checkout_phase R g r s = (Ok (), s')"
  shows "GetCurrentBranch R r (ext s') = Inr (TargetRevision (gs_Spec g))"
proof -
  let ?b = "TargetRevision (gs_Spec g)"
  obtain n where ref: "repo_Reference R r (branch_ref ?b) (ext s) = Inr n" using assms(2) unfolding is_branch_def by blast
  then have "n = branch_ref ?b" using assms(1) unfolding head_laws_def by blast
  with ref assms(3) have "Checkout R r (branch_ref ?b) (ext s) = (Ok (), ext s')"
    by (auto simp: checkout_phase_def on_ext_eq checkoutRepo_def case_error_Ok)
  with assms(1) have "Head R r (ext s') = Inr (True, ?b)" unfolding head_laws_def by blast
  then show ?thesis by (simp add: GetCurrentBranch_def)
qed

lemma fetch_phase_target:
  "fetch_phase R C cfg g r s = (Ok (Some b), s') \<Longrightarrow> s' = s \<and> GetCurrentBranch R r (ext s) = Inr (TargetRevision (gs_Spec g))"
  by (auto simp: fetch_phase_def Let_def Ok_iffs split: prod.splits option.splits if_splits)

section \<open>What a build reads\<close>

text \<open>
  The manifests \<open>objs\<close> are what the GitSync \<open>g\<close> gives for the hash \<open>hsh\<close> in the world \<open>w\<close>: a raw source
  is read at that commit, and a kustomize or helm source is built from the files that are there.
\<close>

definition built_from ::
  "('w, 'r, 't, 'u) repo_libs \<Rightarrow> GlobalConfig \<times> go_error option \<Rightarrow> 'r \<Rightarrow> GitSync \<Rightarrow> string \<Rightarrow> 'u list \<Rightarrow> 'w \<Rightarrow> bool" where
  "built_from R cfg r g hsh objs w \<longleftrightarrow>
     (\<exists>p t. getLocalRepoPath R cfg g = Inr p \<and> ExplicitType (gs_Spec g) = Inr t \<and>
        (case t of
           SourceTypeKustomize \<Rightarrow>
             \<exists>w'. kustomize_Build R p (Path (gs_Spec g)) (RepoUrl (gs_Spec g)) w = (Ok objs, w')
         | SourceTypeHelm \<Rightarrow> \<exists>w'. helmTemplate R p g w = (Ok objs, w')
         | SourceTypeRaw \<Rightarrow>
             \<exists>files. commit_files R r (Path (gs_Spec g)) hsh w files \<and> manifests_of R files objs))"

lemma build_phase_Ok:
  assumes "build_phase R cfg r g h s = (Ok (hsh, objs), s')"
  shows "hsh = h \<and> built_from R cfg r g hsh objs (ext s)"
proof -
  obtain p t where hp: "getLocalRepoPath R cfg g = Inr p" "ExplicitType (gs_Spec g) = Inr t" and "hsh = h"
    and b: "build_manifests R r g p hsh t s = (Ok objs, s')"
    using assms unfolding build_phase_def Ok_iffs by auto
  then show ?thesis
    unfolding built_from_def
    by (cases t) (auto simp: build_manifests_def on_ext_eq Ok_iffs rawTemplate_Inr)
qed

definition own_hash :: "('w, 'r, 't, 'u) repo_libs \<Rightarrow> 'r \<Rightarrow> GitSync \<Rightarrow> string \<Rightarrow> bool" where
  "own_hash R r g h \<longleftrightarrow> (\<exists>w. ResolveRevision R r (TargetRevision (gs_Spec g)) w = Inr h)"

definition held_by ::
  "('w, 'r, 't, 'u) repo_libs \<Rightarrow> 'r \<Rightarrow> (nat \<Rightarrow> GitSync) \<Rightarrow> (nat \<times> string) option \<Rightarrow> 'w \<Rightarrow> bool" where
  "held_by R r gs h w \<longleftrightarrow>
     (\<forall>j b. h = Some (j, b) \<longrightarrow>
        GetCurrentBranch R r w = Inr b \<and>
        (is_branch R r (TargetRevision (gs_Spec (gs j))) \<longrightarrow> b = TargetRevision (gs_Spec (gs j))))"

definition clone_inv ::
  "('w, 'r, 't, 'u) repo_libs \<Rightarrow> GlobalConfig \<times> go_error option \<Rightarrow> 'r \<Rightarrow> (nat \<Rightarrow> GitSync) \<Rightarrow>
   ('w, 'u) shared_clone \<Rightarrow> bool" where
  "clone_inv R cfg r gs c \<longleftrightarrow>
     held_by R r gs (holder c) (ext (disk c)) \<and>
     (\<forall>i h. phases c i = Resolved h \<longrightarrow> own_hash R r (gs i) h) \<and>
     (\<forall>(i, h, hsh, objs) \<in> set (built c).
        own_hash R r (gs i) hsh \<and> (\<exists>w. built_from R cfg r (gs i) hsh objs w \<and> held_by R r gs h w))"

lemma held_by_cong:
  "Head R r w' = Head R r w \<Longrightarrow> held_by R r gs h w' = held_by R r gs h w"
  using GetCurrentBranch_cong unfolding held_by_def by metis

lemma held_by_held:
  assumes "is_branch R r (TargetRevision (gs_Spec (gs i))) \<Longrightarrow> GetCurrentBranch R r (ext s) = Inr (TargetRevision (gs_Spec (gs i)))"
  shows "held_by R r gs (held R r i s) (ext s)"
  using assms by (auto simp: held_by_def held_def split: sum.splits)

lemma clone_inv_fresh: "clone_inv R cfg r gs (fresh_clone s)"
  by (simp add: clone_inv_def fresh_clone_def held_by_def)

text \<open>Three ways an act keeps the invariant: \<open>HEAD\<close> stays, the worker becomes the holder, or a result is added.\<close>

lemma clone_inv_move:
  assumes "clone_inv R cfg r gs c" and "Head R r (ext s) = Head R r (ext (disk c))"
    and "\<And>h. p = Resolved h \<Longrightarrow> own_hash R r (gs i) h"
  shows "clone_inv R cfg r gs (set_phase i p s c)"
  using assms held_by_cong [OF assms(2)] by (simp add: clone_inv_def set_phase_def)

lemma clone_inv_hold:
  assumes "clone_inv R cfg r gs c" and "held_by R r gs h (ext s)" and "\<And>h. p \<noteq> Resolved h"
  shows "clone_inv R cfg r gs ((set_phase i p s c)\<lparr>holder := h\<rparr>)"
  using assms by (simp add: clone_inv_def set_phase_def)

lemma clone_inv_build:
  assumes "clone_inv R cfg r gs c" and "Head R r (ext s) = Head R r (ext (disk c))"
    and "own_hash R r (gs i) hsh" and "built_from R cfg r (gs i) hsh objs (ext (disk c))"
  shows "clone_inv R cfg r gs ((set_phase i Opened s c)\<lparr>built := built c @ [(i, holder c, hsh, objs)]\<rparr>)"
proof -
  have "held_by R r gs (holder c) (ext (disk c))" using assms(1) by (simp add: clone_inv_def)
  with assms(4) have "\<exists>w. built_from R cfg r (gs i) hsh objs w \<and> held_by R r gs (holder c) w" by blast
  with assms(1,3) held_by_cong [OF assms(2)] show ?thesis by (simp add: clone_inv_def set_phase_def)
qed

lemma clone_act_inv:
  assumes laws: "head_laws R r" and inv: "clone_inv R cfg r gs c"
  shows "clone_inv R cfg r gs (clone_act R C cfg lat r gs i c)"
proof (cases "phases c i")
  case Opened
  obtain x s where f: "fetch_phase R C cfg (gs i) r (disk c) = (x, s)" by fastforce
  have kept: "Head R r (ext s) = Head R r (ext (disk c))"
    using fetch_phase_head [OF laws, of C cfg "gs i" "disk c"] f by simp
  note move = clone_inv_move [OF inv kept]
  show ?thesis
  proof (cases x)
    case (Ok b)
    show ?thesis
    proof (cases b)
      case (Some b')
      with f Ok have "held_by R r gs (held R r i s) (ext s)"
        using fetch_phase_target [of R C cfg "gs i" r "disk c" b' s] by (intro held_by_held) simp
      from clone_inv_hold [OF inv this] Opened f Ok Some show ?thesis by (simp add: clone_act_def)
    qed (use Opened f Ok move [of Fetched i] in \<open>simp add: clone_act_def\<close>)
  qed (use Opened f move [of Opened i] in \<open>simp_all add: clone_act_def\<close>)
next
  case Fetched
  obtain x s where co: "checkout_phase R (gs i) r (disk c) = (x, s)" by fastforce
  show ?thesis
  proof (cases x)
    case (Ok u)
    with co have "held_by R r gs (held R r i s) (ext s)"
      by (intro held_by_held checkout_phase_target [OF laws]) simp_all
    from clone_inv_hold [OF inv this] Fetched co Ok show ?thesis by (simp add: clone_act_def)
  qed (use Fetched co clone_inv_hold [OF inv, where h = None] in \<open>simp_all add: clone_act_def held_by_def\<close>)
next
  case CheckedOut
  then show ?thesis
    by (cases "GetCurrentBranch R r (ext (disk c))")
       (auto simp: clone_act_def branch_phase_def intro!: clone_inv_move [OF inv refl])
next
  case (Switched b)
  obtain x s where pl: "pull_phase R C cfg lat (gs i) r b (disk c) = (x, s)" by fastforce
  then have "Head R r (ext s) = Head R r (ext (disk c))"
    using pull_phase_head [OF laws, of C cfg lat "gs i" b "disk c"] by simp
  with Switched pl show ?thesis by (cases x) (auto simp: clone_act_def intro!: clone_inv_move [OF inv])
next
  case Updated
  then show ?thesis
    by (cases "ResolveRevision R r (TargetRevision (gs_Spec (gs i))) (ext (disk c))")
       (auto simp: clone_act_def resolve_phase_def getLatestCommitHash_def own_hash_def intro!: clone_inv_move [OF inv refl])
next
  case (Resolved h)
  obtain x s where bl: "build_phase R cfg r (gs i) h (disk c) = (x, s)" by fastforce
  then have kept: "Head R r (ext s) = Head R r (ext (disk c))"
    using build_phase_head [OF laws, of cfg "gs i" h "disk c"] by simp
  show ?thesis
  proof (cases x)
    case (Ok y)
    obtain hsh objs where y: "y = (hsh, objs)" by fastforce
    with bl Ok have "build_phase R cfg r (gs i) h (disk c) = (Ok (hsh, objs), s)" by simp
    note b = build_phase_Ok [OF this, THEN conjunct1] build_phase_Ok [OF this, THEN conjunct2]
    have "own_hash R r (gs i) hsh" using inv Resolved b(1) by (simp add: clone_inv_def)
    from clone_inv_build [OF inv kept this b(2)] Resolved bl Ok y show ?thesis by (simp add: clone_act_def)
  qed (use Resolved bl in \<open>auto simp: clone_act_def intro!: clone_inv_move [OF inv kept]\<close>)
qed

lemma clone_run_inv:
  "head_laws R r \<Longrightarrow> clone_inv R cfg r gs c \<Longrightarrow> clone_inv R cfg r gs (clone_run R C cfg lat r gs is c)"
  by (induction "is" arbitrary: c) (simp_all add: clone_act_inv)

section \<open>Properties\<close>

text \<open>The namespace of a GitSync is not part of the path of its clone.\<close>

lemma clone_path_ignores_namespace:
  "getLocalRepoPath R cfg (g\<lparr>gs_Namespace := ns\<rparr>) = getLocalRepoPath R cfg g"
  by (simp add: getLocalRepoPath_def Let_def split: prod.split option.split)

text \<open>
  C9. Workers on one working copy. Whatever the order in which workers with a common clone act,
  each result has a hash that the worker's own target revision resolved to, and its manifests are built in
  some state \<open>w\<close> of the disk: a raw source is read at that commit, but a kustomize or helm source is built
  from files that are on the branch of the worker that last chose one, which
  need not be the same worker; if the target revision of that worker is a branch, it is that branch.
\<close>

theorem builds_read_holder:
  assumes "head_laws R r"
    and "(i, h, hsh, objs) \<in> set (built (clone_run R C cfg lat r gs schedule (fresh_clone s)))"
  shows "(\<exists>w0. ResolveRevision R r (TargetRevision (gs_Spec (gs i))) w0 = Inr hsh) \<and>
    (\<exists>w. built_from R cfg r (gs i) hsh objs w \<and>
      (\<forall>j b. h = Some (j, b) \<longrightarrow>
         GetCurrentBranch R r w = Inr b \<and>
         (is_branch R r (TargetRevision (gs_Spec (gs j))) \<longrightarrow> b = TargetRevision (gs_Spec (gs j)))))"
proof -
  have "clone_inv R cfg r gs (clone_run R C cfg lat r gs schedule (fresh_clone s))"
    by (rule clone_run_inv [OF assms(1) clone_inv_fresh])
  with assms(2) show ?thesis unfolding clone_inv_def held_by_def own_hash_def by blast
qed

text \<open>Two GitSyncs of the same name and URL: \<open>team-a\<close> follows \<open>main\<close>, \<open>team-b\<close> follows \<open>dev\<close>.\<close>

definition two_teams :: "nat \<Rightarrow> GitSync" where
  "two_teams i =
     (if i = 0 then (small_gitsync ''main'' (Some ()))\<lparr>gs_Namespace := ''team-a''\<rparr>
      else (small_gitsync ''dev'' (Some ()))\<lparr>gs_Namespace := ''team-b''\<rparr>)"

lemma small_repo_head_laws: "head_laws small_repo ()"
  by (simp add: head_laws_def branch_ref_def)

text \<open>While the first worker, on its branch already, pulls and resolves it, the second fetches and checks out its own.\<close>

lemma two_teams_run:
  "built (clone_run small_repo no_secrets (zero_GlobalConfig, None) 7 () two_teams [0, 0, 1, 0, 1, 0]
     (fresh_clone \<lparr>ext = (''main'', ()), metric_log = []\<rparr>)) =
   [(0, Some (1, ''dev''), ''c2'', [''built from dev''])]"
proof -
  let ?s = "\<lambda>b m. \<lparr>ext = (b, ()), metric_log = m\<rparr>"
  let ?cfg = "(zero_GlobalConfig, None)"
  have [simp]: "RepoUrl (gs_Spec (two_teams i)) = ''https://github.com/acme/repo''"
      "TargetRevision (gs_Spec (two_teams i)) = (if i = 0 then ''main'' else ''dev'')"
      "Path (gs_Spec (two_teams i)) = []" "gs_Name (two_teams i) = ''my-app''"
      "ExplicitType (gs_Spec (two_teams i)) = Inr SourceTypeKustomize" for i
    by (simp_all add: two_teams_def small_gitsync_def ExplicitType_def appTypes_def)
  have cred: "FindCredByUrl url (RepoCredentials zero_GlobalConfig) = None" for url
    by (simp add: zero_GlobalConfig_def)
  have on: "fetch_phase small_repo no_secrets ?cfg (two_teams 0) () (?s ''main'' []) = (Ok (Some ''main''), ?s ''main'' [])"
    by (simp add: fetch_phase_def GetCurrentBranch_def Let_def)
  have pl: "pull_phase small_repo no_secrets ?cfg 7 (two_teams 0) () b (?s b' []) = (Ok (), ?s b' [MGit, MLatency 7])" for b b'
    by (simp add: pull_phase_def Let_def cred small_options UpdateOptionsWithGitConfig_def pull_branch_def
        log_metric_def)
  have off: "fetch_phase small_repo no_secrets ?cfg (two_teams 1) () (?s ''main'' m) = (Ok None, ?s ''main'' m)" for m
    by (simp add: fetch_phase_def GetCurrentBranch_def Let_def cred small_options fetchAll_def)
  have res: "resolve_phase small_repo () (two_teams 0) (?s b m) = (Ok ''c2'', ?s b m)" for b m
    by (simp add: resolve_phase_def getLatestCommitHash_def)
  have co: "checkout_phase small_repo (two_teams 1) () (?s b m) = (Ok (), ?s ''dev'' m)" for b m
    by (simp add: checkout_phase_def checkoutRepo_def branch_ref_def)
  have bl: "build_phase small_repo ?cfg () (two_teams 0) h (?s b m) = (Ok (h, [''built from '' @ b]), ?s b m)" for h b m
    by (simp add: build_phase_def getLocalRepoPath_def zero_GlobalConfig_def build_manifests_def)
  have hd: "held small_repo () i (?s b m) = Some (i, b)" for i b m
    by (simp add: held_def GetCurrentBranch_def)
  show ?thesis
    by (simp add: clone_act_def set_phase_def fresh_clone_def on pl off [simplified] res co [simplified] bl hd)
qed

theorem builds_read_holder_witness:
  "(0, Some (1, ''dev''), ''c2'', [''built from dev'']) \<in>
     set (built (clone_run small_repo no_secrets (zero_GlobalConfig, None) 7 () two_teams [0, 0, 1, 0, 1, 0]
       (fresh_clone \<lparr>ext = (''main'', ()), metric_log = []\<rparr>))) \<and>
   (\<exists>w :: string \<times> unit. built_from small_repo (zero_GlobalConfig, None) () (two_teams 0) ''c2'' [''built from dev''] w \<and>
      GetCurrentBranch small_repo () w = Inr ''dev'')"
  using builds_read_holder [OF small_repo_head_laws, of 0 "Some (1, ''dev'')" "''c2''" "[''built from dev'']"
      no_secrets "(zero_GlobalConfig, None)" 7 two_teams "[0, 0, 1, 0, 1, 0]" "\<lparr>ext = (''main'', ()), metric_log = []\<rparr>"]
  unfolding two_teams_run by simp blast

end
