(* ===== verification/Heap.thy ===== *)
theory Heap
  imports Prelude
begin

text \<open>
  Memory: cells at addresses, pointers and slices into it, and the interface of a function that
  copies a value with everything it points to. The combinators are the statements the copying
  code is made of (a copied pointer, a copied slice, a copied map, a struct field); each of
  them keeps the laws of the interface.
\<close>

section \<open>Memory\<close>

text \<open>
  Addresses below \<open>nxt\<close> are in use. A pointer may be nil. A slice is nil or a window of an array:
  the address of the array, an offset and a length.
\<close>

record 'c heap =
  nxt :: nat
  cell :: "nat \<Rightarrow> 'c"

type_synonym pointer = "nat option"

type_synonym slice = "(nat \<times> nat \<times> nat) option"

definition alloc :: "'c \<Rightarrow> 'c heap \<Rightarrow> nat \<times> 'c heap" where
  "alloc c h = (nxt h, h\<lparr>nxt := Suc (nxt h), cell := (cell h)(nxt h := c)\<rparr>)"

definition store :: "nat \<Rightarrow> 'c \<Rightarrow> 'c heap \<Rightarrow> 'c heap" where
  "store a c h = h\<lparr>cell := (cell h)(a := c)\<rparr>"

definition window :: "nat \<times> nat \<times> nat \<Rightarrow> 'a list \<Rightarrow> 'a list" where
  "window w xs = (case w of (a, off, len) \<Rightarrow> take len (drop off xs))"

lemma nxt_alloc [simp]: "nxt (snd (alloc c h)) = Suc (nxt h)" "fst (alloc c h) = nxt h"
  by (simp_all add: alloc_def)

lemma cell_alloc [simp]: "cell (snd (alloc c h)) = (cell h)(nxt h := c)"
  by (simp add: alloc_def)

lemma nxt_store [simp]: "nxt (store a c h) = nxt h"
  by (simp add: store_def)

lemma cell_store [simp]: "cell (store a c h) = (cell h)(a := c)"
  by (simp add: store_def)

lemma window_whole [simp]: "window (a, 0, length xs) xs = xs"
  by (simp add: window_def)

section \<open>The interface of a deep copy\<close>

text \<open>
  \<open>cp\<close> copies a value that may contain addresses, \<open>val\<close> reads the value with everything it points
  to as a value without addresses, and \<open>foot\<close> is the set of addresses it reaches. A copier only
  adds memory, its result reads the same and reaches new memory only; a value is read from the
  addresses it reaches.
\<close>

locale deep_copier =
  fixes cp :: "'a \<Rightarrow> 'c heap \<Rightarrow> 'a \<times> 'c heap"
    and val :: "'c heap \<Rightarrow> 'a \<Rightarrow> 'v"
    and foot :: "'c heap \<Rightarrow> 'a \<Rightarrow> nat set"
  assumes grows: "nxt h \<le> nxt (snd (cp x h))"
    and keeps: "a < nxt h \<Longrightarrow> cell (snd (cp x h)) a = cell h a"
    and val_copy: "foot h x \<subseteq> {..<nxt h} \<Longrightarrow> val (snd (cp x h)) (fst (cp x h)) = val h x"
    and foot_copy: "foot h x \<subseteq> {..<nxt h} \<Longrightarrow>
      foot (snd (cp x h)) (fst (cp x h)) \<subseteq> {nxt h..<nxt (snd (cp x h))}"
    and val_local: "(\<And>a. a \<in> foot h x \<Longrightarrow> cell h' a = cell h a) \<Longrightarrow> val h' x = val h x"
    and foot_local: "(\<And>a. a \<in> foot h x \<Longrightarrow> cell h' a = cell h a) \<Longrightarrow> foot h' x = foot h x"
begin

lemma stable:
  assumes "foot h x \<subseteq> {..<n}" and "\<And>a. a < n \<Longrightarrow> cell h' a = cell h a"
  shows "val h' x = val h x" and "foot h' x = foot h x"
proof -
  have same: "cell h' a = cell h a" if "a \<in> foot h x" for a
    using assms that by blast
  show "val h' x = val h x"
    by (rule val_local) (rule same)
  show "foot h' x = foot h x"
    by (rule foot_local) (rule same)
qed

lemma original_kept:
  assumes "foot h x \<subseteq> {..<nxt h}"
  shows "val (snd (cp y h)) x = val h x" and "foot (snd (cp y h)) x = foot h x"
  by (rule stable [OF assms], erule keeps)+

text \<open>What is later written through the copy, or to newer memory, does not reach the original.\<close>

lemma writes_do_not_reach:
  assumes "foot h x \<subseteq> {..<nxt h}"
    and "\<And>a. a \<notin> foot (snd (cp x h)) (fst (cp x h)) \<Longrightarrow> a < nxt (snd (cp x h)) \<Longrightarrow>
      cell h' a = cell (snd (cp x h)) a"
  shows "val h' x = val h x"
proof (rule stable(1) [OF assms(1)])
  fix a assume a: "a < nxt h"
  then have "a \<notin> foot (snd (cp x h)) (fst (cp x h))" and "a < nxt (snd (cp x h))"
    using foot_copy [OF assms(1)] grows [of h x] by fastforce+
  then show "cell h' a = cell h a"
    using assms(2) keeps a by metis
qed

text \<open>And conversely: writes to the original do not reach the copy.\<close>

lemma copy_is_private:
  assumes "foot h x \<subseteq> {..<nxt h}"
    and "\<And>a. nxt h \<le> a \<Longrightarrow> cell h' a = cell (snd (cp x h)) a"
  shows "val h' (fst (cp x h)) = val h x"
proof -
  have "val h' (fst (cp x h)) = val (snd (cp x h)) (fst (cp x h))"
    by (rule val_local, rule assms(2)) (use foot_copy [OF assms(1)] in auto)
  then show ?thesis
    using val_copy [OF assms(1)] by simp
qed

end

section \<open>Values without addresses\<close>

definition flat_copy :: "'a \<Rightarrow> 'c heap \<Rightarrow> 'a \<times> 'c heap" where
  "flat_copy x h = (x, h)"

interpretation flat: deep_copier flat_copy "\<lambda>h x. f x" "\<lambda>h x. {}"
  by unfold_locales (simp_all add: flat_copy_def)

section \<open>References\<close>

text \<open>
  The common shape of copying what a pointer, a slice or a map refers to: a new cell with some
  first contents \<open>init\<close>, the referenced value (read by \<open>rd\<close> from the cell at \<open>ad r\<close>) copied, and
  the copy put into the new cell (\<open>mk\<close>), to which the result refers (\<open>ref\<close>).
\<close>

definition copy_ref ::
  "('c \<Rightarrow> 'c) \<Rightarrow> ('a \<Rightarrow> 'c) \<Rightarrow> ('r \<Rightarrow> 'c \<Rightarrow> 'a) \<Rightarrow> ('r \<Rightarrow> nat) \<Rightarrow> (nat \<Rightarrow> 'a \<Rightarrow> 'r) \<Rightarrow>
   ('a \<Rightarrow> 'c heap \<Rightarrow> 'a \<times> 'c heap) \<Rightarrow> 'r option \<Rightarrow> 'c heap \<Rightarrow> 'r option \<times> 'c heap" where
  "copy_ref init mk rd ad ref cp p h =
     (case p of
        None \<Rightarrow> (None, h)
      | Some r \<Rightarrow>
          (let (out, h1) = alloc (init (cell h (ad r))) h;
               (v, h2) = cp (rd r (cell h1 (ad r))) h1
           in (Some (ref out v), store out (mk v) h2)))"

definition ref_val :: "('r \<Rightarrow> 'c \<Rightarrow> 'a) \<Rightarrow> ('r \<Rightarrow> nat) \<Rightarrow> ('c heap \<Rightarrow> 'a \<Rightarrow> 'v) \<Rightarrow> 'c heap \<Rightarrow> 'r option \<Rightarrow> 'v option" where
  "ref_val rd ad val h p = map_option (\<lambda>r. val h (rd r (cell h (ad r)))) p"

definition ref_foot :: "('r \<Rightarrow> 'c \<Rightarrow> 'a) \<Rightarrow> ('r \<Rightarrow> nat) \<Rightarrow> ('c heap \<Rightarrow> 'a \<Rightarrow> nat set) \<Rightarrow> 'c heap \<Rightarrow> 'r option \<Rightarrow> nat set" where
  "ref_foot rd ad foot h p = (case p of None \<Rightarrow> {} | Some r \<Rightarrow> insert (ad r) (foot h (rd r (cell h (ad r)))))"

lemma copy_ref_None [simp]: "copy_ref init mk rd ad ref cp None h = (None, h)"
  by (simp add: copy_ref_def)

lemma copy_ref_Some:
  "copy_ref init mk rd ad ref cp (Some r) h =
     (let h1 = snd (alloc (init (cell h (ad r))) h); c = cp (rd r (cell h1 (ad r))) h1
      in (Some (ref (nxt h) (fst c)), store (nxt h) (mk (fst c)) (snd c)))"
  by (simp add: copy_ref_def split_def Let_def)

context deep_copier begin

text \<open>A copy made after one cell has been allocated, which is overwritten afterwards.\<close>

lemma after_alloc:
  fixes c d :: 'c
  assumes "foot h x \<subseteq> {..<nxt h}"
  defines "h2 \<equiv> snd (cp x (snd (alloc c h)))" and "v \<equiv> fst (cp x (snd (alloc c h)))"
  shows "foot (store (nxt h) d h2) v \<subseteq> {Suc (nxt h)..<nxt h2}"
    and "val (store (nxt h) d h2) v = val h x"
proof -
  let ?h1 = "snd (alloc c h)"
  have same: "cell ?h1 a = cell h a" if "a < nxt h" for a
    using that by simp
  have "foot ?h1 x = foot h x" and val1: "val ?h1 x = val h x"
    using stable [OF assms(1) same] by blast+
  then have f1: "foot ?h1 x \<subseteq> {..<nxt ?h1}"
    using assms(1) by auto
  have f: "foot h2 v \<subseteq> {Suc (nxt h)..<nxt h2}" and w: "val h2 v = val h x"
    using foot_copy [OF f1] val_copy [OF f1] val1 by (simp_all add: h2_def v_def)
  have "cell (store (nxt h) d h2) a = cell h2 a" if "a \<in> foot h2 v" for a
    using that f by auto
  from val_local [OF this] foot_local [OF this] f w
  show "foot (store (nxt h) d h2) v \<subseteq> {Suc (nxt h)..<nxt h2}" and "val (store (nxt h) d h2) v = val h x"
    by simp_all
qed

lemma ref_copier:
  assumes rd: "\<And>a x. rd (ref a x) (mk x) = x" and ad: "\<And>a x. ad (ref a x) = a"
  shows "deep_copier (copy_ref init mk rd ad ref cp) (ref_val rd ad val) (ref_foot rd ad foot)"
proof
  fix h :: "'c heap" and p
  let ?cp = "copy_ref init mk rd ad ref cp p h"
  let ?h1 = "\<lambda>r. snd (alloc (init (cell h (ad r))) h)"
  have g: "Suc (nxt h) \<le> nxt (snd (cp x (?h1 r)))" for x r
    using grows [of "?h1 r" x] by simp
  show "nxt h \<le> nxt (snd ?cp)"
    using Suc_leD [OF g] by (cases p) (simp_all add: copy_ref_Some Let_def del: cell_alloc)
  show "cell (snd ?cp) a = cell h a" if "a < nxt h" for a
    using that keeps [of a "?h1 r" for r] by (cases p) (auto simp: copy_ref_Some Let_def)
  assume valid: "ref_foot rd ad foot h p \<subseteq> {..<nxt h}"
  have at: "cell (?h1 r) (ad r) = cell h (ad r)" "foot h (rd r (cell h (ad r))) \<subseteq> {..<nxt h}" if "p = Some r" for r
    using valid that by (auto simp: ref_foot_def)
  show "ref_val rd ad val (snd ?cp) (fst ?cp) = ref_val rd ad val h p"
    using after_alloc(2) [OF at(2)] at(1)
    by (cases p) (simp_all add: ref_val_def copy_ref_Some Let_def rd ad)
  show "ref_foot rd ad foot (snd ?cp) (fst ?cp) \<subseteq> {nxt h..<nxt (snd ?cp)}"
  proof (cases p)
    case (Some r)
    let ?x = "rd r (cell h (ad r))"
    let ?h2 = "snd (cp ?x (?h1 r))" and ?v = "fst (cp ?x (?h1 r))"
    have "snd ?cp = store (nxt h) (mk ?v) ?h2" and "fst ?cp = Some (ref (nxt h) ?v)"
      using at(1) [OF Some] by (simp_all add: Some copy_ref_Some Let_def del: cell_alloc)
    moreover have "foot (store (nxt h) (mk ?v) ?h2) ?v \<subseteq> {Suc (nxt h)..<nxt ?h2}"
      by (rule after_alloc(1) [OF at(2) [OF Some]])
    ultimately show ?thesis
      using g [of ?x r] by (auto simp: ref_foot_def rd ad)
  qed (simp add: ref_foot_def)
next
  fix h h' :: "'c heap" and p
  assume same: "\<And>a. a \<in> ref_foot rd ad foot h p \<Longrightarrow> cell h' a = cell h a"
  show "ref_val rd ad val h' p = ref_val rd ad val h p"
    using same val_local [of h "rd r (cell h (ad r))" h' for r]
    by (cases p) (auto simp: ref_val_def ref_foot_def)
  show "ref_foot rd ad foot h' p = ref_foot rd ad foot h p"
    using same foot_local [of h "rd r (cell h (ad r))" h' for r]
    by (cases p) (auto simp: ref_foot_def)
qed

end

subsection \<open>Pointers\<close>

text \<open>
  \<open>if in.F != nil { *out = new(T); (*in).DeepCopyInto(*out) }\<close>, and \<open>DeepCopy\<close> itself: the new
  cell first holds a shallow copy (\<open>*out = *in\<close>, the first statement of every \<open>DeepCopyInto\<close>),
  then what \<open>DeepCopyInto\<close> leaves in it. \<open>mk\<close> and \<open>un\<close> put a struct into a cell and take it out.
\<close>

definition copy_pointer ::
  "('a \<Rightarrow> 'c) \<Rightarrow> ('c \<Rightarrow> 'a) \<Rightarrow> ('a \<Rightarrow> 'c heap \<Rightarrow> 'a \<times> 'c heap) \<Rightarrow> pointer \<Rightarrow> 'c heap \<Rightarrow> pointer \<times> 'c heap" where
  "copy_pointer mk un = copy_ref (\<lambda>c. c) mk (\<lambda>a. un) (\<lambda>a. a) (\<lambda>out v. out)"

abbreviation pointer_val :: "('c \<Rightarrow> 'a) \<Rightarrow> ('c heap \<Rightarrow> 'a \<Rightarrow> 'v) \<Rightarrow> 'c heap \<Rightarrow> pointer \<Rightarrow> 'v option" where
  "pointer_val un \<equiv> ref_val (\<lambda>a. un) (\<lambda>a. a)"

abbreviation pointer_foot :: "('c \<Rightarrow> 'a) \<Rightarrow> ('c heap \<Rightarrow> 'a \<Rightarrow> nat set) \<Rightarrow> 'c heap \<Rightarrow> pointer \<Rightarrow> nat set" where
  "pointer_foot un \<equiv> ref_foot (\<lambda>a. un) (\<lambda>a. a)"
context deep_copier begin

lemma pointer_copier:
  "(\<And>x. un (mk x) = x) \<Longrightarrow>
   deep_copier (copy_pointer mk un cp) (pointer_val un val) (pointer_foot un foot)"
  unfolding copy_pointer_def by (rule ref_copier) simp_all

end

subsection \<open>Slices and maps\<close>

text \<open>\<open>for i := range *in { (*in)[i].DeepCopyInto(&(*out)[i]) }\<close>, as the list of the copies.\<close>

fun copy_list :: "('a \<Rightarrow> 'c heap \<Rightarrow> 'a \<times> 'c heap) \<Rightarrow> 'a list \<Rightarrow> 'c heap \<Rightarrow> 'a list \<times> 'c heap" where
  "copy_list cp [] h = ([], h)"
| "copy_list cp (x # xs) h =
     (let (y, h1) = cp x h; (ys, h2) = copy_list cp xs h1 in (y # ys, h2))"

lemma copy_list_Cons:
  "copy_list cp (x # xs) h =
     (fst (cp x h) # fst (copy_list cp xs (snd (cp x h))), snd (copy_list cp xs (snd (cp x h))))"
  by (simp add: split_def Let_def)

declare copy_list.simps(2) [simp del]

definition list_val :: "('c heap \<Rightarrow> 'a \<Rightarrow> 'v) \<Rightarrow> 'c heap \<Rightarrow> 'a list \<Rightarrow> 'v list" where
  "list_val val h xs = map (val h) xs"

definition list_foot :: "('c heap \<Rightarrow> 'a \<Rightarrow> nat set) \<Rightarrow> 'c heap \<Rightarrow> 'a list \<Rightarrow> nat set" where
  "list_foot foot h xs = (\<Union>x\<in>set xs. foot h x)"

lemma list_val_simps [simp]:
  "list_val val h [] = []" "list_val val h (x # xs) = val h x # list_val val h xs"
  by (simp_all add: list_val_def)

lemma list_foot_simps [simp]:
  "list_foot foot h [] = {}" "list_foot foot h (x # xs) = foot h x \<union> list_foot foot h xs"
  by (simp_all add: list_foot_def)

text \<open>
  \<open>*out = make([]T, len(*in))\<close> and the copies of its elements. No one else sees the new array
  before its elements are in place, so it is filled at once.
\<close>

definition copy_slice ::
  "('a list \<Rightarrow> 'c) \<Rightarrow> ('c \<Rightarrow> 'a list) \<Rightarrow> ('a \<Rightarrow> 'c heap \<Rightarrow> 'a \<times> 'c heap) \<Rightarrow> slice \<Rightarrow> 'c heap \<Rightarrow> slice \<times> 'c heap" where
  "copy_slice mk un cp =
     copy_ref (\<lambda>c. mk []) mk (\<lambda>w c. window w (un c)) fst (\<lambda>out xs. (out, 0, length xs)) (copy_list cp)"

definition slice_val :: "('c \<Rightarrow> 'a list) \<Rightarrow> ('c heap \<Rightarrow> 'a \<Rightarrow> 'v) \<Rightarrow> 'c heap \<Rightarrow> slice \<Rightarrow> 'v list option" where
  "slice_val un val = ref_val (\<lambda>w c. window w (un c)) fst (list_val val)"

definition slice_foot :: "('c \<Rightarrow> 'a list) \<Rightarrow> ('c heap \<Rightarrow> 'a \<Rightarrow> nat set) \<Rightarrow> 'c heap \<Rightarrow> slice \<Rightarrow> nat set" where
  "slice_foot un foot = ref_foot (\<lambda>w c. window w (un c)) fst (list_foot foot)"

context deep_copier begin

lemma list_local:
  assumes "\<And>a. a \<in> list_foot foot h xs \<Longrightarrow> cell h' a = cell h a"
  shows "list_val val h' xs = list_val val h xs" and "list_foot foot h' xs = list_foot foot h xs"
proof -
  have each: "val h' x = val h x \<and> foot h' x = foot h x" if "x \<in> set xs" for x
    using val_local [of h x h'] foot_local [of h x h'] assms that by (auto simp: list_foot_def)
  then show "list_val val h' xs = list_val val h xs" and "list_foot foot h' xs = list_foot foot h xs"
    by (simp_all add: list_val_def list_foot_def)
qed

lemma list_grows: "nxt h \<le> nxt (snd (copy_list cp xs h))"
proof (induction xs arbitrary: h)
  case (Cons x xs)
  show ?case
    using grows [of h x] Cons [of "snd (cp x h)"] by (simp add: copy_list_Cons)
qed simp

lemma list_keeps: "a < nxt h \<Longrightarrow> cell (snd (copy_list cp xs h)) a = cell h a"
proof (induction xs arbitrary: h)
  case (Cons x xs)
  show ?case
    using grows [of h x] Cons.IH [of "snd (cp x h)"] Cons.prems keeps by (simp add: copy_list_Cons)
qed simp

lemma list_copies:
  "list_foot foot h xs \<subseteq> {..<nxt h} \<Longrightarrow>
   list_val val (snd (copy_list cp xs h)) (fst (copy_list cp xs h)) = list_val val h xs \<and>
   list_foot foot (snd (copy_list cp xs h)) (fst (copy_list cp xs h)) \<subseteq> {nxt h..<nxt (snd (copy_list cp xs h))}"
proof (induction xs arbitrary: h)
  case (Cons x xs)
  let ?h1 = "snd (cp x h)" and ?y = "fst (cp x h)"
  let ?h2 = "snd (copy_list cp xs ?h1)"
  from Cons.prems have x: "foot h x \<subseteq> {..<nxt h}" and xs: "list_foot foot h xs \<subseteq> {..<nxt h}"
    by auto
  have same: "cell ?h1 a = cell h a" if "a \<in> list_foot foot h xs" for a
    using xs that keeps by auto
  have xs1: "list_foot foot ?h1 xs \<subseteq> {..<nxt ?h1}"
    using list_local(2) [OF same] xs grows [of h x] by auto
  have y: "foot ?h1 ?y \<subseteq> {nxt h..<nxt ?h1}" and vy: "val ?h1 ?y = val h x"
    using foot_copy [OF x] val_copy [OF x] by simp_all
  have "foot ?h1 ?y \<subseteq> {..<nxt ?h1}"
    using y by auto
  from stable [OF this, of ?h2] list_keeps
  have "foot ?h2 ?y = foot ?h1 ?y" and "val ?h2 ?y = val ?h1 ?y"
    by blast+
  then show ?case
    using Cons.IH [OF xs1] list_local(1) [OF same] y vy grows [of h x] list_grows [of ?h1 xs]
    by (fastforce simp: copy_list_Cons)
qed simp

lemma list_copier: "deep_copier (copy_list cp) (list_val val) (list_foot foot)"
  by unfold_locales (use list_grows list_keeps list_copies list_local in blast)+

lemma slice_copier:
  "(\<And>xs. un (mk xs) = xs) \<Longrightarrow>
   deep_copier (copy_slice mk un cp) (slice_val un val) (slice_foot un foot)"
  unfolding copy_slice_def slice_val_def slice_foot_def
  by (rule deep_copier.ref_copier [OF list_copier]) simp_all

end

text \<open>\<open>make(map)\<close> and a loop that assigns every entry: the new map has the entries of the old one.\<close>

definition copy_map :: "(('k \<rightharpoonup> 'e) \<Rightarrow> 'c) \<Rightarrow> ('c \<Rightarrow> 'k \<rightharpoonup> 'e) \<Rightarrow> pointer \<Rightarrow> 'c heap \<Rightarrow> pointer \<times> 'c heap" where
  "copy_map mk un = copy_ref (\<lambda>c. mk Map.empty) mk (\<lambda>a. un) (\<lambda>a. a) (\<lambda>out m. out) flat_copy"

lemma map_copier:
  "(\<And>m. un (mk m) = m) \<Longrightarrow>
   deep_copier (copy_map mk un) (pointer_val un (\<lambda>h m. m)) (pointer_foot un (\<lambda>h m. {}))"
  unfolding copy_map_def by (rule flat.ref_copier [where f = "\<lambda>m. m"]) simp_all

section \<open>Structs\<close>

text \<open>
  A struct is copied by \<open>*out = *in\<close> followed by copies of the fields that contain addresses:
  \<open>get\<close> reads these fields, \<open>put\<close> writes them, and \<open>mkval\<close> makes the value of the struct from theirs.
\<close>

definition copy_fields ::
  "('s \<Rightarrow> 'a) \<Rightarrow> ('s \<Rightarrow> 'a \<Rightarrow> 's) \<Rightarrow> ('a \<Rightarrow> 'c heap \<Rightarrow> 'a \<times> 'c heap) \<Rightarrow> 's \<Rightarrow> 'c heap \<Rightarrow> 's \<times> 'c heap" where
  "copy_fields get put cp x h = (let (y, h') = cp (get x) h in (put x y, h'))"

context deep_copier begin

lemma struct_copier:
  fixes put :: "'s \<Rightarrow> 'a \<Rightarrow> 's"
  assumes get: "\<And>x y. get (put x y) = y" and mkval: "\<And>x y v. mkval (put x y) v = mkval x v"
  shows "deep_copier (copy_fields get put cp) (\<lambda>h x. mkval x (val h (get x))) (\<lambda>h x. foot h (get x))"
proof
  fix h :: "'c heap" and x :: 's
  show "nxt h \<le> nxt (snd (copy_fields get put cp x h))"
    using grows by (simp add: copy_fields_def split_def Let_def)
  show "cell (snd (copy_fields get put cp x h)) a = cell h a" if "a < nxt h" for a
    using that keeps by (simp add: copy_fields_def split_def Let_def)
  assume "foot h (get x) \<subseteq> {..<nxt h}"
  from val_copy [OF this] foot_copy [OF this]
  show "mkval (fst (copy_fields get put cp x h))
          (val (snd (copy_fields get put cp x h)) (get (fst (copy_fields get put cp x h)))) = mkval x (val h (get x))"
    and "foot (snd (copy_fields get put cp x h)) (get (fst (copy_fields get put cp x h)))
      \<subseteq> {nxt h..<nxt (snd (copy_fields get put cp x h))}"
    by (simp_all add: copy_fields_def split_def Let_def get mkval)
next
  fix h h' :: "'c heap" and x :: 's
  assume same: "\<And>a. a \<in> foot h (get x) \<Longrightarrow> cell h' a = cell h a"
  show "mkval x (val h' (get x)) = mkval x (val h (get x))"
    using val_local [OF same] by simp
  show "foot h' (get x) = foot h (get x)"
    by (rule foot_local [OF same])
qed

end

text \<open>Two copies one after the other, in the order of the fields of a struct.\<close>

definition copy2 ::
  "('a \<Rightarrow> 'c heap \<Rightarrow> 'a \<times> 'c heap) \<Rightarrow> ('b \<Rightarrow> 'c heap \<Rightarrow> 'b \<times> 'c heap) \<Rightarrow>
   'a \<times> 'b \<Rightarrow> 'c heap \<Rightarrow> ('a \<times> 'b) \<times> 'c heap" where
  "copy2 cpA cpB p h = (let (x', h1) = cpA (fst p) h; (y', h2) = cpB (snd p) h1 in ((x', y'), h2))"

lemma copy2_simps:
  "fst (copy2 cpA cpB p h) = (fst (cpA (fst p) h), fst (cpB (snd p) (snd (cpA (fst p) h))))"
  "snd (copy2 cpA cpB p h) = snd (cpB (snd p) (snd (cpA (fst p) h)))"
  by (simp_all add: copy2_def split_def Let_def)

locale copier_pair = A: deep_copier cpA valA footA + B: deep_copier cpB valB footB
  for cpA :: "'a \<Rightarrow> 'c heap \<Rightarrow> 'a \<times> 'c heap" and valA :: "'c heap \<Rightarrow> 'a \<Rightarrow> 'v" and footA
    and cpB :: "'b \<Rightarrow> 'c heap \<Rightarrow> 'b \<times> 'c heap" and valB :: "'c heap \<Rightarrow> 'b \<Rightarrow> 'w" and footB
begin

lemma snd_first:
  assumes "footB h y \<subseteq> {..<nxt h}"
  shows "footB (snd (cpA x h)) y \<subseteq> {..<nxt (snd (cpA x h))}" and "valB (snd (cpA x h)) y = valB h y"
  using B.stable [OF assms, of "snd (cpA x h)"] A.keeps [of _ h x] A.grows [of h x] assms by auto

lemma fst_kept:
  assumes "footA h x \<subseteq> {..<nxt h}"
  shows "footA (snd (cpB y h)) x = footA h x" and "valA (snd (cpB y h)) x = valA h x"
  using A.stable [OF assms, of "snd (cpB y h)"] B.keeps [of _ h y] by auto

text \<open>What the second copy leaves of the first one.\<close>

lemma both:
  fixes x y h
  defines "h1 \<equiv> snd (cpA x h)" and "h2 \<equiv> snd (cpB y (snd (cpA x h)))"
  assumes "footA h x \<subseteq> {..<nxt h}" and "footB h y \<subseteq> {..<nxt h}"
  shows "valA h2 (fst (cpA x h)) = valA h x" and "footA h2 (fst (cpA x h)) \<subseteq> {nxt h..<nxt h2}"
    and "valB h2 (fst (cpB y h1)) = valB h y" and "footB h2 (fst (cpB y h1)) \<subseteq> {nxt h..<nxt h2}"
proof -
  have f: "footA h1 (fst (cpA x h)) \<subseteq> {nxt h..<nxt h1}" and v: "valA h1 (fst (cpA x h)) = valA h x"
    using A.foot_copy [OF assms(3)] A.val_copy [OF assms(3)] by (simp_all add: h1_def)
  have grow: "nxt h \<le> nxt h1" "nxt h1 \<le> nxt h2"
    using A.grows [of h x] B.grows [of h1 y] by (simp_all add: h1_def h2_def)
  have "footA h1 (fst (cpA x h)) \<subseteq> {..<nxt h1}"
    using f by auto
  from fst_kept [OF this] f v grow
  show "valA h2 (fst (cpA x h)) = valA h x" and "footA h2 (fst (cpA x h)) \<subseteq> {nxt h..<nxt h2}"
    by (auto simp: h1_def h2_def)
  have b: "footB h1 y \<subseteq> {..<nxt h1}" "valB h1 y = valB h y"
    using snd_first [OF assms(4)] by (simp_all add: h1_def)
  show "valB h2 (fst (cpB y h1)) = valB h y"
    using B.val_copy [OF b(1)] b(2) by (simp add: h1_def h2_def)
  show "footB h2 (fst (cpB y h1)) \<subseteq> {nxt h..<nxt h2}"
    using B.foot_copy [OF b(1)] grow by (fastforce simp: h1_def h2_def)
qed

lemma pair_copier:
  "deep_copier (copy2 cpA cpB) (\<lambda>h p. (valA h (fst p), valB h (snd p)))
     (\<lambda>h p. footA h (fst p) \<union> footB h (snd p))"
proof
  fix h :: "'c heap" and p :: "'a \<times> 'b"
  show "nxt h \<le> nxt (snd (copy2 cpA cpB p h))"
    using A.grows B.grows order_trans by (fastforce simp: copy2_simps)
  show "cell (snd (copy2 cpA cpB p h)) a = cell h a" if "a < nxt h" for a
    using that A.keeps [of a h "fst p"] B.keeps [of a "snd (cpA (fst p) h)"] A.grows [of h "fst p"]
    by (simp add: copy2_simps)
  assume "footA h (fst p) \<union> footB h (snd p) \<subseteq> {..<nxt h}"
  then have valid: "footA h (fst p) \<subseteq> {..<nxt h}" "footB h (snd p) \<subseteq> {..<nxt h}"
    by auto
  let ?c = "copy2 cpA cpB p h"
  show "(valA (snd ?c) (fst (fst ?c)), valB (snd ?c) (snd (fst ?c))) = (valA h (fst p), valB h (snd p))"
    using both(1,3) [OF valid] by (simp add: copy2_simps)
  show "footA (snd ?c) (fst (fst ?c)) \<union> footB (snd ?c) (snd (fst ?c)) \<subseteq> {nxt h..<nxt (snd ?c)}"
    using both(2,4) [OF valid] by (simp add: copy2_simps)
next
  fix h h' :: "'c heap" and p :: "'a \<times> 'b"
  assume same: "\<And>a. a \<in> footA h (fst p) \<union> footB h (snd p) \<Longrightarrow> cell h' a = cell h a"
  show "(valA h' (fst p), valB h' (snd p)) = (valA h (fst p), valB h (snd p))"
    using A.val_local [of h "fst p" h'] B.val_local [of h "snd p" h'] same by simp
  show "footA h' (fst p) \<union> footB h' (snd p) = footA h (fst p) \<union> footB h (snd p)"
    using A.foot_local [of h "fst p" h'] B.foot_local [of h "snd p" h'] same by simp
qed

end

text \<open>
  The same rule for a \<open>DeepCopyInto\<close> written out with one, two or three such fields.
\<close>

lemma struct_copier1:
  assumes "deep_copier cpA valA footA"
    and "\<And>x h. cp x h = (let (a, h1) = cpA (fa x) h in (put x a, h1))"
    and "\<And>h x. val h x = mkval x (valA h (fa x))" and "\<And>h x. foot h x = footA h (fa x)"
    and "\<And>x a. fa (put x a) = a" and "\<And>x a v. mkval (put x a) v = mkval x v"
  shows "deep_copier cp val foot"
proof -
  have "cp = copy_fields fa put cpA"
    by (rule ext)+ (simp add: assms(2) copy_fields_def)
  moreover have "val = (\<lambda>h x. mkval x (valA h (fa x)))" and "foot = (\<lambda>h x. footA h (fa x))"
    by (rule ext, rule ext, rule assms)+
  ultimately show ?thesis
    using deep_copier.struct_copier [OF assms(1), of fa put mkval] assms(5,6) by simp
qed

lemma struct_copier2:
  assumes "deep_copier cpA valA footA" and "deep_copier cpB valB footB"
    and "\<And>x h. cp x h = (let (a, h1) = cpA (fa x) h; (b, h2) = cpB (fb x) h1 in (put x a b, h2))"
    and "\<And>h x. val h x = mkval x (valA h (fa x)) (valB h (fb x))"
    and "\<And>h x. foot h x = footA h (fa x) \<union> footB h (fb x)"
    and "\<And>x a b. fa (put x a b) = a" and "\<And>x a b. fb (put x a b) = b"
    and "\<And>x a b v w. mkval (put x a b) v w = mkval x v w"
  shows "deep_copier cp val foot"
  by (rule struct_copier1 [OF copier_pair.pair_copier [OF copier_pair.intro [OF assms(1,2)]],
        where fa = "\<lambda>x. (fa x, fb x)" and put = "\<lambda>x y. put x (fst y) (snd y)" and
          mkval = "\<lambda>x v. mkval x (fst v) (snd v)"])
     (simp_all add: assms(3-8) copy2_def split_def Let_def)

lemma struct_copier3:
  assumes "deep_copier cpA valA footA" and "deep_copier cpB valB footB" and "deep_copier cpC valC footC"
    and "\<And>x h. cp x h = (let (a, h1) = cpA (fa x) h; (b, h2) = cpB (fb x) h1; (c, h3) = cpC (fc x) h2
                         in (put x a b c, h3))"
    and "\<And>h x. val h x = mkval x (valA h (fa x)) (valB h (fb x)) (valC h (fc x))"
    and "\<And>h x. foot h x = footA h (fa x) \<union> footB h (fb x) \<union> footC h (fc x)"
    and "\<And>x a b c. fa (put x a b c) = a" and "\<And>x a b c. fb (put x a b c) = b"
    and "\<And>x a b c. fc (put x a b c) = c"
    and "\<And>x a b c u v w. mkval (put x a b c) u v w = mkval x u v w"
  shows "deep_copier cp val foot"
  by (rule struct_copier2 [OF copier_pair.pair_copier [OF copier_pair.intro [OF assms(1,2)]] assms(3),
        where fa = "\<lambda>x. (fa x, fb x)" and fb = fc and put = "\<lambda>x y c. put x (fst y) (snd y) c" and
          mkval = "\<lambda>x v w. mkval x (fst v) (snd v) w"])
     (simp_all add: assms(4-10) copy2_def split_def Let_def)

end
