(* ===== verification/DeepCopy.thy ===== *)
theory DeepCopy
  imports Heap GitSyncTypes
begin

text \<open>
  The deep copies of \<open>pkg/apis/numaplane/v1alpha1/zz_generated.deepcopy.go\<close>, on memory. The
  records ending in \<open>_mem\<close> are the API types as they lie in memory, with pointers, slices and
  maps as addresses; their values are the records of \<open>GitSyncTypes\<close>. Types without addresses are
  these records themselves. \<open>ObjectMeta\<close> and \<open>ListMeta\<close> belong to the Kubernetes libraries: their
  types, the memory they use and their copies are parameters. A \<open>metav1.Time\<close> is an instant and a
  \<open>metav1.Condition\<close> has no addresses, so copying them is assigning them.
\<close>

section \<open>The API types in memory\<close>

record HelmSource_mem =
  hm_ValueFiles :: slice
  hm_Parameters :: slice

record GitSource_mem =
  gm_GitLocation :: GitLocation
  gm_Kustomize :: pointer
  gm_Helm :: pointer
  gm_Raw :: pointer

record FileKeySelector_mem =
  fm_JSONFilePath :: pointer
  fm_YAMLFilePath :: pointer
  fm_Key :: string

record SecretSource_mem =
  sm_FromKubernetesSecret :: pointer
  sm_FromFile :: pointer

record HTTPCredential_mem =
  htm_Username :: string
  htm_Password :: SecretSource_mem

record SSHCredential_mem =
  shm_SSHKey :: SecretSource_mem

record RepoCredential_mem =
  rm_URL :: string
  rm_HTTPCredential :: pointer
  rm_SSHCredential :: pointer
  rm_TLS :: pointer

record CredentialedGitSource_mem =
  csm_GitSource :: GitSource_mem
  csm_RepoCredential :: pointer

record CredentialedGitLocation_mem =
  clm_GitLocation :: GitLocation
  clm_RepoCredential :: pointer

record SingleClusterGenerator_mem =
  scm_Values :: pointer

record MultiClusterFileGenerator_mem =
  mcm_Files :: slice

record GitSyncSpec_mem =
  spm_GitSource :: GitSource_mem
  spm_Destination :: Destination

record GitSyncStatus_mem =
  stm_Phase :: GitSyncPhase
  stm_Conditions :: slice
  stm_Message :: string
  stm_CommitStatus :: pointer

record TypeMeta =
  tm_Kind :: string
  tm_APIVersion :: string

record 'm GitSync_mem =
  gsm_TypeMeta :: TypeMeta
  gsm_ObjectMeta :: 'm
  gsm_Spec :: GitSyncSpec_mem
  gsm_Status :: GitSyncStatus_mem

record 'l GitSyncList_mem =
  glm_TypeMeta :: TypeMeta
  glm_ListMeta :: 'l
  glm_Items :: slice

text \<open>
  What a cell can hold: a struct allocated with \<open>new\<close>, an array, a map, or something of the
  libraries (\<open>LibCell\<close>).
\<close>

datatype ('m, 'l, 'e) cell =
    StringCell (un_String: string)
  | StringsCell (un_Strings: "string list")
  | StringMapCell (un_StringMap: "string \<rightharpoonup> string")
  | HelmParametersCell (un_HelmParameters: "HelmParameter list")
  | ConditionsCell (un_Conditions: "Condition list")
  | PointersCell (un_Pointers: "pointer list")
  | GitSyncsCell (un_GitSyncs: "'m GitSync_mem list")
  | CommitStatusCell (un_CommitStatus: CommitStatus)
  | DestinationCell (un_Destination: Destination)
  | GitLocationCell (un_GitLocation: GitLocation)
  | HelmParameterCell (un_HelmParameter: HelmParameter)
  | KustomizeSourceCell (un_KustomizeSource: unit)
  | RawSourceCell (un_RawSource: unit)
  | SecretKeySelectorCell (un_SecretKeySelector: SecretKeySelector)
  | TLSCell (un_TLS: TLS)
  | HelmSourceCell (un_HelmSource: HelmSource_mem)
  | GitSourceCell (un_GitSource: GitSource_mem)
  | FileKeySelectorCell (un_FileKeySelector: FileKeySelector_mem)
  | SecretSourceCell (un_SecretSource: SecretSource_mem)
  | HTTPCredentialCell (un_HTTPCredential: HTTPCredential_mem)
  | SSHCredentialCell (un_SSHCredential: SSHCredential_mem)
  | RepoCredentialCell (un_RepoCredential: RepoCredential_mem)
  | CredentialedGitSourceCell (un_CredentialedGitSource: CredentialedGitSource_mem)
  | CredentialedGitLocationCell (un_CredentialedGitLocation: CredentialedGitLocation_mem)
  | SingleClusterGeneratorCell (un_SingleClusterGenerator: SingleClusterGenerator_mem)
  | MultiClusterFileGeneratorCell (un_MultiClusterFileGenerator: MultiClusterFileGenerator_mem)
  | GitSyncSpecCell (un_GitSyncSpec: GitSyncSpec_mem)
  | GitSyncStatusCell (un_GitSyncStatus: GitSyncStatus_mem)
  | GitSyncCell (un_GitSync: "'m GitSync_mem")
  | GitSyncListCell (un_GitSyncList: "'l GitSyncList_mem")
  | LibCell (un_Lib: 'e)

type_synonym ('m, 'l, 'e) memory = "('m, 'l, 'e) cell heap"

section \<open>Types without addresses\<close>

text \<open>\<open>*out = *in\<close>; \<open>CommitStatus\<close> also copies its time, \<open>SecretKeySelector\<close> its \<open>ObjectReference\<close>.\<close>

definition CommitStatus_DeepCopyInto :: "CommitStatus \<Rightarrow> ('m, 'l, 'e) memory \<Rightarrow> CommitStatus \<times> ('m, 'l, 'e) memory" where
  "CommitStatus_DeepCopyInto = flat_copy"

definition Destination_DeepCopyInto :: "Destination \<Rightarrow> ('m, 'l, 'e) memory \<Rightarrow> Destination \<times> ('m, 'l, 'e) memory" where
  "Destination_DeepCopyInto = flat_copy"

definition GitLocation_DeepCopyInto :: "GitLocation \<Rightarrow> ('m, 'l, 'e) memory \<Rightarrow> GitLocation \<times> ('m, 'l, 'e) memory" where
  "GitLocation_DeepCopyInto = flat_copy"

definition HelmParameter_DeepCopyInto :: "HelmParameter \<Rightarrow> ('m, 'l, 'e) memory \<Rightarrow> HelmParameter \<times> ('m, 'l, 'e) memory" where
  "HelmParameter_DeepCopyInto = flat_copy"

definition KustomizeSource_DeepCopyInto :: "unit \<Rightarrow> ('m, 'l, 'e) memory \<Rightarrow> unit \<times> ('m, 'l, 'e) memory" where
  "KustomizeSource_DeepCopyInto = flat_copy"

definition RawSource_DeepCopyInto :: "unit \<Rightarrow> ('m, 'l, 'e) memory \<Rightarrow> unit \<times> ('m, 'l, 'e) memory" where
  "RawSource_DeepCopyInto = flat_copy"

definition SecretKeySelector_DeepCopyInto ::
  "SecretKeySelector \<Rightarrow> ('m, 'l, 'e) memory \<Rightarrow> SecretKeySelector \<times> ('m, 'l, 'e) memory" where
  "SecretKeySelector_DeepCopyInto = flat_copy"

definition TLS_DeepCopyInto :: "TLS \<Rightarrow> ('m, 'l, 'e) memory \<Rightarrow> TLS \<times> ('m, 'l, 'e) memory" where
  "TLS_DeepCopyInto = flat_copy"

definition CommitStatus_DeepCopy :: "pointer \<Rightarrow> ('m, 'l, 'e) memory \<Rightarrow> pointer \<times> ('m, 'l, 'e) memory" where
  "CommitStatus_DeepCopy = copy_pointer CommitStatusCell un_CommitStatus CommitStatus_DeepCopyInto"

definition Destination_DeepCopy :: "pointer \<Rightarrow> ('m, 'l, 'e) memory \<Rightarrow> pointer \<times> ('m, 'l, 'e) memory" where
  "Destination_DeepCopy = copy_pointer DestinationCell un_Destination Destination_DeepCopyInto"

definition GitLocation_DeepCopy :: "pointer \<Rightarrow> ('m, 'l, 'e) memory \<Rightarrow> pointer \<times> ('m, 'l, 'e) memory" where
  "GitLocation_DeepCopy = copy_pointer GitLocationCell un_GitLocation GitLocation_DeepCopyInto"

definition HelmParameter_DeepCopy :: "pointer \<Rightarrow> ('m, 'l, 'e) memory \<Rightarrow> pointer \<times> ('m, 'l, 'e) memory" where
  "HelmParameter_DeepCopy = copy_pointer HelmParameterCell un_HelmParameter HelmParameter_DeepCopyInto"

definition KustomizeSource_DeepCopy :: "pointer \<Rightarrow> ('m, 'l, 'e) memory \<Rightarrow> pointer \<times> ('m, 'l, 'e) memory" where
  "KustomizeSource_DeepCopy = copy_pointer KustomizeSourceCell un_KustomizeSource KustomizeSource_DeepCopyInto"

definition RawSource_DeepCopy :: "pointer \<Rightarrow> ('m, 'l, 'e) memory \<Rightarrow> pointer \<times> ('m, 'l, 'e) memory" where
  "RawSource_DeepCopy = copy_pointer RawSourceCell un_RawSource RawSource_DeepCopyInto"

definition SecretKeySelector_DeepCopy :: "pointer \<Rightarrow> ('m, 'l, 'e) memory \<Rightarrow> pointer \<times> ('m, 'l, 'e) memory" where
  "SecretKeySelector_DeepCopy =
     copy_pointer SecretKeySelectorCell un_SecretKeySelector SecretKeySelector_DeepCopyInto"

definition TLS_DeepCopy :: "pointer \<Rightarrow> ('m, 'l, 'e) memory \<Rightarrow> pointer \<times> ('m, 'l, 'e) memory" where
  "TLS_DeepCopy = copy_pointer TLSCell un_TLS TLS_DeepCopyInto"

section \<open>Sources\<close>

definition HelmSource_DeepCopyInto :: "HelmSource_mem \<Rightarrow> ('m, 'l, 'e) memory \<Rightarrow> HelmSource_mem \<times> ('m, 'l, 'e) memory" where
  "HelmSource_DeepCopyInto x h =
     (let (vf, h1) = copy_slice StringsCell un_Strings flat_copy (hm_ValueFiles x) h;
          (ps, h2) = copy_slice HelmParametersCell un_HelmParameters flat_copy (hm_Parameters x) h1
      in (x\<lparr>hm_ValueFiles := vf, hm_Parameters := ps\<rparr>, h2))"

definition HelmSource_DeepCopy :: "pointer \<Rightarrow> ('m, 'l, 'e) memory \<Rightarrow> pointer \<times> ('m, 'l, 'e) memory" where
  "HelmSource_DeepCopy = copy_pointer HelmSourceCell un_HelmSource HelmSource_DeepCopyInto"

text \<open>
  The sections \<open>kustomize\<close> and \<open>raw\<close> point to empty structs; Go may give all of these one address,
  which only a comparison of the pointers could see.
\<close>

definition GitSource_DeepCopyInto :: "GitSource_mem \<Rightarrow> ('m, 'l, 'e) memory \<Rightarrow> GitSource_mem \<times> ('m, 'l, 'e) memory" where
  "GitSource_DeepCopyInto x h =
     (let (k, h1) = copy_pointer KustomizeSourceCell un_KustomizeSource flat_copy (gm_Kustomize x) h;
          (he, h2) = copy_pointer HelmSourceCell un_HelmSource HelmSource_DeepCopyInto (gm_Helm x) h1;
          (r, h3) = copy_pointer RawSourceCell un_RawSource flat_copy (gm_Raw x) h2
      in (x\<lparr>gm_Kustomize := k, gm_Helm := he, gm_Raw := r\<rparr>, h3))"

definition GitSource_DeepCopy :: "pointer \<Rightarrow> ('m, 'l, 'e) memory \<Rightarrow> pointer \<times> ('m, 'l, 'e) memory" where
  "GitSource_DeepCopy = copy_pointer GitSourceCell un_GitSource GitSource_DeepCopyInto"

section \<open>Credentials\<close>

definition FileKeySelector_DeepCopyInto ::
  "FileKeySelector_mem \<Rightarrow> ('m, 'l, 'e) memory \<Rightarrow> FileKeySelector_mem \<times> ('m, 'l, 'e) memory" where
  "FileKeySelector_DeepCopyInto x h =
     (let (j, h1) = copy_pointer StringCell un_String flat_copy (fm_JSONFilePath x) h;
          (y, h2) = copy_pointer StringCell un_String flat_copy (fm_YAMLFilePath x) h1
      in (x\<lparr>fm_JSONFilePath := j, fm_YAMLFilePath := y\<rparr>, h2))"

definition FileKeySelector_DeepCopy :: "pointer \<Rightarrow> ('m, 'l, 'e) memory \<Rightarrow> pointer \<times> ('m, 'l, 'e) memory" where
  "FileKeySelector_DeepCopy = copy_pointer FileKeySelectorCell un_FileKeySelector FileKeySelector_DeepCopyInto"

definition SecretSource_DeepCopyInto ::
  "SecretSource_mem \<Rightarrow> ('m, 'l, 'e) memory \<Rightarrow> SecretSource_mem \<times> ('m, 'l, 'e) memory" where
  "SecretSource_DeepCopyInto x h =
     (let (k, h1) = copy_pointer SecretKeySelectorCell un_SecretKeySelector flat_copy (sm_FromKubernetesSecret x) h;
          (f, h2) = copy_pointer FileKeySelectorCell un_FileKeySelector FileKeySelector_DeepCopyInto (sm_FromFile x) h1
      in (x\<lparr>sm_FromKubernetesSecret := k, sm_FromFile := f\<rparr>, h2))"

definition SecretSource_DeepCopy :: "pointer \<Rightarrow> ('m, 'l, 'e) memory \<Rightarrow> pointer \<times> ('m, 'l, 'e) memory" where
  "SecretSource_DeepCopy = copy_pointer SecretSourceCell un_SecretSource SecretSource_DeepCopyInto"

definition HTTPCredential_DeepCopyInto ::
  "HTTPCredential_mem \<Rightarrow> ('m, 'l, 'e) memory \<Rightarrow> HTTPCredential_mem \<times> ('m, 'l, 'e) memory" where
  "HTTPCredential_DeepCopyInto x h =
     (let (p, h1) = SecretSource_DeepCopyInto (htm_Password x) h in (x\<lparr>htm_Password := p\<rparr>, h1))"

definition HTTPCredential_DeepCopy :: "pointer \<Rightarrow> ('m, 'l, 'e) memory \<Rightarrow> pointer \<times> ('m, 'l, 'e) memory" where
  "HTTPCredential_DeepCopy = copy_pointer HTTPCredentialCell un_HTTPCredential HTTPCredential_DeepCopyInto"

definition SSHCredential_DeepCopyInto ::
  "SSHCredential_mem \<Rightarrow> ('m, 'l, 'e) memory \<Rightarrow> SSHCredential_mem \<times> ('m, 'l, 'e) memory" where
  "SSHCredential_DeepCopyInto x h =
     (let (k, h1) = SecretSource_DeepCopyInto (shm_SSHKey x) h in (x\<lparr>shm_SSHKey := k\<rparr>, h1))"

definition SSHCredential_DeepCopy :: "pointer \<Rightarrow> ('m, 'l, 'e) memory \<Rightarrow> pointer \<times> ('m, 'l, 'e) memory" where
  "SSHCredential_DeepCopy = copy_pointer SSHCredentialCell un_SSHCredential SSHCredential_DeepCopyInto"

definition RepoCredential_DeepCopyInto ::
  "RepoCredential_mem \<Rightarrow> ('m, 'l, 'e) memory \<Rightarrow> RepoCredential_mem \<times> ('m, 'l, 'e) memory" where
  "RepoCredential_DeepCopyInto x h =
     (let (ht, h1) = copy_pointer HTTPCredentialCell un_HTTPCredential HTTPCredential_DeepCopyInto (rm_HTTPCredential x) h;
          (sh, h2) = copy_pointer SSHCredentialCell un_SSHCredential SSHCredential_DeepCopyInto (rm_SSHCredential x) h1;
          (tl, h3) = copy_pointer TLSCell un_TLS flat_copy (rm_TLS x) h2
      in (x\<lparr>rm_HTTPCredential := ht, rm_SSHCredential := sh, rm_TLS := tl\<rparr>, h3))"

definition RepoCredential_DeepCopy :: "pointer \<Rightarrow> ('m, 'l, 'e) memory \<Rightarrow> pointer \<times> ('m, 'l, 'e) memory" where
  "RepoCredential_DeepCopy = copy_pointer RepoCredentialCell un_RepoCredential RepoCredential_DeepCopyInto"

definition CredentialedGitSource_DeepCopyInto ::
  "CredentialedGitSource_mem \<Rightarrow> ('m, 'l, 'e) memory \<Rightarrow> CredentialedGitSource_mem \<times> ('m, 'l, 'e) memory" where
  "CredentialedGitSource_DeepCopyInto x h =
     (let (g, h1) = GitSource_DeepCopyInto (csm_GitSource x) h;
          (c, h2) = copy_pointer RepoCredentialCell un_RepoCredential RepoCredential_DeepCopyInto (csm_RepoCredential x) h1
      in (x\<lparr>csm_GitSource := g, csm_RepoCredential := c\<rparr>, h2))"

definition CredentialedGitSource_DeepCopy :: "pointer \<Rightarrow> ('m, 'l, 'e) memory \<Rightarrow> pointer \<times> ('m, 'l, 'e) memory" where
  "CredentialedGitSource_DeepCopy =
     copy_pointer CredentialedGitSourceCell un_CredentialedGitSource CredentialedGitSource_DeepCopyInto"

definition CredentialedGitLocation_DeepCopyInto ::
  "CredentialedGitLocation_mem \<Rightarrow> ('m, 'l, 'e) memory \<Rightarrow> CredentialedGitLocation_mem \<times> ('m, 'l, 'e) memory" where
  "CredentialedGitLocation_DeepCopyInto x h =
     (let (c, h1) = copy_pointer RepoCredentialCell un_RepoCredential RepoCredential_DeepCopyInto (clm_RepoCredential x) h
      in (x\<lparr>clm_RepoCredential := c\<rparr>, h1))"

definition CredentialedGitLocation_DeepCopy :: "pointer \<Rightarrow> ('m, 'l, 'e) memory \<Rightarrow> pointer \<times> ('m, 'l, 'e) memory" where
  "CredentialedGitLocation_DeepCopy =
     copy_pointer CredentialedGitLocationCell un_CredentialedGitLocation CredentialedGitLocation_DeepCopyInto"

section \<open>Generators\<close>

definition SingleClusterGenerator_DeepCopyInto ::
  "SingleClusterGenerator_mem \<Rightarrow> ('m, 'l, 'e) memory \<Rightarrow> SingleClusterGenerator_mem \<times> ('m, 'l, 'e) memory" where
  "SingleClusterGenerator_DeepCopyInto x h =
     (let (m, h1) = copy_map StringMapCell un_StringMap (scm_Values x) h in (x\<lparr>scm_Values := m\<rparr>, h1))"

definition SingleClusterGenerator_DeepCopy :: "pointer \<Rightarrow> ('m, 'l, 'e) memory \<Rightarrow> pointer \<times> ('m, 'l, 'e) memory" where
  "SingleClusterGenerator_DeepCopy =
     copy_pointer SingleClusterGeneratorCell un_SingleClusterGenerator SingleClusterGenerator_DeepCopyInto"

definition MultiClusterFileGenerator_DeepCopyInto ::
  "MultiClusterFileGenerator_mem \<Rightarrow> ('m, 'l, 'e) memory \<Rightarrow> MultiClusterFileGenerator_mem \<times> ('m, 'l, 'e) memory" where
  "MultiClusterFileGenerator_DeepCopyInto x h =
     (let (fs, h1) = copy_slice PointersCell un_Pointers
            (copy_pointer CredentialedGitLocationCell un_CredentialedGitLocation CredentialedGitLocation_DeepCopyInto)
            (mcm_Files x) h
      in (x\<lparr>mcm_Files := fs\<rparr>, h1))"

definition MultiClusterFileGenerator_DeepCopy :: "pointer \<Rightarrow> ('m, 'l, 'e) memory \<Rightarrow> pointer \<times> ('m, 'l, 'e) memory" where
  "MultiClusterFileGenerator_DeepCopy =
     copy_pointer MultiClusterFileGeneratorCell un_MultiClusterFileGenerator MultiClusterFileGenerator_DeepCopyInto"

section \<open>GitSync\<close>

definition GitSyncSpec_DeepCopyInto :: "GitSyncSpec_mem \<Rightarrow> ('m, 'l, 'e) memory \<Rightarrow> GitSyncSpec_mem \<times> ('m, 'l, 'e) memory" where
  "GitSyncSpec_DeepCopyInto x h =
     (let (g, h1) = GitSource_DeepCopyInto (spm_GitSource x) h in (x\<lparr>spm_GitSource := g\<rparr>, h1))"

definition GitSyncSpec_DeepCopy :: "pointer \<Rightarrow> ('m, 'l, 'e) memory \<Rightarrow> pointer \<times> ('m, 'l, 'e) memory" where
  "GitSyncSpec_DeepCopy = copy_pointer GitSyncSpecCell un_GitSyncSpec GitSyncSpec_DeepCopyInto"

definition GitSyncStatus_DeepCopyInto ::
  "GitSyncStatus_mem \<Rightarrow> ('m, 'l, 'e) memory \<Rightarrow> GitSyncStatus_mem \<times> ('m, 'l, 'e) memory" where
  "GitSyncStatus_DeepCopyInto x h =
     (let (cs, h1) = copy_slice ConditionsCell un_Conditions flat_copy (stm_Conditions x) h;
          (c, h2) = copy_pointer CommitStatusCell un_CommitStatus CommitStatus_DeepCopyInto (stm_CommitStatus x) h1
      in (x\<lparr>stm_Conditions := cs, stm_CommitStatus := c\<rparr>, h2))"

definition GitSyncStatus_DeepCopy :: "pointer \<Rightarrow> ('m, 'l, 'e) memory \<Rightarrow> pointer \<times> ('m, 'l, 'e) memory" where
  "GitSyncStatus_DeepCopy = copy_pointer GitSyncStatusCell un_GitSyncStatus GitSyncStatus_DeepCopyInto"

text \<open>\<open>copyMeta\<close> is \<open>ObjectMeta.DeepCopyInto\<close>, \<open>copyListMeta\<close> is \<open>ListMeta.DeepCopyInto\<close>.\<close>

definition GitSync_DeepCopyInto ::
  "('m \<Rightarrow> ('m, 'l, 'e) memory \<Rightarrow> 'm \<times> ('m, 'l, 'e) memory) \<Rightarrow>
   'm GitSync_mem \<Rightarrow> ('m, 'l, 'e) memory \<Rightarrow> 'm GitSync_mem \<times> ('m, 'l, 'e) memory" where
  "GitSync_DeepCopyInto copyMeta x h =
     (let (m, h1) = copyMeta (gsm_ObjectMeta x) h;
          (sp, h2) = GitSyncSpec_DeepCopyInto (gsm_Spec x) h1;
          (st, h3) = GitSyncStatus_DeepCopyInto (gsm_Status x) h2
      in (x\<lparr>gsm_ObjectMeta := m, gsm_Spec := sp, gsm_Status := st\<rparr>, h3))"

definition GitSync_DeepCopy ::
  "('m \<Rightarrow> ('m, 'l, 'e) memory \<Rightarrow> 'm \<times> ('m, 'l, 'e) memory) \<Rightarrow>
   pointer \<Rightarrow> ('m, 'l, 'e) memory \<Rightarrow> pointer \<times> ('m, 'l, 'e) memory" where
  "GitSync_DeepCopy copyMeta = copy_pointer GitSyncCell un_GitSync (GitSync_DeepCopyInto copyMeta)"

definition GitSyncList_DeepCopyInto ::
  "('m \<Rightarrow> ('m, 'l, 'e) memory \<Rightarrow> 'm \<times> ('m, 'l, 'e) memory) \<Rightarrow> ('l \<Rightarrow> ('m, 'l, 'e) memory \<Rightarrow> 'l \<times> ('m, 'l, 'e) memory) \<Rightarrow>
   'l GitSyncList_mem \<Rightarrow> ('m, 'l, 'e) memory \<Rightarrow> 'l GitSyncList_mem \<times> ('m, 'l, 'e) memory" where
  "GitSyncList_DeepCopyInto copyMeta copyListMeta x h =
     (let (m, h1) = copyListMeta (glm_ListMeta x) h;
          (its, h2) = copy_slice GitSyncsCell un_GitSyncs (GitSync_DeepCopyInto copyMeta) (glm_Items x) h1
      in (x\<lparr>glm_ListMeta := m, glm_Items := its\<rparr>, h2))"

definition GitSyncList_DeepCopy ::
  "('m \<Rightarrow> ('m, 'l, 'e) memory \<Rightarrow> 'm \<times> ('m, 'l, 'e) memory) \<Rightarrow> ('l \<Rightarrow> ('m, 'l, 'e) memory \<Rightarrow> 'l \<times> ('m, 'l, 'e) memory) \<Rightarrow>
   pointer \<Rightarrow> ('m, 'l, 'e) memory \<Rightarrow> pointer \<times> ('m, 'l, 'e) memory" where
  "GitSyncList_DeepCopy copyMeta copyListMeta =
     copy_pointer GitSyncListCell un_GitSyncList (GitSyncList_DeepCopyInto copyMeta copyListMeta)"

text \<open>
  A \<open>runtime.Object\<close> is nil or a pointer of one of the two types; \<open>DeepCopyObject\<close> never wraps a
  nil pointer into a non-nil interface.
\<close>

datatype runtime_Object = NilObject | GitSyncObject nat | GitSyncListObject nat

definition GitSync_DeepCopyObject ::
  "('m \<Rightarrow> ('m, 'l, 'e) memory \<Rightarrow> 'm \<times> ('m, 'l, 'e) memory) \<Rightarrow>
   pointer \<Rightarrow> ('m, 'l, 'e) memory \<Rightarrow> runtime_Object \<times> ('m, 'l, 'e) memory" where
  "GitSync_DeepCopyObject copyMeta p h =
     (let (c, h1) = GitSync_DeepCopy copyMeta p h
      in (case c of Some a \<Rightarrow> GitSyncObject a | None \<Rightarrow> NilObject, h1))"

definition GitSyncList_DeepCopyObject ::
  "('m \<Rightarrow> ('m, 'l, 'e) memory \<Rightarrow> 'm \<times> ('m, 'l, 'e) memory) \<Rightarrow> ('l \<Rightarrow> ('m, 'l, 'e) memory \<Rightarrow> 'l \<times> ('m, 'l, 'e) memory) \<Rightarrow>
   pointer \<Rightarrow> ('m, 'l, 'e) memory \<Rightarrow> runtime_Object \<times> ('m, 'l, 'e) memory" where
  "GitSyncList_DeepCopyObject copyMeta copyListMeta p h =
     (let (c, h1) = GitSyncList_DeepCopy copyMeta copyListMeta p h
      in (case c of Some a \<Rightarrow> GitSyncListObject a | None \<Rightarrow> NilObject, h1))"

section \<open>Values and footprints\<close>

text \<open>A nil slice reads as an empty list, and a nil map as an empty map.\<close>

definition as_list :: "'a list option \<Rightarrow> 'a list" where
  "as_list xs = (case xs of None \<Rightarrow> [] | Some ys \<Rightarrow> ys)"

abbreviation plain :: "'h \<Rightarrow> 'a \<Rightarrow> 'a" where "plain \<equiv> (\<lambda>h x. x)"

abbreviation nowhere :: "'h \<Rightarrow> 'a \<Rightarrow> nat set" where "nowhere \<equiv> (\<lambda>h x. {})"

definition HelmSource_val :: "('m, 'l, 'e) memory \<Rightarrow> HelmSource_mem \<Rightarrow> HelmSource" where
  "HelmSource_val h x =
     \<lparr>ValueFiles = as_list (slice_val un_Strings plain h (hm_ValueFiles x)),
      Parameters = as_list (slice_val un_HelmParameters plain h (hm_Parameters x))\<rparr>"

definition HelmSource_foot :: "('m, 'l, 'e) memory \<Rightarrow> HelmSource_mem \<Rightarrow> nat set" where
  "HelmSource_foot h x =
     slice_foot un_Strings nowhere h (hm_ValueFiles x) \<union>
     slice_foot un_HelmParameters nowhere h (hm_Parameters x)"

definition GitSource_val :: "('m, 'l, 'e) memory \<Rightarrow> GitSource_mem \<Rightarrow> GitSource" where
  "GitSource_val h x =
     GitLocation.extend (gm_GitLocation x)
       (GitSource.fields (pointer_val un_KustomizeSource plain h (gm_Kustomize x))
          (pointer_val un_HelmSource HelmSource_val h (gm_Helm x))
          (pointer_val un_RawSource plain h (gm_Raw x)))"

definition GitSource_foot :: "('m, 'l, 'e) memory \<Rightarrow> GitSource_mem \<Rightarrow> nat set" where
  "GitSource_foot h x =
     pointer_foot un_KustomizeSource nowhere h (gm_Kustomize x) \<union>
     pointer_foot un_HelmSource HelmSource_foot h (gm_Helm x) \<union>
     pointer_foot un_RawSource nowhere h (gm_Raw x)"

definition FileKeySelector_val :: "('m, 'l, 'e) memory \<Rightarrow> FileKeySelector_mem \<Rightarrow> FileKeySelector" where
  "FileKeySelector_val h x =
     \<lparr>JSONFilePath = pointer_val un_String plain h (fm_JSONFilePath x),
      YAMLFilePath = pointer_val un_String plain h (fm_YAMLFilePath x), fks_Key = fm_Key x\<rparr>"

definition FileKeySelector_foot :: "('m, 'l, 'e) memory \<Rightarrow> FileKeySelector_mem \<Rightarrow> nat set" where
  "FileKeySelector_foot h x =
     pointer_foot un_String nowhere h (fm_JSONFilePath x) \<union>
     pointer_foot un_String nowhere h (fm_YAMLFilePath x)"

definition SecretSource_val :: "('m, 'l, 'e) memory \<Rightarrow> SecretSource_mem \<Rightarrow> SecretSource" where
  "SecretSource_val h x =
     \<lparr>FromKubernetesSecret = pointer_val un_SecretKeySelector plain h (sm_FromKubernetesSecret x),
      FromFile = pointer_val un_FileKeySelector FileKeySelector_val h (sm_FromFile x)\<rparr>"

definition SecretSource_foot :: "('m, 'l, 'e) memory \<Rightarrow> SecretSource_mem \<Rightarrow> nat set" where
  "SecretSource_foot h x =
     pointer_foot un_SecretKeySelector nowhere h (sm_FromKubernetesSecret x) \<union>
     pointer_foot un_FileKeySelector FileKeySelector_foot h (sm_FromFile x)"

definition HTTPCredential_val :: "('m, 'l, 'e) memory \<Rightarrow> HTTPCredential_mem \<Rightarrow> HTTPCredential" where
  "HTTPCredential_val h x = \<lparr>Username = htm_Username x, Password = SecretSource_val h (htm_Password x)\<rparr>"

definition HTTPCredential_foot :: "('m, 'l, 'e) memory \<Rightarrow> HTTPCredential_mem \<Rightarrow> nat set" where
  "HTTPCredential_foot h x = SecretSource_foot h (htm_Password x)"

definition SSHCredential_val :: "('m, 'l, 'e) memory \<Rightarrow> SSHCredential_mem \<Rightarrow> SSHCredential" where
  "SSHCredential_val h x = \<lparr>SSHKey = SecretSource_val h (shm_SSHKey x)\<rparr>"

definition SSHCredential_foot :: "('m, 'l, 'e) memory \<Rightarrow> SSHCredential_mem \<Rightarrow> nat set" where
  "SSHCredential_foot h x = SecretSource_foot h (shm_SSHKey x)"

definition RepoCredential_val :: "('m, 'l, 'e) memory \<Rightarrow> RepoCredential_mem \<Rightarrow> RepoCredential" where
  "RepoCredential_val h x =
     \<lparr>rc_URL = rm_URL x,
      rc_HTTPCredential = pointer_val un_HTTPCredential HTTPCredential_val h (rm_HTTPCredential x),
      rc_SSHCredential = pointer_val un_SSHCredential SSHCredential_val h (rm_SSHCredential x),
      rc_TLS = pointer_val un_TLS plain h (rm_TLS x)\<rparr>"

definition RepoCredential_foot :: "('m, 'l, 'e) memory \<Rightarrow> RepoCredential_mem \<Rightarrow> nat set" where
  "RepoCredential_foot h x =
     pointer_foot un_HTTPCredential HTTPCredential_foot h (rm_HTTPCredential x) \<union>
     pointer_foot un_SSHCredential SSHCredential_foot h (rm_SSHCredential x) \<union>
     pointer_foot un_TLS nowhere h (rm_TLS x)"

definition CredentialedGitSource_val :: "('m, 'l, 'e) memory \<Rightarrow> CredentialedGitSource_mem \<Rightarrow> CredentialedGitSource" where
  "CredentialedGitSource_val h x =
     GitSource.extend (GitSource_val h (csm_GitSource x))
       (CredentialedGitSource.fields (pointer_val un_RepoCredential RepoCredential_val h (csm_RepoCredential x)))"

definition CredentialedGitSource_foot :: "('m, 'l, 'e) memory \<Rightarrow> CredentialedGitSource_mem \<Rightarrow> nat set" where
  "CredentialedGitSource_foot h x =
     GitSource_foot h (csm_GitSource x) \<union>
     pointer_foot un_RepoCredential RepoCredential_foot h (csm_RepoCredential x)"

definition CredentialedGitLocation_val :: "('m, 'l, 'e) memory \<Rightarrow> CredentialedGitLocation_mem \<Rightarrow> CredentialedGitLocation" where
  "CredentialedGitLocation_val h x =
     GitLocation.extend (clm_GitLocation x)
       (CredentialedGitLocation.fields (pointer_val un_RepoCredential RepoCredential_val h (clm_RepoCredential x)))"

definition CredentialedGitLocation_foot :: "('m, 'l, 'e) memory \<Rightarrow> CredentialedGitLocation_mem \<Rightarrow> nat set" where
  "CredentialedGitLocation_foot h x =
     pointer_foot un_RepoCredential RepoCredential_foot h (clm_RepoCredential x)"

definition SingleClusterGenerator_val :: "('m, 'l, 'e) memory \<Rightarrow> SingleClusterGenerator_mem \<Rightarrow> SingleClusterGenerator" where
  "SingleClusterGenerator_val h x =
     \<lparr>scg_Values = (case pointer_val un_StringMap plain h (scm_Values x) of None \<Rightarrow> Map.empty | Some m \<Rightarrow> m)\<rparr>"

definition SingleClusterGenerator_foot :: "('m, 'l, 'e) memory \<Rightarrow> SingleClusterGenerator_mem \<Rightarrow> nat set" where
  "SingleClusterGenerator_foot h x = pointer_foot un_StringMap nowhere h (scm_Values x)"

definition MultiClusterFileGenerator_val ::
  "('m, 'l, 'e) memory \<Rightarrow> MultiClusterFileGenerator_mem \<Rightarrow> MultiClusterFileGenerator" where
  "MultiClusterFileGenerator_val h x =
     \<lparr>mcg_Files = as_list (slice_val un_Pointers
        (pointer_val un_CredentialedGitLocation CredentialedGitLocation_val) h (mcm_Files x))\<rparr>"

definition MultiClusterFileGenerator_foot :: "('m, 'l, 'e) memory \<Rightarrow> MultiClusterFileGenerator_mem \<Rightarrow> nat set" where
  "MultiClusterFileGenerator_foot h x =
     slice_foot un_Pointers (pointer_foot un_CredentialedGitLocation CredentialedGitLocation_foot) h (mcm_Files x)"

definition GitSyncSpec_val :: "('m, 'l, 'e) memory \<Rightarrow> GitSyncSpec_mem \<Rightarrow> GitSyncSpec" where
  "GitSyncSpec_val h x =
     GitSource.extend (GitSource_val h (spm_GitSource x)) (GitSyncSpec.fields (spm_Destination x))"

definition GitSyncSpec_foot :: "('m, 'l, 'e) memory \<Rightarrow> GitSyncSpec_mem \<Rightarrow> nat set" where
  "GitSyncSpec_foot h x = GitSource_foot h (spm_GitSource x)"

definition GitSyncStatus_val :: "('m, 'l, 'e) memory \<Rightarrow> GitSyncStatus_mem \<Rightarrow> GitSyncStatus" where
  "GitSyncStatus_val h x =
     \<lparr>Phase = stm_Phase x, Conditions = as_list (slice_val un_Conditions plain h (stm_Conditions x)),
      Message = stm_Message x,
      status_CommitStatus = pointer_val un_CommitStatus plain h (stm_CommitStatus x)\<rparr>"

definition GitSyncStatus_foot :: "('m, 'l, 'e) memory \<Rightarrow> GitSyncStatus_mem \<Rightarrow> nat set" where
  "GitSyncStatus_foot h x =
     slice_foot un_Conditions nowhere h (stm_Conditions x) \<union>
     pointer_foot un_CommitStatus nowhere h (stm_CommitStatus x)"

text \<open>
  The value of a GitSync has its metadata as the library reads them (\<open>metaVal\<close>).
\<close>

record 'v GitSync_value =
  gsv_TypeMeta :: TypeMeta
  gsv_ObjectMeta :: 'v
  gsv_Spec :: GitSyncSpec
  gsv_Status :: GitSyncStatus

definition GitSync_val ::
  "(('m, 'l, 'e) memory \<Rightarrow> 'm \<Rightarrow> 'v) \<Rightarrow> ('m, 'l, 'e) memory \<Rightarrow> 'm GitSync_mem \<Rightarrow> 'v GitSync_value" where
  "GitSync_val metaVal h x =
     \<lparr>gsv_TypeMeta = gsm_TypeMeta x, gsv_ObjectMeta = metaVal h (gsm_ObjectMeta x),
      gsv_Spec = GitSyncSpec_val h (gsm_Spec x), gsv_Status = GitSyncStatus_val h (gsm_Status x)\<rparr>"

definition GitSync_foot ::
  "(('m, 'l, 'e) memory \<Rightarrow> 'm \<Rightarrow> nat set) \<Rightarrow> ('m, 'l, 'e) memory \<Rightarrow> 'm GitSync_mem \<Rightarrow> nat set" where
  "GitSync_foot metaFoot h x =
     metaFoot h (gsm_ObjectMeta x) \<union> GitSyncSpec_foot h (gsm_Spec x) \<union> GitSyncStatus_foot h (gsm_Status x)"

record ('v, 'w) GitSyncList_value =
  glv_TypeMeta :: TypeMeta
  glv_ListMeta :: 'w
  glv_Items :: "'v GitSync_value list"

definition GitSyncList_val ::
  "(('m, 'l, 'e) memory \<Rightarrow> 'm \<Rightarrow> 'v) \<Rightarrow> (('m, 'l, 'e) memory \<Rightarrow> 'l \<Rightarrow> 'w) \<Rightarrow>
   ('m, 'l, 'e) memory \<Rightarrow> 'l GitSyncList_mem \<Rightarrow> ('v, 'w) GitSyncList_value" where
  "GitSyncList_val metaVal listMetaVal h x =
     \<lparr>glv_TypeMeta = glm_TypeMeta x, glv_ListMeta = listMetaVal h (glm_ListMeta x),
      glv_Items = as_list (slice_val un_GitSyncs (GitSync_val metaVal) h (glm_Items x))\<rparr>"

definition GitSyncList_foot ::
  "(('m, 'l, 'e) memory \<Rightarrow> 'm \<Rightarrow> nat set) \<Rightarrow> (('m, 'l, 'e) memory \<Rightarrow> 'l \<Rightarrow> nat set) \<Rightarrow>
   ('m, 'l, 'e) memory \<Rightarrow> 'l GitSyncList_mem \<Rightarrow> nat set" where
  "GitSyncList_foot metaFoot listMetaFoot h x =
     listMetaFoot h (glm_ListMeta x) \<union> slice_foot un_GitSyncs (GitSync_foot metaFoot) h (glm_Items x)"

section \<open>Every generated copy is a deep copy\<close>

lemmas flat_copier = flat.deep_copier_axioms [of "\<lambda>x. x"]

lemmas flat_pointer = flat.pointer_copier [where f = "\<lambda>x. x"]

lemmas flat_slice = deep_copier.slice_copier [OF flat_copier]

lemma list_of_plain [simp]: "list_val plain = plain"
  by (rule ext)+ (simp add: list_val_def)

interpretation helm: deep_copier HelmSource_DeepCopyInto HelmSource_val HelmSource_foot
  by (rule struct_copier2 [OF
        flat_slice [of un_Strings StringsCell, OF cell.sel(2)]
        flat_slice [of un_HelmParameters HelmParametersCell, OF cell.sel(4)],
        where fa = hm_ValueFiles and fb = hm_Parameters and
          put = "\<lambda>x a b. x\<lparr>hm_ValueFiles := a, hm_Parameters := b\<rparr>" and
          mkval = "\<lambda>x v1 v2. \<lparr>ValueFiles = as_list v1, Parameters = as_list v2\<rparr>"])
     (simp_all add: HelmSource_DeepCopyInto_def HelmSource_val_def HelmSource_foot_def)

interpretation source: deep_copier GitSource_DeepCopyInto GitSource_val GitSource_foot
  by (rule struct_copier3 [OF
        flat_pointer [of un_KustomizeSource KustomizeSourceCell, OF cell.sel(12)]
        helm.pointer_copier [of un_HelmSource HelmSourceCell, OF cell.sel(16)]
        flat_pointer [of un_RawSource RawSourceCell, OF cell.sel(13)],
        where fa = gm_Kustomize and fb = gm_Helm and fc = gm_Raw and
          put = "\<lambda>x a b c. x\<lparr>gm_Kustomize := a, gm_Helm := b, gm_Raw := c\<rparr>" and
          mkval = "\<lambda>x v1 v2 v3. GitLocation.extend (gm_GitLocation x) (GitSource.fields v1 v2 v3)"])
     (simp_all add: GitSource_DeepCopyInto_def GitSource_val_def GitSource_foot_def)

interpretation file_key: deep_copier FileKeySelector_DeepCopyInto FileKeySelector_val FileKeySelector_foot
  by (rule struct_copier2 [OF
        flat_pointer [of un_String StringCell, OF cell.sel(1)]
        flat_pointer [of un_String StringCell, OF cell.sel(1)],
        where fa = fm_JSONFilePath and fb = fm_YAMLFilePath and
          put = "\<lambda>x a b. x\<lparr>fm_JSONFilePath := a, fm_YAMLFilePath := b\<rparr>" and
          mkval = "\<lambda>x v1 v2. \<lparr>JSONFilePath = v1, YAMLFilePath = v2, fks_Key = fm_Key x\<rparr>"])
     (simp_all add: FileKeySelector_DeepCopyInto_def FileKeySelector_val_def FileKeySelector_foot_def)

interpretation secret: deep_copier SecretSource_DeepCopyInto SecretSource_val SecretSource_foot
  by (rule struct_copier2 [OF
        flat_pointer [of un_SecretKeySelector SecretKeySelectorCell, OF cell.sel(14)]
        file_key.pointer_copier [of un_FileKeySelector FileKeySelectorCell, OF cell.sel(18)],
        where fa = sm_FromKubernetesSecret and fb = sm_FromFile and
          put = "\<lambda>x a b. x\<lparr>sm_FromKubernetesSecret := a, sm_FromFile := b\<rparr>" and
          mkval = "\<lambda>x v1 v2. \<lparr>FromKubernetesSecret = v1, FromFile = v2\<rparr>"])
     (simp_all add: SecretSource_DeepCopyInto_def SecretSource_val_def SecretSource_foot_def)

interpretation http: deep_copier HTTPCredential_DeepCopyInto HTTPCredential_val HTTPCredential_foot
  by (rule struct_copier1 [OF secret.deep_copier_axioms,
        where fa = htm_Password and
          put = "\<lambda>x a. x\<lparr>htm_Password := a\<rparr>" and
          mkval = "\<lambda>x v1. \<lparr>Username = htm_Username x, Password = v1\<rparr>"])
     (simp_all add: HTTPCredential_DeepCopyInto_def HTTPCredential_val_def HTTPCredential_foot_def)

interpretation ssh: deep_copier SSHCredential_DeepCopyInto SSHCredential_val SSHCredential_foot
  by (rule struct_copier1 [OF secret.deep_copier_axioms,
        where fa = shm_SSHKey and
          put = "\<lambda>x a. x\<lparr>shm_SSHKey := a\<rparr>" and
          mkval = "\<lambda>x v1. \<lparr>SSHKey = v1\<rparr>"])
     (simp_all add: SSHCredential_DeepCopyInto_def SSHCredential_val_def SSHCredential_foot_def)

interpretation credential: deep_copier RepoCredential_DeepCopyInto RepoCredential_val RepoCredential_foot
  by (rule struct_copier3 [OF
        http.pointer_copier [of un_HTTPCredential HTTPCredentialCell, OF cell.sel(20)]
        ssh.pointer_copier [of un_SSHCredential SSHCredentialCell, OF cell.sel(21)]
        flat_pointer [of un_TLS TLSCell, OF cell.sel(15)],
        where fa = rm_HTTPCredential and fb = rm_SSHCredential and fc = rm_TLS and
          put = "\<lambda>x a b c. x\<lparr>rm_HTTPCredential := a, rm_SSHCredential := b, rm_TLS := c\<rparr>" and
          mkval = "\<lambda>x v1 v2 v3. \<lparr>rc_URL = rm_URL x, rc_HTTPCredential = v1, rc_SSHCredential = v2, rc_TLS = v3\<rparr>"])
     (simp_all add: RepoCredential_DeepCopyInto_def RepoCredential_val_def RepoCredential_foot_def)

interpretation credentialed_source: deep_copier CredentialedGitSource_DeepCopyInto CredentialedGitSource_val CredentialedGitSource_foot
  by (rule struct_copier2 [OF
        source.deep_copier_axioms
        credential.pointer_copier [of un_RepoCredential RepoCredentialCell, OF cell.sel(22)],
        where fa = csm_GitSource and fb = csm_RepoCredential and
          put = "\<lambda>x a b. x\<lparr>csm_GitSource := a, csm_RepoCredential := b\<rparr>" and
          mkval = "\<lambda>x v1 v2. GitSource.extend v1 (CredentialedGitSource.fields v2)"])
     (simp_all add: CredentialedGitSource_DeepCopyInto_def CredentialedGitSource_val_def CredentialedGitSource_foot_def)

interpretation credentialed_location: deep_copier CredentialedGitLocation_DeepCopyInto CredentialedGitLocation_val CredentialedGitLocation_foot
  by (rule struct_copier1 [OF credential.pointer_copier [of un_RepoCredential RepoCredentialCell, OF cell.sel(22)],
        where fa = clm_RepoCredential and
          put = "\<lambda>x a. x\<lparr>clm_RepoCredential := a\<rparr>" and
          mkval = "\<lambda>x v1. GitLocation.extend (clm_GitLocation x) (CredentialedGitLocation.fields v1)"])
     (simp_all add: CredentialedGitLocation_DeepCopyInto_def CredentialedGitLocation_val_def CredentialedGitLocation_foot_def)

interpretation single_cluster: deep_copier SingleClusterGenerator_DeepCopyInto SingleClusterGenerator_val SingleClusterGenerator_foot
  by (rule struct_copier1 [OF map_copier [of un_StringMap StringMapCell, OF cell.sel(3)],
        where fa = scm_Values and
          put = "\<lambda>x a. x\<lparr>scm_Values := a\<rparr>" and
          mkval = "\<lambda>x v1. \<lparr>scg_Values = (case v1 of None \<Rightarrow> Map.empty | Some m \<Rightarrow> m)\<rparr>"])
     (simp_all add: SingleClusterGenerator_DeepCopyInto_def SingleClusterGenerator_val_def SingleClusterGenerator_foot_def)

lemma credentialed_locations:
  "deep_copier (copy_pointer CredentialedGitLocationCell un_CredentialedGitLocation CredentialedGitLocation_DeepCopyInto)
     (pointer_val un_CredentialedGitLocation CredentialedGitLocation_val)
     (pointer_foot un_CredentialedGitLocation CredentialedGitLocation_foot)"
  by (rule credentialed_location.pointer_copier) simp

interpretation multi_cluster: deep_copier MultiClusterFileGenerator_DeepCopyInto MultiClusterFileGenerator_val MultiClusterFileGenerator_foot
  by (rule struct_copier1 [OF deep_copier.slice_copier [OF credentialed_locations, of un_Pointers PointersCell, OF cell.sel(6)],
        where fa = mcm_Files and
          put = "\<lambda>x a. x\<lparr>mcm_Files := a\<rparr>" and
          mkval = "\<lambda>x v1. \<lparr>mcg_Files = as_list v1\<rparr>"])
     (simp_all add: MultiClusterFileGenerator_DeepCopyInto_def MultiClusterFileGenerator_val_def MultiClusterFileGenerator_foot_def)

interpretation spec: deep_copier GitSyncSpec_DeepCopyInto GitSyncSpec_val GitSyncSpec_foot
  by (rule struct_copier1 [OF source.deep_copier_axioms,
        where fa = spm_GitSource and
          put = "\<lambda>x a. x\<lparr>spm_GitSource := a\<rparr>" and
          mkval = "\<lambda>x v1. GitSource.extend v1 (GitSyncSpec.fields (spm_Destination x))"])
     (simp_all add: GitSyncSpec_DeepCopyInto_def GitSyncSpec_val_def GitSyncSpec_foot_def)

interpretation status: deep_copier GitSyncStatus_DeepCopyInto GitSyncStatus_val GitSyncStatus_foot
  by (rule struct_copier2 [OF
        flat_slice [of un_Conditions ConditionsCell, OF cell.sel(5)]
        flat_pointer [of un_CommitStatus CommitStatusCell, OF cell.sel(8)],
        where fa = stm_Conditions and fb = stm_CommitStatus and
          put = "\<lambda>x a b. x\<lparr>stm_Conditions := a, stm_CommitStatus := b\<rparr>" and
          mkval = "\<lambda>x v1 v2. \<lparr>Phase = stm_Phase x, Conditions = as_list v1, Message = stm_Message x, status_CommitStatus = v2\<rparr>"])
     (simp_all add: GitSyncStatus_DeepCopyInto_def GitSyncStatus_val_def GitSyncStatus_foot_def CommitStatus_DeepCopyInto_def)

interpretation spec_and_status: copier_pair GitSyncSpec_DeepCopyInto GitSyncSpec_val GitSyncSpec_foot
  GitSyncStatus_DeepCopyInto GitSyncStatus_val GitSyncStatus_foot
  by (rule copier_pair.intro [OF spec.deep_copier_axioms status.deep_copier_axioms])

lemma GitSync_copier:
  assumes "deep_copier copyMeta metaVal metaFoot"
  shows "deep_copier (GitSync_DeepCopyInto copyMeta) (GitSync_val metaVal) (GitSync_foot metaFoot)"
  by (rule struct_copier2 [OF assms spec_and_status.pair_copier,
        where fa = gsm_ObjectMeta and fb = "\<lambda>x. (gsm_Spec x, gsm_Status x)" and
          put = "\<lambda>x a b. x\<lparr>gsm_ObjectMeta := a, gsm_Spec := fst b, gsm_Status := snd b\<rparr>" and
          mkval = "\<lambda>x v1 v2. \<lparr>gsv_TypeMeta = gsm_TypeMeta x, gsv_ObjectMeta = v1, gsv_Spec = fst v2, gsv_Status = snd v2\<rparr>"])
     (simp_all add: GitSync_DeepCopyInto_def GitSync_val_def GitSync_foot_def copy2_def split_def Let_def Un_assoc)

lemma GitSyncList_copier:
  assumes "deep_copier copyMeta metaVal metaFoot" and "deep_copier copyListMeta listMetaVal listMetaFoot"
  shows "deep_copier (GitSyncList_DeepCopyInto copyMeta copyListMeta) (GitSyncList_val metaVal listMetaVal)
    (GitSyncList_foot metaFoot listMetaFoot)"
  by (rule struct_copier2 [OF assms(2) deep_copier.slice_copier [OF GitSync_copier [OF assms(1)] cell.sel(7)],
        where fa = glm_ListMeta and fb = glm_Items and
          put = "\<lambda>x a b. x\<lparr>glm_ListMeta := a, glm_Items := b\<rparr>" and
          mkval = "\<lambda>x v1 v2. \<lparr>glv_TypeMeta = glm_TypeMeta x, glv_ListMeta = v1, glv_Items = as_list v2\<rparr>"])
     (simp_all add: GitSyncList_DeepCopyInto_def GitSyncList_val_def GitSyncList_foot_def)

section \<open>Properties of the copies\<close>

text \<open>
  The GitSync a pointer refers to, and the addresses reached from it.
\<close>

abbreviation GitSync_at ::
  "(('m, 'l, 'e) memory \<Rightarrow> 'm \<Rightarrow> 'v) \<Rightarrow> ('m, 'l, 'e) memory \<Rightarrow> pointer \<Rightarrow> 'v GitSync_value option" where
  "GitSync_at metaVal \<equiv> pointer_val un_GitSync (GitSync_val metaVal)"

abbreviation GitSync_reach ::
  "(('m, 'l, 'e) memory \<Rightarrow> 'm \<Rightarrow> nat set) \<Rightarrow> ('m, 'l, 'e) memory \<Rightarrow> pointer \<Rightarrow> nat set" where
  "GitSync_reach metaFoot \<equiv> pointer_foot un_GitSync (GitSync_foot metaFoot)"

lemma GitSync_DeepCopy_copier:
  assumes "deep_copier copyMeta metaVal metaFoot"
  shows "deep_copier (GitSync_DeepCopy copyMeta) (GitSync_at metaVal) (GitSync_reach metaFoot)"
  unfolding GitSync_DeepCopy_def
  by (rule deep_copier.pointer_copier [OF GitSync_copier [OF assms]]) simp

lemma GitSyncList_DeepCopy_copier:
  assumes "deep_copier copyMeta metaVal metaFoot" and "deep_copier copyListMeta listMetaVal listMetaFoot"
  shows "deep_copier (GitSyncList_DeepCopy copyMeta copyListMeta)
    (pointer_val un_GitSyncList (GitSyncList_val metaVal listMetaVal))
    (pointer_foot un_GitSyncList (GitSyncList_foot metaFoot listMetaFoot))"
  unfolding GitSyncList_DeepCopy_def
  by (rule deep_copier.pointer_copier [OF GitSyncList_copier [OF assms]]) simp

text \<open>
  C22. The copy of a GitSync that \<open>Reconcile\<close> works on is independent of the object it was made from.
  It reads the same; whatever is then stored through it or in newer memory, the original still
  reads as before (so \<open>needsUpdate\<close> compares with the unchanged object); and whatever is stored
  in the memory that was in use before, the copy still reads as before. The copy of the
  metadata, a library function, is supposed to have the same property.
\<close>

theorem GitSync_DeepCopy_independent:
  assumes "deep_copier copyMeta metaVal metaFoot"
    and "GitSync_reach metaFoot h p \<subseteq> {..<nxt h}"
    and "GitSync_DeepCopy copyMeta p h = (q, h1)"
  shows "GitSync_at metaVal h1 q = GitSync_at metaVal h p \<and>
    (\<forall>h2. (\<forall>a. a \<notin> GitSync_reach metaFoot h1 q \<and> a < nxt h1 \<longrightarrow> cell h2 a = cell h1 a) \<longrightarrow>
       GitSync_at metaVal h2 p = GitSync_at metaVal h p) \<and>
    (\<forall>h2. (\<forall>a\<ge>nxt h. cell h2 a = cell h1 a) \<longrightarrow> GitSync_at metaVal h2 q = GitSync_at metaVal h p)"
proof -
  note copier = GitSync_DeepCopy_copier [OF assms(1)]
  show ?thesis
    using deep_copier.val_copy [OF copier assms(2)] deep_copier.writes_do_not_reach [OF copier assms(2)]
      deep_copier.copy_is_private [OF copier assms(2)]
    by (simp add: assms(3))
qed

text \<open>
  A GitSync in memory, with a label map, one condition and a Helm source with one value file.
\<close>

definition label_copy :: "pointer \<Rightarrow> (pointer, unit, string \<rightharpoonup> string) memory \<Rightarrow> pointer \<times> (pointer, unit, string \<rightharpoonup> string) memory" where
  "label_copy = copy_map LibCell un_Lib"

lemma label_copier: "deep_copier label_copy (pointer_val un_Lib plain) (pointer_foot un_Lib nowhere)"
  unfolding label_copy_def by (rule map_copier) simp

definition one_condition :: Condition where
  "one_condition =
     \<lparr>cond_Type = ''Configured'', cond_Status = ConditionTrue, cond_ObservedGeneration = 0,
      cond_LastTransitionTime = 5, cond_Reason = ''Successful'', cond_Message = ''Successful''\<rparr>"

definition small_memory :: "(pointer, unit, string \<rightharpoonup> string) memory" where
  "small_memory =
     \<lparr>nxt = 5,
      cell = (\<lambda>_. LibCell Map.empty)
        (0 := GitSyncCell
           \<lparr>gsm_TypeMeta = \<lparr>tm_Kind = ''GitSync'', tm_APIVersion = ''numaplane.numaproj.io/v1alpha1''\<rparr>,
            gsm_ObjectMeta = Some 1,
            gsm_Spec = \<lparr>spm_GitSource =
                \<lparr>gm_GitLocation = \<lparr>RepoUrl = ''https://h/r'', Path = [], TargetRevision = ''main''\<rparr>,
                 gm_Kustomize = None, gm_Helm = Some 2, gm_Raw = None\<rparr>,
              spm_Destination = \<lparr>Cluster = ''c'', dest_Namespace = ''ns''\<rparr>\<rparr>,
            gsm_Status = \<lparr>stm_Phase = GitSyncPhaseRunning, stm_Conditions = Some (4, 0, 1), stm_Message = [],
              stm_CommitStatus = None\<rparr>\<rparr>,
         1 := LibCell [''a'' \<mapsto> ''b''],
         2 := HelmSourceCell \<lparr>hm_ValueFiles = Some (3, 0, 1), hm_Parameters = None\<rparr>,
         3 := StringsCell [''values.yaml''],
         4 := ConditionsCell [one_condition])\<rparr>"

lemmas foot_defs = ref_foot_def slice_foot_def list_foot_def window_def GitSync_foot_def GitSyncSpec_foot_def
  GitSyncStatus_foot_def GitSource_foot_def HelmSource_foot_def

lemmas val_defs = ref_val_def slice_val_def list_val_def window_def GitSync_val_def GitSyncSpec_val_def
  GitSyncStatus_val_def GitSource_val_def HelmSource_val_def as_list_def

lemma small_memory_valid: "GitSync_reach (pointer_foot un_Lib nowhere) small_memory (Some 0) \<subseteq> {..<nxt small_memory}"
  by (simp add: small_memory_def foot_defs)

theorem GitSync_DeepCopy_independent_witness:
  "GitSync_at (pointer_val un_Lib plain) (snd (GitSync_DeepCopy label_copy (Some 0) small_memory))
     (fst (GitSync_DeepCopy label_copy (Some 0) small_memory)) =
   GitSync_at (pointer_val un_Lib plain) small_memory (Some 0)"
  using GitSync_DeepCopy_independent [OF label_copier small_memory_valid surjective_pairing] by (rule conjunct1)

text \<open>
  C16. Each of the 23 generated \<open>DeepCopy\<close> functions of the API types keeps the laws of a deep copy: nil for nil;
  for a pointer, a new object that reads the same, reaches only memory allocated by the copy, and
  leaves everything else in memory as it was. For the two objects with metadata, \<open>GitSync\<close> and
  \<open>GitSyncList\<close>, the library's copies of the metadata are supposed to keep them.
\<close>

theorem generated_copies_are_deep:
  assumes "deep_copier copyMeta metaVal metaFoot" and "deep_copier copyListMeta listMetaVal listMetaFoot"
  shows "deep_copier (GitSync_DeepCopy copyMeta) (GitSync_at metaVal) (GitSync_reach metaFoot) \<and>
   deep_copier (GitSyncList_DeepCopy copyMeta copyListMeta)
     (pointer_val un_GitSyncList (GitSyncList_val metaVal listMetaVal))
     (pointer_foot un_GitSyncList (GitSyncList_foot metaFoot listMetaFoot)) \<and>
   deep_copier HelmSource_DeepCopy (pointer_val un_HelmSource HelmSource_val) (pointer_foot un_HelmSource HelmSource_foot) \<and>
   deep_copier GitSource_DeepCopy (pointer_val un_GitSource GitSource_val) (pointer_foot un_GitSource GitSource_foot) \<and>
   deep_copier FileKeySelector_DeepCopy (pointer_val un_FileKeySelector FileKeySelector_val)
     (pointer_foot un_FileKeySelector FileKeySelector_foot) \<and>
   deep_copier SecretSource_DeepCopy (pointer_val un_SecretSource SecretSource_val)
     (pointer_foot un_SecretSource SecretSource_foot) \<and>
   deep_copier HTTPCredential_DeepCopy (pointer_val un_HTTPCredential HTTPCredential_val)
     (pointer_foot un_HTTPCredential HTTPCredential_foot) \<and>
   deep_copier SSHCredential_DeepCopy (pointer_val un_SSHCredential SSHCredential_val)
     (pointer_foot un_SSHCredential SSHCredential_foot) \<and>
   deep_copier RepoCredential_DeepCopy (pointer_val un_RepoCredential RepoCredential_val)
     (pointer_foot un_RepoCredential RepoCredential_foot) \<and>
   deep_copier CredentialedGitSource_DeepCopy (pointer_val un_CredentialedGitSource CredentialedGitSource_val)
     (pointer_foot un_CredentialedGitSource CredentialedGitSource_foot) \<and>
   deep_copier CredentialedGitLocation_DeepCopy (pointer_val un_CredentialedGitLocation CredentialedGitLocation_val)
     (pointer_foot un_CredentialedGitLocation CredentialedGitLocation_foot) \<and>
   deep_copier SingleClusterGenerator_DeepCopy (pointer_val un_SingleClusterGenerator SingleClusterGenerator_val)
     (pointer_foot un_SingleClusterGenerator SingleClusterGenerator_foot) \<and>
   deep_copier MultiClusterFileGenerator_DeepCopy (pointer_val un_MultiClusterFileGenerator MultiClusterFileGenerator_val)
     (pointer_foot un_MultiClusterFileGenerator MultiClusterFileGenerator_foot) \<and>
   deep_copier GitSyncSpec_DeepCopy (pointer_val un_GitSyncSpec GitSyncSpec_val)
     (pointer_foot un_GitSyncSpec GitSyncSpec_foot) \<and>
   deep_copier GitSyncStatus_DeepCopy (pointer_val un_GitSyncStatus GitSyncStatus_val)
     (pointer_foot un_GitSyncStatus GitSyncStatus_foot) \<and>
   deep_copier CommitStatus_DeepCopy (pointer_val un_CommitStatus plain) (pointer_foot un_CommitStatus nowhere) \<and>
   deep_copier Destination_DeepCopy (pointer_val un_Destination plain) (pointer_foot un_Destination nowhere) \<and>
   deep_copier GitLocation_DeepCopy (pointer_val un_GitLocation plain) (pointer_foot un_GitLocation nowhere) \<and>
   deep_copier HelmParameter_DeepCopy (pointer_val un_HelmParameter plain) (pointer_foot un_HelmParameter nowhere) \<and>
   deep_copier KustomizeSource_DeepCopy (pointer_val un_KustomizeSource plain) (pointer_foot un_KustomizeSource nowhere) \<and>
   deep_copier RawSource_DeepCopy (pointer_val un_RawSource plain) (pointer_foot un_RawSource nowhere) \<and>
   deep_copier SecretKeySelector_DeepCopy (pointer_val un_SecretKeySelector plain)
     (pointer_foot un_SecretKeySelector nowhere) \<and>
   deep_copier TLS_DeepCopy (pointer_val un_TLS plain) (pointer_foot un_TLS nowhere)"
  unfolding HelmSource_DeepCopy_def GitSource_DeepCopy_def FileKeySelector_DeepCopy_def SecretSource_DeepCopy_def
    HTTPCredential_DeepCopy_def SSHCredential_DeepCopy_def RepoCredential_DeepCopy_def
    CredentialedGitSource_DeepCopy_def CredentialedGitLocation_DeepCopy_def SingleClusterGenerator_DeepCopy_def
    MultiClusterFileGenerator_DeepCopy_def GitSyncSpec_DeepCopy_def GitSyncStatus_DeepCopy_def
    CommitStatus_DeepCopy_def Destination_DeepCopy_def GitLocation_DeepCopy_def HelmParameter_DeepCopy_def
    KustomizeSource_DeepCopy_def RawSource_DeepCopy_def SecretKeySelector_DeepCopy_def TLS_DeepCopy_def
    CommitStatus_DeepCopyInto_def Destination_DeepCopyInto_def GitLocation_DeepCopyInto_def
    HelmParameter_DeepCopyInto_def KustomizeSource_DeepCopyInto_def RawSource_DeepCopyInto_def
    SecretKeySelector_DeepCopyInto_def TLS_DeepCopyInto_def
  by (intro conjI GitSync_DeepCopy_copier GitSyncList_DeepCopy_copier assms;
      rule helm.pointer_copier source.pointer_copier file_key.pointer_copier secret.pointer_copier
        http.pointer_copier ssh.pointer_copier credential.pointer_copier credentialed_source.pointer_copier
        credentialed_location.pointer_copier single_cluster.pointer_copier multi_cluster.pointer_copier
        spec.pointer_copier status.pointer_copier flat_pointer; simp)

theorem generated_copies_are_deep_witness:
  "deep_copier (GitSyncList_DeepCopy label_copy flat_copy)
     (pointer_val un_GitSyncList (GitSyncList_val (pointer_val un_Lib plain) plain))
     (pointer_foot un_GitSyncList (GitSyncList_foot (pointer_foot un_Lib nowhere) nowhere))"
  using generated_copies_are_deep [OF label_copier flat.deep_copier_axioms [of "\<lambda>x. x"]]
  by (rule conjunct1 [OF conjunct2])

end
