(* ===== verification/Clients.thy ===== *)
theory Clients
  imports Complex_Main DeepCopy "HOL-Library.Word"
begin

text \<open>
  The generated clients for GitSync objects under \<open>pkg/client\<close>: the typed client (\<open>gitsync.go\<close>,
  \<open>numaplane_client.go\<close>, \<open>clientset.go\<close>), the fake one for tests (\<open>fake_gitsync.go\<close>,
  \<open>fake_numaplane_client.go\<close>, \<open>clientset_generated.go\<close>), and the API group and scheme they use
  (\<open>groupversion_info.go\<close>, the two \<open>register.go\<close>). A request is the record of what the builder
  of client-go was told; sending it, and the reactions of the fake's tracker, are parameters.
  The state of a client also lists what was sent, as the fake itself does. A call is \<open>None\<close> when it
  panics; a Go pair of a pointer and an error is a pair of options.
\<close>

section \<open>The API group and its scheme\<close>

record GroupVersion =
  gv_Group :: string
  gv_Version :: string

text \<open>A kind or a resource of a group.\<close>

type_synonym in_group = "GroupVersion \<times> string"

definition SchemeGroupVersion :: GroupVersion where
  "SchemeGroupVersion = \<lparr>gv_Group = ''numaplane.numaproj.io'', gv_Version = ''v1alpha1''\<rparr>"

definition GitSyncGroupVersionKind :: in_group where
  "GitSyncGroupVersionKind = (SchemeGroupVersion, ''GitSync'')"

definition GitSyncGroupVersionResource :: in_group where
  "GitSyncGroupVersionResource = (SchemeGroupVersion, ''gitsyncs'')"

text \<open>The \<open>GroupResource\<close> of a name.\<close>

definition Resource :: "string \<Rightarrow> string \<times> string" where
  "Resource resource = (gv_Group SchemeGroupVersion, resource)"

text \<open>
  A scheme is the list of kinds it knows. \<open>Register\<close> names the Go types; the builder adds each of them as a
  kind of its group. Neither call fails for these types.
\<close>

type_synonym type_scheme = "in_group list"

definition registered_types :: "string list" where
  "registered_types = [''GitSync'', ''GitSyncList'']"

definition AddToScheme :: "type_scheme \<Rightarrow> type_scheme" where
  "AddToScheme sch = sch @ map (Pair SchemeGroupVersion) registered_types"

definition client_Scheme :: type_scheme where
  "client_Scheme = AddToScheme []"

definition fake_scheme :: type_scheme where
  "fake_scheme = AddToScheme []"

section \<open>Requests\<close>

record ListOptions =
  TimeoutSeconds :: "64 word option"
  lo_Watch :: bool
  LabelSelector :: string
  FieldSelector :: string

text \<open>The other option structs are the library's and of the type \<open>'o\<close>.\<close>

datatype 'o params = ListParams ListOptions | Params 'o

datatype ('m, 'o) body = NoBody | ObjectBody "'m GitSync_value" | OptionsBody 'o | DataBody string

record ('m, 'o) request =
  rq_Verb :: string
  rq_PatchType :: string
  rq_Namespace :: string
  rq_Resource :: string
  rq_Name :: "string option"
  rq_SubResource :: "string list"
  rq_Params :: "'o params option"
  rq_Timeout :: "64 word"
  rq_Body :: "('m, 'o) body"

definition new_request :: "string \<Rightarrow> ('m, 'o) request" where
  "new_request verb =
     \<lparr>rq_Verb = verb, rq_PatchType = [], rq_Namespace = [], rq_Resource = [], rq_Name = None, rq_SubResource = [],
      rq_Params = None, rq_Timeout = 0, rq_Body = NoBody\<rparr>"

text \<open>\<open>time.Duration(*opts.TimeoutSeconds) * time.Second\<close>, which wraps around.\<close>

definition list_timeout :: "ListOptions \<Rightarrow> 64 word" where
  "list_timeout opts = (case TimeoutSeconds opts of None \<Rightarrow> 0 | Some n \<Rightarrow> n * 1000000000)"

text \<open>
  What the REST client \<open>'c\<close> does with a finished request: the response decoded into an
  empty object, which stays empty when there is none, or the error alone, or a watch \<open>'x\<close>.
  \<open>sent\<close> lists the requests in the order they are handed to the REST client. That some of them never reach the
  server (client-go refuses a request with an empty name) is part of what the functions of \<open>transport\<close> do.
\<close>

record ('m, 'l, 'o, 'x, 'c, 'w) transport =
  Into_GitSync :: "'c \<Rightarrow> ('m, 'o) request \<Rightarrow> 'w \<Rightarrow> ('m GitSync_value \<times> go_error option) \<times> 'w"
  Into_GitSyncList :: "'c \<Rightarrow> ('m, 'o) request \<Rightarrow> 'w \<Rightarrow> (('m, 'l) GitSyncList_value \<times> go_error option) \<times> 'w"
  Do_Error :: "'c \<Rightarrow> ('m, 'o) request \<Rightarrow> 'w \<Rightarrow> go_error option \<times> 'w"
  Do_Watch :: "'c \<Rightarrow> ('m, 'o) request \<Rightarrow> 'w \<Rightarrow> ('x option \<times> go_error option) \<times> 'w"

record ('m, 'o, 'w) wire =
  sent :: "('m, 'o) request list"
  server :: 'w

definition send :: "(('m, 'o) request \<Rightarrow> 'w \<Rightarrow> 'r \<times> 'w) \<Rightarrow> ('m, 'o) request \<Rightarrow> ('m, 'o, 'w) wire \<Rightarrow> 'r \<times> ('m, 'o, 'w) wire" where
  "send f rq s = (case f rq (server s) of (r, w) \<Rightarrow> (r, \<lparr>sent = sent s @ [rq], server = w\<rparr>))"

section \<open>The interface\<close>

text \<open>
  The interface value: the methods, on the state \<open>'s\<close> of what they talk to.
\<close>

type_synonym ('s, 'r) method_call = "'s \<Rightarrow> ('r \<times> go_error option) option \<times> 's"

record ('m, 'l, 'o, 'x, 's) GitSyncInterface =
  gi_Create :: "'m GitSync_value \<Rightarrow> 'o \<Rightarrow> ('s, 'm GitSync_value option) method_call"
  gi_Update :: "'m GitSync_value \<Rightarrow> 'o \<Rightarrow> ('s, 'm GitSync_value option) method_call"
  gi_UpdateStatus :: "'m GitSync_value \<Rightarrow> 'o \<Rightarrow> ('s, 'm GitSync_value option) method_call"
  gi_Delete :: "string \<Rightarrow> 'o \<Rightarrow> ('s, unit) method_call"
  gi_DeleteCollection :: "'o \<Rightarrow> ListOptions \<Rightarrow> ('s, unit) method_call"
  gi_Get :: "string \<Rightarrow> 'o \<Rightarrow> ('s, 'm GitSync_value option) method_call"
  gi_List :: "ListOptions \<Rightarrow> ('s, ('m, 'l) GitSyncList_value option) method_call"
  gi_Watch :: "ListOptions \<Rightarrow> ('s, 'x option) method_call"
  gi_Patch :: "string \<Rightarrow> string \<Rightarrow> string \<Rightarrow> 'o \<Rightarrow> string list \<Rightarrow> ('s, 'm GitSync_value option) method_call"

section \<open>The typed client\<close>

record 'c gitSyncs =
  gsc_client :: 'c
  gsc_ns :: string

text \<open>Each method; a pointer it returns is never nil, also beside an error.\<close>

definition returns_object :: "('a \<times> go_error option) \<times> 's \<Rightarrow> ('a option \<times> go_error option) option \<times> 's" where
  "returns_object r = (Some (Some (fst (fst r)), snd (fst r)), snd r)"

definition returns_error :: "go_error option \<times> 's \<Rightarrow> (unit \<times> go_error option) option \<times> 's" where
  "returns_error r = (Some ((), fst r), snd r)"

definition gitSyncs_Get ::
  "('m, 'l, 'o, 'x, 'c, 'w) transport \<Rightarrow> 'c gitSyncs \<Rightarrow> string \<Rightarrow> 'o \<Rightarrow>
   (('m, 'o, 'w) wire, 'm GitSync_value option) method_call" where
  "gitSyncs_Get T c name options s =
     returns_object (send (Into_GitSync T (gsc_client c))
       ((new_request ''GET'')\<lparr>rq_Namespace := gsc_ns c, rq_Resource := ''gitsyncs'', rq_Name := Some name,
          rq_Params := Some (Params options)\<rparr>) s)"

definition gitSyncs_List ::
  "('m, 'l, 'o, 'x, 'c, 'w) transport \<Rightarrow> 'c gitSyncs \<Rightarrow> ListOptions \<Rightarrow>
   (('m, 'o, 'w) wire, ('m, 'l) GitSyncList_value option) method_call" where
  "gitSyncs_List T c opts s =
     returns_object (send (Into_GitSyncList T (gsc_client c))
       ((new_request ''GET'')\<lparr>rq_Namespace := gsc_ns c, rq_Resource := ''gitsyncs'',
          rq_Params := Some (ListParams opts), rq_Timeout := list_timeout opts\<rparr>) s)"

definition gitSyncs_Watch ::
  "('m, 'l, 'o, 'x, 'c, 'w) transport \<Rightarrow> 'c gitSyncs \<Rightarrow> ListOptions \<Rightarrow> (('m, 'o, 'w) wire, 'x option) method_call" where
  "gitSyncs_Watch T c opts s =
     apfst Some (send (Do_Watch T (gsc_client c))
       ((new_request ''GET'')\<lparr>rq_Namespace := gsc_ns c, rq_Resource := ''gitsyncs'',
          rq_Params := Some (ListParams (opts\<lparr>lo_Watch := True\<rparr>)), rq_Timeout := list_timeout opts\<rparr>) s)"

definition gitSyncs_Create ::
  "('m, 'l, 'o, 'x, 'c, 'w) transport \<Rightarrow> 'c gitSyncs \<Rightarrow> 'm GitSync_value \<Rightarrow> 'o \<Rightarrow>
   (('m, 'o, 'w) wire, 'm GitSync_value option) method_call" where
  "gitSyncs_Create T c gitSync opts s =
     returns_object (send (Into_GitSync T (gsc_client c))
       ((new_request ''POST'')\<lparr>rq_Namespace := gsc_ns c, rq_Resource := ''gitsyncs'',
          rq_Params := Some (Params opts), rq_Body := ObjectBody gitSync\<rparr>) s)"

text \<open>\<open>metaName\<close> reads the name of an object.\<close>

definition gitSyncs_Update ::
  "('m \<Rightarrow> string) \<Rightarrow> ('m, 'l, 'o, 'x, 'c, 'w) transport \<Rightarrow> 'c gitSyncs \<Rightarrow> 'm GitSync_value \<Rightarrow> 'o \<Rightarrow>
   (('m, 'o, 'w) wire, 'm GitSync_value option) method_call" where
  "gitSyncs_Update metaName T c gitSync opts s =
     returns_object (send (Into_GitSync T (gsc_client c))
       ((new_request ''PUT'')\<lparr>rq_Namespace := gsc_ns c, rq_Resource := ''gitsyncs'',
          rq_Name := Some (metaName (gsv_ObjectMeta gitSync)),
          rq_Params := Some (Params opts), rq_Body := ObjectBody gitSync\<rparr>) s)"

definition gitSyncs_UpdateStatus ::
  "('m \<Rightarrow> string) \<Rightarrow> ('m, 'l, 'o, 'x, 'c, 'w) transport \<Rightarrow> 'c gitSyncs \<Rightarrow> 'm GitSync_value \<Rightarrow> 'o \<Rightarrow>
   (('m, 'o, 'w) wire, 'm GitSync_value option) method_call" where
  "gitSyncs_UpdateStatus metaName T c gitSync opts s =
     returns_object (send (Into_GitSync T (gsc_client c))
       ((new_request ''PUT'')\<lparr>rq_Namespace := gsc_ns c, rq_Resource := ''gitsyncs'',
          rq_Name := Some (metaName (gsv_ObjectMeta gitSync)), rq_SubResource := [''status''],
          rq_Params := Some (Params opts), rq_Body := ObjectBody gitSync\<rparr>) s)"

definition gitSyncs_Delete ::
  "('m, 'l, 'o, 'x, 'c, 'w) transport \<Rightarrow> 'c gitSyncs \<Rightarrow> string \<Rightarrow> 'o \<Rightarrow> (('m, 'o, 'w) wire, unit) method_call" where
  "gitSyncs_Delete T c name opts s =
     returns_error (send (Do_Error T (gsc_client c))
       ((new_request ''DELETE'')\<lparr>rq_Namespace := gsc_ns c, rq_Resource := ''gitsyncs'', rq_Name := Some name,
          rq_Body := OptionsBody opts\<rparr>) s)"

definition gitSyncs_DeleteCollection ::
  "('m, 'l, 'o, 'x, 'c, 'w) transport \<Rightarrow> 'c gitSyncs \<Rightarrow> 'o \<Rightarrow> ListOptions \<Rightarrow>
   (('m, 'o, 'w) wire, unit) method_call" where
  "gitSyncs_DeleteCollection T c opts listOpts s =
     returns_error (send (Do_Error T (gsc_client c))
       ((new_request ''DELETE'')\<lparr>rq_Namespace := gsc_ns c, rq_Resource := ''gitsyncs'',
          rq_Params := Some (ListParams listOpts), rq_Timeout := list_timeout listOpts,
          rq_Body := OptionsBody opts\<rparr>) s)"

definition gitSyncs_Patch ::
  "('m, 'l, 'o, 'x, 'c, 'w) transport \<Rightarrow> 'c gitSyncs \<Rightarrow> string \<Rightarrow> string \<Rightarrow> string \<Rightarrow> 'o \<Rightarrow> string list \<Rightarrow>
   (('m, 'o, 'w) wire, 'm GitSync_value option) method_call" where
  "gitSyncs_Patch T c name pt data opts subresources s =
     returns_object (send (Into_GitSync T (gsc_client c))
       ((new_request ''PATCH'')\<lparr>rq_PatchType := pt, rq_Namespace := gsc_ns c, rq_Resource := ''gitsyncs'',
          rq_Name := Some name, rq_SubResource := subresources, rq_Params := Some (Params opts),
          rq_Body := DataBody data\<rparr>) s)"

definition gitSyncs_interface ::
  "('m \<Rightarrow> string) \<Rightarrow> ('m, 'l, 'o, 'x, 'c, 'w) transport \<Rightarrow> 'c gitSyncs \<Rightarrow>
   ('m, 'l, 'o, 'x, ('m, 'o, 'w) wire) GitSyncInterface" where
  "gitSyncs_interface metaName T c =
     \<lparr>gi_Create = gitSyncs_Create T c, gi_Update = gitSyncs_Update metaName T c,
      gi_UpdateStatus = gitSyncs_UpdateStatus metaName T c, gi_Delete = gitSyncs_Delete T c,
      gi_DeleteCollection = gitSyncs_DeleteCollection T c, gi_Get = gitSyncs_Get T c, gi_List = gitSyncs_List T c,
      gi_Watch = gitSyncs_Watch T c, gi_Patch = gitSyncs_Patch T c\<rparr>"

section \<open>Construction of the clients\<close>

text \<open>
  The fields of \<open>rest.Config\<close> the code reads or sets; the others are in the rest \<open>'z\<close> of the record.
  The serializer is named by the scheme it decodes with.
\<close>

record 'r rest_config =
  cf_GroupVersion :: "GroupVersion option"
  cf_APIPath :: string
  cf_NegotiatedSerializer :: "type_scheme option"
  cf_UserAgent :: string
  cf_RateLimiter :: "'r option"
  cf_QPS :: rat
  cf_Burst :: int

record ('r, 'h, 'c, 'd, 'z) rest_libs =
  DefaultKubernetesUserAgent :: string
  HTTPClientFor :: "('r, 'z) rest_config_scheme \<Rightarrow> go_error + 'h"
  RESTClientForConfigAndClient :: "('r, 'z) rest_config_scheme \<Rightarrow> 'h \<Rightarrow> go_error + 'c"
  NewDiscoveryClientForConfigAndClient :: "('r, 'z) rest_config_scheme \<Rightarrow> 'h \<Rightarrow> go_error + 'd"
  NewDiscoveryClient :: "'c \<Rightarrow> 'd"
  NewTokenBucketRateLimiter :: "rat \<Rightarrow> int \<Rightarrow> 'r"

text \<open>The error it returns is always nil, and its callers look at it.\<close>

definition default_UserAgent :: "('r, 'h, 'c, 'd, 'z) rest_libs \<Rightarrow> ('r, 'z) rest_config_scheme \<Rightarrow> ('r, 'z) rest_config_scheme" where
  "default_UserAgent R config =
     (if cf_UserAgent config = [] then config\<lparr>cf_UserAgent := DefaultKubernetesUserAgent R\<rparr> else config)"

definition setConfigDefaults ::
  "('r, 'h, 'c, 'd, 'z) rest_libs \<Rightarrow> ('r, 'z) rest_config_scheme \<Rightarrow> go_error + ('r, 'z) rest_config_scheme" where
  "setConfigDefaults R config =
     Inr (default_UserAgent R
       (config\<lparr>cf_GroupVersion := Some SchemeGroupVersion, cf_APIPath := ''/apis'',
               cf_NegotiatedSerializer := Some client_Scheme\<rparr>))"

record 'c NumaplaneV1alpha1Client =
  restClient :: 'c

definition typed_NewForConfigAndClient ::
  "('r, 'h, 'c, 'd, 'z) rest_libs \<Rightarrow> ('r, 'z) rest_config_scheme \<Rightarrow> 'h \<Rightarrow> go_error + 'c NumaplaneV1alpha1Client" where
  "typed_NewForConfigAndClient R c h =
     bindE (setConfigDefaults R c) (\<lambda>config.
     bindE (RESTClientForConfigAndClient R config h) (\<lambda>client. Inr \<lparr>restClient = client\<rparr>))"

definition typed_NewForConfig ::
  "('r, 'h, 'c, 'd, 'z) rest_libs \<Rightarrow> ('r, 'z) rest_config_scheme \<Rightarrow> go_error + 'c NumaplaneV1alpha1Client" where
  "typed_NewForConfig R c =
     bindE (setConfigDefaults R c) (\<lambda>config.
     bindE (HTTPClientFor R config) (\<lambda>httpClient. typed_NewForConfigAndClient R config httpClient))"

text \<open>\<open>OrDie\<close> panics with the error.\<close>

definition typed_NewForConfigOrDie ::
  "('r, 'h, 'c, 'd, 'z) rest_libs \<Rightarrow> ('r, 'z) rest_config_scheme \<Rightarrow> 'c NumaplaneV1alpha1Client option" where
  "typed_NewForConfigOrDie R c = (case typed_NewForConfig R c of Inl err \<Rightarrow> None | Inr client \<Rightarrow> Some client)"

definition typed_New :: "'c \<Rightarrow> 'c NumaplaneV1alpha1Client" where
  "typed_New c = \<lparr>restClient = c\<rparr>"

definition RESTClient :: "'c NumaplaneV1alpha1Client option \<Rightarrow> 'c option" where
  "RESTClient c = (case c of None \<Rightarrow> None | Some cl \<Rightarrow> Some (restClient cl))"

text \<open>A nil REST client is handed on; using it is a nil dereference in client-go, so \<open>'c\<close> is an option here.\<close>

definition newGitSyncs :: "'c NumaplaneV1alpha1Client option \<Rightarrow> string \<Rightarrow> 'c option gitSyncs" where
  "newGitSyncs c namespace = \<lparr>gsc_client = RESTClient c, gsc_ns = namespace\<rparr>"

definition GitSyncs ::
  "('m \<Rightarrow> string) \<Rightarrow> ('m, 'l, 'o, 'x, 'c option, 'w) transport \<Rightarrow> 'c NumaplaneV1alpha1Client option \<Rightarrow> string \<Rightarrow>
   ('m, 'l, 'o, 'x, ('m, 'o, 'w) wire) GitSyncInterface" where
  "GitSyncs metaName T c namespace = gitSyncs_interface metaName T (newGitSyncs c namespace)"

subsection \<open>The set of clients (clientset.go)\<close>

record ('c, 'd) Clientset =
  DiscoveryClient :: 'd
  numaplaneV1alpha1 :: "'c NumaplaneV1alpha1Client"

definition NumaplaneV1alpha1 :: "('c, 'd) Clientset \<Rightarrow> 'c NumaplaneV1alpha1Client" where
  "NumaplaneV1alpha1 c = numaplaneV1alpha1 c"

definition Discovery :: "('c, 'd) Clientset option \<Rightarrow> 'd option" where
  "Discovery c = (case c of None \<Rightarrow> None | Some cs \<Rightarrow> Some (DiscoveryClient cs))"

definition burst_error :: go_error where
  "burst_error = ErrorString
     ''burst is required to be greater than 0 when RateLimiter is not set and QPS is set to greater than 0''"

definition NewForConfigAndClient ::
  "('r, 'h, 'c, 'd, 'z) rest_libs \<Rightarrow> ('r, 'z) rest_config_scheme \<Rightarrow> 'h \<Rightarrow> go_error + ('c, 'd) Clientset" where
  "NewForConfigAndClient R c httpClient =
     bindE
       (if cf_RateLimiter c = None \<and> cf_QPS c > 0
        then if cf_Burst c \<le> 0 then Inl burst_error
             else Inr (c\<lparr>cf_RateLimiter := Some (NewTokenBucketRateLimiter R (cf_QPS c) (cf_Burst c))\<rparr>)
        else Inr c)
       (\<lambda>configShallowCopy.
     bindE (typed_NewForConfigAndClient R configShallowCopy httpClient) (\<lambda>client.
     bindE (NewDiscoveryClientForConfigAndClient R configShallowCopy httpClient) (\<lambda>disc.
     Inr \<lparr>DiscoveryClient = disc, numaplaneV1alpha1 = client\<rparr>)))"

definition NewForConfig ::
  "('r, 'h, 'c, 'd, 'z) rest_libs \<Rightarrow> ('r, 'z) rest_config_scheme \<Rightarrow> go_error + ('c, 'd) Clientset" where
  "NewForConfig R c =
     (let configShallowCopy = default_UserAgent R c
      in bindE (HTTPClientFor R configShallowCopy) (NewForConfigAndClient R configShallowCopy))"

definition NewForConfigOrDie ::
  "('r, 'h, 'c, 'd, 'z) rest_libs \<Rightarrow> ('r, 'z) rest_config_scheme \<Rightarrow> ('c, 'd) Clientset option" where
  "NewForConfigOrDie R c = (case NewForConfig R c of Inl err \<Rightarrow> None | Inr cs \<Rightarrow> Some cs)"

definition New_Clientset :: "('r, 'h, 'c, 'd, 'z) rest_libs \<Rightarrow> 'c \<Rightarrow> ('c, 'd) Clientset" where
  "New_Clientset R c = \<lparr>DiscoveryClient = NewDiscoveryClient R c, numaplaneV1alpha1 = typed_New c\<rparr>"

section \<open>The fake client\<close>

text \<open>
  An action of \<open>k8s.io/client-go/testing\<close>, with what its constructors keep of their arguments, and
  the objects that a reaction returns.
\<close>

record 'm action =
  act_Verb :: string
  act_Resource :: in_group
  act_Namespace :: string
  act_Name :: "string option"
  act_Subresources :: "string list"
  act_Object :: "'m GitSync_value option"
  act_Patch :: "(string \<times> string) option"
  act_ListOptions :: "ListOptions option"
  act_Kind :: "in_group option"

datatype ('m, 'l) api_object = ApiGitSync "'m GitSync_value" | ApiGitSyncList "('m, 'l) GitSyncList_value" | ApiOther

definition new_action :: "string \<Rightarrow> in_group \<Rightarrow> string \<Rightarrow> 'm action" where
  "new_action verb gvr ns =
     \<lparr>act_Verb = verb, act_Resource = gvr, act_Namespace = ns, act_Name = None, act_Subresources = [],
      act_Object = None, act_Patch = None, act_ListOptions = None, act_Kind = None\<rparr>"

definition gitsyncsResource :: in_group where
  "gitsyncsResource = (\<lparr>gv_Group = ''numaplane'', gv_Version = ''v1alpha1''\<rparr>, ''gitsyncs'')"

definition gitsyncsKind :: in_group where
  "gitsyncsKind = (\<lparr>gv_Group = ''numaplane'', gv_Version = ''v1alpha1''\<rparr>, ''GitSync'')"

text \<open>
  \<open>testing.Fake\<close>: the actions so far and the tracker \<open>'t\<close> behind its reactors. \<open>Invokes\<close> records an
  action and lets the reactors answer; \<open>InvokesWatch\<close> likewise.
\<close>

record ('m, 't) Fake =
  fk_actions :: "'m action list"
  fk_tracker :: 't

record ('m, 'l, 'x, 't) fake_libs =
  React :: "'m action \<Rightarrow> ('m, 'l) api_object \<Rightarrow> 't \<Rightarrow> (('m, 'l) api_object option \<times> go_error option) \<times> 't"
  ReactWatch :: "'m action \<Rightarrow> 't \<Rightarrow> ('x option \<times> go_error option) \<times> 't"
  Extract_label :: "ListOptions \<Rightarrow> ((string \<rightharpoonup> string) \<Rightarrow> bool) option"

definition Invokes :: "('m action \<Rightarrow> 't \<Rightarrow> 'r \<times> 't) \<Rightarrow> 'm action \<Rightarrow> ('m, 't) Fake \<Rightarrow> 'r \<times> ('m, 't) Fake" where
  "Invokes f a s = (case f a (fk_tracker s) of (r, t) \<Rightarrow> (r, \<lparr>fk_actions = fk_actions s @ [a], fk_tracker = t\<rparr>))"

text \<open>
  The end of a method that returns an object: nil if there is none, otherwise the type assertion, which
  panics for another type.
\<close>

fun assert_GitSync ::
  "(('m, 'l) api_object option \<times> go_error option) \<times> 's \<Rightarrow> ('m GitSync_value option \<times> go_error option) option \<times> 's" where
  "assert_GitSync ((None, err), s) = (Some (None, err), s)"
| "assert_GitSync ((Some (ApiGitSync g), err), s) = (Some (Some g, err), s)"
| "assert_GitSync ((Some _, err), s) = (None, s)"

text \<open>\<open>dflt\<close> holds the two empty objects that are handed to \<open>Invokes\<close> as defaults.\<close>

type_synonym ('m, 'l) defaults = "'m GitSync_value \<times> ('m, 'l) GitSyncList_value"

definition FakeGitSyncs_Get ::
  "('m, 'l, 'x, 't) fake_libs \<Rightarrow> ('m, 'l) defaults \<Rightarrow> string \<Rightarrow> string \<Rightarrow> 'o \<Rightarrow>
   (('m, 't) Fake, 'm GitSync_value option) method_call" where
  "FakeGitSyncs_Get F dflt ns name options s =
     assert_GitSync (Invokes (\<lambda>a. React F a (ApiGitSync (fst dflt)))
       ((new_action ''get'' gitsyncsResource ns)\<lparr>act_Name := Some name\<rparr>) s)"

text \<open>\<open>metaLabels\<close> reads the labels of an object.\<close>

fun filter_list ::
  "('m \<Rightarrow> string \<rightharpoonup> string) \<Rightarrow> ((string \<rightharpoonup> string) \<Rightarrow> bool) option \<Rightarrow>
   (('m, 'l) api_object option \<times> go_error option) \<times> 's \<Rightarrow>
   (('m, 'l) GitSyncList_value option \<times> go_error option) option \<times> 's" where
  "filter_list metaLabels label ((None, err), s) = (Some (None, err), s)"
| "filter_list metaLabels label ((Some (ApiGitSyncList l), err), s) =
     (let matches = (case label of None \<Rightarrow> (\<lambda>_. True) | Some f \<Rightarrow> f)
      in (Some (Some \<lparr>glv_TypeMeta = \<lparr>tm_Kind = [], tm_APIVersion = []\<rparr>, glv_ListMeta = glv_ListMeta l,
                      glv_Items = filter (\<lambda>item. matches (metaLabels (gsv_ObjectMeta item))) (glv_Items l)\<rparr>, err), s))"
| "filter_list metaLabels label ((Some _, err), s) = (None, s)"

definition FakeGitSyncs_List ::
  "('m \<Rightarrow> string \<rightharpoonup> string) \<Rightarrow> ('m, 'l, 'x, 't) fake_libs \<Rightarrow> ('m, 'l) defaults \<Rightarrow> string \<Rightarrow> ListOptions \<Rightarrow>
   (('m, 't) Fake, ('m, 'l) GitSyncList_value option) method_call" where
  "FakeGitSyncs_List metaLabels F dflt ns opts s =
     filter_list metaLabels (Extract_label F opts) (Invokes (\<lambda>a. React F a (ApiGitSyncList (snd dflt)))
       ((new_action ''list'' gitsyncsResource ns)\<lparr>act_ListOptions := Some opts, act_Kind := Some gitsyncsKind\<rparr>) s)"

definition FakeGitSyncs_Watch ::
  "('m, 'l, 'x, 't) fake_libs \<Rightarrow> string \<Rightarrow> ListOptions \<Rightarrow> (('m, 't) Fake, 'x option) method_call" where
  "FakeGitSyncs_Watch F ns opts s =
     apfst Some (Invokes (ReactWatch F) ((new_action ''watch'' gitsyncsResource ns)\<lparr>act_ListOptions := Some opts\<rparr>) s)"

definition FakeGitSyncs_Create ::
  "('m, 'l, 'x, 't) fake_libs \<Rightarrow> ('m, 'l) defaults \<Rightarrow> string \<Rightarrow> 'm GitSync_value \<Rightarrow> 'o \<Rightarrow>
   (('m, 't) Fake, 'm GitSync_value option) method_call" where
  "FakeGitSyncs_Create F dflt ns gitSync opts s =
     assert_GitSync (Invokes (\<lambda>a. React F a (ApiGitSync (fst dflt)))
       ((new_action ''create'' gitsyncsResource ns)\<lparr>act_Object := Some gitSync\<rparr>) s)"

definition FakeGitSyncs_Update ::
  "('m, 'l, 'x, 't) fake_libs \<Rightarrow> ('m, 'l) defaults \<Rightarrow> string \<Rightarrow> 'm GitSync_value \<Rightarrow> 'o \<Rightarrow>
   (('m, 't) Fake, 'm GitSync_value option) method_call" where
  "FakeGitSyncs_Update F dflt ns gitSync opts s =
     assert_GitSync (Invokes (\<lambda>a. React F a (ApiGitSync (fst dflt)))
       ((new_action ''update'' gitsyncsResource ns)\<lparr>act_Object := Some gitSync\<rparr>) s)"

definition FakeGitSyncs_UpdateStatus ::
  "('m, 'l, 'x, 't) fake_libs \<Rightarrow> ('m, 'l) defaults \<Rightarrow> string \<Rightarrow> 'm GitSync_value \<Rightarrow> 'o \<Rightarrow>
   (('m, 't) Fake, 'm GitSync_value option) method_call" where
  "FakeGitSyncs_UpdateStatus F dflt ns gitSync opts s =
     assert_GitSync (Invokes (\<lambda>a. React F a (ApiGitSync (fst dflt)))
       ((new_action ''update'' gitsyncsResource ns)\<lparr>act_Subresources := [''status''], act_Object := Some gitSync\<rparr>) s)"

definition FakeGitSyncs_Delete ::
  "('m, 'l, 'x, 't) fake_libs \<Rightarrow> ('m, 'l) defaults \<Rightarrow> string \<Rightarrow> string \<Rightarrow> 'o \<Rightarrow> (('m, 't) Fake, unit) method_call" where
  "FakeGitSyncs_Delete F dflt ns name opts s =
     (case Invokes (\<lambda>a. React F a (ApiGitSync (fst dflt)))
        ((new_action ''delete'' gitsyncsResource ns)\<lparr>act_Name := Some name\<rparr>) s of
      ((_, err), s') \<Rightarrow> (Some ((), err), s'))"

definition FakeGitSyncs_DeleteCollection ::
  "('m, 'l, 'x, 't) fake_libs \<Rightarrow> ('m, 'l) defaults \<Rightarrow> string \<Rightarrow> 'o \<Rightarrow> ListOptions \<Rightarrow> (('m, 't) Fake, unit) method_call" where
  "FakeGitSyncs_DeleteCollection F dflt ns opts listOpts s =
     (case Invokes (\<lambda>a. React F a (ApiGitSyncList (snd dflt)))
        ((new_action ''delete-collection'' gitsyncsResource ns)\<lparr>act_ListOptions := Some listOpts\<rparr>) s of
      ((_, err), s') \<Rightarrow> (Some ((), err), s'))"

definition FakeGitSyncs_Patch ::
  "('m, 'l, 'x, 't) fake_libs \<Rightarrow> ('m, 'l) defaults \<Rightarrow> string \<Rightarrow> string \<Rightarrow> string \<Rightarrow> string \<Rightarrow> 'o \<Rightarrow> string list \<Rightarrow>
   (('m, 't) Fake, 'm GitSync_value option) method_call" where
  "FakeGitSyncs_Patch F dflt ns name pt data opts subresources s =
     assert_GitSync (Invokes (\<lambda>a. React F a (ApiGitSync (fst dflt)))
       ((new_action ''patch'' gitsyncsResource ns)\<lparr>act_Name := Some name, act_Subresources := subresources,
          act_Patch := Some (pt, data)\<rparr>) s)"

text \<open>\<open>FakeNumaplaneV1alpha1.GitSyncs\<close>; its \<open>RESTClient\<close> is a typed nil.\<close>

definition Fake_GitSyncs ::
  "('m \<Rightarrow> string \<rightharpoonup> string) \<Rightarrow> ('m, 'l, 'x, 't) fake_libs \<Rightarrow> ('m, 'l) defaults \<Rightarrow> string \<Rightarrow>
   ('m, 'l, 'o, 'x, ('m, 't) Fake) GitSyncInterface" where
  "Fake_GitSyncs metaLabels F dflt namespace =
     \<lparr>gi_Create = FakeGitSyncs_Create F dflt namespace, gi_Update = FakeGitSyncs_Update F dflt namespace,
      gi_UpdateStatus = FakeGitSyncs_UpdateStatus F dflt namespace, gi_Delete = FakeGitSyncs_Delete F dflt namespace,
      gi_DeleteCollection = FakeGitSyncs_DeleteCollection F dflt namespace, gi_Get = FakeGitSyncs_Get F dflt namespace,
      gi_List = FakeGitSyncs_List metaLabels F dflt namespace, gi_Watch = FakeGitSyncs_Watch F namespace,
      gi_Patch = FakeGitSyncs_Patch F dflt namespace\<rparr>"

subsection \<open>Its set of clients (clientset_generated.go)\<close>

record ('m, 'l, 'x, 't) tracker_libs =
  NewObjectTracker :: "type_scheme \<Rightarrow> 't"
  tracker_Add :: "('m, 'l) api_object \<Rightarrow> 't \<Rightarrow> go_error + 't"
  ObjectReaction :: "'m action \<Rightarrow> 't \<Rightarrow> (bool \<times> ('m, 'l) api_object option \<times> go_error option) \<times> 't"
  tracker_Watch :: "in_group \<Rightarrow> string \<Rightarrow> 't \<Rightarrow> (go_error + 'x) \<times> 't"
  unhandled_watch :: go_error
  ExtractFromListOptions :: "ListOptions \<Rightarrow> ((string \<rightharpoonup> string) \<Rightarrow> bool) option"

fun add_objects ::
  "('m, 'l, 'x, 't) tracker_libs \<Rightarrow> ('m, 'l) api_object list \<Rightarrow> 't \<Rightarrow> 't option" where
  "add_objects K [] t = Some t"
| "add_objects K (obj # objects) t =
     (case tracker_Add K obj t of Inl err \<Rightarrow> None | Inr t' \<Rightarrow> add_objects K objects t')"

definition NewSimpleClientset ::
  "('m, 'l, 'x, 't) tracker_libs \<Rightarrow> ('m, 'l) api_object list \<Rightarrow> ('m, 't) Fake option" where
  "NewSimpleClientset K objects =
     (case add_objects K objects (NewObjectTracker K fake_scheme) of
        None \<Rightarrow> None
      | Some t \<Rightarrow> Some \<lparr>fk_actions = [], fk_tracker = t\<rparr>)"

text \<open>The function given to \<open>AddWatchReactor\<close>: handled or not, the watch, and the error.\<close>

definition watch_reactor ::
  "('m, 'l, 'x, 't) tracker_libs \<Rightarrow> 'm action \<Rightarrow> 't \<Rightarrow> (bool \<times> 'x option \<times> go_error option) \<times> 't" where
  "watch_reactor K a t =
     (case tracker_Watch K (act_Resource a) (act_Namespace a) t of
        (Inl err, t') \<Rightarrow> ((False, None, Some err), t')
      | (Inr w, t') \<Rightarrow> ((True, Some w, None), t'))"

text \<open>
  The two reactors the set installs: what none handles gets the default object, and a watch that none
  handles is an error.
\<close>

definition simple_reactors :: "('m, 'l, 'x, 't) tracker_libs \<Rightarrow> ('m, 'l, 'x, 't) fake_libs" where
  "simple_reactors K =
     \<lparr>React = (\<lambda>a def t. case ObjectReaction K a t of
         ((handled, ret, err), t') \<Rightarrow> (if handled then (ret, err) else (Some def, None), t')),
      ReactWatch = (\<lambda>a t. case watch_reactor K a t of
         ((handled, ret, err), t') \<Rightarrow> (if handled then (ret, err) else (None, Some (unhandled_watch K)), t')),
      Extract_label = ExtractFromListOptions K\<rparr>"

section \<open>What both clients ask of the API server\<close>

text \<open>
  The operations of the interface as data, and the call of the Kubernetes API each of them is:
  the verb, where it goes, and the object or patch it carries.
\<close>

datatype ('m, 'o) client_op =
    OpCreate "'m GitSync_value" 'o
  | OpUpdate "'m GitSync_value" 'o
  | OpUpdateStatus "'m GitSync_value" 'o
  | OpDelete string 'o
  | OpDeleteCollection 'o ListOptions
  | OpGet string 'o
  | OpList ListOptions
  | OpWatch ListOptions
  | OpPatch string string string 'o "string list"

primrec client_run :: "('m, 'l, 'o, 'x, 's) GitSyncInterface \<Rightarrow> ('m, 'o) client_op \<Rightarrow> 's \<Rightarrow> 's" where
  "client_run I (OpCreate g opts) s = snd (gi_Create I g opts s)"
| "client_run I (OpUpdate g opts) s = snd (gi_Update I g opts s)"
| "client_run I (OpUpdateStatus g opts) s = snd (gi_UpdateStatus I g opts s)"
| "client_run I (OpDelete name opts) s = snd (gi_Delete I name opts s)"
| "client_run I (OpDeleteCollection opts listOpts) s = snd (gi_DeleteCollection I opts listOpts s)"
| "client_run I (OpGet name opts) s = snd (gi_Get I name opts s)"
| "client_run I (OpList opts) s = snd (gi_List I opts s)"
| "client_run I (OpWatch opts) s = snd (gi_Watch I opts s)"
| "client_run I (OpPatch name pt data opts subresources) s = snd (gi_Patch I name pt data opts subresources s)"

datatype verb = VerbGet | VerbList | VerbWatch | VerbCreate | VerbUpdate | VerbDelete | VerbDeleteCollection | VerbPatch

record 'm api_call =
  ac_Verb :: verb
  ac_Resource :: in_group
  ac_Namespace :: string
  ac_Name :: "string option"
  ac_Subresources :: "string list"
  ac_Object :: "'m GitSync_value option"
  ac_Patch :: "(string \<times> string) option"

definition call_to :: "in_group \<Rightarrow> string \<Rightarrow> verb \<Rightarrow> 'm api_call" where
  "call_to gvr ns v =
     \<lparr>ac_Verb = v, ac_Resource = gvr, ac_Namespace = ns, ac_Name = None, ac_Subresources = [], ac_Object = None,
      ac_Patch = None\<rparr>"

primrec op_call :: "('m \<Rightarrow> string) \<Rightarrow> in_group \<Rightarrow> string \<Rightarrow> ('m, 'o) client_op \<Rightarrow> 'm api_call" where
  "op_call metaName gvr ns (OpCreate g opts) = (call_to gvr ns VerbCreate)\<lparr>ac_Object := Some g\<rparr>"
| "op_call metaName gvr ns (OpUpdate g opts) =
     (call_to gvr ns VerbUpdate)\<lparr>ac_Name := Some (metaName (gsv_ObjectMeta g)), ac_Object := Some g\<rparr>"
| "op_call metaName gvr ns (OpUpdateStatus g opts) =
     (call_to gvr ns VerbUpdate)\<lparr>ac_Name := Some (metaName (gsv_ObjectMeta g)), ac_Subresources := [''status''],
        ac_Object := Some g\<rparr>"
| "op_call metaName gvr ns (OpDelete name opts) = (call_to gvr ns VerbDelete)\<lparr>ac_Name := Some name\<rparr>"
| "op_call metaName gvr ns (OpDeleteCollection opts listOpts) = call_to gvr ns VerbDeleteCollection"
| "op_call metaName gvr ns (OpGet name opts) = (call_to gvr ns VerbGet)\<lparr>ac_Name := Some name\<rparr>"
| "op_call metaName gvr ns (OpList opts) = call_to gvr ns VerbList"
| "op_call metaName gvr ns (OpWatch opts) = call_to gvr ns VerbWatch"
| "op_call metaName gvr ns (OpPatch name pt data opts subresources) =
     (call_to gvr ns VerbPatch)\<lparr>ac_Name := Some name, ac_Subresources := subresources, ac_Patch := Some (pt, data)\<rparr>"

text \<open>
  How the API server reads a request: by its method, whether it names an object, and for lists the
  parameter \<open>watch\<close>. The group is that of the REST client.
\<close>

definition request_verb :: "('m, 'o) request \<Rightarrow> verb" where
  "request_verb rq =
     (if rq_Verb rq = ''POST'' then VerbCreate
      else if rq_Verb rq = ''PUT'' then VerbUpdate
      else if rq_Verb rq = ''PATCH'' then VerbPatch
      else if rq_Verb rq = ''DELETE'' then (if rq_Name rq = None then VerbDeleteCollection else VerbDelete)
      else if rq_Name rq \<noteq> None then VerbGet
      else (case rq_Params rq of Some (ListParams opts) \<Rightarrow> (if lo_Watch opts then VerbWatch else VerbList)
                               | _ \<Rightarrow> VerbList))"

definition request_call :: "GroupVersion \<Rightarrow> ('m, 'o) request \<Rightarrow> 'm api_call" where
  "request_call gv rq =
     \<lparr>ac_Verb = request_verb rq, ac_Resource = (gv, rq_Resource rq), ac_Namespace = rq_Namespace rq,
      ac_Name = rq_Name rq, ac_Subresources = rq_SubResource rq,
      ac_Object = (case rq_Body rq of ObjectBody g \<Rightarrow> Some g | _ \<Rightarrow> None),
      ac_Patch = (case rq_Body rq of DataBody d \<Rightarrow> Some (rq_PatchType rq, d) | _ \<Rightarrow> None)\<rparr>"

text \<open>An action; an update is of the object with the name in its metadata.\<close>

definition action_verb :: "'m action \<Rightarrow> verb" where
  "action_verb a =
     (if act_Verb a = ''create'' then VerbCreate else if act_Verb a = ''update'' then VerbUpdate
      else if act_Verb a = ''patch'' then VerbPatch else if act_Verb a = ''delete'' then VerbDelete
      else if act_Verb a = ''delete-collection'' then VerbDeleteCollection
      else if act_Verb a = ''get'' then VerbGet else if act_Verb a = ''watch'' then VerbWatch else VerbList)"

definition action_call :: "('m \<Rightarrow> string) \<Rightarrow> 'm action \<Rightarrow> 'm api_call" where
  "action_call metaName a =
     \<lparr>ac_Verb = action_verb a, ac_Resource = act_Resource a, ac_Namespace = act_Namespace a,
      ac_Name = (case act_Object a of
                   Some g \<Rightarrow> (if act_Verb a = ''update'' then Some (metaName (gsv_ObjectMeta g)) else act_Name a)
                 | None \<Rightarrow> act_Name a),
      ac_Subresources = act_Subresources a, ac_Object = act_Object a, ac_Patch = act_Patch a\<rparr>"

text \<open>
  The contract of the interface: every method makes exactly one call, the one of the operation.
  \<open>issued\<close> is what the state records of the calls.
\<close>

locale gitsync_client =
  fixes I :: "('m, 'l, 'o, 'x, 's) GitSyncInterface"
    and metaName :: "'m \<Rightarrow> string"
    and gvr :: in_group
    and ns :: string
    and issued :: "'s \<Rightarrow> 'm api_call list"
    and listing :: "ListOptions \<Rightarrow> bool"
  assumes one_call: "(\<forall>opts. op = OpList opts \<longrightarrow> listing opts) \<Longrightarrow> issued (client_run I op s) = issued s @ [op_call metaName gvr ns op]"
begin

lemma all_calls:
  assumes "\<And>opts. OpList opts \<in> set ops \<Longrightarrow> listing opts"
  shows "issued (fold (client_run I) ops s) = issued s @ map (op_call metaName gvr ns) ops"
  using assms by (induction ops arbitrary: s) (simp_all add: one_call)

end

lemmas typed_methods = gitSyncs_Create_def gitSyncs_Update_def gitSyncs_UpdateStatus_def gitSyncs_Delete_def
  gitSyncs_DeleteCollection_def gitSyncs_Get_def gitSyncs_List_def gitSyncs_Watch_def gitSyncs_Patch_def

lemmas fake_methods = FakeGitSyncs_Create_def FakeGitSyncs_Update_def FakeGitSyncs_UpdateStatus_def
  FakeGitSyncs_Delete_def FakeGitSyncs_DeleteCollection_def FakeGitSyncs_Get_def FakeGitSyncs_List_def
  FakeGitSyncs_Watch_def FakeGitSyncs_Patch_def

lemmas call_defs = request_call_def request_verb_def new_request_def action_call_def action_verb_def new_action_def call_to_def

text \<open>A method sends its request, whatever it makes of the answer.\<close>

lemma sent_send [simp]: "sent (snd (send f rq s)) = sent s @ [rq]"
  by (simp add: send_def split: prod.split)

lemma snd_returns [simp]: "snd (returns_object r) = snd r" "snd (returns_error e) = snd e"
  by (simp_all add: returns_object_def returns_error_def)

lemma actions_Invokes [simp]: "fk_actions (snd (Invokes f a s)) = fk_actions s @ [a]"
  by (simp add: Invokes_def split: prod.split)

lemma snd_assert_GitSync [simp]: "snd (assert_GitSync r) = snd r"
  by (cases r rule: assert_GitSync.cases) simp_all

lemma snd_filter_list [simp]: "snd (filter_list labels l r) = snd r"
  by (cases "(labels, l, r)" rule: filter_list.cases) (simp_all add: Let_def)

interpretation typed: gitsync_client "gitSyncs_interface metaName T c" metaName "(gv, ''gitsyncs'')" "gsc_ns c"
  "\<lambda>s. map (request_call gv) (sent s)" "\<lambda>opts. \<not> lo_Watch opts" for metaName T c gv
  by unfold_locales
     (case_tac op; simp add: gitSyncs_interface_def typed_methods call_defs)

interpretation fake: gitsync_client "Fake_GitSyncs metaLabels F dflt ns" metaName gitsyncsResource ns
  "\<lambda>s. map (action_call metaName) (fk_actions s)" "\<lambda>_. True" for metaLabels F dflt ns metaName
  by unfold_locales
     (case_tac op; simp add: Fake_GitSyncs_def fake_methods call_defs case_prod_beta)

section \<open>Properties\<close>

text \<open>A REST client made from a configuration talks to the group of the configuration.\<close>

definition rest_client_law ::
  "('r, 'h, 'c, 'd, 'z) rest_libs \<Rightarrow> ('c \<Rightarrow> GroupVersion) \<Rightarrow> bool" where
  "rest_client_law R client_gv \<longleftrightarrow>
     (\<forall>cfg h c. RESTClientForConfigAndClient R cfg h = Inr c \<longrightarrow> cf_GroupVersion cfg = Some (client_gv c))"

text \<open>How a set of clients is made, as one list of conditions.\<close>

lemma NewForConfigAndClient_Inr:
  "NewForConfigAndClient R c h = Inr cs \<longleftrightarrow>
   (\<exists>c' rc disc. \<not> (cf_RateLimiter c = None \<and> cf_QPS c > 0 \<and> cf_Burst c \<le> 0) \<and>
      c' = (if cf_RateLimiter c = None \<and> cf_QPS c > 0
            then c\<lparr>cf_RateLimiter := Some (NewTokenBucketRateLimiter R (cf_QPS c) (cf_Burst c))\<rparr> else c) \<and>
      RESTClientForConfigAndClient R (default_UserAgent R (c'\<lparr>cf_GroupVersion := Some SchemeGroupVersion,
        cf_APIPath := ''/apis'', cf_NegotiatedSerializer := Some client_Scheme\<rparr>)) h = Inr rc \<and>
      NewDiscoveryClientForConfigAndClient R c' h = Inr disc \<and>
      cs = \<lparr>DiscoveryClient = disc, numaplaneV1alpha1 = \<lparr>restClient = rc\<rparr>\<rparr>)"
  by (auto simp: NewForConfigAndClient_def typed_NewForConfigAndClient_def setConfigDefaults_def bindE_def
      split: sum.splits)

lemma default_UserAgent_keeps [simp]: "cf_GroupVersion (default_UserAgent R c) = cf_GroupVersion c"
  by (simp add: default_UserAgent_def)

lemma clientset_group:
  assumes "rest_client_law R client_gv" and "NewForConfig R cfg = Inr cs"
  shows "client_gv (restClient (NumaplaneV1alpha1 cs)) = SchemeGroupVersion"
proof -
  obtain c h where "NewForConfigAndClient R c h = Inr cs"
    using assms(2) by (auto simp: NewForConfig_def Let_def bindE_def split: sum.splits)
  then obtain c' rc disc where rc: "RESTClientForConfigAndClient R (default_UserAgent R (c'\<lparr>cf_GroupVersion := Some SchemeGroupVersion,
        cf_APIPath := ''/apis'', cf_NegotiatedSerializer := Some client_Scheme\<rparr>)) h = Inr rc"
      and cs: "cs = \<lparr>DiscoveryClient = disc, numaplaneV1alpha1 = \<lparr>restClient = rc\<rparr>\<rparr>"
    unfolding NewForConfigAndClient_Inr by blast
  from assms(1) rc have "Some SchemeGroupVersion = Some (client_gv rc)"
    unfolding rest_client_law_def by fastforce
  then show ?thesis
    by (simp add: cs NumaplaneV1alpha1_def)
qed

text \<open>
  A set of clients cannot be made when the configuration asks for a rate but allows no burst, also
  through \<open>OrDie\<close>, which panics.
\<close>

theorem burst_is_required:
  assumes "cf_RateLimiter cfg = None" and "cf_QPS cfg > 0" and "cf_Burst cfg \<le> 0"
  shows "NewForConfigAndClient R cfg h = Inl burst_error \<and> NewForConfigOrDie R cfg = None"
proof -
  have "NewForConfigAndClient R c h = Inl burst_error" if "c = cfg \<or> c = default_UserAgent R cfg" for c h
    using that assms by (auto simp: NewForConfigAndClient_def default_UserAgent_def)
  then show ?thesis
    by (auto simp: NewForConfigOrDie_def NewForConfig_def Let_def bindE_def split: sum.splits)
qed

text \<open>
  C17. The fake client makes the calls the real one makes, but to another API group. Whatever is
  done through the interface, with a client of a set made by \<open>NewForConfig\<close> and with the fake one, both
  for the same namespace, each operation hands one call to client-go and the two sequences differ only in their
  group: \<open>numaplane.numaproj.io\<close>, where the API server has GitSyncs, and \<open>numaplane\<close>. (A list with the
  option \<open>watch\<close> set is left aside: to the server it is a watch.)
\<close>

theorem clients_make_same_calls:
  assumes "rest_client_law R client_gv" and "NewForConfig R cfg = Inr cs"
    and "\<And>opts. OpList opts \<in> set ops \<Longrightarrow> \<not> lo_Watch opts"
  shows "let real = request_call (client_gv (restClient (NumaplaneV1alpha1 cs)));
             faked = action_call metaName;
             calls = map (op_call metaName GitSyncGroupVersionResource ns) ops;
             s' = fold (client_run (GitSyncs metaName T (Some (NumaplaneV1alpha1 cs)) ns)) ops s;
             f' = fold (client_run (Fake_GitSyncs metaLabels F dflt ns)) ops f
         in map real (sent s') = map real (sent s) @ calls \<and>
            map faked (fk_actions f') = map faked (fk_actions f) @ map (\<lambda>c. c\<lparr>ac_Resource := gitsyncsResource\<rparr>) calls"
proof -
  let ?c = "\<lparr>gsc_client = Some (restClient (NumaplaneV1alpha1 cs)), gsc_ns = ns\<rparr>"
  have real: "map (request_call SchemeGroupVersion) (sent (fold (client_run (gitSyncs_interface metaName T ?c)) ops s)) =
      map (request_call SchemeGroupVersion) (sent s) @ map (op_call metaName GitSyncGroupVersionResource ns) ops"
    using typed.all_calls [where c = ?c and ops = ops, OF assms(3)] by (simp add: GitSyncGroupVersionResource_def)
  have moved: "op_call metaName gitsyncsResource ns op =
      (op_call metaName GitSyncGroupVersionResource ns op)\<lparr>ac_Resource := gitsyncsResource\<rparr>" if "op \<in> set ops" for op
    by (cases op) (simp_all add: call_to_def)
  have "map (action_call metaName) (fk_actions (fold (client_run (Fake_GitSyncs metaLabels F dflt ns)) ops f)) =
      map (action_call metaName) (fk_actions f) @ map (op_call metaName gitsyncsResource ns) ops"
    by (rule fake.all_calls) simp
  also have "map (op_call metaName gitsyncsResource ns) ops =
      map (\<lambda>c. c\<lparr>ac_Resource := gitsyncsResource\<rparr>) (map (op_call metaName GitSyncGroupVersionResource ns) ops)"
    using moved by simp
  finally show ?thesis
    using real by (simp add: Let_def GitSyncs_def newGitSyncs_def RESTClient_def clientset_group [OF assms(1,2)])
qed

text \<open>A REST client that is its API group, and a configuration with a rate and a burst.\<close>

definition tiny_rest :: "(nat, unit, GroupVersion, unit, unit) rest_libs" where
  "tiny_rest =
     \<lparr>DefaultKubernetesUserAgent = ''agent'', HTTPClientFor = (\<lambda>cfg. Inr ()),
      RESTClientForConfigAndClient = (\<lambda>cfg h. case cf_GroupVersion cfg of
         None \<Rightarrow> Inl (ErrorString ''GroupVersion is required'') | Some gv \<Rightarrow> Inr gv),
      NewDiscoveryClientForConfigAndClient = (\<lambda>cfg h. Inr ()), NewDiscoveryClient = (\<lambda>c. ()),
      NewTokenBucketRateLimiter = (\<lambda>qps burst. nat burst)\<rparr>"

definition tiny_config :: "nat rest_config" where
  "tiny_config = \<lparr>cf_GroupVersion = None, cf_APIPath = [], cf_NegotiatedSerializer = None, cf_UserAgent = [],
     cf_RateLimiter = None, cf_QPS = 5, cf_Burst = 10\<rparr>"

lemma tiny_rest_law: "rest_client_law tiny_rest (\<lambda>c. c)"
  by (simp add: rest_client_law_def tiny_rest_def split: option.split)

lemma tiny_clientset: "NewForConfig tiny_rest tiny_config = Inr \<lparr>DiscoveryClient = (), numaplaneV1alpha1 = \<lparr>restClient = SchemeGroupVersion\<rparr>\<rparr>"
  by (simp add: NewForConfig_def NewForConfigAndClient_def typed_NewForConfigAndClient_def setConfigDefaults_def
      default_UserAgent_def tiny_rest_def tiny_config_def Let_def)

theorem clients_make_same_calls_witness:
  "\<forall>T F dflt w t.
     let ops = [OpGet ''my-app'' (), OpDelete ''my-app'' ()];
         s' = fold (client_run (GitSyncs fst T (Some \<lparr>restClient = SchemeGroupVersion\<rparr>) ''ns'')) ops \<lparr>sent = [], server = w\<rparr>;
         f' = fold (client_run (Fake_GitSyncs snd F dflt ''ns'')) ops \<lparr>fk_actions = [], fk_tracker = t\<rparr>
     in map (request_call SchemeGroupVersion) (sent s') = map (op_call fst GitSyncGroupVersionResource ''ns'') ops \<and>
        map (action_call fst) (fk_actions f') = map (op_call fst gitsyncsResource ''ns'') ops"
proof (intro allI, goal_cases)
  case (1 T F dflt w t)
  have "OpList opts \<in> set [OpGet ''my-app'' (), OpDelete ''my-app'' ()] \<Longrightarrow> \<not> lo_Watch opts" for opts
    by simp
  from clients_make_same_calls [where metaName = fst and metaLabels = snd and ns = "''ns''" and T = T and F = F and
      dflt = dflt and ops = "[OpGet ''my-app'' (), OpDelete ''my-app'' ()]" and s = "\<lparr>sent = [], server = w\<rparr>" and f = "\<lparr>fk_actions = [], fk_tracker = t\<rparr>",
      OF tiny_rest_law tiny_clientset this]
  show ?case
    by (simp add: Let_def NumaplaneV1alpha1_def call_to_def)
qed

text \<open>
  The tracker behind the fake client. \<open>Add\<close> files an object under the resources the scheme's kinds
  stand for (the plural of the kind in its group), in the namespace and under the name of its
  metadata; \<open>tracked\<close> is what it holds. A \<open>get\<close> answers with the object or with the error NotFound, and a
  \<open>create\<close> files the object under the resource of the action.
\<close>

definition tracker_laws ::
  "('m, 'l, 'x, 't) tracker_libs \<Rightarrow> ('m \<Rightarrow> string) \<Rightarrow> ('m \<Rightarrow> string) \<Rightarrow>
   ('t \<Rightarrow> in_group \<times> string \<times> string \<rightharpoonup> 'm GitSync_value) \<Rightarrow> ('t \<Rightarrow> type_scheme) \<Rightarrow> bool" where
  "tracker_laws K metaNamespace metaName tracked kinds \<longleftrightarrow>
     (\<forall>sch. tracked (NewObjectTracker K sch) = Map.empty \<and> kinds (NewObjectTracker K sch) = sch) \<and>
     (\<forall>g t t'. tracker_Add K (ApiGitSync g) t = Inr t' \<longrightarrow>
        kinds t' = kinds t \<and>
        tracked t' = (\<lambda>((gv, r), key).
          if (gv, ''GitSync'') \<in> set (kinds t) \<and> r = ''gitsyncs'' \<and>
             key = (metaNamespace (gsv_ObjectMeta g), metaName (gsv_ObjectMeta g))
          then Some g else tracked t ((gv, r), key))) \<and>
     (\<forall>gvr ns name t.
        case tracked t (gvr, ns, name) of
          Some g \<Rightarrow> ObjectReaction K ((new_action ''get'' gvr ns)\<lparr>act_Name := Some name\<rparr>) t =
            ((True, Some (ApiGitSync g), None), t)
        | None \<Rightarrow> (\<exists>err. IsNotFound err \<and>
            ObjectReaction K ((new_action ''get'' gvr ns)\<lparr>act_Name := Some name\<rparr>) t = ((True, None, Some err), t))) \<and>
     (\<forall>gvr g t. let ns = metaNamespace (gsv_ObjectMeta g); key = (gvr, ns, metaName (gsv_ObjectMeta g))
        in tracked t key = None \<longrightarrow>
           (\<exists>t'. ObjectReaction K ((new_action ''create'' gvr ns)\<lparr>act_Object := Some g\<rparr>) t =
              ((True, Some (ApiGitSync g), None), t') \<and> tracked t' = (tracked t)(key \<mapsto> g)))"

lemma tracker_get:
  assumes "tracker_laws K metaNamespace metaName tracked kinds"
  shows "case tracked t (gvr, ns, name) of
      Some g \<Rightarrow> ObjectReaction K ((new_action ''get'' gvr ns)\<lparr>act_Name := Some name\<rparr>) t = ((True, Some (ApiGitSync g), None), t)
    | None \<Rightarrow> (\<exists>err. IsNotFound err \<and>
        ObjectReaction K ((new_action ''get'' gvr ns)\<lparr>act_Name := Some name\<rparr>) t = ((True, None, Some err), t))"
  using assms unfolding tracker_laws_def by (elim conjE allE)

lemma tracker_create:
  assumes "tracker_laws K metaNamespace metaName tracked kinds"
    and "tracked t (gvr, metaNamespace (gsv_ObjectMeta g), metaName (gsv_ObjectMeta g)) = None"
  obtains t' where
    "ObjectReaction K ((new_action ''create'' gvr (metaNamespace (gsv_ObjectMeta g)))\<lparr>act_Object := Some g\<rparr>) t =
       ((True, Some (ApiGitSync g), None), t')"
    and "tracked t' = (tracked t)((gvr, metaNamespace (gsv_ObjectMeta g), metaName (gsv_ObjectMeta g)) \<mapsto> g)"
  using assms unfolding tracker_laws_def Let_def by blast

lemma seeded_elsewhere:
  assumes "tracker_laws K metaNamespace metaName tracked kinds"
    and "add_objects K (map ApiGitSync gs) t = Some t'"
    and "kinds t = fake_scheme" and "\<And>key. tracked t (gitsyncsResource, key) = None"
  shows "tracked t' (gitsyncsResource, key) = None"
  using assms(2-)
proof (induction gs arbitrary: t)
  case (Cons g gs)
  then obtain t1 where t1: "tracker_Add K (ApiGitSync g) t = Inr t1" "add_objects K (map ApiGitSync gs) t1 = Some t'"
    by (auto split: sum.splits)
  with assms(1) have "kinds t1 = kinds t" and view: "tracked t1 = (\<lambda>((gv, r), key).
      if (gv, ''GitSync'') \<in> set (kinds t) \<and> r = ''gitsyncs'' \<and>
         key = (metaNamespace (gsv_ObjectMeta g), metaName (gsv_ObjectMeta g))
      then Some g else tracked t ((gv, r), key))"
    unfolding tracker_laws_def by blast+
  moreover have "fst gitsyncsResource \<noteq> SchemeGroupVersion"
    by (simp add: gitsyncsResource_def SchemeGroupVersion_def)
  ultimately have "tracked t1 (gitsyncsResource, k) = None" for k
    using Cons.prems(2,3) by (simp add: view fake_scheme_def AddToScheme_def registered_types_def gitsyncsResource_def)
  with Cons.IH [OF t1(2)] \<open>kinds t1 = kinds t\<close> Cons.prems(2) show ?case
    by simp
qed simp

text \<open>
  C18. The fake set of clients loses the objects it is made with. Whatever GitSyncs
  \<open>NewSimpleClientset\<close> is given, its client finds none of them, in any namespace and under any name: they
  are filed under the group of the scheme, and the client looks in the group \<open>numaplane\<close>. Only what is
  created through the client itself is found, and that also when it was among the given objects.
\<close>

theorem fake_loses_given_objects:
  assumes "tracker_laws K metaNamespace metaName tracked kinds"
    and "NewSimpleClientset K (map ApiGitSync gs) = Some s"
  shows "(\<forall>ns name. \<exists>err. IsNotFound err \<and>
      fst (FakeGitSyncs_Get (simple_reactors K) dflt ns name opts s) = Some (None, Some err)) \<and>
    (\<forall>g. let ns = metaNamespace (gsv_ObjectMeta g);
             created = FakeGitSyncs_Create (simple_reactors K) dflt ns g opts s
         in fst created = Some (Some g, None) \<and>
            fst (FakeGitSyncs_Get (simple_reactors K) dflt ns (metaName (gsv_ObjectMeta g)) opts (snd created)) =
              Some (Some g, None))"
proof -
  from assms(2) obtain t where t: "add_objects K (map ApiGitSync gs) (NewObjectTracker K fake_scheme) = Some t"
      and s: "s = \<lparr>fk_actions = [], fk_tracker = t\<rparr>"
    by (auto simp: NewSimpleClientset_def split: option.splits)
  have absent: "tracked t (gitsyncsResource, key) = None" for key
    using seeded_elsewhere [OF assms(1) t] assms(1) by (simp add: tracker_laws_def)
  have get: "case tracked u (gitsyncsResource, ns, name) of
      Some g \<Rightarrow> fst (FakeGitSyncs_Get (simple_reactors K) dflt ns name opts \<lparr>fk_actions = as, fk_tracker = u\<rparr>) = Some (Some g, None)
    | None \<Rightarrow> \<exists>err. IsNotFound err \<and>
        fst (FakeGitSyncs_Get (simple_reactors K) dflt ns name opts \<lparr>fk_actions = as, fk_tracker = u\<rparr>) = Some (None, Some err)"
    for ns name as u
    using tracker_get [where t = u and gvr = gitsyncsResource and ns = ns and name = name, OF assms(1)]
    by (auto simp: FakeGitSyncs_Get_def Invokes_def simple_reactors_def split: option.splits)
  have "\<exists>err. IsNotFound err \<and> fst (FakeGitSyncs_Get (simple_reactors K) dflt ns name opts s) = Some (None, Some err)"
    for ns name
    using get [where u = t and ns = ns and name = name and as = "[]"] absent by (simp add: s)
  moreover have "let ns = metaNamespace (gsv_ObjectMeta g);
             created = FakeGitSyncs_Create (simple_reactors K) dflt ns g opts s
         in fst created = Some (Some g, None) \<and>
            fst (FakeGitSyncs_Get (simple_reactors K) dflt ns (metaName (gsv_ObjectMeta g)) opts (snd created)) =
              Some (Some g, None)" for g
  proof -
    let ?ns = "metaNamespace (gsv_ObjectMeta g)"
    let ?key = "(gitsyncsResource, ?ns, metaName (gsv_ObjectMeta g))"
    obtain t' where t': "ObjectReaction K ((new_action ''create'' gitsyncsResource ?ns)\<lparr>act_Object := Some g\<rparr>) t =
        ((True, Some (ApiGitSync g), None), t')" "tracked t' = (tracked t)(?key \<mapsto> g)"
      using tracker_create [where t = t and gvr = gitsyncsResource, OF assms(1) absent] .
    then show ?thesis
      using get [where u = t' and ns = ?ns and name = "metaName (gsv_ObjectMeta g)"]
      by (simp add: Let_def FakeGitSyncs_Create_def Invokes_def simple_reactors_def s)
  qed
  ultimately show ?thesis by blast
qed

text \<open>
  A tracker that is a scheme and a map; metadata are a namespace and a name.
\<close>

type_synonym tiny_meta = "string \<times> string"
type_synonym tiny_tracker = "type_scheme \<times> (in_group \<times> string \<times> string \<rightharpoonup> tiny_meta GitSync_value)"

definition tiny_tracker :: "(tiny_meta, unit, unit, tiny_tracker) tracker_libs" where
  "tiny_tracker =
     \<lparr>NewObjectTracker = (\<lambda>sch. (sch, Map.empty)),
      tracker_Add = (\<lambda>obj (sch, m). case obj of
          ApiGitSync g \<Rightarrow> Inr (sch, \<lambda>((gv, r), key).
            if (gv, ''GitSync'') \<in> set sch \<and> r = ''gitsyncs'' \<and> key = gsv_ObjectMeta g
            then Some g else m ((gv, r), key))
        | _ \<Rightarrow> Inl (ErrorString ''unsupported'')),
      ObjectReaction = (\<lambda>a (sch, m).
        if act_Verb a = ''get'' then
          (case m (act_Resource a, act_Namespace a, the (act_Name a)) of
             Some g \<Rightarrow> ((True, Some (ApiGitSync g), None), (sch, m))
           | None \<Rightarrow> ((True, None, Some (TaggedError NotFound ''not found'')), (sch, m)))
        else (case act_Object a of
             Some g \<Rightarrow> ((True, Some (ApiGitSync g), None), (sch, m((act_Resource a, gsv_ObjectMeta g) \<mapsto> g)))
           | None \<Rightarrow> ((False, None, None), (sch, m)))),
      tracker_Watch = (\<lambda>gvr ns t. (Inr (), t)), unhandled_watch = ErrorString ''unhandled watch'',
      ExtractFromListOptions = (\<lambda>opts. None)\<rparr>"

lemma tiny_tracker_laws: "tracker_laws tiny_tracker fst snd snd fst"
  unfolding tracker_laws_def
proof (intro conjI, goal_cases)
  case 2
  show ?case
    by (auto simp: tiny_tracker_def fun_eq_iff)
qed (auto simp: tiny_tracker_def new_action_def Let_def split: option.split)

definition tiny_gitsync :: "tiny_meta GitSync_value" where
  "tiny_gitsync =
     \<lparr>gsv_TypeMeta = \<lparr>tm_Kind = ''GitSync'', tm_APIVersion = ''numaplane.numaproj.io/v1alpha1''\<rparr>,
      gsv_ObjectMeta = (''ns'', ''my-app''),
      gsv_Spec = \<lparr>RepoUrl = ''https://h/r'', Path = [], TargetRevision = ''main'', Kustomize = None, Helm = None, Raw = Some (),
        spec_Destination = \<lparr>Cluster = ''c'', dest_Namespace = ''ns''\<rparr>\<rparr>,
      gsv_Status = \<lparr>Phase = GitSyncPhasePending, Conditions = [], Message = [], status_CommitStatus = None\<rparr>\<rparr>"

theorem fake_loses_given_objects_witness:
  "\<exists>s err. NewSimpleClientset tiny_tracker [ApiGitSync tiny_gitsync] = Some s \<and> IsNotFound err \<and>
     fst (FakeGitSyncs_Get (simple_reactors tiny_tracker)
       (tiny_gitsync, \<lparr>glv_TypeMeta = \<lparr>tm_Kind = [], tm_APIVersion = []\<rparr>, glv_ListMeta = (), glv_Items = []\<rparr>)
       ''ns'' ''my-app'' () s) = Some (None, Some err)"
proof -
  have "\<exists>s. NewSimpleClientset tiny_tracker (map ApiGitSync [tiny_gitsync]) = Some s"
    by (simp add: NewSimpleClientset_def tiny_tracker_def)
  then obtain s where s: "NewSimpleClientset tiny_tracker (map ApiGitSync [tiny_gitsync]) = Some s"
    by blast
  from fake_loses_given_objects [where opts = "()", OF tiny_tracker_laws s, THEN conjunct1, rule_format] s show ?thesis
    by (intro exI [of _ s]) simp
qed

end
