(* ===== verification/Fixtures.thy ===== *)
theory Fixtures
  imports Clients SyncRun
begin

text \<open>
  The fixtures of the end-to-end tests (\<^verbatim>\<open>tests/fixtures\<close>: \<open>given.go\<close>, \<open>when.go\<close>, \<open>expect.go\<close>), a
  second client of the interface \<open>GitSyncInterface\<close>: what a test creates, changes and deletes
  in the cluster, and how it waits for what the controller does about it. The git part of the
  fixtures is in \<open>FixturesGit\<close>, the test suite around them in \<open>FixturesSuite\<close>.

  A call of \<open>t.Fatal\<close> ends the test: it is \<open>Err\<close> with the text, and nothing after it is run.
  An error that a function returns is a value. \<open>t.Log\<close> and \<open>t.Helper\<close> are left out.

  The cluster changes while a test waits. The state is the monotonic clock, in nanoseconds, with
  the state \<open>'w\<close> of everything outside the test; a call takes the time \<open>took\<close>, and during a pause of
  \<open>d\<close> nanoseconds the outside goes on, which may last a little longer than \<open>d\<close>. A context with a
  timeout is its deadline. The three records of the fixtures have the same components; the
  clients among them are the arguments \<open>L\<close> and \<open>I\<close> of the definitions.
\<close>

section \<open>Time\<close>

record 'w timed =
  clock :: nat
  outside :: 'w

datatype resource_path = InNamespace string string string | AbsPath string

text \<open>What the channel of a watch delivers: a GitSync, or another object, or nothing once it is closed.\<close>

datatype 'm watch_event = EventGitSync "'m GitSync_value" | EventOther

text \<open>
  \<open>watch_run x d\<close> are the events that the watch \<open>x\<close> delivers within the time \<open>d\<close>, each with the time
  since the start and the state of the outside, and the state when that time is over. \<open>'y\<close> are
  the values of a YAML document.
\<close>

record ('m, 'o, 'x, 'y, 'w) e2e_libs =
  took :: "'w \<Rightarrow> 'w \<Rightarrow> nat"
  elapse :: "nat \<Rightarrow> 'w \<Rightarrow> nat \<times> 'w"
  dur_String :: "nat \<Rightarrow> string"
  meta_Name :: "'m \<Rightarrow> string"
  meta_Labels :: "'m \<Rightarrow> (string \<rightharpoonup> string) option"
  meta_SetLabels :: "(string \<rightharpoonup> string) \<Rightarrow> 'm \<Rightarrow> 'm"
  meta_ResourceVersion :: "'m \<Rightarrow> string"
  meta_SetResourceVersion :: "string \<Rightarrow> 'm \<Rightarrow> 'm"
  no_options :: 'o
  watch_run :: "'x \<Rightarrow> nat \<Rightarrow> 'w \<Rightarrow> ('m watch_event \<times> nat \<times> 'w) list \<times> 'w"
  watch_Stop :: "'x \<Rightarrow> 'w \<Rightarrow> 'w"
  rest_Do :: "string \<Rightarrow> resource_path \<Rightarrow> string \<Rightarrow> 'w \<Rightarrow> go_error option \<times> 'w"
  rest_DoRaw :: "resource_path \<Rightarrow> 'w \<Rightarrow> (go_error + string) \<times> 'w"
  yaml_object :: "string \<Rightarrow> go_error + (string \<rightharpoonup> 'y)"
  yaml_map :: "'y \<Rightarrow> ('y \<times> 'y) list option"
  yaml_text :: "'y \<Rightarrow> string option"
  DeepEqual :: "'y \<Rightarrow> 'y \<Rightarrow> bool"
  ConfigMap_Get :: "string \<Rightarrow> string \<Rightarrow> 'w \<Rightarrow> (go_error + (string \<rightharpoonup> string) option) \<times> 'w"
  ConfigMap_Update :: "string \<Rightarrow> string \<Rightarrow> (string \<rightharpoonup> string) option \<Rightarrow> 'w \<Rightarrow> go_error option \<times> 'w"
  file_CreateTemp :: "'w \<Rightarrow> (go_error + string) \<times> 'w"
  file_Write :: "string \<Rightarrow> string \<Rightarrow> 'w \<Rightarrow> go_error option \<times> 'w"
  file_Close :: "string \<Rightarrow> 'w \<Rightarrow> go_error option \<times> 'w"
  file_Read :: "string \<Rightarrow> 'w \<Rightarrow> go_error + string"
  yaml_GitSync :: "string \<Rightarrow> go_error + 'm GitSync_value"

definition second :: nat where
  "second = 1000000000"

definition defaultTimeout :: nat where
  "defaultTimeout = 60 * second"

definition timed_call ::
  "('m, 'o, 'x, 'y, 'w, 'z) e2e_libs_scheme \<Rightarrow> ('w \<Rightarrow> 'a \<times> 'w) \<Rightarrow> 'w timed \<Rightarrow> 'a \<times> 'w timed" where
  "timed_call L f s =
     (case f (outside s) of (x, w) \<Rightarrow> (x, \<lparr>clock = clock s + took L (outside s) w, outside = w\<rparr>))"

definition Sleep :: "('m, 'o, 'x, 'y, 'w, 'z) e2e_libs_scheme \<Rightarrow> nat \<Rightarrow> 'w timed \<Rightarrow> 'w timed" where
  "Sleep L d s =
     (case elapse L d (outside s) of (late, w) \<Rightarrow> \<lparr>clock = clock s + d + late, outside = w\<rparr>)"

text \<open>
  The loop that waits: until the deadline of its context has passed, ask, and pause for two seconds when
  the answer does not end it. The result is \<open>None\<close> after the deadline.
\<close>

function poll ::
  "('m, 'o, 'x, 'y, 'w, 'z) e2e_libs_scheme \<Rightarrow> nat \<Rightarrow> ('w \<Rightarrow> 'a option \<times> 'w) \<Rightarrow> 'w timed \<Rightarrow> 'a option \<times> 'w timed" where
  "poll L deadline probe s =
     (if deadline \<le> clock s then (None, s)
      else (case timed_call L probe s of
              (Some x, s1) \<Rightarrow> (Some x, s1)
            | (None, s1) \<Rightarrow> poll L deadline probe (Sleep L (2 * second) s1)))"
  by pat_completeness auto

lemma clock_timed_call: "timed_call L f s = (x, s1) \<Longrightarrow> clock s \<le> clock s1"
  by (auto simp: timed_call_def split: prod.splits)

lemma clock_Sleep: "clock s + d \<le> clock (Sleep L d s)"
  by (simp add: Sleep_def split: prod.split)

lemma poll_progress:
  "timed_call L f s = (x, s1) \<Longrightarrow> clock s < clock (Sleep L (2 * second) s1)"
  using clock_timed_call [of L f s x s1] clock_Sleep [of s1 "2 * second" L] by (simp add: second_def)

termination poll
  by (relation "measure (\<lambda>(L, deadline, probe, s). deadline - clock s)")
    (auto dest!: sym [of "(_, _)" "timed_call _ _ _"] dest: poll_progress)

declare poll.simps [simp del]

text \<open>The states in which the loop asks.\<close>

function poll_rounds ::
  "('m, 'o, 'x, 'y, 'w, 'z) e2e_libs_scheme \<Rightarrow> nat \<Rightarrow> ('w \<Rightarrow> 'a option \<times> 'w) \<Rightarrow> 'w timed \<Rightarrow> 'w timed list" where
  "poll_rounds L deadline probe s =
     (if deadline \<le> clock s then []
      else s # (case timed_call L probe s of
                  (Some x, s1) \<Rightarrow> []
                | (None, s1) \<Rightarrow> poll_rounds L deadline probe (Sleep L (2 * second) s1)))"
  by pat_completeness auto

termination poll_rounds
  by (relation "measure (\<lambda>(L, deadline, probe, s). deadline - clock s)")
    (auto dest!: sym [of "(_, _)" "timed_call _ _ _"] dest: poll_progress)

declare poll_rounds.simps [simp del]

text \<open>The pauses bound the number of questions.\<close>

lemma poll_rounds_bound:
  "poll_rounds L deadline probe s \<noteq> [] \<Longrightarrow>
    clock s + 2 * second * (length (poll_rounds L deadline probe s) - 1) < deadline"
proof (induction L deadline probe s rule: poll_rounds.induct)
  case (1 L deadline probe s)
  then have "clock s < deadline" by (subst (asm) (2) poll_rounds.simps) (simp split: if_splits)
  show ?case
  proof (cases "timed_call L probe s")
    case (Pair x s1)
    let ?t = "Sleep L (2 * second) s1"
    let ?rest = "poll_rounds L deadline probe ?t"
    show ?thesis
    proof (cases "x = None \<and> ?rest \<noteq> []")
      case True
      then have "clock ?t + 2 * second * (length ?rest - 1) < deadline"
        using 1(1) Pair \<open>clock s < deadline\<close> by simp
      moreover have "clock s + 2 * second \<le> clock ?t"
        using clock_timed_call [OF Pair] clock_Sleep [of s1 "2 * second" L] by simp
      moreover have "length (poll_rounds L deadline probe s) = Suc (length ?rest)"
        using True Pair \<open>clock s < deadline\<close> by (subst poll_rounds.simps) simp
      ultimately show ?thesis using True by (cases ?rest) simp_all
    next
      case False
      then have "length (poll_rounds L deadline probe s) \<le> 1"
        using Pair by (subst poll_rounds.simps) (auto split: option.split)
      with \<open>clock s < deadline\<close> show ?thesis by simp
    qed
  qed
qed

corollary poll_rounds_at_most_30:
  "length (poll_rounds L (clock s + defaultTimeout) probe s) \<le> 30"
proof (cases "poll_rounds L (clock s + defaultTimeout) probe s = []")
  case False
  from poll_rounds_bound [OF this] show ?thesis by (simp add: defaultTimeout_def second_def)
qed simp

text \<open>The loop ends with the answer of its last question, or after the deadline.\<close>

lemma poll_result:
  "poll L deadline probe s = (r, s') \<longleftrightarrow>
    (case poll_rounds L deadline probe s of
       [] \<Rightarrow> deadline \<le> clock s \<and> r = None \<and> s' = s
     | _ \<Rightarrow> (\<forall>t \<in> set (butlast (poll_rounds L deadline probe s)). fst (timed_call L probe t) = None) \<and>
         (let t = last (poll_rounds L deadline probe s)
          in case timed_call L probe t of
               (Some x, t1) \<Rightarrow> r = Some x \<and> s' = t1
             | (None, t1) \<Rightarrow> r = None \<and> s' = Sleep L (2 * second) t1 \<and> deadline \<le> clock s'))"
proof (induction L deadline probe s rule: poll_rounds.induct)
  case (1 L deadline probe s)
  show ?case
  proof (cases "deadline \<le> clock s")
    case False
    obtain x s1 where c: "timed_call L probe s = (x, s1)" by fastforce
    show ?thesis
    proof (cases x)
      case None
      let ?t = "Sleep L (2 * second) s1"
      have p: "poll L deadline probe s = poll L deadline probe ?t"
          "poll_rounds L deadline probe s = s # poll_rounds L deadline probe ?t"
        using False c None by (simp_all add: poll.simps [of L deadline probe s] poll_rounds.simps [of L deadline probe s])
      show ?thesis
        unfolding p using 1 [OF False c [symmetric] None] c None
        by (cases "poll_rounds L deadline probe ?t") (auto simp: Let_def)
    qed (use False c in \<open>auto simp: poll.simps [of L deadline probe s] poll_rounds.simps [of L deadline probe s]\<close>)
  qed (auto simp: poll.simps [of L deadline probe s] poll_rounds.simps [of L deadline probe s])
qed

section \<open>The fixtures\<close>

definition Namespace :: string where "Namespace = ''numaplane-system''"
definition TargetNamespace :: string where "TargetNamespace = ''numaplane-e2e''"
definition E2ELabel :: string where "E2ELabel = ''numaplane-e2e''"
definition E2ELabelValue :: string where "E2ELabelValue = ''true''"

record 'm Given =
  g_gitSync :: "'m GitSync_value option"
  g_currentCommit :: string

record 'm When =
  w_gitSync :: "'m GitSync_value option"
  w_currentCommit :: string

record 'm Expect =
  e_gitSync :: "'m GitSync_value option"
  e_currentCommit :: string

definition Given_When :: "'m Given \<Rightarrow> 'm When" where
  "Given_When g = \<lparr>w_gitSync = g_gitSync g, w_currentCommit = g_currentCommit g\<rparr>"

definition When_Given :: "'m When \<Rightarrow> 'm Given" where
  "When_Given w = \<lparr>g_gitSync = w_gitSync w, g_currentCommit = w_currentCommit w\<rparr>"

definition When_Expect :: "'m When \<Rightarrow> 'm Expect" where
  "When_Expect w = \<lparr>e_gitSync = w_gitSync w, e_currentCommit = w_currentCommit w\<rparr>"

definition Expect_When :: "'m Expect \<Rightarrow> 'm When" where
  "Expect_When e = \<lparr>w_gitSync = e_gitSync e, w_currentCommit = e_currentCommit e\<rparr>"

text \<open>The answer of a method of the client: a panic, the error, or the result.\<close>

definition answer :: "('r \<times> go_error option) option \<times> 's \<Rightarrow> ('s, 'r) result" where
  "answer c =
     (case c of
        (None, s) \<Rightarrow> (Panic NilDereference, s)
      | (Some (_, Some err), s) \<Rightarrow> (Err err, s)
      | (Some (r, None), s) \<Rightarrow> (Ok r, s))"

definition deref :: "'a option \<Rightarrow> 's \<Rightarrow> ('s, 'a) result" where
  "deref p s = (case p of None \<Rightarrow> (Panic NilDereference, s) | Some x \<Rightarrow> (Ok x, s))"

definition gitSync_name :: "('m, 'o, 'x, 'y, 'w, 'z) e2e_libs_scheme \<Rightarrow> 'm GitSync_value \<Rightarrow> string" where
  "gitSync_name L g = meta_Name L (gsv_ObjectMeta g)"

section \<open>\<open>expect.go\<close>\<close>

text \<open>The resource asked for: in the core group by its parts, in another group by its path.\<close>

definition resource_at :: "string \<Rightarrow> string \<Rightarrow> string \<Rightarrow> resource_path" where
  "resource_at apiVersion resourceType resource =
     (if apiVersion = ''v1'' then InNamespace TargetNamespace resourceType resource
      else AbsPath (''/apis/'' @ apiVersion @ ''/namespaces/'' @ TargetNamespace @ ''/'' @ resourceType @ ''/'' @ resource))"

definition getResource ::
  "('m, 'o, 'x, 'y, 'w, 'z) e2e_libs_scheme \<Rightarrow> string \<Rightarrow> string \<Rightarrow> string \<Rightarrow> 'w \<Rightarrow> go_error option \<times> 'w" where
  "getResource L apiVersion resourceType resource w =
     rest_Do L ''GET'' (resource_at apiVersion resourceType resource) [] w"

definition doesExist ::
  "('m, 'o, 'x, 'y, 'w, 'z) e2e_libs_scheme \<Rightarrow> string \<Rightarrow> string \<Rightarrow> string \<Rightarrow> 'w timed \<Rightarrow> bool \<times> 'w timed" where
  "doesExist L apiVersion resourceType resource s =
     (case poll L (clock s + defaultTimeout)
             (\<lambda>w. case getResource L apiVersion resourceType resource w of
                (None, w') \<Rightarrow> (Some (), w')
              | (Some err, w') \<Rightarrow> (None, w')) s of
        (r, s') \<Rightarrow> (r \<noteq> None, s'))"

definition doesNotExist ::
  "('m, 'o, 'x, 'y, 'w, 'z) e2e_libs_scheme \<Rightarrow> string \<Rightarrow> string \<Rightarrow> string \<Rightarrow> 'w timed \<Rightarrow> bool \<times> 'w timed" where
  "doesNotExist L apiVersion resourceType resource s =
     (case poll L (clock s + defaultTimeout)
             (\<lambda>w. case getResource L apiVersion resourceType resource w of
                (None, w') \<Rightarrow> (None, w')
              | (Some err, w') \<Rightarrow> (if IsNotFound err then Some () else None, w')) s of
        (r, s') \<Rightarrow> (r \<noteq> None, s'))"

fun ResourcesExist ::
  "('m, 'o, 'x, 'y, 'w, 'z) e2e_libs_scheme \<Rightarrow> string \<Rightarrow> string \<Rightarrow> string list \<Rightarrow> 'm Expect \<Rightarrow> 'w timed \<Rightarrow>
   ('w timed, 'm Expect) result" where
  "ResourcesExist L apiVersion resourceType [] e s = (Ok e, s)"
| "ResourcesExist L apiVersion resourceType (r # resources) e s =
     (case doesExist L apiVersion resourceType r s of
        (False, s1) \<Rightarrow> (Err (ErrorString (''Resource '' @ resourceType @ ''/'' @ r @ '' does not exist'')), s1)
      | (True, s1) \<Rightarrow> ResourcesExist L apiVersion resourceType resources e s1)"

fun ResourcesDontExist ::
  "('m, 'o, 'x, 'y, 'w, 'z) e2e_libs_scheme \<Rightarrow> string \<Rightarrow> string \<Rightarrow> string list \<Rightarrow> 'm Expect \<Rightarrow> 'w timed \<Rightarrow>
   ('w timed, 'm Expect) result" where
  "ResourcesDontExist L apiVersion resourceType [] e s = (Ok e, s)"
| "ResourcesDontExist L apiVersion resourceType (r # resources) e s =
     (case doesNotExist L apiVersion resourceType r s of
        (False, s1) \<Rightarrow> (Err (ErrorString (''Resource '' @ resourceType @ ''/'' @ r @ '' not deleted'')), s1)
      | (True, s1) \<Rightarrow> ResourcesDontExist L apiVersion resourceType resources e s1)"

text \<open>
  The loop over the entries of the field; the keys of a YAML map are values. A field that is absent, or
  not a map, fails the type assertion.
\<close>

fun entries_as_expected ::
  "('m, 'o, 'x, 'y, 'w, 'z) e2e_libs_scheme \<Rightarrow> string \<Rightarrow> 'y \<Rightarrow> ('y \<times> 'y) list \<Rightarrow> bool" where
  "entries_as_expected L key value [] = True"
| "entries_as_expected L key value ((k, v) # entries) =
     (if yaml_text L k = Some key \<and> \<not> DeepEqual L v value then False
      else entries_as_expected L key value entries)"

definition VerifyResourceState ::
  "('m, 'o, 'x, 'y, 'w, 'z) e2e_libs_scheme \<Rightarrow> string \<Rightarrow> string \<Rightarrow> string \<Rightarrow> string \<Rightarrow> string \<Rightarrow> 'y \<Rightarrow> 'm Expect \<Rightarrow>
   'w timed \<Rightarrow> ('w timed, 'm Expect) result" where
  "VerifyResourceState L apiVersion resourceType resource field key value e s =
     (let name = resourceType @ ''/'' @ resource;
          failed = ErrorString (''Failed to verify resource '' @ name @ '' state'')
      in case doesExist L apiVersion resourceType resource s of
           (False, s1) \<Rightarrow> (Err (ErrorString (''Resource '' @ name @ '' does not exist'')), s1)
         | (True, s1) \<Rightarrow>
             (case timed_call L (rest_DoRaw L (resource_at apiVersion resourceType resource)) s1 of
                (Inl err, s2) \<Rightarrow> (Err failed, s2)
              | (Inr body, s2) \<Rightarrow>
                  (case yaml_object L body of
                     Inl err \<Rightarrow> (Err failed, s2)
                   | Inr obj \<Rightarrow>
                       (case Option.bind (obj field) (yaml_map L) of
                          None \<Rightarrow> (Panic InterfaceConversion, s2)
                        | Some entries \<Rightarrow>
                            (if entries_as_expected L key value entries then (Ok e, s2)
                             else (Err (ErrorString (''Resource '' @ name @ '' state is not as expected'')), s2))))))"

definition synced_to :: "string \<Rightarrow> 'm GitSync_value \<Rightarrow> bool" where
  "synced_to commit g \<longleftrightarrow>
     (case status_CommitStatus (gsv_Status g) of
        None \<Rightarrow> False
      | Some cs \<Rightarrow> cs_Synced cs \<and> cs_Hash cs = commit)"

text \<open>One question of the loop: the outcome that ends it, if any.\<close>

definition commit_probe ::
  "('m, 'o, 'x, 'y, 'w, 'z) e2e_libs_scheme \<Rightarrow> ('m, 'l, 'o, 'x, 'w) GitSyncInterface \<Rightarrow> 'm Expect \<Rightarrow> string \<Rightarrow> 'w \<Rightarrow>
   'm Expect outcome option \<times> 'w" where
  "commit_probe L I e name w =
     (case answer (gi_Get I name (no_options L) w) of
        (Panic p, w') \<Rightarrow> (Some (Panic p), w')
      | (Err err, w') \<Rightarrow> (Some (Err (ErrorString (''Can't find GitSync '' @ name))), w')
      | (Ok None, w') \<Rightarrow> (Some (Panic NilDereference), w')
      | (Ok (Some g), w') \<Rightarrow> (if synced_to (e_currentCommit e) g then Some (Ok e) else None, w'))"

definition CheckCommitStatus ::
  "('m, 'o, 'x, 'y, 'w, 'z) e2e_libs_scheme \<Rightarrow> ('m, 'l, 'o, 'x, 'w) GitSyncInterface \<Rightarrow> 'm Expect \<Rightarrow> 'w timed \<Rightarrow>
   ('w timed, 'm Expect) result" where
  "CheckCommitStatus L I e s =
     bindR (deref (e_gitSync e) s) (\<lambda>gs s0.
       (case poll L (clock s0 + defaultTimeout) (commit_probe L I e (gitSync_name L gs)) s0 of
          (Some r, s') \<Rightarrow> (r, s')
        | (None, s') \<Rightarrow>
            (Err (ErrorString (''GitSync '' @ gitSync_name L gs @ '' is not synced to the most recent commit'')), s')))"

section \<open>\<open>when.go\<close>\<close>

text \<open>
  Waiting for a GitSync to run: the events of the watch one after another, until one ends the
  wait or the timeout does. \<open>start\<close> is the time the watch began. The error is the value.
\<close>

fun await_running ::
  "('m, 'o, 'x, 'y, 'w, 'z) e2e_libs_scheme \<Rightarrow> nat \<Rightarrow> nat \<Rightarrow> ('m watch_event \<times> nat \<times> 'w) list \<Rightarrow> 'w \<Rightarrow>
   go_error option \<times> 'w timed" where
  "await_running L start timeout [] w_end =
     (Some (ErrorString (''timeout after '' @ dur_String L timeout @ '' waiting for GitSync running'')),
      \<lparr>clock = start + timeout, outside = w_end\<rparr>)"
| "await_running L start timeout ((EventGitSync i, t, w) # events) w_end =
     (if Phase (gsv_Status i) = GitSyncPhasePending then await_running L start timeout events w_end
      else if Phase (gsv_Status i) = GitSyncPhaseRunning then (None, \<lparr>clock = start + t, outside = w\<rparr>)
      else await_running L start timeout events w_end)"
| "await_running L start timeout ((EventOther, t, w) # events) w_end =
     (Some (ErrorString ''not gitsync''), \<lparr>clock = start + t, outside = w\<rparr>)"

definition waitForGitSyncRunning ::
  "('m, 'o, 'x, 'y, 'w, 'z) e2e_libs_scheme \<Rightarrow> ('m, 'l, 'o, 'x, 'w) GitSyncInterface \<Rightarrow> string \<Rightarrow> nat \<Rightarrow> 'w timed \<Rightarrow>
   ('w timed, go_error option) result" where
  "waitForGitSyncRunning L I gitSyncName timeout s =
     (let opts = \<lparr>TimeoutSeconds = None, lo_Watch = False, LabelSelector = [],
                  FieldSelector = ''metadata.name='' @ gitSyncName\<rparr>
      in case answer (timed_call L (gi_Watch I opts) s) of
           (Panic p, s1) \<Rightarrow> (Panic p, s1)
         | (Err err, s1) \<Rightarrow> (Ok (Some err), s1)
         | (Ok None, s1) \<Rightarrow> (Panic NilDereference, s1)
         | (Ok (Some x), s1) \<Rightarrow>
             (case watch_run L x timeout (outside s1) of (events, w_end) \<Rightarrow>
                (case await_running L (clock s1) timeout events w_end of (r, s2) \<Rightarrow>
                   (Ok r, s2\<lparr>outside := watch_Stop L x (outside s2)\<rparr>))))"

text \<open>The end of the two operations that wait: the object as it was returned, then the wait.\<close>

definition stored_and_running ::
  "('m, 'o, 'x, 'y, 'w, 'z) e2e_libs_scheme \<Rightarrow> ('m, 'l, 'o, 'x, 'w) GitSyncInterface \<Rightarrow> 'm When \<Rightarrow>
   'm GitSync_value option \<Rightarrow> 'w timed \<Rightarrow> ('w timed, 'm When) result" where
  "stored_and_running L I w i s =
     bindR (deref i s) (\<lambda>g s1.
     bindR (waitForGitSyncRunning L I (gitSync_name L g) defaultTimeout s1) (\<lambda>err s2.
       (case err of Some e \<Rightarrow> (Err e, s2) | None \<Rightarrow> (Ok (w\<lparr>w_gitSync := i\<rparr>), s2))))"

definition CreateGitSyncAndWait ::
  "('m, 'o, 'x, 'y, 'w, 'z) e2e_libs_scheme \<Rightarrow> ('m, 'l, 'o, 'x, 'w) GitSyncInterface \<Rightarrow> 'm When \<Rightarrow> 'w timed \<Rightarrow>
   ('w timed, 'm When) result" where
  "CreateGitSyncAndWait L I w s =
     (case w_gitSync w of
        None \<Rightarrow> (Err (ErrorString ''No GitSync to create''), s)
      | Some gs \<Rightarrow>
          bindR (answer (timed_call L (gi_Create I gs (no_options L)) s)) (\<lambda>i s1.
            stored_and_running L I w i s1))"

definition SetResourceVersion ::
  "('m, 'o, 'x, 'y, 'w, 'z) e2e_libs_scheme \<Rightarrow> string \<Rightarrow> 'm GitSync_value \<Rightarrow> 'm GitSync_value" where
  "SetResourceVersion L v g = g\<lparr>gsv_ObjectMeta := meta_SetResourceVersion L v (gsv_ObjectMeta g)\<rparr>"

definition UpdateGitSyncAndWait ::
  "('m, 'o, 'x, 'y, 'w, 'z) e2e_libs_scheme \<Rightarrow> ('m, 'l, 'o, 'x, 'w) GitSyncInterface \<Rightarrow> 'm When \<Rightarrow> 'w timed \<Rightarrow>
   ('w timed, 'm When) result" where
  "UpdateGitSyncAndWait L I w s =
     (case w_gitSync w of
        None \<Rightarrow> (Err (ErrorString ''No GitSync to create''), s)
      | Some gs \<Rightarrow>
          bindR (answer (timed_call L (gi_Get I (gitSync_name L gs) (no_options L)) s)) (\<lambda>old s1.
          bindR (deref old s1) (\<lambda>oldGitSync s2.
          bindR (answer (timed_call L (gi_Update I
                   (SetResourceVersion L (meta_ResourceVersion L (gsv_ObjectMeta oldGitSync)) gs) (no_options L)) s2)) (\<lambda>i s3.
            stored_and_running L I w i s3))))"

text \<open>The error that ended the wait is the value.\<close>

definition waitForGitSyncDeleted ::
  "('m, 'o, 'x, 'y, 'w, 'z) e2e_libs_scheme \<Rightarrow> ('m, 'l, 'o, 'x, 'w) GitSyncInterface \<Rightarrow> string \<Rightarrow> 'w timed \<Rightarrow>
   ('w timed, go_error) result" where
  "waitForGitSyncDeleted L I name s =
     (case poll L (clock s + defaultTimeout)
             (\<lambda>w. case answer (gi_Get I name (no_options L) w) of
                (Panic p, w') \<Rightarrow> (Some (Panic p), w')
              | (Err err, w') \<Rightarrow> (Some (Ok err), w')
              | (Ok _, w') \<Rightarrow> (None, w')) s of
        (Some r, s') \<Rightarrow> (r, s')
      | (None, s') \<Rightarrow>
          (Err (ErrorString (''Timeout after '' @ dur_String L defaultTimeout @ '' waiting for gitSync terminating'')), s'))"

definition DeleteGitSyncAndWait ::
  "('m, 'o, 'x, 'y, 'w, 'z) e2e_libs_scheme \<Rightarrow> ('m, 'l, 'o, 'x, 'w) GitSyncInterface \<Rightarrow> 'm When \<Rightarrow> 'w timed \<Rightarrow>
   ('w timed, 'm When) result" where
  "DeleteGitSyncAndWait L I w s =
     (case w_gitSync w of
        None \<Rightarrow> (Err (ErrorString ''No gitsync to delete''), s)
      | Some gs \<Rightarrow>
          bindR (answer (timed_call L (gi_Delete I (gitSync_name L gs) (no_options L)) s)) (\<lambda>_ s1.
          bindR (waitForGitSyncDeleted L I (gitSync_name L gs) s1) (\<lambda>err s2.
            if IsNotFound err then (Ok w, s2)
            else (Err (ErrorString (''Error getting gitSync: '' @ Error err)), s2))))"

definition ModifyResource ::
  "('m, 'o, 'x, 'y, 'w, 'z) e2e_libs_scheme \<Rightarrow> string \<Rightarrow> string \<Rightarrow> string \<Rightarrow> string \<Rightarrow> 'm When \<Rightarrow> 'w timed \<Rightarrow>
   ('w timed, 'm When) result" where
  "ModifyResource L apiVersion resourceType resource patch w s =
     (case timed_call L (rest_Do L ''PATCH'' (resource_at apiVersion resourceType resource) patch) s of
        (Some _, s1) \<Rightarrow> (Err (ErrorString (''Failed to patch resource '' @ resourceType @ ''/'' @ resource)), s1)
      | (None, s1) \<Rightarrow> (Ok w, s1))"

definition controller_config :: "string \<times> string" where
  "controller_config = (Namespace, ''numaplane-controller-config'')"

text \<open>Storing into a nil map panics; reading from it gives the empty string.\<close>

definition write_config ::
  "('m, 'o, 'x, 'y, 'w, 'z) e2e_libs_scheme \<Rightarrow> (string \<rightharpoonup> string) option \<Rightarrow> string \<Rightarrow> 'm When \<Rightarrow> 'w timed \<Rightarrow>
   ('w timed, 'm When) result" where
  "write_config L data text w s =
     bindR (deref data s) (\<lambda>m s1.
       (case timed_call L (ConfigMap_Update L (fst controller_config) (snd controller_config)
               (Some (m(''config.yaml'' \<mapsto> text)))) s1 of
          (Some _, s2) \<Rightarrow> (Err (ErrorString []), s2)
        | (None, s2) \<Rightarrow> (Ok w, s2)))"

definition UpdateAutoHealConfig ::
  "('m, 'o, 'x, 'y, 'w, 'z) e2e_libs_scheme \<Rightarrow> bool \<Rightarrow> 'm When \<Rightarrow> 'w timed \<Rightarrow> ('w timed, 'm When) result" where
  "UpdateAutoHealConfig L autoHealEnabled w s =
     (case timed_call L (ConfigMap_Get L (fst controller_config) (snd controller_config)) s of
        (Inl _, s1) \<Rightarrow> (Err (ErrorString ''Failed to get configmap numaplane-controller-config''), s1)
      | (Inr data, s1) \<Rightarrow>
          (let config = (case Option.bind data (\<lambda>m. m ''config.yaml'') of Some t \<Rightarrow> t | None \<Rightarrow> [])
           in write_config L data
                (if \<not> autoHealEnabled then Replace1 config ''autoHealDisabled: false'' ''autoHealDisabled: true''
                 else Replace1 config ''autoHealDisabled: true'' ''autoHealDisabled: false'') w s1))"

definition UpdateRepoCredentialConfig ::
  "('m, 'o, 'x, 'y, 'w, 'z) e2e_libs_scheme \<Rightarrow> string \<Rightarrow> 'm When \<Rightarrow> 'w timed \<Rightarrow> ('w timed, 'm When) result" where
  "UpdateRepoCredentialConfig L config w s =
     (case timed_call L (ConfigMap_Get L (fst controller_config) (snd controller_config)) s of
        (Inl _, s1) \<Rightarrow> (Err (ErrorString ''Failed to get configmap numaplane-controller-config''), s1)
      | (Inr data, s1) \<Rightarrow>
          (case file_Read L config (outside s1) of
             Inl _ \<Rightarrow> (Err (ErrorString []), s1)
           | Inr newConfig \<Rightarrow> write_config L data newConfig w s1))"

definition Wait ::
  "('m, 'o, 'x, 'y, 'w, 'z) e2e_libs_scheme \<Rightarrow> nat \<Rightarrow> 'm When \<Rightarrow> 'w timed \<Rightarrow> ('w timed, 'm When) result" where
  "Wait L timeout w s = (Ok w, Sleep L timeout s)"

section \<open>\<open>given.go\<close>\<close>

definition addE2ELabel :: "('m, 'o, 'x, 'y, 'w, 'z) e2e_libs_scheme \<Rightarrow> 'm GitSync_value \<Rightarrow> 'm GitSync_value" where
  "addE2ELabel L g =
     (let l = (case meta_Labels L (gsv_ObjectMeta g) of None \<Rightarrow> Map.empty | Some l \<Rightarrow> l)
      in g\<lparr>gsv_ObjectMeta := meta_SetLabels L (l(E2ELabel \<mapsto> E2ELabelValue)) (gsv_ObjectMeta g)\<rparr>)"

definition WithGitSync ::
  "('m, 'o, 'x, 'y, 'w, 'z) e2e_libs_scheme \<Rightarrow> 'm GitSync_value \<Rightarrow> 'm Given \<Rightarrow> 'm Given" where
  "WithGitSync L gs g = g\<lparr>g_gitSync := Some (addE2ELabel L gs)\<rparr>"

text \<open>\<open>t.Fatal\<close> on an error.\<close>

definition fatal_on :: "go_error option \<times> 's \<Rightarrow> ('s, unit) result" where
  "fatal_on r = (case r of (Some e, s) \<Rightarrow> (Err e, s) | (None, s) \<Rightarrow> (Ok (), s))"

definition fatal_sum :: "(go_error + 'a) \<times> 's \<Rightarrow> ('s, 'a) result" where
  "fatal_sum r = (case r of (x, s) \<Rightarrow> (of_sum x, s))"

definition resource_file ::
  "('m, 'o, 'x, 'y, 'w, 'z) e2e_libs_scheme \<Rightarrow> string \<Rightarrow> 'w \<Rightarrow> ('w, string) result" where
  "resource_file L text w =
     (if HasPrefix text ''@'' then (Ok (TrimPrefix text ''@''), w)
      else bindR (fatal_sum (file_CreateTemp L w)) (\<lambda>f w1.
           bindR (fatal_on (file_Write L f text w1)) (\<lambda>_ w2.
           bindR (fatal_on (file_Close L f w2)) (\<lambda>_ w3. (Ok f, w3)))))"

definition readResource ::
  "('m, 'o, 'x, 'y, 'w, 'z) e2e_libs_scheme \<Rightarrow> string \<Rightarrow> 'w \<Rightarrow> ('w, 'm GitSync_value) result" where
  "readResource L text w =
     bindR (resource_file L text w) (\<lambda>file w1.
     bindR (of_sum (file_Read L file w1), w1) (\<lambda>f w2. (of_sum (yaml_GitSync L f), w2)))"

definition Given_GitSync ::
  "('m, 'o, 'x, 'y, 'w, 'z) e2e_libs_scheme \<Rightarrow> string \<Rightarrow> 'm Given \<Rightarrow> 'w timed \<Rightarrow> ('w timed, 'm Given) result" where
  "Given_GitSync L text g s =
     bindR (timed_call L (readResource L text) s) (\<lambda>gs s1. (Ok (g\<lparr>g_gitSync := Some (addE2ELabel L gs)\<rparr>), s1))"

section \<open>Lemmas\<close>

lemma fst_timed_call [simp]: "fst (timed_call L f s) = fst (f (outside s))"
  by (simp add: timed_call_def split: prod.split)

lemma poll_rounds_started: "clock s < deadline \<Longrightarrow> poll_rounds L deadline probe s \<noteq> []"
  by (subst poll_rounds.simps) simp

text \<open>With a timeout there is at least one question.\<close>

lemma poll_Some_iff:
  assumes "clock s < deadline"
  shows "fst (poll L deadline probe s) = Some x \<longleftrightarrow>
    fst (probe (outside (last (poll_rounds L deadline probe s)))) = Some x"
proof -
  obtain r s' where p: "poll L deadline probe s = (r, s')" by fastforce
  obtain a as where rounds: "poll_rounds L deadline probe s = a # as"
    using poll_rounds_started [OF assms, of L probe] by (auto simp: neq_Nil_conv)
  obtain y t1 where c: "timed_call L probe (last (a # as)) = (y, t1)" by fastforce
  then have "fst (probe (outside (last (a # as)))) = y" by (metis fst_conv fst_timed_call)
  moreover have "r = y"
    using p unfolding poll_result rounds by (cases y) (simp_all add: Let_def c [unfolded last.simps])
  ultimately show ?thesis by (simp add: p rounds)
qed

lemma answer_Ok: "answer c = (Ok r, s) \<longleftrightarrow> c = (Some (r, None), s)"
  by (auto simp: answer_def split: prod.splits option.splits)

lemma commit_probe_Ok:
  "fst (commit_probe L I e name w) = Some (Ok e') \<longleftrightarrow>
    e' = e \<and> (\<exists>g w'. gi_Get I name (no_options L) w = (Some (Some g, None), w') \<and> synced_to (e_currentCommit e) g)"
  by (auto simp: commit_probe_def answer_def split: prod.splits option.splits outcome.splits)

lemma commit_probe_None:
  "fst (commit_probe L I e name w) = None \<longleftrightarrow>
    (\<exists>g w'. gi_Get I name (no_options L) w = (Some (Some g, None), w') \<and> \<not> synced_to (e_currentCommit e) g)"
  by (auto simp: commit_probe_def answer_def split: prod.splits option.splits outcome.splits)

text \<open>All questions but the last were without a result.\<close>

lemma poll_earlier:
  assumes "t \<in> set (butlast (poll_rounds L deadline probe s))"
  shows "fst (probe (outside t)) = None"
proof -
  obtain r s' where p: "poll L deadline probe s = (r, s')" by fastforce
  obtain a as where rounds: "poll_rounds L deadline probe s = a # as"
    using assms by (cases "poll_rounds L deadline probe s") simp_all
  have "\<forall>t \<in> set (butlast (a # as)). fst (timed_call L probe t) = None"
    using p unfolding poll_result rounds list.case by (rule conjunct1)
  with assms show ?thesis by (simp add: rounds split: if_splits)
qed

text \<open>A wait ends well if the first event that is not a GitSync in another phase is a running GitSync.\<close>

fun shows_running :: "'m watch_event \<times> 'b \<Rightarrow> bool" where
  "shows_running (EventGitSync i, u) = (Phase (gsv_Status i) = GitSyncPhaseRunning)"
| "shows_running (EventOther, u) = False"

definition still_waiting :: "'m watch_event \<times> 'b \<Rightarrow> bool" where
  "still_waiting ev \<longleftrightarrow> fst ev \<noteq> EventOther \<and> \<not> shows_running ev"

lemma await_running_iff:
  "fst (await_running L start timeout events w_end) = None \<longleftrightarrow>
    (\<exists>ev post. dropWhile still_waiting events = ev # post \<and> shows_running ev)"
  by (induction L start timeout events w_end rule: await_running.induct) (simp_all add: still_waiting_def)

lemma entries_as_expected_iff:
  "entries_as_expected L key value entries \<longleftrightarrow>
    (\<forall>(k, v) \<in> set entries. yaml_text L k = Some key \<longrightarrow> DeepEqual L v value)"
  by (induction L key "value" entries rule: entries_as_expected.induct) auto

section \<open>A small cluster\<close>

text \<open>
  For the witnesses: there is one GitSync, \<open>my-app\<close>, and one resource, which has
  the field \<open>spec\<close> with three replicas. The state is the commit the GitSync is synced to, if any; during
  a pause the controller synchronises \<open>c2\<close>.
\<close>

datatype small_yaml = YText string | YNumber int | YMap "(small_yaml \<times> small_yaml) list"

definition e2e_with :: "('w \<Rightarrow> 'w) \<Rightarrow> (string, unit, unit, small_yaml, 'w) e2e_libs" where
  "e2e_with meanwhile =
     \<lparr>took = (\<lambda>w w'. 5), elapse = (\<lambda>d w. (1, meanwhile w)), dur_String = (\<lambda>d. ''1m0s''),
      meta_Name = (\<lambda>m. m), meta_Labels = (\<lambda>m. None), meta_SetLabels = (\<lambda>l m. m),
      meta_ResourceVersion = (\<lambda>m. ''1''), meta_SetResourceVersion = (\<lambda>v m. m), no_options = (),
      watch_run = (\<lambda>x d w. ([], w)), watch_Stop = (\<lambda>x w. w),
      rest_Do = (\<lambda>v p b w. (None, w)), rest_DoRaw = (\<lambda>p w. (Inr ''the deployment'', w)),
      yaml_object = (\<lambda>b. Inr [''spec'' \<mapsto> YMap [(YText ''replicas'', YNumber 3)]]),
      yaml_map = (\<lambda>y. case y of YMap m \<Rightarrow> Some m | _ \<Rightarrow> None),
      yaml_text = (\<lambda>y. case y of YText t \<Rightarrow> Some t | _ \<Rightarrow> None), DeepEqual = (=),
      ConfigMap_Get = (\<lambda>ns n w. (Inr (Some Map.empty), w)), ConfigMap_Update = (\<lambda>ns n d w. (None, w)),
      file_CreateTemp = (\<lambda>w. (Inr ''/tmp/numaplane-e2e'', w)), file_Write = (\<lambda>f t w. (None, w)),
      file_Close = (\<lambda>f w. (None, w)), file_Read = (\<lambda>f w. Inr f), yaml_GitSync = (\<lambda>t. Inl (ErrorString t))\<rparr>"

lemma e2e_with_simps [simp]:
  "took (e2e_with f) w w' = 5" "elapse (e2e_with f) d w = (1, f w)" "meta_Name (e2e_with f) name = name"
  "rest_Do (e2e_with f) v p b w = (None, w)" "rest_DoRaw (e2e_with f) p w = (Inr ''the deployment'', w)"
  "yaml_object (e2e_with f) b = Inr [''spec'' \<mapsto> YMap [(YText ''replicas'', YNumber 3)]]"
  "yaml_map (e2e_with f) (YMap m) = Some m" "yaml_text (e2e_with f) (YText t) = Some t"
  by (simp_all add: e2e_with_def)

abbreviation small_e2e :: "(string, unit, unit, small_yaml, string option) e2e_libs" where
  "small_e2e \<equiv> e2e_with (\<lambda>w. Some ''c2'')"

definition synced_gitsync :: "string option \<Rightarrow> string GitSync_value" where
  "synced_gitsync commit =
     \<lparr>gsv_TypeMeta = \<lparr>tm_Kind = ''GitSync'', tm_APIVersion = ''numaplane.numaproj.io/v1alpha1''\<rparr>,
      gsv_ObjectMeta = ''my-app'', gsv_Spec = gs_Spec (small_gitsync ''main'' None),
      gsv_Status = empty_status\<lparr>status_CommitStatus :=
        map_option (\<lambda>c. \<lparr>cs_Hash = c, cs_Synced = True, cs_SyncTime = 0, cs_Error = []\<rparr>) commit\<rparr>\<rparr>"

definition small_api :: "(string, unit, unit, unit, string option) GitSyncInterface" where
  "small_api =
     \<lparr>gi_Create = (\<lambda>g o' w. (Some (Some g, None), w)), gi_Update = (\<lambda>g o' w. (Some (Some g, None), w)),
      gi_UpdateStatus = (\<lambda>g o' w. (Some (Some g, None), w)), gi_Delete = (\<lambda>n o' w. (Some ((), None), w)),
      gi_DeleteCollection = (\<lambda>o' l w. (Some ((), None), w)),
      gi_Get = (\<lambda>n o' w. (Some (Some (synced_gitsync w), None), w)),
      gi_List = (\<lambda>l w. (Some (None, None), w)), gi_Watch = (\<lambda>l w. (Some (Some (), None), w)),
      gi_Patch = (\<lambda>n t d o' ss w. (Some (None, None), w))\<rparr>"

definition small_expect :: "string Expect" where
  "small_expect = \<lparr>e_gitSync = Some (synced_gitsync None), e_currentCommit = ''c2''\<rparr>"

section \<open>Properties\<close>

text \<open>
  C34. The verdict on a commit. \<open>CheckCommitStatus\<close> always ends, after at most thirty questions. It passes
  exactly when the answer to its last question is a GitSync whose commit status is synced and has
  the hash of the last commit; to each question before it the answer was a GitSync that was not.
\<close>

theorem CheckCommitStatus_verdict:
  assumes "e_gitSync e = Some gs"
  shows "let rounds = poll_rounds L (clock s + defaultTimeout) (commit_probe L I e (gitSync_name L gs)) s;
             answered = (\<lambda>t g. \<exists>w'. gi_Get I (gitSync_name L gs) (no_options L) (outside t) = (Some (Some g, None), w'))
         in 1 \<le> length rounds \<and> length rounds \<le> 30 \<and>
            (fst (CheckCommitStatus L I e s) = Ok e' \<longleftrightarrow>
               e' = e \<and> (\<exists>g. answered (last rounds) g \<and> synced_to (e_currentCommit e) g)) \<and>
            (\<forall>t \<in> set (butlast rounds). \<exists>g. answered t g \<and> \<not> synced_to (e_currentCommit e) g)"
proof -
  let ?p = "commit_probe L I e (gitSync_name L gs)"
  let ?d = "clock s + defaultTimeout"
  have now: "clock s < ?d" by (simp add: defaultTimeout_def second_def)
  have "fst (CheckCommitStatus L I e s) = Ok e' \<longleftrightarrow> fst (poll L ?d ?p s) = Some (Ok e')"
    by (auto simp: CheckCommitStatus_def assms deref_def split: prod.splits option.splits)
  also have "\<dots> \<longleftrightarrow> e' = e \<and> (\<exists>g w'. gi_Get I (gitSync_name L gs) (no_options L) (outside (last (poll_rounds L ?d ?p s))) =
      (Some (Some g, None), w') \<and> synced_to (e_currentCommit e) g)"
    unfolding poll_Some_iff [OF now] commit_probe_Ok ..
  finally have verdict: "fst (CheckCommitStatus L I e s) = Ok e' \<longleftrightarrow> e' = e \<and>
      (\<exists>g w'. gi_Get I (gitSync_name L gs) (no_options L) (outside (last (poll_rounds L ?d ?p s))) =
        (Some (Some g, None), w') \<and> synced_to (e_currentCommit e) g)" .
  have earlier: "\<exists>g w'. gi_Get I (gitSync_name L gs) (no_options L) (outside t) = (Some (Some g, None), w') \<and>
      \<not> synced_to (e_currentCommit e) g" if "t \<in> set (butlast (poll_rounds L ?d ?p s))" for t
    using poll_earlier [OF that] unfolding commit_probe_None .
  have "1 \<le> length (poll_rounds L ?d ?p s)"
    using poll_rounds_started [OF now, of L ?p] by (cases "poll_rounds L ?d ?p s") simp_all
  with verdict earlier show ?thesis
    using poll_rounds_at_most_30 [of L s ?p] unfolding Let_def by blast
qed

lemma small_check:
  "poll_rounds small_e2e (clock s + defaultTimeout) (commit_probe small_e2e small_api small_expect ''my-app'') s =
     [s, \<lparr>clock = 2000000006 + clock s, outside = Some ''c2''\<rparr>]" if "outside s = None"
proof -
  have c: "commit_probe small_e2e small_api small_expect ''my-app'' w =
      (if w = Some ''c2'' then Some (Ok small_expect) else None, w)" for w
    by (cases w) (simp_all add: commit_probe_def answer_def small_api_def synced_to_def synced_gitsync_def small_expect_def)
  show ?thesis
    by (simp add: poll_rounds.simps [of _ _ _ s] poll_rounds.simps [of _ _ _ "\<lparr>clock = 2000000006 + clock s, outside = Some ''c2''\<rparr>"]
        timed_call_def c that Sleep_def defaultTimeout_def second_def)
qed

theorem CheckCommitStatus_verdict_witness:
  "fst (CheckCommitStatus small_e2e small_api small_expect \<lparr>clock = 0, outside = None\<rparr>) = Ok small_expect \<and>
   \<not> synced_to ''c2'' (synced_gitsync None)"
proof -
  let ?s = "\<lparr>clock = 0, outside = None\<rparr> :: string option timed"
  have "e_gitSync small_expect = Some (synced_gitsync None)" by (simp add: small_expect_def)
  note v = CheckCommitStatus_verdict [OF this, of small_e2e ?s small_api small_expect]
  have name: "gitSync_name small_e2e (synced_gitsync None) = ''my-app''"
    by (simp add: gitSync_name_def synced_gitsync_def)
  have rounds: "poll_rounds small_e2e (0 + defaultTimeout) (commit_probe small_e2e small_api small_expect ''my-app'') ?s =
      [?s, \<lparr>clock = 2000000006 + 0, outside = Some ''c2''\<rparr>]"
    using small_check [of ?s] by simp
  show ?thesis
    using v unfolding name Let_def timed.simps rounds
    by (simp add: small_api_def small_expect_def synced_to_def synced_gitsync_def)
qed

text \<open>
  C33. What \<open>VerifyResourceState\<close> verifies. It passes exactly when the resource appears in time, can be read
  and decoded, the field is a map, and each entry of it with the given key has the given value:
  if there is no such entry, any value is as expected.
\<close>

theorem VerifyResourceState_iff:
  "fst (VerifyResourceState L apiVersion resourceType resource field key v e s) = Ok e' \<longleftrightarrow>
    e' = e \<and> (\<exists>s1 body s2 obj y entries.
      doesExist L apiVersion resourceType resource s = (True, s1) \<and>
      timed_call L (rest_DoRaw L (resource_at apiVersion resourceType resource)) s1 = (Inr body, s2) \<and>
      yaml_object L body = Inr obj \<and> obj field = Some y \<and> yaml_map L y = Some entries \<and>
      (\<forall>(k, x) \<in> set entries. yaml_text L k = Some key \<longrightarrow> DeepEqual L x v))"
  unfolding entries_as_expected_iff [symmetric]
  by (auto simp: VerifyResourceState_def Let_def split: prod.splits bool.splits sum.splits option.splits bind_split_asm)

theorem VerifyResourceState_iff_witness:
  "fst (VerifyResourceState small_e2e ''apps/v1'' ''deployments'' ''test-deploy'' ''spec'' ''edge'' (YNumber 4)
     small_expect \<lparr>clock = 0, outside = None\<rparr>) = Ok small_expect"
proof -
  let ?s = "\<lparr>clock = 0, outside = None\<rparr> :: string option timed"
  have "doesExist small_e2e ''apps/v1'' ''deployments'' ''test-deploy'' ?s = (True, \<lparr>clock = 5, outside = None\<rparr>)"
    by (simp add: doesExist_def getResource_def poll.simps [of _ _ _ ?s] timed_call_def defaultTimeout_def second_def)
  then show ?thesis
    unfolding VerifyResourceState_iff by (simp add: timed_call_def)
qed
end
