(* ===== verification/LogCalls.thy ===== *)
theory LogCalls
  imports Logger
begin

text \<open>
  The methods of the logger down to the event, with the call depths they add, so that the caller named in
  a log line can be stated; and how that caller is written (\<open>internal/util/logger/logger.go\<close>, with
  the part of \<open>path/filepath\<close> it uses, for Unix).
\<close>

section \<open>Errors and formatted messages\<close>

text \<open>
  \<open>nl.LogrLogger.WithCallDepth(1).Error\<close>: the call goes through a copy of the sink. The result of each method is
  the event, if zerolog started one, beside the state.
\<close>

definition NumaLogger_Error ::
  "(int \<Rightarrow> string \<Rightarrow> int option) \<Rightarrow> string \<Rightarrow> string \<Rightarrow> log_fields \<Rightarrow> NumaLogger \<Rightarrow> log_state \<Rightarrow>
   log_event option \<times> log_state" where
  "NumaLogger_Error zlErr err msg keysAndValues nl s =
     (case derive (LogSink_WithCallDepth 1) nl s of
        (nl', s') \<Rightarrow> (LogSink_Error zlErr err msg keysAndValues (sinks s' (nl_sink nl')), s'))"

text \<open>
  The variants with a format; \<open>text\<close> is what \<open>fmt.Sprintf\<close> makes of the format and its arguments.
\<close>

definition NumaLogger_Errorf ::
  "(int \<Rightarrow> string \<Rightarrow> int option) \<Rightarrow> string \<Rightarrow> string \<Rightarrow> NumaLogger \<Rightarrow> log_state \<Rightarrow> log_event option \<times> log_state" where
  "NumaLogger_Errorf zlErr err text nl s =
     (case NumaLogger_WithCallDepth 1 nl s of (nl', s') \<Rightarrow> NumaLogger_Error zlErr err text [] nl' s')"

definition NumaLogger_logf ::
  "(int \<Rightarrow> int \<Rightarrow> int option) \<Rightarrow> severity \<Rightarrow> string \<Rightarrow> NumaLogger \<Rightarrow> log_state \<Rightarrow> log_event option \<times> log_state" where
  "NumaLogger_logf WithLevel sev text nl s =
     (case NumaLogger_WithCallDepth 1 nl s of (nl', s') \<Rightarrow> (NumaLogger_log WithLevel sev text [] nl' s', s'))"

definition NumaLogger_Fatalf ::
  "(int \<Rightarrow> int \<Rightarrow> int option) \<Rightarrow> string \<Rightarrow> string \<Rightarrow> NumaLogger \<Rightarrow> log_state \<Rightarrow> (log_event option \<times> int) \<times> log_state" where
  "NumaLogger_Fatalf WithLevel err text nl s =
     (case NumaLogger_WithCallDepth 1 nl s of (nl', s') \<Rightarrow> (NumaLogger_Fatal WithLevel err text [] nl' s', s'))"

section \<open>The functions between the caller and zerolog\<close>

text \<open>
  The methods a program calls, and the functions on the stack from the method to \<open>LogSink.log\<close>, which hands the
  event to zerolog, the method first.
\<close>

datatype log_method = Plain severity | Formatted severity | ErrorPlain | ErrorFormatted

datatype frame = MethodFrame log_method | LogrErrorFrame | SinkInfoFrame | SinkErrorFrame | SinkLogFrame

primrec call_path :: "log_method \<Rightarrow> frame list" where
  "call_path (Plain sev) = [MethodFrame (Plain sev), SinkInfoFrame, SinkLogFrame]"
| "call_path (Formatted sev) = [MethodFrame (Formatted sev), MethodFrame (Plain sev), SinkInfoFrame, SinkLogFrame]"
| "call_path ErrorPlain = [MethodFrame ErrorPlain, LogrErrorFrame, SinkErrorFrame, SinkLogFrame]"
| "call_path ErrorFormatted =
     [MethodFrame ErrorFormatted, MethodFrame ErrorPlain, LogrErrorFrame, SinkErrorFrame, SinkLogFrame]"

text \<open>
  The event of a call; \<open>WithLevel\<close> and \<open>zlErr\<close> are zerolog's. \<open>Fatal\<close> adds the error to the fields.
\<close>

definition emit ::
  "(int \<Rightarrow> int \<Rightarrow> int option) \<Rightarrow> (int \<Rightarrow> string \<Rightarrow> int option) \<Rightarrow> log_method \<Rightarrow> string \<Rightarrow> string \<Rightarrow> log_fields \<Rightarrow>
   NumaLogger \<Rightarrow> log_state \<Rightarrow> log_event option" where
  "emit WithLevel zlErr m err msg keysAndValues nl s =
     (case m of
        Plain sev \<Rightarrow>
          (if sev = Fatal then fst (NumaLogger_Fatal WithLevel err msg keysAndValues nl s)
           else NumaLogger_log WithLevel sev msg keysAndValues nl s)
      | Formatted sev \<Rightarrow>
          (if sev = Fatal then fst (fst (NumaLogger_Fatalf WithLevel err msg nl s))
           else fst (NumaLogger_logf WithLevel sev msg nl s))
      | ErrorPlain \<Rightarrow> fst (NumaLogger_Error zlErr err msg keysAndValues nl s)
      | ErrorFormatted \<Rightarrow> fst (NumaLogger_Errorf zlErr err msg nl s))"

text \<open>What a program does to a logger before it logs.\<close>

datatype derivation = Named string | Valued log_fields | Deeper int | Levelled int

primrec derive_by :: "derivation \<Rightarrow> NumaLogger \<times> log_state \<Rightarrow> NumaLogger \<times> log_state" where
  "derive_by (Named n) p = NumaLogger_WithName n (fst p) (snd p)"
| "derive_by (Valued kvs) p = NumaLogger_WithValues kvs (fst p) (snd p)"
| "derive_by (Deeper d) p = NumaLogger_WithCallDepth d (fst p) (snd p)"
| "derive_by (Levelled l) p = SetLevel l (fst p) (snd p)"

primrec extra_depth :: "derivation \<Rightarrow> int" where
  "extra_depth (Named n) = 0"
| "extra_depth (Valued kvs) = 0"
| "extra_depth (Deeper d) = d"
| "extra_depth (Levelled l) = 0"

section \<open>Lemmas on depths\<close>

definition depth_of :: "NumaLogger \<times> log_state \<Rightarrow> int" where
  "depth_of p = sink_depth (sinks (snd p) (nl_sink (fst p)))"

lemmas derive_defs = derive_def alloc_sink_def NumaLogger_WithName_def NumaLogger_WithValues_def
  NumaLogger_WithCallDepth_def LogSink_WithName_def LogSink_WithValues_def LogSink_WithCallDepth_def

lemma depth_derive [simp]: "depth_of (derive_by d p) = depth_of p + extra_depth d"
  by (cases d) (auto simp: depth_of_def derive_defs SetLevel_def)

lemma depth_derivations: "depth_of (fold derive_by ds p) = depth_of p + (\<Sum>d\<leftarrow>ds. extra_depth d)"
  by (induction ds arbitrary: p) simp_all

lemma depth_New: "depth_of (New cfg s) = 3"
  by (simp add: depth_of_def New_def newNumaLogger_def derive_defs Let_def LogSink_Init_def split: prod.split)

lemma skip_log: "LogSink_log e msg kvs ls = Some ev \<Longrightarrow> ev_skip ev = sink_depth ls"
  by (auto simp: LogSink_log_def split: option.splits)

lemma skip_emit:
  assumes "emit WithLevel zlErr m err msg kvs nl s = Some ev"
  shows "ev_skip ev = depth_of (nl, s) + int (length (call_path m)) - 3"
  using assms
  by (cases m)
     (auto simp: emit_def NumaLogger_Fatal_def NumaLogger_Fatalf_def NumaLogger_logf_def NumaLogger_log_def
       NumaLogger_Error_def NumaLogger_Errorf_def LogSink_Info_def LogSink_Error_def depth_of_def derive_defs
       dest!: skip_log split: if_splits)

section \<open>How the caller is written\<close>

text \<open>
  \<open>filepath.Clean\<close>: empty elements and \<open>.\<close> are dropped, \<open>..\<close> takes back the element before it, if there
  is one that is not \<open>..\<close> itself, and is dropped at the root.
\<close>

fun clean_elem :: "bool \<Rightarrow> string list \<Rightarrow> string \<Rightarrow> string list" where
  "clean_elem rooted out e =
     (if e = [] \<or> e = ''.'' then out
      else if e = ''..'' then
        (if out \<noteq> [] \<and> last out \<noteq> ''..'' then butlast out else if rooted then out else out @ [e])
      else out @ [e])"

definition Clean :: "string \<Rightarrow> string" where
  "Clean path =
     (let rooted = HasPrefix path ''/'';
          out = foldl (clean_elem rooted) [] (Split path (CHR ''/''))
      in if rooted then ''/'' @ Join out ''/'' else if out = [] then ''.'' else Join out ''/'')"

text \<open>\<open>filepath.Dir\<close> cleans what is before the last separator, with it; \<open>filepath.Base\<close> is the last element.\<close>

definition Dir :: "string \<Rightarrow> string" where
  "Dir path = Clean (rev (dropWhile (\<lambda>c. c \<noteq> CHR ''/'') (rev path)))"

definition Base :: "string \<Rightarrow> string" where
  "Base path =
     (if path = [] then ''.''
      else let p = TrimRight path (CHR ''/'') in if p = [] then ''/'' else last (Split p (CHR ''/'')))"

text \<open>\<open>%d\<close> of a line number.\<close>

fun decimal :: "nat \<Rightarrow> string" where
  "decimal n = (if n < 10 then [char_of (48 + n)] else decimal (n div 10) @ [char_of (48 + n mod 10)])"

declare decimal.simps [simp del]

definition zerologCallerMarshalFunc :: "string \<Rightarrow> nat \<Rightarrow> string" where
  "zerologCallerMarshalFunc file line = Base (Dir file) @ ''/'' @ Base file @ '':'' @ decimal line"

text \<open>An ordinary element of a path.\<close>

definition plain_elem :: "string \<Rightarrow> bool" where
  "plain_elem e \<longleftrightarrow> e \<noteq> [] \<and> e \<noteq> ''.'' \<and> e \<noteq> ''..'' \<and> CHR ''/'' \<notin> set e"

lemma clean_plain: "plain_elem e \<Longrightarrow> clean_elem r out e = out @ [e]"
  by (simp add: plain_elem_def)

lemma Join_snoc: "Join (xs @ [p]) sep = (if xs = [] then p else Join xs sep @ sep @ p)"
  by (induction xs rule: induct_list012) simp_all

lemma TrimRight_plain: "plain_elem e \<Longrightarrow> TrimRight (x @ e) (CHR ''/'') = x @ e"
  by (cases e rule: rev_cases) (auto simp: plain_elem_def TrimRight_def)

lemma Base_last: "plain_elem e \<Longrightarrow> Base (x @ CHR ''/'' # e) = e" "plain_elem e \<Longrightarrow> Base e = e"
proof -
  assume e: "plain_elem e"
  have "TrimRight (x @ CHR ''/'' # e) (CHR ''/'') = x @ CHR ''/'' # e"
    using TrimRight_plain [OF e, of "x @ [CHR ''/'']"] by simp
  then show "Base (x @ CHR ''/'' # e) = e"
    using e by (simp add: Base_def Split_append_sep Split_no_sep plain_elem_def)
  show "Base e = e"
    using e TrimRight_plain [OF e, of "[]"] by (simp add: Base_def Split_no_sep plain_elem_def)
qed

lemma Dir_of_file:
  assumes "CHR ''/'' \<notin> set name"
  shows "Dir (d @ CHR ''/'' # name) = Clean (d @ ''/'')"
proof -
  have "dropWhile (\<lambda>c. c \<noteq> CHR ''/'') (rev name @ CHR ''/'' # rev d) = CHR ''/'' # rev d"
    using assms by (simp add: dropWhile_append)
  then show ?thesis
    by (simp add: Dir_def)
qed

lemma Base_of_Dir:
  assumes "plain_elem pkg" and "CHR ''/'' \<notin> set name"
  shows "Base (Dir (d @ CHR ''/'' # pkg @ CHR ''/'' # name)) = pkg"
proof -
  let ?dir = "d @ CHR ''/'' # pkg @ ''/''"
  have "Dir (d @ CHR ''/'' # pkg @ CHR ''/'' # name) = Clean ?dir"
    using Dir_of_file [OF assms(2), of "d @ CHR ''/'' # pkg"] by simp
  moreover have "foldl (clean_elem r) [] (Split ?dir (CHR ''/'')) = foldl (clean_elem r) [] (Split d (CHR ''/'')) @ [pkg]" for r
  proof -
    have "Split (pkg @ ''/'') (CHR ''/'') = [pkg, []]"
      using assms(1) by (simp add: Split_append_sep Split_no_sep plain_elem_def)
    then show ?thesis
      using clean_plain [OF assms(1)] by (simp add: Split_append_sep)
  qed
  ultimately show ?thesis
    using Base_last [OF assms(1)] Base_last(1) [OF assms(1), of "[]"] Base_last(1) [OF assms(1), of "c # x" for c x]
    by (simp add: Clean_def Let_def Join_snoc)
qed

section \<open>Properties\<close>

text \<open>
  A log line names its caller. Whatever was derived from a new logger, by names, values and levels, and
  whichever method is called, also with a format, the number of frames zerolog is told to skip is that of the
  functions of this package and of logr on the way to it, so that the frame it reports is the
  caller of the method; a depth added with \<open>WithCallDepth\<close> comes on top.
\<close>

theorem reported_caller:
  "case emit WithLevel zlErr m err msg kvs (fst (fold derive_by ds (New cfg s))) (snd (fold derive_by ds (New cfg s))) of
     None \<Rightarrow> True
   | Some ev \<Rightarrow> ev_skip ev = int (length (call_path m)) + (\<Sum>d\<leftarrow>ds. extra_depth d)"
  using skip_emit [of WithLevel zlErr m err msg kvs "fst (fold derive_by ds (New cfg s))" "snd (fold derive_by ds (New cfg s))"]
    depth_derivations [of ds "New cfg s"] depth_New [of cfg s]
  by (simp split: option.split)

text \<open>
  The caller is written as the last directory and the name of its file, with the line, however deep the file
  lies.
\<close>

theorem caller_text:
  assumes "plain_elem pkg" and "plain_elem name"
  shows "zerologCallerMarshalFunc (d @ ''/'' @ pkg @ ''/'' @ name) line = pkg @ ''/'' @ name @ '':'' @ decimal line"
  using Base_of_Dir [OF assms(1), of name d] Base_last(1) [OF assms(2), of "d @ ''/'' @ pkg"] assms(2)
  by (simp add: zerologCallerMarshalFunc_def plain_elem_def)

end
