(* ===== verification/FixturesGit.thy ===== *)
theory FixturesGit
  imports Fixtures LogCalls
begin

text \<open>
  The git part of the test fixtures (\<^verbatim>\<open>tests/fixtures\<close>: \<open>given.go\<close>, \<open>when.go\<close>, \<open>util.go\<close> and
  \<open>ResetRepo\<close> of \<open>e2e_suite.go\<close>): how a test clones the repository of its GitSync, commits and pushes
  to it, and cleans it up. go-git, the file system and the copying of files are parameters; the
  worktree of a repository is the repository. The conventions are those of \<open>Fixtures\<close>.
\<close>

record ('m, 'o, 'x, 'y, 'w, 'r) git_e2e_libs = "('m, 'o, 'x, 'y, 'w) e2e_libs" +
  local_Clone :: "string \<Rightarrow> string \<Rightarrow> bool \<Rightarrow> 'w \<Rightarrow> ('r option \<times> go_error option) \<times> 'w"
  local_Open :: "string \<Rightarrow> 'w \<Rightarrow> go_error + 'r"
  local_Worktree :: "'r \<Rightarrow> 'w \<Rightarrow> go_error option"
  wt_Pull :: "'r \<Rightarrow> string \<Rightarrow> 'w \<Rightarrow> go_error option \<times> 'w"
  wt_Checkout :: "'r \<Rightarrow> string \<Rightarrow> bool \<Rightarrow> 'w \<Rightarrow> go_error option \<times> 'w"
  wt_Add :: "'r \<Rightarrow> string \<Rightarrow> 'w \<Rightarrow> go_error option \<times> 'w"
  wt_Remove :: "'r \<Rightarrow> string \<Rightarrow> 'w \<Rightarrow> go_error option \<times> 'w"
  wt_Commit :: "'r \<Rightarrow> string \<Rightarrow> 'w \<Rightarrow> (go_error + string) \<times> 'w"
  repo_Push :: "'r \<Rightarrow> bool \<Rightarrow> bool \<Rightarrow> 'w \<Rightarrow> go_error option \<times> 'w"
  cp_Copy :: "string \<Rightarrow> string \<Rightarrow> 'w \<Rightarrow> go_error option \<times> 'w"
  os_Mkdir :: "string \<Rightarrow> 'w \<Rightarrow> go_error option \<times> 'w"
  os_ReadDir :: "string \<Rightarrow> 'w \<Rightarrow> go_error + (string \<times> bool) list"

section \<open>Paths and URLs\<close>

text \<open>\<open>filepath.Join\<close>: leading empty elements are ignored, the rest is joined and cleaned.\<close>

definition path_Join :: "string list \<Rightarrow> string" where
  "path_Join elems =
     (case dropWhile (\<lambda>e. e = []) elems of [] \<Rightarrow> [] | es \<Rightarrow> Clean (Join es ''/''))"

definition TrimRepoUrl :: "string \<Rightarrow> string" where
  "TrimRepoUrl repoUrl =
     (if Contains_str repoUrl ''public-git''
      then TrimPrefix repoUrl ''http://localgitserver-service.numaplane-system.svc.cluster.local/public-git/''
      else TrimPrefix repoUrl ''http://localgitserver-service.numaplane-system.svc.cluster.local/git/'')"

definition localPath :: string where "localPath = ''./local''"
definition localGitUrl :: "string \<Rightarrow> string" where "localGitUrl r = ''http://localhost:8080/git/'' @ r"
definition localPublicGitUrl :: "string \<Rightarrow> string" where "localPublicGitUrl r = ''http://localhost:8080/public-git/'' @ r"

definition branch_name :: "string \<Rightarrow> string" where
  "branch_name b = ''refs/heads/'' @ b"

section \<open>\<open>given.go\<close>\<close>

text \<open>The pair of the repository and the error.\<close>

definition fixture_cloneRepo ::
  "('m, 'o, 'x, 'y, 'w, 'r, 'z) git_e2e_libs_scheme \<Rightarrow> string \<Rightarrow> 'w \<Rightarrow> ('r option \<times> go_error option) \<times> 'w" where
  "fixture_cloneRepo L repoUrl w =
     (let repoNum = TrimRepoUrl repoUrl;
          public = Contains_str repoUrl ''public-git'';
          url = (if public then localPublicGitUrl repoNum else localGitUrl repoNum);
          localPathToRepo = path_Join [localPath, repoNum]
      in case local_Clone L localPathToRepo url (\<not> public) w of
           ((repo, Some err), w1) \<Rightarrow>
             (if error_is RepositoryAlreadyExists err
              then (case local_Open L localPathToRepo w1 of
                      Inl openErr \<Rightarrow> ((repo, Some (ErrorString (''failed to open existing repo: '' @ Error openErr))), w1)
                    | Inr existingRepo \<Rightarrow> ((Some existingRepo, None), w1))
              else ((repo, None), w1))
         | ((repo, None), w1) \<Rightarrow> ((repo, None), w1))"

text \<open>Copying the files of a directory one after another.\<close>

fun copy_entries ::
  "('m, 'o, 'x, 'y, 'w, 'r, 'z) git_e2e_libs_scheme \<Rightarrow> string \<Rightarrow> string \<Rightarrow> (string \<times> bool) list \<Rightarrow> 'w \<Rightarrow> ('w, unit) result" where
  "copy_entries L dataPath tmpPath [] w = (Ok (), w)"
| "copy_entries L dataPath tmpPath ((name, is_dir) # entries) w =
     bindR (fatal_on (cp_Copy L (path_Join [dataPath, name]) (path_Join [tmpPath, name]) w)) (\<lambda>_ w1.
       copy_entries L dataPath tmpPath entries w1)"

text \<open>An error of the pull is only logged, one of \<open>os.Mkdir\<close> ignored.\<close>

definition initialize_repo ::
  "('m, 'o, 'x, 'y, 'w, 'r, 'z) git_e2e_libs_scheme \<Rightarrow> string \<Rightarrow> GitSyncSpec \<Rightarrow> 'r \<Rightarrow> 'w \<Rightarrow> ('w, string) result" where
  "initialize_repo L directory spec repo w =
     bindR (fatal_on (local_Worktree L repo w, w)) (\<lambda>_ w1.
       (let w2 = snd (wt_Pull L repo (branch_name ''master'') w1);
            tmpPath = path_Join [localPath, TrimRepoUrl (RepoUrl spec), Path spec];
            dataPath = path_Join [''testdata'', directory]
        in bindR (if TargetRevision spec \<noteq> ''master''
                  then fatal_on (wt_Checkout L repo (branch_name (TargetRevision spec)) True w2)
                  else (Ok (), w2)) (\<lambda>_ w3.
           (let w4 = snd (os_Mkdir L tmpPath w3)
            in bindR (of_sum (os_ReadDir L dataPath w4), w4) (\<lambda>dir w5.
               bindR (copy_entries L dataPath tmpPath dir w5) (\<lambda>_ w6.
               bindR (fatal_on (wt_Add L repo (Path spec) w6)) (\<lambda>_ w7.
               bindR (fatal_sum (wt_Commit L repo ''Initial commit'' w7)) (\<lambda>hsh w8.
               bindR (fatal_on (repo_Push L repo True True w8)) (\<lambda>_ w9. (Ok hsh, w9))))))))))"

definition InitializeGitRepo ::
  "('m, 'o, 'x, 'y, 'w, 'r, 'z) git_e2e_libs_scheme \<Rightarrow> string \<Rightarrow> 'm Given \<Rightarrow> 'w timed \<Rightarrow> ('w timed, 'm Given) result" where
  "InitializeGitRepo L directory g s =
     bindR (deref (g_gitSync g) s) (\<lambda>gs s0.
       timed_call L (\<lambda>w.
         (case fixture_cloneRepo L (RepoUrl (gsv_Spec gs)) w of
            ((_, Some err), w1) \<Rightarrow> (Err err, w1)
          | ((repo, None), w1) \<Rightarrow>
              bindR (deref repo w1) (\<lambda>r w2.
              bindR (initialize_repo L directory (gsv_Spec gs) r w2) (\<lambda>hsh w3.
                (Ok (g\<lparr>g_currentCommit := hsh\<rparr>), w3))))) s0)"

definition change_branch ::
  "('m, 'o, 'x, 'y, 'w, 'r, 'z) git_e2e_libs_scheme \<Rightarrow> string \<Rightarrow> 'r \<Rightarrow> 'w \<Rightarrow> ('w, unit) result" where
  "change_branch L revision repo w =
     (case wt_Checkout L repo (branch_name revision) False w of
        (None, w1) \<Rightarrow> (Ok (), w1)
      | (Some err, w1) \<Rightarrow>
          (if Contains_str (Error err) ''reference not found''
           then fatal_on (wt_Checkout L repo (branch_name revision) True w1)
           else (Err err, w1)))"

definition ChangeBranch ::
  "('m, 'o, 'x, 'y, 'w, 'r, 'z) git_e2e_libs_scheme \<Rightarrow> 'm Given \<Rightarrow> 'w timed \<Rightarrow> ('w timed, 'm Given) result" where
  "ChangeBranch L g s =
     bindR (deref (g_gitSync g) s) (\<lambda>gs s0.
       timed_call L (\<lambda>w.
         bindR (of_sum (local_Open L (path_Join [localPath, TrimRepoUrl (RepoUrl (gsv_Spec gs))]) w), w) (\<lambda>repo w1.
         bindR (fatal_on (local_Worktree L repo w1, w1)) (\<lambda>_ w2.
         bindR (change_branch L (TargetRevision (gsv_Spec gs)) repo w2) (\<lambda>_ w3. (Ok g, w3))))) s0)"

section \<open>\<open>when.go\<close>\<close>

fun stage_files ::
  "('m, 'o, 'x, 'y, 'w, 'r, 'z) git_e2e_libs_scheme \<Rightarrow> string \<Rightarrow> string \<Rightarrow> string \<Rightarrow> bool \<Rightarrow> 'r \<Rightarrow> string list \<Rightarrow> 'w \<Rightarrow>
   ('w, unit) result" where
  "stage_files L dataPath tmpPath path remove_them repo [] w = (Ok (), w)"
| "stage_files L dataPath tmpPath path remove_them repo (fileName # fileNames) w =
     bindR (if remove_them then fatal_on (wt_Remove L repo (path_Join [path, fileName]) w)
            else bindR (fatal_on (cp_Copy L (path_Join [dataPath, fileName]) (path_Join [tmpPath, fileName]) w)) (\<lambda>_ w1.
                 fatal_on (wt_Add L repo path w1))) (\<lambda>_ w2.
       stage_files L dataPath tmpPath path remove_them repo fileNames w2)"

definition push_files ::
  "('m, 'o, 'x, 'y, 'w, 'r, 'z) git_e2e_libs_scheme \<Rightarrow> string \<Rightarrow> string list \<Rightarrow> bool \<Rightarrow> GitSyncSpec \<Rightarrow> 'w \<Rightarrow>
   ('w, string) result" where
  "push_files L directory fileNames remove_them spec w =
     (let localPathToRepo = path_Join [localPath, TrimRepoUrl (RepoUrl spec)];
          dataPath = path_Join [''testdata'', directory];
          tmpPath = path_Join [localPathToRepo, Path spec]
      in bindR (of_sum (local_Open L localPathToRepo w), w) (\<lambda>repo w1.
         bindR (fatal_on (local_Worktree L repo w1, w1)) (\<lambda>_ w2.
         bindR (stage_files L dataPath tmpPath (Path spec) remove_them repo fileNames w2) (\<lambda>_ w3.
         bindR (fatal_sum (wt_Commit L repo ''Committing to git server'' w3)) (\<lambda>hsh w4.
         bindR (fatal_on (repo_Push L repo (\<not> Contains_str (RepoUrl spec) ''public-git'') False w4)) (\<lambda>_ w5.
           (Ok hsh, w5)))))))"

definition PushToGitRepo ::
  "('m, 'o, 'x, 'y, 'w, 'r, 'z) git_e2e_libs_scheme \<Rightarrow> string \<Rightarrow> string list \<Rightarrow> bool \<Rightarrow> 'm When \<Rightarrow> 'w timed \<Rightarrow>
   ('w timed, 'm When) result" where
  "PushToGitRepo L directory fileNames remove_them w s =
     bindR (deref (w_gitSync w) s) (\<lambda>gs s0.
     bindR (timed_call L (push_files L directory fileNames remove_them (gsv_Spec gs)) s0) (\<lambda>hsh s1.
       (Ok (w\<lparr>w_currentCommit := hsh\<rparr>), s1)))"

section \<open>\<open>ResetRepo\<close>\<close>

text \<open>The error is the value; the first one ends the loops.\<close>

fun remove_dirs ::
  "('m, 'o, 'x, 'y, 'w, 'r, 'z) git_e2e_libs_scheme \<Rightarrow> 'r \<Rightarrow> (string \<times> bool) list \<Rightarrow> 'w \<Rightarrow> go_error option \<times> 'w" where
  "remove_dirs L repo [] w = (None, w)"
| "remove_dirs L repo ((name, is_dir) # pathes) w =
     (if is_dir
      then (case wt_Remove L repo name w of
              (Some err, w1) \<Rightarrow> (Some err, w1)
            | (None, w1) \<Rightarrow> remove_dirs L repo pathes w1)
      else remove_dirs L repo pathes w)"

definition reset_one ::
  "('m, 'o, 'x, 'y, 'w, 'r, 'z) git_e2e_libs_scheme \<Rightarrow> string \<Rightarrow> 'w \<Rightarrow> go_error option \<times> 'w" where
  "reset_one L repoPath w =
     (case local_Open L repoPath w of
        Inl err \<Rightarrow> (Some err, w)
      | Inr repo \<Rightarrow>
          (case local_Worktree L repo w of
             Some err \<Rightarrow> (Some err, w)
           | None \<Rightarrow>
               (case os_ReadDir L repoPath w of
                  Inl err \<Rightarrow> (Some err, w)
                | Inr pathes \<Rightarrow>
                    (case remove_dirs L repo pathes w of
                       (Some err, w1) \<Rightarrow> (Some err, w1)
                     | (None, w1) \<Rightarrow>
                         (case wt_Commit L repo ''Cleaning out repo'' w1 of
                            (Inl err, w2) \<Rightarrow> (Some err, w2)
                          | (Inr _, w2) \<Rightarrow> repo_Push L repo True False w2)))))"

fun reset_entries ::
  "('m, 'o, 'x, 'y, 'w, 'r, 'z) git_e2e_libs_scheme \<Rightarrow> (string \<times> bool) list \<Rightarrow> 'w \<Rightarrow> go_error option \<times> 'w" where
  "reset_entries L [] w = (None, w)"
| "reset_entries L ((name, is_dir) # entries) w =
     (if is_dir
      then (case reset_one L (path_Join [localPath, name]) w of
              (Some err, w1) \<Rightarrow> (Some err, w1)
            | (None, w1) \<Rightarrow> reset_entries L entries w1)
      else reset_entries L entries w)"

definition ResetRepo ::
  "('m, 'o, 'x, 'y, 'w, 'r, 'z) git_e2e_libs_scheme \<Rightarrow> 'w \<Rightarrow> go_error option \<times> 'w" where
  "ResetRepo L w =
     (case os_ReadDir L localPath w of
        Inl err \<Rightarrow> (Some err, w)
      | Inr entries \<Rightarrow> reset_entries L entries w)"

section \<open>Properties\<close>

text \<open>
  Most failures of a clone are hidden: \<open>cloneRepo\<close> returns an error only if there is a repository
  already and it cannot be opened; after any other failure it returns none, with whatever
  repository the library returned beside the error.
\<close>

theorem fixture_cloneRepo_errors:
  "snd (fst (fixture_cloneRepo L repoUrl w)) = Some e \<longleftrightarrow>
    (\<exists>repo err w1 openErr.
       local_Clone L (path_Join [localPath, TrimRepoUrl repoUrl])
         (if Contains_str repoUrl ''public-git'' then localPublicGitUrl (TrimRepoUrl repoUrl)
          else localGitUrl (TrimRepoUrl repoUrl)) (\<not> Contains_str repoUrl ''public-git'') w = ((repo, Some err), w1) \<and>
       error_is RepositoryAlreadyExists err \<and>
       local_Open L (path_Join [localPath, TrimRepoUrl repoUrl]) w1 = Inl openErr \<and>
       e = ErrorString (''failed to open existing repo: '' @ Error openErr))"
  by (auto simp: fixture_cloneRepo_def Let_def split: prod.splits option.splits sum.splits)

lemma timed_call_Ok:
  "timed_call L f s = (x, s1) \<longleftrightarrow>
    (\<exists>w. f (outside s) = (x, w) \<and> s1 = \<lparr>clock = clock s + took L (outside s) w, outside = w\<rparr>)"
  by (auto simp: timed_call_def split: prod.splits)

lemma fatal_on_Ok: "fatal_on r = (Ok u, w) \<longleftrightarrow> r = (None, w)"
  by (auto simp: fatal_on_def split: prod.splits option.splits)

lemma fatal_sum_Ok: "fatal_sum r = (Ok x, w) \<longleftrightarrow> r = (Inr x, w)"
  by (cases r) (auto simp: fatal_sum_def of_sum_Ok)

lemma deref_Ok: "deref p s = (Ok x, s1) \<longleftrightarrow> p = Some x \<and> s1 = s"
  by (auto simp: deref_def split: option.split)

text \<open>
  The commit an expectation is about. If \<open>PushToGitRepo\<close> returns, every file was copied and added, or
  removed, in order; then one commit was made of the worktree and pushed, with credentials exactly
  when the repository is not the public one; and an expectation made of the result is about the
  hash of that commit and the same GitSync.
\<close>

theorem pushed_commit_expected:
  assumes "PushToGitRepo L directory fileNames remove_them w s = (Ok w', s')"
  shows "\<exists>gs repo v1 v2.
    w_gitSync w = Some gs \<and>
    local_Open L (path_Join [localPath, TrimRepoUrl (RepoUrl (gsv_Spec gs))]) (outside s) = Inr repo \<and>
    stage_files L (path_Join [''testdata'', directory])
      (path_Join [path_Join [localPath, TrimRepoUrl (RepoUrl (gsv_Spec gs))], Path (gsv_Spec gs)])
      (Path (gsv_Spec gs)) remove_them repo fileNames (outside s) = (Ok (), v1) \<and>
    wt_Commit L repo ''Committing to git server'' v1 = (Inr (e_currentCommit (When_Expect w')), v2) \<and>
    repo_Push L repo (\<not> Contains_str (RepoUrl (gsv_Spec gs)) ''public-git'') False v2 = (None, outside s') \<and>
    e_gitSync (When_Expect w') = Some gs"
proof -
  obtain gs hsh s1 where gs: "w_gitSync w = Some gs" and w': "w' = w\<lparr>w_currentCommit := hsh\<rparr>"
      and p: "timed_call L (push_files L directory fileNames remove_them (gsv_Spec gs)) s = (Ok hsh, s')"
    using assms by (auto simp: PushToGitRepo_def bindR_eq_Ok deref_Ok)
  from p have "push_files L directory fileNames remove_them (gsv_Spec gs) (outside s) = (Ok hsh, outside s')"
    by (auto simp: timed_call_Ok)
  then show ?thesis
    unfolding push_files_def Let_def bindR_eq_Ok fatal_on_Ok fatal_sum_Ok of_sum_Ok prod.inject
    using gs w' by (auto simp: When_Expect_def)
qed
end
