(* ===== verification/EndToEnd.thy ===== *)
theory EndToEnd
  imports FixturesGit
begin

text \<open>
  An end-to-end test and the controller together: the state outside the test of \<open>Fixtures\<close> is the
  state of the syncer of \<open>SyncRun\<close>, with the API server and the git repository in it, and the controller's workers run
  while the test pauses.
\<close>

text \<open>The test's client reads the objects that the controller reads and writes.\<close>

definition reads_api ::
  "('v, 'k, 'key, 'u, 'r, 't, 'p, 'rec, 'd) sync_libs \<Rightarrow> string \<Rightarrow> (GitSync \<Rightarrow> 'm GitSync_value) \<Rightarrow>
   ('m, 'l, 'o, 'x, ('v, 'k) syncer) GitSyncInterface \<Rightarrow> bool" where
  "reads_api L ns view I \<longleftrightarrow>
     (\<forall>name opts s. gi_Get I name opts s =
        (Some (case Get_GitSync L ns name (ext s) of Inl e \<Rightarrow> (None, Some e) | Inr g \<Rightarrow> (Some (view g), None)), s)) \<and>
     (\<forall>g. gsv_Status (view g) = gs_Status g)"

text \<open>
  In this state the target revision of the GitSync \<open>g\<close> is at the commit, which is not the one in its
  status; cloning and reading the repository leaves the object alone, and the labelled
  manifests can be synchronised.
\<close>

definition commit_waiting ::
  "('v, 'k, 'key, 'u, 'r, 't, 'p, 'rec, 'd) sync_libs \<Rightarrow> GlobalConfig \<times> go_error option \<Rightarrow> int \<Rightarrow> GitSync \<Rightarrow> string \<Rightarrow>
   ('v, 'k) syncer \<Rightarrow> bool" where
  "commit_waiting L cfg lat g commit s \<longleftrightarrow>
     (\<forall>cs. status_CommitStatus (gs_Status g) = Some cs \<longrightarrow> cs_Hash cs \<noteq> commit) \<and>
     (\<forall>repo s1 h manifests s2.
        CloneRepo (repoL L) (clientL L) cfg (fst cfg) g s = (Ok repo, s1) \<longrightarrow>
        GetLatestManifests (repoL L) (clientL L) cfg lat repo g s1 = (Ok (h, manifests), s2) \<longrightarrow>
        h = commit \<and> Get_GitSync L (gs_Namespace g) (gs_Name g) (ext s2) = Inr g \<and>
        (\<forall>uns phase msg s3.
           applyLabelAndNamespace (unL L) manifests (gs_Name g) (dest_Namespace (spec_Destination (gs_Spec g))) = Inr uns \<longrightarrow>
           sync L cfg g uns s2 = (Ok (phase, msg), s3) \<longrightarrow> Successful (phaseL L) phase))"

lemma updateCommitStatus_found:
  "updateCommitStatus L now ns n h synced msg s = (Ok (), t) \<Longrightarrow> Get_GitSync L ns n (ext t) = Inr g' \<Longrightarrow>
   \<exists>g. Get_GitSync L ns n (ext s) = Inr g"
  by (cases "Get_GitSync L ns n (ext s)") (auto simp: updateCommitStatus_def Let_def split: if_splits)

lemma run_records_commit:
  assumes law: "status_store_law L" and key: "Split key (CHR ''/'') = [ns, n]"
    and get: "Get_GitSync L ns n (ext s) = Inr g" and "\<not> being_deleted g" and "\<not> AutomatedSyncDisabled (fst cfg)"
    and run: "runOnce L cfg now lat dur key s = (Ok (), s')" and final: "Get_GitSync L ns n (ext s') = Inr g'"
    and waiting: "commit_waiting L cfg lat g commit (s\<lparr>ss_base := RefreshBaseLoggerLevel cfg (ss_base s)\<rparr>)"
  shows "\<exists>cs. status_CommitStatus (gs_Status g') = Some cs \<and> cs_Hash cs = commit \<and> cs_Synced cs"
proof -
  let ?s = "s\<lparr>ss_base := RefreshBaseLoggerLevel cfg (ss_base s)\<rparr>"
  have names: "gs_Namespace g = ns" "gs_Name g = n" using status_store_names [OF law get] by simp_all
  obtain t where rev: "sync_revision L cfg now lat key n g ?s = (Ok (), t)" and "ext s' = ext t"
    using key get assms(4,5) run by (auto simp: runOnce_def deferred_def log_metric_def Let_def split: prod.splits)
  with final have final_t: "Get_GitSync L ns n (ext t) = Inr g'" by simp
  from rev assms(4) show ?thesis
  proof (rule sync_revision_Ok)
    fix repo s1 h manifests s2
    assume c: "CloneRepo (repoL L) (clientL L) cfg (fst cfg) g ?s = (Ok repo, s1)"
      and m: "GetLatestManifests (repoL L) (clientL L) cfg lat repo g s1 = (Ok (h, manifests), s2)"
      and rest: "(\<exists>cs. getCommitStatus L (gs_Namespace g) (gs_Name g) (ext s2) = Inr (Some cs) \<and>
        AutoHealDisabled (fst cfg) \<and> cs_Hash cs = h \<and> t = s2) \<or>
       (\<exists>uns phase msg s3.
        applyLabelAndNamespace (unL L) manifests n (dest_Namespace (spec_Destination (gs_Spec g))) = Inr uns \<and>
        sync L cfg g uns s2 = (Ok (phase, msg), s3) \<and>
        updateCommitStatus L now (gs_Namespace g) (gs_Name g) h (Successful (phaseL L) phase) msg
          (log_metric (MSync g phase) s3) = (Ok (), t))"
    from waiting c m have h: "h = commit" and kept: "Get_GitSync L ns n (ext s2) = Inr g"
      and well: "\<And>uns phase msg s3. applyLabelAndNamespace (unL L) manifests n (dest_Namespace (spec_Destination (gs_Spec g))) = Inr uns \<Longrightarrow>
        sync L cfg g uns s2 = (Ok (phase, msg), s3) \<Longrightarrow> Successful (phaseL L) phase"
      unfolding commit_waiting_def names by blast+
    have "\<not> (\<exists>cs. getCommitStatus L (gs_Namespace g) (gs_Name g) (ext s2) = Inr (Some cs) \<and> cs_Hash cs = h)"
      using waiting kept h unfolding commit_waiting_def names by (simp add: getCommitStatus_def)
    with rest obtain uns phase msg s3 where
      sy: "applyLabelAndNamespace (unL L) manifests n (dest_Namespace (spec_Destination (gs_Spec g))) = Inr uns"
        "sync L cfg g uns s2 = (Ok (phase, msg), s3)" and
      up: "updateCommitStatus L now ns n h (Successful (phaseL L) phase) msg (log_metric (MSync g phase) s3) = (Ok (), t)"
      unfolding names by blast
    from well [OF sy] have "Successful (phaseL L) phase" .
    obtain g1 where "Get_GitSync L ns n (ext (log_metric (MSync g phase) s3)) = Inr g1"
      using updateCommitStatus_found [OF up final_t] by blast
    from updateCommitStatus_stored [OF law this up] final_t h \<open>Successful (phaseL L) phase\<close>
    show ?thesis by auto
  qed
qed

text \<open>Once a question is answered with the commit, the check passes.\<close>

lemma poll_ends_with:
  assumes "t \<in> set (poll_rounds F deadline probe s)" and "fst (probe (outside t)) = Some x"
  shows "fst (poll F deadline probe s) = Some x"
proof -
  have "t \<notin> set (butlast (poll_rounds F deadline probe s))"
    using poll_earlier [of t F deadline probe s] assms(2) by auto
  with assms(1) have "t = last (poll_rounds F deadline probe s)"
    by (cases "poll_rounds F deadline probe s" rule: rev_cases) simp_all
  moreover have "clock s < deadline"
    using assms(1) by (subst (asm) poll_rounds.simps) (simp split: if_splits)
  ultimately show ?thesis using poll_Some_iff [of s deadline F probe x] assms(2) by simp
qed

text \<open>
  C10. A pushed commit is verified. A test expects its last commit, which the target revision of
  its GitSync is at and its status not yet. If, before one of the questions of \<open>CheckCommitStatus\<close>, a run of a
  worker on the key of the GitSync succeeds, and the manifests can be synchronised, then the check passes, also
  when automatic healing is disabled.
\<close>

theorem pushed_commit_verified:
  assumes "reads_api L ns view I" and "status_store_law L"
    and "e_gitSync e = Some gs" and "gitSync_name F gs = n" and "Split key (CHR ''/'') = [ns, n]"
    and "t \<in> set (poll_rounds F (clock s + defaultTimeout) (commit_probe F I e n) s)"
    and "runOnce L cfg now lat dur key s0 = (Ok (), outside t)"
    and "Get_GitSync L ns n (ext s0) = Inr g" and "\<not> being_deleted g" and "\<not> AutomatedSyncDisabled (fst cfg)"
    and "commit_waiting L cfg lat g (e_currentCommit e) (s0\<lparr>ss_base := RefreshBaseLoggerLevel cfg (ss_base s0)\<rparr>)"
    and "Get_GitSync L ns n (ext (outside t)) = Inr g'"
  shows "fst (CheckCommitStatus F I e s) = Ok e"
proof -
  obtain cs where cs: "status_CommitStatus (gs_Status g') = Some cs" "cs_Hash cs = e_currentCommit e" "cs_Synced cs"
    using run_records_commit [OF assms(2,5,8,9,10,7,12,11)] by blast
  then have "synced_to (e_currentCommit e) (view g')"
    using assms(1) by (simp add: synced_to_def reads_api_def)
  then have "fst (commit_probe F I e n (outside t)) = Some (Ok e)"
    using assms(1,12) by (simp add: commit_probe_def answer_def reads_api_def)
  from poll_ends_with [OF assms(6) this] show ?thesis
    by (auto simp: CheckCommitStatus_def assms(3,4) deref_def split: prod.splits)
qed

text \<open>For the witness: the controller runs during each pause.\<close>

definition one_run :: "(small_world, unit) syncer \<Rightarrow> (small_world, unit) syncer" where
  "one_run s = snd (runOnce well_libs no_heal 42 7 9 ''ns/my-app'' s)"

definition view_of :: "GitSync \<Rightarrow> string GitSync_value" where
  "view_of g = \<lparr>gsv_TypeMeta = \<lparr>tm_Kind = ''GitSync'', tm_APIVersion = ''numaplane.numaproj.io/v1alpha1''\<rparr>,
     gsv_ObjectMeta = gs_Name g, gsv_Spec = gs_Spec g, gsv_Status = gs_Status g\<rparr>"

definition live_api :: "(string, unit, unit, unit, (small_world, unit) syncer) GitSyncInterface" where
  "live_api =
     \<lparr>gi_Create = (\<lambda>g o' w. (Some (Some g, None), w)), gi_Update = (\<lambda>g o' w. (Some (Some g, None), w)),
      gi_UpdateStatus = (\<lambda>g o' w. (Some (Some g, None), w)), gi_Delete = (\<lambda>n o' w. (Some ((), None), w)),
      gi_DeleteCollection = (\<lambda>o' l w. (Some ((), None), w)),
      gi_Get = (\<lambda>n o' s. (Some (case Get_GitSync well_libs ''ns'' n (ext s) of Inl e \<Rightarrow> (None, Some e) | Inr g \<Rightarrow> (Some (view_of g), None)), s)),
      gi_List = (\<lambda>l w. (Some (None, None), w)), gi_Watch = (\<lambda>l w. (Some (Some (), None), w)),
      gi_Patch = (\<lambda>n t d o' ss w. (Some (None, None), w))\<rparr>"

definition live_expect :: "string Expect" where
  "live_expect = \<lparr>e_gitSync = Some (view_of (small_gitsync ''main'' None)), e_currentCommit = ''c2''\<rparr>"

lemma small_commit_waiting:
  fixes s :: "(small_world, unit) syncer"
  assumes "ready s" and "snd (ext s) = small_gitsync ''main'' None"
  shows "commit_waiting well_libs no_heal 7 (small_gitsync ''main'' None) ''c2'' s"
proof -
  let ?g = "small_gitsync ''main'' None"
  let ?s1 = "log_metric MGit (s\<lparr>ext := (''main'', snd (ext s))\<rparr>)"
  let ?s2 = "log_metric (MLatency 7) (log_metric MGit ?s1)"
  have man: "GetLatestManifests small_repo no_secrets no_heal 7 () ?g ?s1 = (Ok (''c2'', [''image: c2'']), ?s2)"
    using small_manifests [of ?s1 7] by (simp add: log_metric_def)
  have "ready ?s2" using assms(1) by (simp add: ready_def log_metric_def)
  then have "\<exists>t. sync well_libs no_heal ?g uns ?s2 = (Ok (''Succeeded'', ''synced''), t)" for uns
    using small_sync by blast
  then have good: "phase = ''Succeeded''" if "sync well_libs no_heal ?g uns ?s2 = (Ok (phase, msg), t)" for uns phase msg t
    using that by (metis Pair_inject outcome.inject(1))
  have "Successful (phaseL well_libs) ''Succeeded''" by (simp add: small_libs_def)
  moreover have "Get_GitSync well_libs ''ns'' ''my-app'' (ext ?s2) = Inr ?g" "status_CommitStatus (gs_Status ?g) = None"
      "gs_Namespace ?g = ''ns''" "gs_Name ?g = ''my-app''"
    using assms(2) by (simp_all add: log_metric_def small_gitsync_def empty_status_def)
  ultimately show ?thesis
    using good small_clone [of s] man unfolding commit_waiting_def small_libs_simps by auto
qed

theorem pushed_commit_verified_witness:
  "fst (CheckCommitStatus (e2e_with one_run) live_api live_expect
     \<lparr>clock = 0, outside = small_syncer (small_gitsync ''main'' None)\<rparr>) = Ok live_expect"
proof -
  let ?g = "small_gitsync ''main'' None"
  let ?F = "e2e_with one_run"
  let ?s = "\<lparr>clock = 0, outside = small_syncer ?g\<rparr>"
  let ?t = "\<lparr>clock = 2000000006, outside = one_run (small_syncer ?g)\<rparr>"
  let ?p = "commit_probe ?F live_api live_expect ''my-app''"
  obtain s' where run: "runOnce well_libs no_heal 42 7 9 ''ns/my-app'' (small_syncer ?g) = (Ok (), s')"
    and final: "Get_GitSync well_libs ''ns'' ''my-app'' (ext s') = Inr (snd (ext s'))"
    using small_runOnce by blast
  have api: "reads_api well_libs ''ns'' view_of live_api" by (simp add: reads_api_def live_api_def view_of_def)
  have law: "status_store_law well_libs" by (auto simp: status_store_law_def split: if_splits)
  have e: "e_gitSync live_expect = Some (view_of ?g)" "gitSync_name ?F (view_of ?g) = ''my-app''"
    by (simp_all add: live_expect_def gitSync_name_def view_of_def small_gitsync_def)
  have key: "Split ''ns/my-app'' (CHR ''/'') = [''ns'', ''my-app'']" by simp
  have get: "Get_GitSync well_libs ''ns'' ''my-app'' (ext (small_syncer ?g)) = Inr ?g"
    by (simp add: small_syncer_def small_gitsync_def)
  have on: "\<not> AutomatedSyncDisabled (fst no_heal)" "\<not> being_deleted ?g"
    by (simp_all add: no_heal_def zero_GlobalConfig_def being_deleted_def small_gitsync_def)
  have "?p (small_syncer ?g) = (None, small_syncer ?g)"
    using get by (simp add: commit_probe_def answer_def live_api_def synced_to_def view_of_def small_gitsync_def empty_status_def)
  then have "?t \<in> set (poll_rounds ?F (clock ?s + defaultTimeout) ?p ?s)"
    by (simp add: poll_rounds.simps [of _ _ _ ?s] poll_rounds.simps [of _ _ _ ?t] timed_call_def Sleep_def
        defaultTimeout_def second_def)
  moreover have "runOnce well_libs no_heal 42 7 9 ''ns/my-app'' (small_syncer ?g) = (Ok (), outside ?t)"
    using run by (simp add: one_run_def)
  moreover have "commit_waiting well_libs no_heal 7 ?g (e_currentCommit live_expect)
      (small_syncer ?g\<lparr>ss_base := RefreshBaseLoggerLevel no_heal (ss_base (small_syncer ?g))\<rparr>)"
    unfolding live_expect_def Expect.simps
    by (rule small_commit_waiting) (simp_all add: ready_def small_syncer_def Init_def NewLiveStateCache_def
        loadCacheSettings_def parseResourceFilter_def zero_GlobalConfig_def Let_def)
  moreover have "Get_GitSync well_libs ''ns'' ''my-app'' (ext (outside ?t)) = Inr (snd (ext s'))"
    using final run by (simp add: one_run_def)
  ultimately show ?thesis
    using pushed_commit_verified [OF api law e key _ _ get on(2,1)] by blast
qed

end
