(* ===== verification/FixturesSuite.thy ===== *)
theory FixturesSuite
  imports FixturesGit
begin

text \<open>
  The test suite around the fixtures (\<^verbatim>\<open>tests/fixtures\<close>: \<open>e2e_suite.go\<close>, \<open>port_forward.go\<close>): the
  configuration of the clients, the clean-up before and after, the forwarded port of the git
  server. Some of it may never return: such a definition gives an option, \<open>None\<close> when it is
  blocked or loops for ever. Otherwise the conventions are those of \<open>Fixtures\<close>; \<open>suite.T().Fatal\<close> is \<open>Err\<close>.
\<close>

text \<open>
  One call of \<open>fw.ForwardPorts()\<close>: it signals that the port is ready, and returns at some later time;
  or it fails before that, or returns without an error before that because it is stopped.
\<close>

datatype forward_attempt = ForwardReady | ForwardFails go_error | ForwardStopped

record ('m, 'o, 'x, 'y, 'w, 'r, 'cfg, 'f, 't) suite_libs = "('m, 'o, 'x, 'y, 'w, 'r) git_e2e_libs" +
  os_Getenv :: "string \<Rightarrow> 'w \<Rightarrow> string"
  os_UserHomeDir :: "'w \<Rightarrow> string"
  file_Stat :: "string \<Rightarrow> 'w \<Rightarrow> go_error option"
  os_IsNotExist :: "go_error \<Rightarrow> bool"
  os_RemoveAll :: "string \<Rightarrow> 'w \<Rightarrow> go_error option \<times> 'w"
  BuildConfigFromFlags :: "string \<Rightarrow> string \<Rightarrow> 'w \<Rightarrow> go_error + 'cfg"
  InClusterConfig :: "'w \<Rightarrow> go_error + 'cfg"
  kube_NewForConfig :: "'cfg \<Rightarrow> go_error option"
  dynamic_NewForConfig :: "'cfg \<Rightarrow> go_error option"
  dynamic_DeleteCollection :: "in_group \<Rightarrow> string \<Rightarrow> ListOptions \<Rightarrow> 'w \<Rightarrow> go_error option \<times> 'w"
  dynamic_List :: "in_group \<Rightarrow> string \<Rightarrow> ListOptions \<Rightarrow> 'w \<Rightarrow> (go_error + nat) \<times> 'w"
  cfg_Host :: "'cfg \<Rightarrow> string"
  RoundTripperFor :: "'cfg \<Rightarrow> go_error + 't"
  portforward_New :: "'t \<Rightarrow> string \<times> string \<times> string \<Rightarrow> string \<Rightarrow> go_error + 'f"
  ForwardPorts :: "'f \<Rightarrow> 'w \<Rightarrow> forward_attempt list"

section \<open>\<open>port_forward.go\<close>\<close>

text \<open>
  The retries, with the number of attempts left, and whether the port becomes ready. An attempt that is not in the list
  never ends. The error of the attempts is that of the inner function, so the outer one, which
  would make the goroutine panic, stays nil.
\<close>

fun port_ready :: "nat \<Rightarrow> forward_attempt list \<Rightarrow> bool" where
  "port_ready 0 attempts = False"
| "port_ready (Suc n) [] = False"
| "port_ready (Suc n) (ForwardReady # attempts) = True"
| "port_ready (Suc n) (ForwardFails err # attempts) = port_ready n attempts"
| "port_ready (Suc n) (ForwardStopped # attempts) = False"

text \<open>Scheme, path and host of the URL that is dialled.\<close>

definition forward_url :: "string \<Rightarrow> string \<Rightarrow> string \<Rightarrow> string \<times> string \<times> string" where
  "forward_url host namespace podName =
     (let path = ''/api/v1/namespaces/'' @ namespace @ ''/pods/'' @ podName @ ''/portforward''
      in if HasPrefix host ''https://'' then (''https'', path, TrimPrefix host ''https://'')
         else (''http'', path, TrimPrefix host ''http://''))"

definition PodPortForward ::
  "('m, 'o, 'x, 'y, 'w, 'r, 'cfg, 'f, 't, 'z) suite_libs_scheme \<Rightarrow> 'cfg \<Rightarrow> string \<Rightarrow> string \<Rightarrow> nat \<Rightarrow> nat \<Rightarrow> 'w \<Rightarrow>
   go_error option option" where
  "PodPortForward L config namespace podName localPort remotePort w =
     (case RoundTripperFor L config of
        Inl err \<Rightarrow> Some (Some err)
      | Inr transport \<Rightarrow>
          (case portforward_New L transport (forward_url (cfg_Host L config) namespace podName)
                  (decimal localPort @ '':'' @ decimal remotePort) of
             Inl err \<Rightarrow> Some (Some err)
           | Inr fw \<Rightarrow> (if port_ready 3 (ForwardPorts L fw w) then Some None else None)))"

section \<open>\<open>e2e_suite.go\<close>\<close>

definition CheckError :: "go_error option \<Rightarrow> 's \<Rightarrow> ('s, unit) result" where
  "CheckError err s = fatal_on (err, s)"

definition k8sRestConfig ::
  "('m, 'o, 'x, 'y, 'w, 'r, 'cfg, 'f, 't, 'z) suite_libs_scheme \<Rightarrow> 'w \<Rightarrow> go_error + 'cfg" where
  "k8sRestConfig L w =
     (let env = os_Getenv L ''KUBECONFIG'' w;
          home = os_UserHomeDir L w @ ''/.kube/config'';
          kubeconfig =
            (if env = [] then
               (case file_Stat L home w of
                  Some err \<Rightarrow> (if os_IsNotExist L err then [] else home)
                | None \<Rightarrow> home)
             else env)
      in if kubeconfig \<noteq> [] then BuildConfigFromFlags L [] kubeconfig w else InClusterConfig L w)"

definition hasTestLabel :: ListOptions where
  "hasTestLabel = \<lparr>TimeoutSeconds = None, lo_Watch = False, LabelSelector = E2ELabel, FieldSelector = []\<rparr>"

text \<open>\<open>NewForConfigOrDie\<close> panics on an error.\<close>

definition dynamicFor ::
  "('m, 'o, 'x, 'y, 'w, 'r, 'cfg, 'f, 't, 'z) suite_libs_scheme \<Rightarrow> 'cfg \<Rightarrow> 's \<Rightarrow> ('s, unit) result" where
  "dynamicFor L config s =
     (case dynamic_NewForConfig L config of Some _ \<Rightarrow> (Panic ExplicitPanic, s) | None \<Rightarrow> (Ok (), s))"

fun delete_collections ::
  "('m, 'o, 'x, 'y, 'w, 'r, 'cfg, 'f, 't, 'z) suite_libs_scheme \<Rightarrow> 'cfg \<Rightarrow> in_group list \<Rightarrow> 'w timed \<Rightarrow>
   ('w timed, unit) result" where
  "delete_collections L config [] s = (Ok (), s)"
| "delete_collections L config (r # resources) s =
     bindR (dynamicFor L config s) (\<lambda>_ s1.
     bindR (fatal_on (timed_call L (dynamic_DeleteCollection L r Namespace hasTestLabel) s1)) (\<lambda>_ s2.
       delete_collections L config resources s2))"

text \<open>One round of the wait: it is over, or there are still objects.\<close>

definition gone_round ::
  "('m, 'o, 'x, 'y, 'w, 'r, 'cfg, 'f, 't, 'z) suite_libs_scheme \<Rightarrow> 'cfg \<Rightarrow> in_group \<Rightarrow> 'w timed \<Rightarrow>
   ('w timed, bool) result" where
  "gone_round L config r s =
     bindR (dynamicFor L config s) (\<lambda>_ s1.
     bindR (fatal_sum (timed_call L (dynamic_List L r Namespace hasTestLabel) s1)) (\<lambda>items s2.
       (Ok (items = 0), s2)))"

partial_function (option) wait_gone ::
  "('m, 'o, 'x, 'y, 'w, 'r, 'cfg, 'f, 't, 'z) suite_libs_scheme \<Rightarrow> 'cfg \<Rightarrow> in_group \<Rightarrow> 'w timed \<Rightarrow>
   ('w timed, unit) result option" where
  "wait_gone L config r s =
     (case gone_round L config r s of
        (Ok gone, s1) \<Rightarrow> (if gone then Some (Ok (), s1) else wait_gone L config r (Sleep L second s1))
      | (Err err, s1) \<Rightarrow> Some (Err err, s1)
      | (Panic p, s1) \<Rightarrow> Some (Panic p, s1))"

text \<open>Sequencing when the first part may not return.\<close>

definition bindO :: "('s, 'a) result option \<Rightarrow> ('a \<Rightarrow> 's \<Rightarrow> ('s, 'b) result option) \<Rightarrow> ('s, 'b) result option" where
  "bindO r k =
     (case r of
        None \<Rightarrow> None
      | Some (Ok x, s) \<Rightarrow> k x s
      | Some (Err e, s) \<Rightarrow> Some (Err e, s)
      | Some (Panic p, s) \<Rightarrow> Some (Panic p, s))"

fun wait_all_gone ::
  "('m, 'o, 'x, 'y, 'w, 'r, 'cfg, 'f, 't, 'z) suite_libs_scheme \<Rightarrow> 'cfg \<Rightarrow> in_group list \<Rightarrow> 'w timed \<Rightarrow>
   ('w timed, unit) result option" where
  "wait_all_gone L config [] s = Some (Ok (), s)"
| "wait_all_gone L config (r # resources) s = bindO (wait_gone L config r s) (\<lambda>_ s1. wait_all_gone L config resources s1)"

definition deleteResources ::
  "('m, 'o, 'x, 'y, 'w, 'r, 'cfg, 'f, 't, 'z) suite_libs_scheme \<Rightarrow> 'cfg \<Rightarrow> in_group list \<Rightarrow> 'w timed \<Rightarrow>
   ('w timed, unit) result option" where
  "deleteResources L config resources s =
     bindO (Some (delete_collections L config resources s)) (\<lambda>_ s1. wait_all_gone L config resources s1)"

record ('cfg, 'c) E2ESuite =
  s_restConfig :: 'cfg
  s_gitSyncClient :: "'c option gitSyncs"
  s_stopped :: bool

text \<open>\<open>R\<close> makes the typed client, whose \<open>OrDie\<close> panics. The git server is reached on port 8080.\<close>

definition SetupSuite ::
  "('m, 'o, 'x, 'y, 'w, 'r, ('q, 'z1) rest_config_scheme, 'f, 't, 'z) suite_libs_scheme \<Rightarrow> ('q, 'h, 'c, 'd, 'z1) rest_libs \<Rightarrow>
   'w timed \<Rightarrow> ('w timed, (('q, 'z1) rest_config_scheme, 'c) E2ESuite) result option" where
  "SetupSuite L R s =
     bindO (Some (of_sum (k8sRestConfig L (outside s)), s)) (\<lambda>config s1.
     bindO (Some (CheckError (kube_NewForConfig L config) s1)) (\<lambda>_ s2.
     bindO (Some (case NewForConfigOrDie R config of None \<Rightarrow> Panic ExplicitPanic | Some cs \<Rightarrow> Ok cs, s2)) (\<lambda>clientset s3.
     bindO (deleteResources L config [GitSyncGroupVersionResource] s3) (\<lambda>_ s4.
       (case PodPortForward L config Namespace ''localgitserver-0'' 8080 80 (outside s4) of
          None \<Rightarrow> None
        | Some err \<Rightarrow>
            bindO (Some (CheckError err s4)) (\<lambda>_ s5.
              Some (Ok \<lparr>s_restConfig = config,
                        s_gitSyncClient = newGitSyncs (Some (NumaplaneV1alpha1 clientset)) Namespace,
                        s_stopped = False\<rparr>, s5)))))))"

definition TearDownSuite ::
  "('m, 'o, 'x, 'y, 'w, 'r, 'cfg, 'f, 't, 'z) suite_libs_scheme \<Rightarrow> ('cfg, 'c) E2ESuite \<Rightarrow> 'w timed \<Rightarrow>
   ('w timed, ('cfg, 'c) E2ESuite) result option" where
  "TearDownSuite L su s =
     bindO (deleteResources L (s_restConfig su) [GitSyncGroupVersionResource] s) (\<lambda>_ s1.
       Some (Ok (su\<lparr>s_stopped := True\<rparr>), s1))"

definition BeforeTest ::
  "('m, 'o, 'x, 'y, 'w, 'r, 'cfg, 'f, 't, 'z) suite_libs_scheme \<Rightarrow> 'w timed \<Rightarrow> ('w timed, unit) result" where
  "BeforeTest L s = fatal_on (timed_call L (os_RemoveAll L localPath) s)"

definition AfterTest ::
  "('m, 'o, 'x, 'y, 'w, 'r, 'cfg, 'f, 't, 'z) suite_libs_scheme \<Rightarrow> 'w timed \<Rightarrow> ('w timed, unit) result" where
  "AfterTest L s =
     bindR (fatal_on (timed_call L (ResetRepo L) s)) (\<lambda>_ s1.
       fatal_on (timed_call L (os_RemoveAll L localPath) s1))"

definition Suite_Given :: "'m Given" where
  "Suite_Given = \<lparr>g_gitSync = None, g_currentCommit = []\<rparr>"

section \<open>When the suite is blocked\<close>

lemma bindO_None: "bindO r k = None \<longleftrightarrow> r = None \<or> (\<exists>x s. r = Some (Ok x, s) \<and> k x s = None)"
  by (auto simp: bindO_def split: option.split prod.split outcome.split)

text \<open>The state after \<open>n\<close> rounds that found objects, if there are that many.\<close>

fun after_rounds ::
  "('m, 'o, 'x, 'y, 'w, 'r, 'cfg, 'f, 't, 'z) suite_libs_scheme \<Rightarrow> 'cfg \<Rightarrow> in_group \<Rightarrow> nat \<Rightarrow> 'w timed \<Rightarrow> 'w timed option" where
  "after_rounds L config r 0 s = Some s"
| "after_rounds L config r (Suc n) s =
     (case gone_round L config r s of
        (Ok False, s1) \<Rightarrow> after_rounds L config r n (Sleep L second s1)
      | _ \<Rightarrow> None)"

lemma wait_gone_returns_if:
  "after_rounds L config r n s = Some t \<Longrightarrow> gone_round L config r t = (x, t1) \<Longrightarrow> x \<noteq> Ok False \<Longrightarrow>
    wait_gone L config r s = Some (case x of Ok _ \<Rightarrow> Ok () | Err e \<Rightarrow> Err e | Panic p \<Rightarrow> Panic p, t1)"
proof (induction n arbitrary: s)
  case 0
  then show ?case by (subst wait_gone.simps) (auto split: outcome.split)
next
  case (Suc n)
  then obtain s1 where "gone_round L config r s = (Ok False, s1)" "after_rounds L config r n (Sleep L second s1) = Some t"
    by (auto split: prod.splits outcome.splits bool.splits)
  with Suc.IH Suc.prems(2,3) show ?case by (subst wait_gone.simps) simp
qed

lemma wait_gone_returns_only_if:
  assumes "wait_gone L config r s = Some res"
  shows "\<exists>n t. after_rounds L config r n s = Some t \<and> fst (gone_round L config r t) \<noteq> Ok False"
proof (rule wait_gone.raw_induct [where P = "\<lambda>L config r s res. \<exists>n t. after_rounds L config r n s = Some t \<and>
      fst (gone_round L config r t) \<noteq> Ok False", OF _ assms], goal_cases)
  case (1 loop L config r s res)
  obtain x s1 where g: "gone_round L config r s = (x, s1)" by fastforce
  show ?case
  proof (cases "x = Ok False")
    case True
    with 1(2) g have "loop L config r (Sleep L second s1) = Some res" by simp
    then obtain n t where "after_rounds L config r n (Sleep L second s1) = Some t" "fst (gone_round L config r t) \<noteq> Ok False"
      using 1(1) by blast
    with g True show ?thesis by (intro exI [of _ "Suc n"] exI [of _ t]) simp
  qed (use g in \<open>intro exI [of _ 0] exI [of _ s], simp\<close>)
qed

text \<open>
  The clean-up has no timeout: the wait for a resource returns exactly when, after some number of
  rounds, there is nothing left or a round fails.
\<close>

theorem wait_gone_returns:
  "(\<exists>res. wait_gone L config r s = Some res) \<longleftrightarrow>
    (\<exists>n t. after_rounds L config r n s = Some t \<and> fst (gone_round L config r t) \<noteq> Ok False)"
  using wait_gone_returns_only_if [of L config r s] wait_gone_returns_if [of L config r _ s]
  by (metis prod.collapse)

text \<open>Only the first three attempts count, and those before the one that succeeds have failed.\<close>

lemma port_ready_iff:
  "port_ready n attempts \<longleftrightarrow>
    (\<exists>k < n. k < length attempts \<and> attempts ! k = ForwardReady \<and> (\<forall>j < k. \<exists>err. attempts ! j = ForwardFails err))"
  (is "_ \<longleftrightarrow> ?ready n attempts")
proof (induction n attempts rule: port_ready.induct)
  case (3 n attempts)
  then show ?case by (auto intro!: exI [of _ 0])
next
  case (4 n err attempts)
  have "?ready (Suc n) (ForwardFails err # attempts) \<longleftrightarrow> ?ready n attempts"
  proof
    assume "?ready (Suc n) (ForwardFails err # attempts)"
    then obtain k where k: "k < Suc n" "k < length (ForwardFails err # attempts)"
        "(ForwardFails err # attempts) ! k = ForwardReady"
        "\<forall>j < k. \<exists>e. (ForwardFails err # attempts) ! j = ForwardFails e" by blast
    then obtain k' where "k = Suc k'" by (cases k) simp_all
    with k show "?ready n attempts" by (intro exI [of _ k']) auto
  next
    assume "?ready n attempts"
    then obtain k where "k < n" "k < length attempts" "attempts ! k = ForwardReady"
        "\<forall>j < k. \<exists>e. attempts ! j = ForwardFails e" by blast
    then show "?ready (Suc n) (ForwardFails err # attempts)"
      by (intro exI [of _ "Suc k"]) (auto simp: nth_Cons split: nat.split)
  qed
  with 4 show ?case by simp
next
  case (5 n attempts)
  have "\<not> ?ready (Suc n) (ForwardStopped # attempts)"
  proof
    assume "?ready (Suc n) (ForwardStopped # attempts)"
    then obtain k where "(ForwardStopped # attempts) ! k = ForwardReady"
        "\<forall>j < k. \<exists>e. (ForwardStopped # attempts) ! j = ForwardFails e" by blast
    then show False by (cases k) auto
  qed
  then show ?case by simp
qed auto

text \<open>
  A port that cannot be forwarded blocks the suite: when the first three attempts fail, \<open>PodPortForward\<close>
  neither returns an error nor panics, and so \<open>SetupSuite\<close> does not return.
\<close>

theorem PodPortForward_blocks:
  assumes "RoundTripperFor L config = Inr transport"
    and "\<And>url ports. portforward_New L transport url ports = Inr fw"
    and "ForwardPorts L fw w = ForwardFails e1 # ForwardFails e2 # ForwardFails e3 # attempts"
  shows "PodPortForward L config ns pod lp rp w = None"
  using assms by (simp add: PodPortForward_def eval_nat_numeral)

end
