(* ===== verification/Spec2Isabelle.thy ===== *)
theory Spec2Isabelle
  imports Controller Statuses Deletion SharedClone EndToEnd FixturesSuite
begin

text \<open>
  A verification development for Numaplane, the controller that keeps Kubernetes clusters in the
  state described in git repositories. It models the program's own logic in Go; the Kubernetes
  API server and its client, gitops-engine, go-git, kustomize, helm, viper, the JSON and YAML
  decoders, zerolog and prometheus are parameters (records of functions), and what the proofs
  need of them are definitions (\<open>_law\<close>, \<open>_laws\<close>, \<open>_ok\<close> at the end of the name), each satisfied by a small instance.

  How the program works. The reconciler reads a GitSync object when it changes, validates it and
  has its key watched. \<open>Syncer.Start\<close> sends the watched keys one after another to worker
  goroutines; a worker (\<open>runOnce\<close>) clones the repository, checks out the target revision, builds
  the manifests, labels them with the name of the GitSync, compares them with the live objects
  in the cluster cache, synchronises, and records the commit in the status. A deleted GitSync is
  not watched any more, its objects are deleted if the configuration says so, and its finalizer
  is removed. A second program, the agent, only evaluates which source it should sync so far.

  Conventions. A Go error is a value of \<open>go_error\<close>; a call that may also panic returns an
  \<open>outcome\<close> (\<open>Ok\<close>, \<open>Err\<close>, \<open>Panic\<close>) with the new state. A pointer that may be nil is an option;
  where two pointers share an object the model has a store (\<open>Logger\<close>) or an explicit pointer
  (\<open>Agent\<close>). Strings are lists of bytes. Clock readings are arguments. The configuration manager
  is read often; one run sees one configuration, \<open>cfg\<close>, with the error \<open>GetConfig\<close> may return.

  The theories, in the order of their dependencies:

  \<^item> \<open>Prelude\<close>: errors, outcomes and their sequencing, package \<open>strings\<close>.
  \<^item> \<open>WatchList\<close> (\<open>internal/sync/syncer.go\<close>: \<open>gitSyncMap\<close>, \<open>gitSyncList\<close>, \<open>StartWatching\<close>,
    \<open>StopWatching\<close>, \<open>assign\<close>): the locale \<open>watch_registry\<close> states a queue without duplicates, in which
    the fairness lemmas are proved; the map and the linked list are shown to provide it.
  \<^item> \<open>Scheduler\<close> (\<open>Start\<close>, \<open>run\<close>; \<open>options.go\<close>): the goroutines as a step relation over lock, channel
    and context: invariants, the states in which nothing can move, and that they are reachable.
  \<^item> \<open>GitSyncTypes\<close> (\<open>pkg/apis/numaplane/v1alpha1\<close>): the objects, status and conditions.
  \<^item> \<open>GoUrl\<close>, \<open>GitUrl\<close> (\<open>internal/util/git/git_url_parser.go\<close>, \<open>git.go\<close>): Go's URL parser as far as
    the code uses it, the three parsers of git URLs, and the lookup of credentials.
  \<^item> \<open>KubeUtil\<close> (\<open>internal/util/kubernetes/kubernetes.go\<close>): labels, secrets, sequential deletion.
  \<^item> \<open>GlobalConfig\<close> (\<open>internal/controller/config\<close>): the configuration manager; the locale
    \<open>config_store\<close> is interpreted for it and for the agent's.
  \<^item> \<open>LiveCache\<close> (\<open>internal/sync/cache.go\<close>): resource filters, what is recorded about a resource,
    when the cluster cache is created and invalidated, which objects a GitSync manages.
  \<^item> \<open>DiffNormalizer\<close> (\<open>internal/sync/diff.go\<close>): the patches that hide ignored fields.
  \<^item> \<open>Metrics\<close> (\<open>internal/metrics\<close>): collectors, labels, and that recording cannot panic.
  \<^item> \<open>Logger\<close> (\<open>internal/util/logger\<close>): levels, shared sinks, the base logger.
  \<^item> \<open>GitOptions\<close> (\<open>internal/util/git/git.go\<close>): authentication and the options of git operations.
  \<^item> \<open>GitRepo\<close> (\<open>internal/git/util.go\<close>): clone, fetch, checkout, pull, and building the manifests.
  \<^item> \<open>SyncRun\<close> (\<open>syncer.go\<close>: \<open>runOnce\<close>, \<open>sync\<close>, \<open>compareState\<close>, commit status, cascade deletion).
  \<^item> \<open>Reconciler\<close> (\<open>internal/controller/gitsync_controller.go\<close>).
  \<^item> \<open>KVSource\<close>, \<open>Agent\<close> (\<open>internal/keyvaluegenerator\<close>, \<open>internal/agent\<close>): the interface of key/value
    sources as the locale \<open>kv_source\<close> with its two implementations; the agent's configuration with
    revisions and its source, as a step relation with the file watcher.
  \<^item> \<open>LogCalls\<close> (\<open>internal/util/logger/logger.go\<close>): the other methods of the logger, the call depths they
    add up to, and how the caller is written (\<open>filepath.Clean\<close>, \<open>Dir\<close>, \<open>Base\<close>).
  \<^item> \<open>Startup\<close> (\<open>cmd/main.go\<close>, \<open>cmd/agent/main.go\<close>, \<open>kubectl.go\<close>, \<open>NewSyncer\<close>, \<open>SetupWithManager\<close>, the
    beginning of \<open>Start\<close>): how the two programs start, with every fatal exit.
  \<^item> \<open>Controller\<close>: the reconciler and the workers as one step relation, labelled with what the API server
    answered, and the set of watched keys as a function of these answers; and the running program, whose
    goroutines carry out complete runs, over the step relation of \<open>Scheduler\<close>.
  \<^item> \<open>Statuses\<close>: the statuses stored in the API server through every operation of the program.
  \<^item> \<open>Deletion\<close>: cascade deletion from the reconciler down to the cluster cache and the client.
  \<^item> \<open>Heap\<close>, \<open>DeepCopy\<close> (\<open>zz_generated.deepcopy.go\<close>): a memory of cells, the locale \<open>deep_copier\<close> of
    a copy with the value it reads and the addresses it reaches, closed under pointers, slices, maps and pairs
    (\<open>copier_pair\<close>), and its interpretation for the generated copies of all API types.
  \<^item> \<open>Clients\<close> (\<open>pkg/client\<close>, \<open>groupversion_info.go\<close>): the locale \<open>gitsync_client\<close> for the generated
    interface, interpreted for the typed client and for the fake one.
  \<^item> \<open>SharedClone\<close>: the workers that share a working copy, by a schedule of their acts; what each
    result was built from.
  \<^item> \<open>Fixtures\<close>, \<open>FixturesGit\<close>, \<open>FixturesSuite\<close> (\<^verbatim>\<open>tests/fixtures\<close>): the fixtures of the end-to-end tests as a
    client of \<open>GitSyncInterface\<close>, on a clock: what they store and push, how they wait, what they verify.
  \<^item> \<open>EndToEnd\<close>: such a test with the controller's workers as its environment.
  \<^item> This theory: the controller and the program as a whole from their start, shown to watch exactly the keys that
    the history of what was read determines and to be a run of the scheduler; and ownership across the components.

  Loops of the source run over lists and are structural recursions; the loop of \<open>Start\<close> is the step
  relation, with a measure for its steps after a shutdown; that of the agent's \<open>Run\<close> is unfolded for a given
  number of rounds. The waits of the fixtures with a timeout end because every round takes two seconds of
  the clock; the one without is a partial function, \<open>None\<close> if it never returns. No fuel is used.

  Values are immutable in all theories but \<open>Logger\<close>, \<open>Agent\<close> and \<open>DeepCopy\<close>; the last one justifies it for
  \<open>Reconcile\<close>, which works on a deep copy: neither the copy nor the original sees what is stored
  in the other.

  Not modelled: \<open>exec.go\<close>, whose one function calls \<open>argoproj/pkg/exec\<close> and is used nowhere; the constant
  manifest of \<^verbatim>\<open>tests/utils\<close> and the tests themselves; the text of log lines; the structs some errors about secrets
  print with \<^verbatim>\<open>%+v\<close>, addresses included; and the retries of controller-runtime. In \<open>runOnce\<close> and
  \<open>Reconcile\<close> the API server may change between calls only through the calls themselves; other clients act
  between the steps of \<open>ctl_step\<close> and of \<open>program_step\<close>.
\<close>

section \<open>The controller as a whole\<close>

text \<open>For the witnesses: the small system before its GitSync was reconciled.\<close>

definition small_start :: "(small_world, unit) syncer" where
  "small_start = snd (NewSyncer [] (''main'', small_gitsync ''main'' None) (init_base (zero_GlobalConfig, None)))"

definition small_next :: "(small_world, unit) syncer" where
  "small_next = snd (Reconcile (small_libs (None, None) (None, None)) small_ctl prod_reconciler
     (zero_GlobalConfig, None) 7 8 ''ns'' ''my-app'' small_start)"

lemma small_first_step: "ctl_moves (small_libs (None, None) (None, None)) small_ctl prod_reconciler small_start small_next"
  unfolding small_next_def ctl_moves_def by (blast intro: ctl_step.reconciled)

lemma small_start_watch: "ss_watch small_start = new_watch"
  by (simp add: small_start_def NewSyncer_def)

lemma small_reached: "(ctl_moves (small_libs (None, None) (None, None)) small_ctl prod_reconciler)\<^sup>*\<^sup>* small_start small_next"
  using small_first_step by (rule r_into_rtranclp)

lemma ext_small_start: "ext small_start = (''main'', small_gitsync ''main'' None)"
  by (simp add: small_start_def NewSyncer_def)

lemma small_next_watch: "ss_watch small_next = StartWatching ''ns/my-app'' new_watch"
proof -
  have "ContainsClusterDestination (gs_Spec (small_gitsync ''main'' None)) ''prod''"
    by (simp add: small_gitsync_def ContainsClusterDestination_def)
  then show ?thesis
    using small_valid [of None]
    by (simp add: small_next_def Reconcile_def reconcile_def Let_def prod_reconciler_def small_gitsync_simps
        KeyOfGitSync_def small_start_watch ext_small_start)
qed

text \<open>
  C1. The controller implements its specification, a set of keys determined by what was read. In
  any run from a new syncer, whatever the world, the clock and the configuration do, the map and the
  list of watched keys stay consistent and hold exactly the keys that the history of the run says: each object
  the reconciler read in the API server adds its key if it was for this cluster, valid and not being deleted,
  removes it if it was for this cluster and its deletion was processed, and else changes
  nothing; a worker removes the key it runs on when it read that the object is gone, or processed
  its deletion.
\<close>

theorem controller_refines_keys:
  assumes "ctl_run L A r (snd (NewSyncer opts w b)) os s"
  shows "watch_inv (ss_watch s) \<and> watched_keys s = fold (next_keys A r) os {}"
proof -
  have new: "watch_inv (ss_watch (snd (NewSyncer opts w b)))" "watched_keys (snd (NewSyncer opts w b)) = {}"
    by (simp_all add: NewSyncer_def watch_inv_new watched_keys_def)
  show ?thesis
    by (rule ctl_run_keys [OF assms new(1), unfolded new(2)])
qed

theorem controller_refines_keys_witness:
  "\<exists>os. ctl_run (small_libs (None, None) (None, None)) small_ctl prod_reconciler small_start os small_next \<and>
     watched_keys small_next = fold (next_keys small_ctl prod_reconciler) os {} \<and> watched_keys small_next = {''ns/my-app''}"
proof -
  obtain os where run: "ctl_run (small_libs (None, None) (None, None)) small_ctl prod_reconciler small_start os small_next"
    using ctl_moves_run [OF small_reached] by blast
  note controller_refines_keys [OF run [unfolded small_start_def]]
  moreover have "watched_keys small_next = {''ns/my-app''}"
    using watched_start [OF watch_inv_new] by (simp add: watched_keys_def small_next_watch q_start_def)
  ultimately show ?thesis
    using run by blast
qed

text \<open>
  C2. The scheduler is a sound picture of the running program. Every state the program reaches from
  \<open>Start\<close>, with complete runs of the workers and reconciliations as its steps, is a state
  the goroutines of \<open>Scheduler\<close> reach from their initial state, so what is proved of these holds
  of the program; the list they share is the syncer's; and for every key that is being
  sent or worked on, there is a step of this run in which the reconciler read the object of that key
  in the API server, found it valid, for this cluster and not being deleted, and had the key watched.
\<close>

theorem program_refines_scheduler:
  assumes "Start_goroutines (on_cache (Init cfg)) opts (snd (NewSyncer os w b)) = (Ok g, s)"
    and "(program_step L A r)\<^sup>*\<^sup>* \<lparr>goroutines = g, the_syncer = s\<rparr> p"
  shows "sched_reach (init_sched (nat (workers opts))) (goroutines p) \<and>
    watch (goroutines p) = ss_watch (the_syncer p) \<and>
    (\<forall>k \<in> in_flight (goroutines p). \<exists>p1 p2. (program_step L A r)\<^sup>*\<^sup>* \<lparr>goroutines = g, the_syncer = s\<rparr> p1 \<and>
       program_step L A r p1 p2 \<and> key_added L A r k p1 p2 \<and> (program_step L A r)\<^sup>*\<^sup>* p2 p)"
proof -
  have g: "g = init_sched (nat (workers opts))"
    and inv: "program_inv L A r \<lparr>goroutines = g, the_syncer = s\<rparr> \<lparr>goroutines = g, the_syncer = s\<rparr>"
    using program_inv_start [OF assms(1)] by blast+
  from program_reach [OF assms(2) inv] g show ?thesis
    by (simp add: program_inv_def was_added_def)
qed

lemma three_steps: "R a b \<Longrightarrow> R b c \<Longrightarrow> R c d \<Longrightarrow> R\<^sup>*\<^sup>* a d"
  by (meson converse_rtranclp_into_rtranclp rtranclp.rtrancl_refl)

text \<open>For the witness, three steps of a program: its one GitSync is reconciled and its key is sent.\<close>

lemma small_program:
  fixes s :: "(small_world, unit) syncer"
  assumes "ss_watch s = new_watch" and "ext s = ext small_start"
  shows "\<exists>p. (program_step (small_libs (None, None) (None, None)) small_ctl prod_reconciler)\<^sup>*\<^sup>*
      \<lparr>goroutines = init_sched 20, the_syncer = s\<rparr> p \<and> assigner (goroutines p) = ASending ''ns/my-app''"
proof -
  let ?step = "program_step (small_libs (None, None) (None, None)) small_ctl prod_reconciler"
  let ?p = "\<lparr>goroutines = init_sched 20, the_syncer = s\<rparr>"
  let ?run = "Reconcile (small_libs (None, None) (None, None)) small_ctl prod_reconciler (zero_GlobalConfig, None) 7 8 ''ns'' ''my-app'' s"
  let ?w = "StartWatching ''ns/my-app'' new_watch"
  have "ContainsClusterDestination (gs_Spec (small_gitsync ''main'' None)) ''prod''"
    by (simp add: small_gitsync_def ContainsClusterDestination_def)
  then have run: "fst ?run = Ok ()" "ss_watch (snd ?run) = ?w"
    using small_valid [of None]
    by (simp_all add: Reconcile_def reconcile_def write_back_def needsUpdate_def Let_def on_ext_def prod_reconciler_def
        small_ctl_simps small_gitsync_simps KeyOfGitSync_def assms ext_small_start)
  let ?q = "\<lparr>goroutines = (init_sched 20)\<lparr>watch := ?w\<rparr>, the_syncer = snd ?run\<rparr>"
  have "may_commit ?p ?run"
    by (simp add: may_commit_def panics_def run(1) locked_def init_sched_def)
  then have 1: "?step ?p ?q"
    using reconciler_done [OF refl, of ?p "small_libs (None, None) (None, None)" small_ctl prod_reconciler
        "(zero_GlobalConfig, None)" 7 8 "''ns''" "''my-app''"] run(2) by simp
  let ?g = "(goroutines ?q)\<lparr>assigner := AWaiting\<rparr>"
  let ?q' = "\<lparr>goroutines = ?g, the_syncer = (the_syncer ?q)\<lparr>ss_watch := watch ?g\<rparr>\<rparr>"
  have "sched_step TAssigner (goroutines ?q) ?g"
    by (rule loop_default) (simp_all add: init_sched_def)
  then have 2: "?step ?q ?q'"
    by (rule assigner_moved)
  obtain v where "WatchList.assign ?w = (Some ''ns/my-app'', v)"
    by (simp add: WatchList.assign_def StartWatching_def new_watch_def)
  let ?h = "?g\<lparr>watch := v, assigner := ASending ''ns/my-app''\<rparr>"
  have "sched_step TAssigner ?g ?h"
    by (rule assign_front) (simp_all add: \<open>WatchList.assign ?w = (Some ''ns/my-app'', v)\<close>)
  then have "sched_step TAssigner (goroutines ?q') ?h"
    by (simp only: program.simps)
  let ?z = "\<lparr>goroutines = ?h, the_syncer = (the_syncer ?q')\<lparr>ss_watch := watch ?h\<rparr>\<rparr>"
  from \<open>sched_step TAssigner (goroutines ?q') ?h\<close> have 3: "?step ?q' ?z"
    by (rule assigner_moved)
  have "?step\<^sup>*\<^sup>* ?p ?z"
    by (rule three_steps [of ?step, OF 1 2 3])
  moreover have "assigner (goroutines ?z) = ASending ''ns/my-app''"
    by (simp only: program.simps) simp
  ultimately show ?thesis by (intro exI conjI)
qed

theorem program_refines_scheduler_witness:
  "\<exists>s (p :: (small_world, unit) program). Start_goroutines (on_cache (Init (zero_GlobalConfig, None))) defaultOptions small_start = (Ok (init_sched 20), s) \<and>
    sched_reach (init_sched 20) (goroutines p) \<and> ''ns/my-app'' \<in> in_flight (goroutines p) \<and>
    (\<exists>p1 p2 :: (small_world, unit) program. program_step (small_libs (None, None) (None, None)) small_ctl prod_reconciler p1 p2 \<and>
       key_added (small_libs (None, None) (None, None)) small_ctl prod_reconciler ''ns/my-app'' p1 p2)"
proof -
  have "\<exists>s. Start_goroutines (on_cache (Init (zero_GlobalConfig, None))) defaultOptions small_start =
      (Ok (init_sched 20), s) \<and> ss_watch s = new_watch \<and> ext s = ext small_start"
    by (simp add: Start_goroutines_def on_cache_def Init_def loadCacheSettings_def zero_GlobalConfig_def small_start_def
        NewSyncer_def NewLiveStateCache_def defaultOptions_def init_sched_def parseResourceFilter_def Let_def)
  then obtain s where start: "Start_goroutines (on_cache (Init (zero_GlobalConfig, None))) defaultOptions small_start =
      (Ok (init_sched 20), s)" and s: "ss_watch s = new_watch" "ext s = ext small_start"
    by blast
  from small_program [OF s] obtain p where
    run: "(program_step (small_libs (None, None) (None, None)) small_ctl prod_reconciler)\<^sup>*\<^sup>*
      \<lparr>goroutines = init_sched 20, the_syncer = s\<rparr> p" and sending: "assigner (goroutines p) = ASending ''ns/my-app''"
    by blast
  have flight: "''ns/my-app'' \<in> in_flight (goroutines p)"
    by (simp add: in_flight_def sending)
  moreover note program = program_refines_scheduler [OF start [unfolded small_start_def] run]
  ultimately obtain p1 p2 where "program_step (small_libs (None, None) (None, None)) small_ctl prod_reconciler p1 p2"
      and "key_added (small_libs (None, None) (None, None)) small_ctl prod_reconciler ''ns/my-app'' p1 p2"
    by blast
  moreover have "sched_reach (init_sched 20) (goroutines p)"
    using program [THEN conjunct1] by (simp add: defaultOptions_def)
  moreover note flight start
  ultimately show ?thesis by blast
qed

text \<open>
  C27. Only accepted objects are watched. If a key is watched, then at some moment of the run, when it was not, the
  reconciler read the object of that key in the API server, for this cluster, valid and not
  being deleted, and that reconciliation had the key watched; in every step since then it stayed so.
\<close>

theorem watched_were_accepted:
  assumes "(ctl_moves L A r)\<^sup>*\<^sup>* (snd (NewSyncer opts w b)) s" and "Contains key (ss_watch s)"
  shows "\<exists>s1 cfg now1 now2 ns n g. (ctl_moves L A r)\<^sup>*\<^sup>* (snd (NewSyncer opts w b)) s1 \<and>
    Get_GitSync L ns n (ext s1) = Inr g \<and> accepted A r g \<and> KeyOfGitSync g = key \<and> \<not> Contains key (ss_watch s1) \<and>
    (stays_watched L A r key)\<^sup>*\<^sup>* (snd (Reconcile L A r cfg now1 now2 ns n s1)) s"
proof -
  have new: "watch_inv (ss_watch (snd (NewSyncer opts w b)))" "key \<notin> watched_keys (snd (NewSyncer opts w b))"
    by (simp_all add: NewSyncer_def watch_inv_new watched_keys_def)
  have "key \<in> watched_keys s"
    using watched_keys_Contains [OF ctl_moves_watch_inv [OF assms(1) new(1)]] assms(2) by blast
  from watched_since [OF assms(1) new this] show ?thesis .
qed

theorem watched_were_accepted_witness:
  "\<exists>s1 cfg now1 now2 ns n g. (ctl_moves (small_libs (None, None) (None, None)) small_ctl prod_reconciler)\<^sup>*\<^sup>* small_start s1 \<and>
     Get_GitSync (small_libs (None, None) (None, None)) ns n (ext s1) = Inr g \<and> accepted small_ctl prod_reconciler g \<and>
     KeyOfGitSync g = ''ns/my-app'' \<and> \<not> Contains ''ns/my-app'' (ss_watch s1) \<and>
     (stays_watched (small_libs (None, None) (None, None)) small_ctl prod_reconciler ''ns/my-app'')\<^sup>*\<^sup>*
       (snd (Reconcile (small_libs (None, None) (None, None)) small_ctl prod_reconciler cfg now1 now2 ns n s1)) small_next"
proof -
  have "Contains ''ns/my-app'' (ss_watch small_next)"
    by (simp add: small_next_watch Contains_def StartWatching_def new_watch_def)
  from watched_were_accepted [OF small_reached [unfolded small_start_def] this]
  show ?thesis unfolding small_start_def .
qed

text \<open>
  C39. Ownership goes by name only. An object labelled by \<open>applyLabelAndNamespace\<close> for one GitSync
  and recorded in the live cache is taken to be managed by every GitSync of the same name, of
  whatever namespace, and by no other.
\<close>

theorem ownership_by_name:
  assumes "set_labels_law U" and "set_namespace_law U" and "gs_Name g \<noteq> []"
    and "applyLabelAndNamespace U manifests (gs_Name g) ns = Inr uns"
  shows "list_all (\<lambda>un. owned_by g' (Some (fst (PopulateResourceInfo U R settings un True))) \<longleftrightarrow> gs_Name g' = gs_Name g) uns"
proof -
  have "owned_by g' (Some (fst (PopulateResourceInfo U R settings un True))) \<longleftrightarrow> gs_Name g' = gs_Name g"
    if "getGitSyncName U un = gs_Name g" for un
    using that assms(3) by (auto simp: owned_by_def resInfo_def PopulateResourceInfo_def Let_def)
  with applyLabel_all [OF assms(1,2,4)] show ?thesis
    by (auto simp: list_all_iff)
qed

text \<open>A health check and an encoder for the witness.\<close>

definition plain_resources :: "((string \<rightharpoonup> string) option \<times> string) resource_libs" where
  "plain_resources = \<lparr>GetResourceHealth = (\<lambda>u. None), MarshalJSON = (\<lambda>u. Inr (snd u)), Sum64 = length\<rparr>"

theorem ownership_by_name_witness:
  "let other = small_gitsync ''main'' None\<lparr>gs_Namespace := ''elsewhere''\<rparr>;
       un = (Some [LabelKeyGitSyncInstance \<mapsto> ''my-app''], ''apps'')
   in applyLabelAndNamespace plain_ops [(None, [])] ''my-app'' ''apps'' = Inr [un] \<and>
      owned_by other (Some (fst (PopulateResourceInfo plain_ops plain_resources zero_cacheSettings un True)))"
proof -
  let ?un = "(Some [LabelKeyGitSyncInstance \<mapsto> ''my-app''], ''apps'')"
  have law: "set_namespace_law plain_ops"
    by (simp add: set_namespace_law_def plain_ops_def)
  have "SetGitSyncInstanceLabel plain_ops (None, []) LabelKeyGitSyncInstance ''my-app'' =
      Inr (Some [LabelKeyGitSyncInstance \<mapsto> ''my-app''], [])"
    by (simp add: SetGitSyncInstanceLabel_def nestedNullableStringMap_def plain_ops_def)
  moreover have "SetNamespace plain_ops (Some [LabelKeyGitSyncInstance \<mapsto> ''my-app''], []) ''apps'' = ?un"
    by (simp add: plain_ops_def)
  ultimately have app: "applyLabelAndNamespace plain_ops [(None, [])] (gs_Name (small_gitsync ''main'' None)) ''apps'' = Inr [?un]"
    by (simp add: small_gitsync_simps)
  from ownership_by_name [OF plain_ops_law law _ app, of "small_gitsync ''main'' None\<lparr>gs_Namespace := ''elsewhere''\<rparr>"
      plain_resources zero_cacheSettings] app
  show ?thesis by (simp add: small_gitsync_simps)
qed

end
